(* ===== verification/Prelude.thy ===== *)
theory Prelude
  imports Main "HOL-Library.Word"
begin

text \<open>
  Shared material of the development: the machine integers of the Rust client, its result and
  panic types, the sequencing of fallible calls (the \<open>?\<close> operator), the three loop shapes
  of the generated message code, and the rules by which the component proofs run them.

  A Rust \<open>String\<close> is its UTF-8 bytes, held as a \<open>string\<close> (a \<open>char\<close> is one byte).  An
  input stream is the list of the bytes not read yet, an output stream the list of the bytes
  written so far.
\<close>

section \<open>Types\<close>

type_synonym u8 = "8 word"
type_synonym u32 = "32 word"
type_synonym i32 = "32 word"
type_synonym bytes = "u8 list"

text \<open>The error type of the protobuf runtime, with the variants it documents.\<close>

datatype ProtobufError =
    IoError string
  | WireError string
  | Utf8Error
  | MessageNotInitialized string

text \<open>A Rust panic, with its message.\<close>

datatype panic = Panicked string

text \<open>
  \<open>'a reading\<close> is the outcome of code that reads a stream and may fail or fail to return:
  \<open>None\<close> does not return, \<open>Inl\<close> is an error, \<open>Inr\<close> a result.
\<close>

type_synonym 'a reading = "(ProtobufError + 'a) option"

named_theorems seq_simps \<open>evaluation of sequenced fallible calls\<close>
named_theorems codec \<open>rewriting of sizes, writes and reads to the wire format\<close>
named_theorems msg_defs \<open>the accessors and handlers of the messages\<close>

section \<open>Sequencing\<close>

text \<open>\<open>and_then\<close> is the \<open>?\<close> operator; \<open>run_then\<close> the same for calls that may not return.\<close>

definition and_then :: "'e + 'a \<Rightarrow> ('a \<Rightarrow> 'e + 'b) \<Rightarrow> 'e + 'b" where
  "and_then r k = (case r of Inl e \<Rightarrow> Inl e | Inr a \<Rightarrow> k a)"

definition run_then :: "('e + 'a) option \<Rightarrow> ('a \<Rightarrow> ('e + 'b) option) \<Rightarrow> ('e + 'b) option" where
  "run_then r k =
     (case r of None \<Rightarrow> None | Some (Inl e) \<Rightarrow> Some (Inl e) | Some (Inr a) \<Rightarrow> k a)"

lemma and_then_simps [simp, seq_simps]:
  "and_then (Inl e) k = Inl e"
  "and_then (Inr a) k = k a"
  by (simp_all add: and_then_def)

lemma run_then_simps [simp, seq_simps]:
  "run_then None k = None"
  "run_then (Some (Inl e)) k = Some (Inl e)"
  "run_then (Some (Inr a)) k = k a"
  by (simp_all add: run_then_def)

lemma and_then_eq_Inr: "and_then r k = Inr b \<longleftrightarrow> (\<exists>a. r = Inr a \<and> k a = Inr b)"
  by (cases r) simp_all

lemma run_then_eq_Some_Inr:
  "run_then r k = Some (Inr b) \<longleftrightarrow> (\<exists>a. r = Some (Inr a) \<and> k a = Some (Inr b))"
  by (simp add: run_then_def split: option.splits sum.splits)

lemma run_then_assoc: "run_then (run_then r k) h = run_then r (\<lambda>a. run_then (k a) h)"
  by (simp add: run_then_def split: option.splits sum.splits)

section \<open>The loops of the message code\<close>

text \<open>\<open>for v in &list { os.write(v)?; }\<close>\<close>

primrec for_each :: "('a \<Rightarrow> 's \<Rightarrow> 'e + 's) \<Rightarrow> 'a list \<Rightarrow> 's \<Rightarrow> 'e + 's" where
  "for_each f [] s = Inr s"
| "for_each f (x # xs) s = and_then (f x s) (for_each f xs)"

text \<open>
  \<open>for value in &list { let len = value.compute_size(); my_size += add(len); }\<close>: every element
  stores its own size, so the loop returns the elements as they are afterwards.
\<close>

primrec size_each :: "('m \<Rightarrow> u32 \<times> 'm) \<Rightarrow> (u32 \<Rightarrow> u32) \<Rightarrow> 'm list \<Rightarrow> u32 \<Rightarrow> u32 \<times> 'm list" where
  "size_each csize add [] my_size = (my_size, [])"
| "size_each csize add (v # vs) my_size =
     (let (len, v') = csize v;
          (my_size, vs') = size_each csize add vs (my_size + add len)
      in (my_size, v' # vs'))"

text \<open>\<open>list.into_iter().map(f).collect()\<close>, where \<open>f\<close> may panic.\<close>

primrec map_result :: "('a \<Rightarrow> 'e + 'b) \<Rightarrow> 'a list \<Rightarrow> 'e + 'b list" where
  "map_result f [] = Inr []"
| "map_result f (x # xs) = and_then (f x) (\<lambda>y. and_then (map_result f xs) (\<lambda>ys. Inr (y # ys)))"

lemma map_result_Inr:
  "(\<And>x. x \<in> set xs \<Longrightarrow> f x = Inr (g x)) \<Longrightarrow> map_result f xs = Inr (map g xs)"
  by (induction xs) simp_all

lemma map_result_eq_Inr: "map_result f xs = Inr ys \<longleftrightarrow> list_all2 (\<lambda>x y. f x = Inr y) xs ys"
  by (induction xs arbitrary: ys) (auto simp: and_then_eq_Inr list_all2_Cons1)

lemma map_result_Inl:
  assumes "x \<in> set xs" and "f x = Inl e"
  shows "\<exists>e'. map_result f xs = Inl e'"
  using assms by (induction xs) (auto simp: and_then_def split: sum.split)

text \<open>
  \<open>while !is.eof()? { ... }\<close>: the loop of every \<open>merge_from\<close>.  Whether it ends depends on the
  stream, so a run that does not end is \<open>None\<close>.
\<close>

partial_function (option) merge_loop ::
  "(bytes \<Rightarrow> ProtobufError + bool \<times> bytes) \<Rightarrow> ('m \<Rightarrow> bytes \<Rightarrow> ('m \<times> bytes) reading)
     \<Rightarrow> 'm \<Rightarrow> bytes \<Rightarrow> ('m \<times> bytes) reading" where
  "merge_loop eof field m input =
     (case eof input of
        Inl e \<Rightarrow> Some (Inl e)
      | Inr (at_end, input) \<Rightarrow>
          if at_end then Some (Inr (m, input))
          else Option.bind (field m input) (\<lambda>r. case r of
                 Inl e \<Rightarrow> Some (Inl e)
               | Inr (m, input) \<Rightarrow> merge_loop eof field m input))"

lemma merge_loop_unfold:
  "merge_loop eof field m input =
     run_then (Some (eof input)) (\<lambda>(at_end, input).
       if at_end then Some (Inr (m, input))
       else run_then (field m input) (\<lambda>(m, input). merge_loop eof field m input))"
  by (subst merge_loop.simps)
    (simp add: run_then_def Option.bind_eq_None_conv split: sum.splits option.splits prod.splits)

text \<open>
  Where the end of the stream is tested on the bytes that are left, the loop over a stream that
  starts with the (non-empty) encoding of one field handles it and goes on.
\<close>

definition eof_on_bytes :: "(bytes \<Rightarrow> ProtobufError + bool \<times> bytes) \<Rightarrow> bool" where
  "eof_on_bytes eof \<longleftrightarrow> (\<forall>input. eof input = Inr (input = [], input))"

lemma eof_on_bytesD: "eof_on_bytes eof \<Longrightarrow> eof input = Inr (input = [], input)"
  by (simp add: eof_on_bytes_def)

lemma merge_loop_end:
  "eof_on_bytes eof \<Longrightarrow> merge_loop eof field m [] = Some (Inr (m, []))"
  by (simp add: merge_loop_unfold [of eof field m] eof_on_bytesD)

lemma merge_loop_field:
  "eof_on_bytes eof \<Longrightarrow> input \<noteq> [] \<Longrightarrow>
     merge_loop eof field m input = run_then (field m input) (\<lambda>(m, input). merge_loop eof field m input)"
  by (simp add: merge_loop_unfold [of eof field m] eof_on_bytesD)

lemma merge_loop_step:
  assumes "eof_on_bytes eof" and "b \<noteq> []" and "field m (b @ r) = Some (Inr (m', r))"
  shows "merge_loop eof field m (b @ r) = merge_loop eof field m' r"
  using assms by (simp add: merge_loop_field)

lemma merge_loop_error:
  assumes "eof_on_bytes eof" and "input \<noteq> []" and "field m input = Some (Inl e)"
  shows "merge_loop eof field m input = Some (Inl e)"
  using assms by (simp add: merge_loop_field)

text \<open>
  A repeated field: the loop handles one element after the other and appends each to the list
  the message holds (\<open>put l\<close> is the message with the list \<open>l\<close>).
\<close>

lemma merge_loop_list:
  assumes "eof_on_bytes eof"
    and "\<And>x l r. x \<in> set xs \<Longrightarrow> field (put l) (enc x @ r) = Some (Inr (put (l @ [g x]), r))"
    and "\<And>x. x \<in> set xs \<Longrightarrow> enc x \<noteq> []"
  shows "merge_loop eof field (put l) (concat (map enc xs) @ r)
    = merge_loop eof field (put (l @ map g xs)) r"
  using assms(2,3)
proof (induction xs arbitrary: l)
  case Nil
  show ?case by simp
next
  case (Cons x xs)
  have "merge_loop eof field (put l) (enc x @ concat (map enc xs) @ r)
      = merge_loop eof field (put (l @ [g x])) (concat (map enc xs) @ r)"
    using assms(1) Cons.prems by (intro merge_loop_step) simp_all
  also have "\<dots> = merge_loop eof field (put ((l @ [g x]) @ map g xs)) r"
    using Cons.prems by (intro Cons.IH) simp_all
  finally show ?case by simp
qed

text \<open>Progress: a loop whose fields each consume at least one byte returns.\<close>

lemma merge_loop_returns:
  assumes "eof_on_bytes eof"
    and "\<And>m input. input \<noteq> [] \<Longrightarrow> field m input \<noteq> None"
    and "\<And>m input m' rest. input \<noteq> [] \<Longrightarrow> field m input = Some (Inr (m', rest)) \<Longrightarrow>
      length rest < length input"
  shows "merge_loop eof field m input \<noteq> None"
proof (induction "length input" arbitrary: m input rule: less_induct)
  case less
  show ?case
  proof (cases "input = []")
    case True
    then show ?thesis using assms(1) by (simp add: merge_loop_end)
  next
    case False
    then obtain r where r: "field m input = Some r"
      using assms(2) by blast
    show ?thesis
    proof (cases r)
      case (Inl e)
      with r False assms(1) show ?thesis by (simp add: merge_loop_field)
    next
      case (Inr p)
      obtain m' rest where "p = (m', rest)" by (cases p)
      with r Inr False assms(3) have "merge_loop eof field m' rest \<noteq> None"
        by (intro less) simp
      with r Inr \<open>p = (m', rest)\<close> False assms(1) show ?thesis
        by (simp add: merge_loop_field)
    qed
  qed
qed

section \<open>Writing and measuring repeated fields\<close>

lemma for_each_append:
  assumes "\<And>x s. x \<in> set xs \<Longrightarrow> f x s = Inr (s @ enc x)"
  shows "for_each f xs s = Inr (s @ concat (map enc xs))"
  using assms by (induction xs arbitrary: s) simp_all

lemma for_each_map: "for_each f (map g xs) s = for_each (\<lambda>x. f (g x)) xs s"
  by (induction xs arbitrary: s) (simp_all add: and_then_def split: sum.split)

lemma size_each_snd: "snd (size_each csize add vs n) = map (\<lambda>v. snd (csize v)) vs"
  by (induction vs arbitrary: n) (simp_all add: Let_def split_beta)

lemma size_each_fst:
  "fst (size_each csize add vs n) = n + (\<Sum>v\<leftarrow>vs. add (fst (csize v)))"
  by (induction vs arbitrary: n) (simp_all add: Let_def split_beta add.assoc)

lemma foldl_add_sum: "foldl (\<lambda>s v. s + f v) (n :: 'a :: comm_monoid_add) vs = n + (\<Sum>v\<leftarrow>vs. f v)"
  by (induction vs arbitrary: n) (simp_all add: add.assoc)

lemma sum_list_lengths:
  assumes "\<And>v. v \<in> set vs \<Longrightarrow> f v = (of_nat (length (enc v)) :: u32)"
  shows "(\<Sum>v\<leftarrow>vs. f v) = of_nat (length (concat (map enc vs)))"
  using assms by (induction vs) simp_all

lemma for_each_enc [codec]:
  "for_each (\<lambda>v s. Inr (s @ enc v)) vs s = Inr (s @ concat (map enc vs))"
  by (rule for_each_append) simp

lemma foldl_enc [codec]:
  "foldl (\<lambda>n v. n + (of_nat (length (enc v)) :: u32)) n vs = n + of_nat (length (concat (map enc vs)))"
  unfolding foldl_add_sum by (subst sum_list_lengths) simp_all

lemma length_concat_ge: "v \<in> set vs \<Longrightarrow> length (enc v) \<le> length (concat (map enc vs))"
  by (induction vs) auto

section \<open>Strings as UTF-8 bytes\<close>

definition string_bytes :: "string \<Rightarrow> bytes" where
  "string_bytes s = map (\<lambda>c. of_nat (of_char c)) s"

definition bytes_string :: "bytes \<Rightarrow> string" where
  "bytes_string b = map (\<lambda>x. char_of (unat x)) b"

lemma length_string_bytes [simp]: "length (string_bytes s) = length s"
  by (simp add: string_bytes_def)

lemma string_bytes_Nil [simp]: "string_bytes [] = []"
  by (simp add: string_bytes_def)

lemma bytes_string_bytes [simp]: "bytes_string (string_bytes s) = s"
proof -
  have "char_of (unat (of_nat (of_char c) :: u8)) = (c :: char)" for c
    by (simp add: unat_of_nat)
  then show ?thesis
    by (simp add: string_bytes_def bytes_string_def comp_def)
qed

text \<open>
  Well-formed UTF-8 (the invariant of \<open>String\<close>, checked by \<open>String::from_utf8\<close>): one to four
  bytes a code point, no overlong form, no surrogate, nothing past U+10FFFF.
\<close>

definition utf8_cont :: "u8 \<Rightarrow> bool" where
  "utf8_cont b \<longleftrightarrow> 0x80 \<le> b \<and> b \<le> 0xBF"

fun utf8_valid :: "bytes \<Rightarrow> bool" where
  "utf8_valid [] = True"
| "utf8_valid (a # bs) =
     (if a \<le> 0x7F then utf8_valid bs
      else if 0xC2 \<le> a \<and> a \<le> 0xDF then
        (case bs of b # bs' \<Rightarrow> utf8_cont b \<and> utf8_valid bs' | _ \<Rightarrow> False)
      else if 0xE0 \<le> a \<and> a \<le> 0xEF then
        (case bs of b # c # bs' \<Rightarrow>
            utf8_cont b \<and> utf8_cont c \<and> (a = 0xE0 \<longrightarrow> 0xA0 \<le> b) \<and> (a = 0xED \<longrightarrow> b \<le> 0x9F)
            \<and> utf8_valid bs'
         | _ \<Rightarrow> False)
      else if 0xF0 \<le> a \<and> a \<le> 0xF4 then
        (case bs of b # c # d # bs' \<Rightarrow>
            utf8_cont b \<and> utf8_cont c \<and> utf8_cont d \<and> (a = 0xF0 \<longrightarrow> 0x90 \<le> b)
            \<and> (a = 0xF4 \<longrightarrow> b \<le> 0x8F) \<and> utf8_valid bs'
         | _ \<Rightarrow> False)
      else False)"

definition string_ok :: "string \<Rightarrow> bool" where
  "string_ok s \<longleftrightarrow> utf8_valid (string_bytes s)"

lemma string_ok_Nil [simp]: "string_ok []"
  by (simp add: string_ok_def)

section \<open>Lists of all elements of an option\<close>

definition ok_opt :: "('a \<Rightarrow> bool) \<Rightarrow> 'a option \<Rightarrow> bool" where
  "ok_opt P x = (case x of None \<Rightarrow> True | Some v \<Rightarrow> P v)"

lemma ok_opt_simps [simp]: "ok_opt P None" "ok_opt P (Some v) \<longleftrightarrow> P v"
  by (simp_all add: ok_opt_def)

definition enc_opt :: "('a \<Rightarrow> bytes) \<Rightarrow> 'a option \<Rightarrow> bytes" where
  "enc_opt f x = (case x of None \<Rightarrow> [] | Some v \<Rightarrow> f v)"

lemma enc_opt_simps [simp]: "enc_opt f None = []" "enc_opt f (Some v) = f v"
  by (simp_all add: enc_opt_def)

end
