(* ===== verification/Wire.thy ===== *)
theory Wire
  imports Prelude
begin

text \<open>
  The protocol buffers wire format, as its specification documents it: base-128 varints, field
  tags, the scalar and length-delimited encodings.  These are the terms in which the behaviour
  of the protobuf runtime (a library the sources call) is stated and in which the encodings of
  the messages are specified; none of it is code of the repository.
\<close>

section \<open>Varints and tags\<close>

fun varint :: "nat \<Rightarrow> bytes" where
  "varint n = (if n < 128 then [of_nat n] else of_nat (128 + n mod 128) # varint (n div 128))"

declare varint.simps [simp del]

lemma varint_small: "n < 128 \<Longrightarrow> varint n = [of_nat n]"
  by (simp add: varint.simps)

lemma varint_nonempty [simp]: "varint n \<noteq> []"
  by (simp add: varint.simps)

lemma length_varint_pos [simp]: "0 < length (varint n)"
  by simp

datatype WireType =
    WireTypeVarint
  | WireTypeFixed64
  | WireTypeLengthDelimited
  | WireTypeStartGroup
  | WireTypeEndGroup
  | WireTypeFixed32

primrec wire_type_code :: "WireType \<Rightarrow> nat" where
  "wire_type_code WireTypeVarint = 0"
| "wire_type_code WireTypeFixed64 = 1"
| "wire_type_code WireTypeLengthDelimited = 2"
| "wire_type_code WireTypeStartGroup = 3"
| "wire_type_code WireTypeEndGroup = 4"
| "wire_type_code WireTypeFixed32 = 5"

definition wire_tag :: "u32 \<Rightarrow> WireType \<Rightarrow> bytes" where
  "wire_tag field_number wire_type = varint (unat field_number * 8 + wire_type_code wire_type)"

text \<open>Field numbers are between 1 and \<open>2 ^ 29 - 1\<close>.\<close>

definition field_number_ok :: "u32 \<Rightarrow> bool" where
  "field_number_ok f \<longleftrightarrow> 1 \<le> unat f \<and> unat f < 2 ^ 29"

lemma wire_tag_nonempty [simp]: "wire_tag f w \<noteq> []"
  by (simp add: wire_tag_def)

lemma length_wire_tag:
  "unat f < 16 \<Longrightarrow> length (wire_tag f w) = 1"
  "16 \<le> unat f \<Longrightarrow> unat f < 2048 \<Longrightarrow> length (wire_tag f w) = 2"
proof -
  have w: "wire_type_code w < 8" by (cases w) simp_all
  show "unat f < 16 \<Longrightarrow> length (wire_tag f w) = 1"
    using w by (simp add: wire_tag_def varint_small)
  assume "16 \<le> unat f" and "unat f < 2048"
  with w have "\<not> unat f * 8 + wire_type_code w < 128"
    and "(unat f * 8 + wire_type_code w) div 128 < 128"
    by (simp_all add: div_less_iff_less_mult)
  then show "length (wire_tag f w) = 2"
    by (simp add: wire_tag_def varint.simps [of "unat f * 8 + wire_type_code w"] varint_small)
qed

section \<open>Field values\<close>

text \<open>A negative \<open>int32\<close> or enum is sign-extended to 64 bits before it becomes a varint.\<close>

definition int32_varint :: "i32 \<Rightarrow> bytes" where
  "int32_varint v = varint (unat (scast v :: 64 word))"

definition bool_varint :: "bool \<Rightarrow> bytes" where
  "bool_varint b = varint (if b then 1 else 0)"

definition delimited :: "bytes \<Rightarrow> bytes" where
  "delimited payload = varint (length payload) @ payload"

lemma delimited_nonempty [simp]: "delimited b \<noteq> []" "delimited b @ r \<noteq> []"
  by (simp_all add: delimited_def)

lemma length_delimited: "length (delimited b) = length (varint (length b)) + length b"
  by (simp add: delimited_def)

section \<open>Whole fields\<close>

definition enc_int32 :: "u32 \<Rightarrow> i32 \<Rightarrow> bytes" where
  "enc_int32 f v = wire_tag f WireTypeVarint @ int32_varint v"

definition enc_uint32 :: "u32 \<Rightarrow> u32 \<Rightarrow> bytes" where
  "enc_uint32 f v = wire_tag f WireTypeVarint @ varint (unat v)"

definition enc_bool :: "u32 \<Rightarrow> bool \<Rightarrow> bytes" where
  "enc_bool f b = wire_tag f WireTypeVarint @ bool_varint b"

definition enc_string :: "u32 \<Rightarrow> string \<Rightarrow> bytes" where
  "enc_string f s = wire_tag f WireTypeLengthDelimited @ delimited (string_bytes s)"

definition enc_message :: "u32 \<Rightarrow> bytes \<Rightarrow> bytes" where
  "enc_message f payload = wire_tag f WireTypeLengthDelimited @ delimited payload"

lemma enc_nonempty [simp]:
  "enc_int32 f v \<noteq> []" "enc_uint32 f u \<noteq> []" "enc_bool f b \<noteq> []" "enc_string f s \<noteq> []"
  "enc_message f p \<noteq> []"
  by (simp_all add: enc_int32_def enc_uint32_def enc_bool_def enc_string_def enc_message_def)

lemma length_enc_message_ge: "length p < length (enc_message f p)"
  by (simp add: enc_message_def length_delimited add_strict_increasing2 trans_less_add2)

lemma length_enc_string_ge: "length s < length (enc_string f s)"
  by (simp add: enc_string_def length_delimited trans_less_add2)

lemma length_bool_varint [simp]: "length (bool_varint b) = 1"
  by (simp add: bool_varint_def varint_small)

end
