(* ===== verification/Runtime.thy ===== *)
theory Runtime
  imports Wire
begin

text \<open>
  The protobuf runtime (the \<open>protobuf\<close> crate, a library) as a parameter.  A record holds the
  operations the generated message code calls; the locales state what that code relies on,
  namely that the operations implement the wire format of theory Wire.  The generic operations
  of the crate (\<open>read_message\<close>, \<open>read_enum\<close>, ...) are held once per type they are used at, the
  way the compiler instantiates them, and take the trait implementation of that type.
\<close>

section \<open>The traits the runtime calls back\<close>

text \<open>\<open>trait Message\<close>: the operations the runtime uses of a message type.\<close>

record 'm Message =
  msg_new :: 'm
  msg_is_initialized :: "'m \<Rightarrow> bool"
  msg_merge_from :: "'m \<Rightarrow> bytes \<Rightarrow> ('m \<times> bytes) reading"
  msg_compute_size :: "'m \<Rightarrow> u32 \<times> 'm"
  msg_write_to_with_cached_sizes :: "'m \<Rightarrow> bytes \<Rightarrow> ProtobufError + bytes"
  msg_get_cached_size :: "'m \<Rightarrow> u32"

text \<open>\<open>trait ProtobufEnum\<close>.\<close>

record 'e ProtobufEnum =
  enum_value :: "'e \<Rightarrow> i32"
  enum_from_i32 :: "i32 \<Rightarrow> 'e option"

section \<open>The operations\<close>

text \<open>The fields a message does not know, kept with their numbers.\<close>

datatype UnknownValue =
    UnknownVarint "64 word"
  | UnknownFixed64 "64 word"
  | UnknownFixed32 u32
  | UnknownLengthDelimited bytes

type_synonym UnknownFields = "(u32 \<times> UnknownValue) list"

record scalar_rt =
  rt_eof :: "bytes \<Rightarrow> ProtobufError + bool \<times> bytes"
  rt_read_tag_unpack :: "bytes \<Rightarrow> ProtobufError + (u32 \<times> WireType) \<times> bytes"
  rt_read_int32 :: "bytes \<Rightarrow> ProtobufError + i32 \<times> bytes"
  rt_read_uint32 :: "bytes \<Rightarrow> ProtobufError + u32 \<times> bytes"
  rt_read_bool :: "bytes \<Rightarrow> ProtobufError + bool \<times> bytes"
  rt_read_string :: "bytes \<Rightarrow> ProtobufError + string \<times> bytes"
  rt_read_repeated_int32_into :: "WireType \<Rightarrow> bytes \<Rightarrow> i32 list \<Rightarrow> ProtobufError + i32 list \<times> bytes"
  rt_read_repeated_bool_into :: "WireType \<Rightarrow> bytes \<Rightarrow> bool list \<Rightarrow> ProtobufError + bool list \<times> bytes"
  rt_read_repeated_string_into ::
    "WireType \<Rightarrow> bytes \<Rightarrow> string list \<Rightarrow> ProtobufError + string list \<times> bytes"
  rt_read_singular_string_into ::
    "WireType \<Rightarrow> bytes \<Rightarrow> string option \<Rightarrow> ProtobufError + string option \<times> bytes"
  rt_read_unknown_or_skip_group ::
    "u32 \<Rightarrow> WireType \<Rightarrow> bytes \<Rightarrow> UnknownFields \<Rightarrow> ProtobufError + UnknownFields \<times> bytes"
  rt_unexpected_wire_type :: "WireType \<Rightarrow> ProtobufError"
  rt_write_int32 :: "u32 \<Rightarrow> i32 \<Rightarrow> bytes \<Rightarrow> ProtobufError + bytes"
  rt_write_uint32 :: "u32 \<Rightarrow> u32 \<Rightarrow> bytes \<Rightarrow> ProtobufError + bytes"
  rt_write_bool :: "u32 \<Rightarrow> bool \<Rightarrow> bytes \<Rightarrow> ProtobufError + bytes"
  rt_write_string :: "u32 \<Rightarrow> string \<Rightarrow> bytes \<Rightarrow> ProtobufError + bytes"
  rt_write_enum :: "u32 \<Rightarrow> i32 \<Rightarrow> bytes \<Rightarrow> ProtobufError + bytes"
  rt_write_tag :: "u32 \<Rightarrow> WireType \<Rightarrow> bytes \<Rightarrow> ProtobufError + bytes"
  rt_write_raw_varint32 :: "u32 \<Rightarrow> bytes \<Rightarrow> ProtobufError + bytes"
  rt_write_unknown_fields :: "UnknownFields \<Rightarrow> bytes \<Rightarrow> ProtobufError + bytes"
  rt_value_size_i32 :: "u32 \<Rightarrow> i32 \<Rightarrow> WireType \<Rightarrow> u32"
  rt_value_size_u32 :: "u32 \<Rightarrow> u32 \<Rightarrow> WireType \<Rightarrow> u32"
  rt_string_size :: "u32 \<Rightarrow> string \<Rightarrow> u32"
  rt_compute_raw_varint32_size :: "u32 \<Rightarrow> u32"
  rt_unknown_fields_size :: "UnknownFields \<Rightarrow> u32"

record 'e enum_rt =
  read_enum :: "'e ProtobufEnum \<Rightarrow> bytes \<Rightarrow> ProtobufError + 'e \<times> bytes"
  enum_size :: "'e ProtobufEnum \<Rightarrow> u32 \<Rightarrow> 'e \<Rightarrow> u32"

record 'm nested_rt =
  read_message :: "'m Message \<Rightarrow> bytes \<Rightarrow> ('m \<times> bytes) reading"
  read_singular_message_into ::
    "'m Message \<Rightarrow> WireType \<Rightarrow> bytes \<Rightarrow> 'm option \<Rightarrow> ('m option \<times> bytes) reading"
  read_repeated_message_into ::
    "'m Message \<Rightarrow> WireType \<Rightarrow> bytes \<Rightarrow> 'm list \<Rightarrow> ('m list \<times> bytes) reading"

record 'm entry_rt =
  parse_from_bytes :: "'m Message \<Rightarrow> bytes \<Rightarrow> 'm reading"
  write_to_bytes :: "'m Message \<Rightarrow> 'm \<Rightarrow> ProtobufError + bytes"

section \<open>What the generated code relies on\<close>

text \<open>Messages and strings are below 2 GiB, the limit the format documents.\<close>

definition small :: "'a list \<Rightarrow> bool" where
  "small b \<longleftrightarrow> length b < 2 ^ 31"

lemma small_unat: "small b \<Longrightarrow> unat (of_nat (length b) :: u32) = length b"
  by (simp add: small_def unat_of_nat)

locale scalar_runtime =
  fixes rt :: "'z scalar_rt_scheme"
  assumes eof [codec]: "eof_on_bytes (rt_eof rt)"
    and read_tag [codec]: "field_number_ok f \<Longrightarrow> rt_read_tag_unpack rt (wire_tag f w @ r) = Inr ((f, w), r)"
    and read_int32 [codec]: "rt_read_int32 rt (int32_varint v @ r) = Inr (v, r)"
    and read_uint32 [codec]: "rt_read_uint32 rt (varint (unat v) @ r) = Inr (v, r)"
    and read_bool [codec]: "rt_read_bool rt (bool_varint b @ r) = Inr (b, r)"
    and read_string [codec]: "string_ok s \<Longrightarrow> small s \<Longrightarrow>
      rt_read_string rt (delimited (string_bytes s) @ r) = Inr (s, r)"
    and read_repeated_int32 [codec]:
      "rt_read_repeated_int32_into rt WireTypeVarint (int32_varint v @ r) l = Inr (l @ [v], r)"
    and read_packed_int32: "small (concat (map int32_varint vs)) \<Longrightarrow>
      rt_read_repeated_int32_into rt WireTypeLengthDelimited
        (delimited (concat (map int32_varint vs)) @ r) l = Inr (l @ vs, r)"
    and read_repeated_bool [codec]:
      "rt_read_repeated_bool_into rt WireTypeVarint (bool_varint b @ r) bl = Inr (bl @ [b], r)"
    and read_packed_bool: "small (concat (map bool_varint bs)) \<Longrightarrow>
      rt_read_repeated_bool_into rt WireTypeLengthDelimited
        (delimited (concat (map bool_varint bs)) @ r) bl = Inr (bl @ bs, r)"
    and read_repeated_string [codec]: "string_ok s \<Longrightarrow> small s \<Longrightarrow>
      rt_read_repeated_string_into rt WireTypeLengthDelimited
        (delimited (string_bytes s) @ r) sl = Inr (sl @ [s], r)"
    and read_singular_string [codec]: "string_ok s \<Longrightarrow> small s \<Longrightarrow>
      rt_read_singular_string_into rt WireTypeLengthDelimited
        (delimited (string_bytes s) @ r) x = Inr (Some s, r)"
    and read_singular_string_wire: "w \<noteq> WireTypeLengthDelimited \<Longrightarrow>
      rt_read_singular_string_into rt w input x = Inl (rt_unexpected_wire_type rt w)"
    and read_unknown_varint: "n < 2 ^ 64 \<Longrightarrow>
      rt_read_unknown_or_skip_group rt f WireTypeVarint (varint n @ r) uf
        = Inr (uf @ [(f, UnknownVarint (of_nat n))], r)"
    and read_unknown_delimited: "small payload \<Longrightarrow>
      rt_read_unknown_or_skip_group rt f WireTypeLengthDelimited (delimited payload @ r) uf
        = Inr (uf @ [(f, UnknownLengthDelimited payload)], r)"
    and write_int32 [codec]: "field_number_ok f \<Longrightarrow> rt_write_int32 rt f v os = Inr (os @ enc_int32 f v)"
    and write_uint32 [codec]: "field_number_ok f \<Longrightarrow> rt_write_uint32 rt f v os = Inr (os @ enc_uint32 f v)"
    and write_bool [codec]: "field_number_ok f \<Longrightarrow> rt_write_bool rt f b os = Inr (os @ enc_bool f b)"
    and write_string [codec]: "field_number_ok f \<Longrightarrow> small s \<Longrightarrow>
      rt_write_string rt f s os = Inr (os @ enc_string f s)"
    and write_enum [codec]: "field_number_ok f \<Longrightarrow> rt_write_enum rt f v os = Inr (os @ enc_int32 f v)"
    and write_tag: "field_number_ok f \<Longrightarrow> rt_write_tag rt f w os = Inr (os @ wire_tag f w)"
    and write_raw_varint32: "rt_write_raw_varint32 rt v os = Inr (os @ varint (unat v))"
    and write_no_unknown [codec]: "rt_write_unknown_fields rt [] os = Inr os"
    and value_size_i32 [codec]: "field_number_ok f \<Longrightarrow>
      rt_value_size_i32 rt f v WireTypeVarint = of_nat (length (enc_int32 f v))"
    and value_size_u32 [codec]: "field_number_ok f \<Longrightarrow>
      rt_value_size_u32 rt f v WireTypeVarint = of_nat (length (enc_uint32 f v))"
    and string_size [codec]: "field_number_ok f \<Longrightarrow> small s \<Longrightarrow>
      rt_string_size rt f s = of_nat (length (enc_string f s))"
    and varint32_size: "rt_compute_raw_varint32_size rt v = of_nat (length (varint (unat v)))"
    and no_unknown_size [codec]: "rt_unknown_fields_size rt [] = 0"

text \<open>
  An enum is read as the varint of its number; a number without a variant is an error.
\<close>

definition enum_ok :: "'e enum_rt \<Rightarrow> bool" where
  "enum_ok E \<longleftrightarrow> (\<forall>D v r.
     (\<forall>e. enum_from_i32 D v = Some e \<longrightarrow> read_enum E D (int32_varint v @ r) = Inr (e, r))
     \<and> (enum_from_i32 D v = None \<longrightarrow> (\<exists>err. read_enum E D (int32_varint v @ r) = Inl err))
     \<and> (\<forall>f e. field_number_ok f \<longrightarrow>
          enum_size E D f e = of_nat (length (enc_int32 f (enum_value D e)))))"

text \<open>
  A nested message is a length-delimited field whose payload is the encoding of the message: it
  is merged into a new message until the payload ends.  \<open>read_message\<close> also checks the required
  fields.
\<close>

definition nested_ok :: "'m nested_rt \<Rightarrow> bool" where
  "nested_ok N \<longleftrightarrow> (\<forall>M payload r m. small payload \<longrightarrow>
     msg_merge_from M (msg_new M) payload = Some (Inr (m, [])) \<longrightarrow>
       (msg_is_initialized M m \<longrightarrow> read_message N M (delimited payload @ r) = Some (Inr (m, r)))
       \<and> (\<not> msg_is_initialized M m \<longrightarrow>
            (\<exists>e. read_message N M (delimited payload @ r) = Some (Inl e)))
       \<and> read_singular_message_into N M WireTypeLengthDelimited (delimited payload @ r) None
            = Some (Inr (Some m, r))
       \<and> (\<forall>ms. read_repeated_message_into N M WireTypeLengthDelimited (delimited payload @ r) ms
            = Some (Inr (ms @ [m], r))))"

text \<open>
  The entry points: \<open>parse_from_bytes\<close> merges all bytes into a new message and checks the required
  fields; \<open>write_to_bytes\<close> checks them, computes the sizes and returns the bytes written.
\<close>

definition entry_ok :: "'m entry_rt \<Rightarrow> bool" where
  "entry_ok T \<longleftrightarrow> (\<forall>M.
     (\<forall>b m. msg_merge_from M (msg_new M) b = Some (Inr (m, [])) \<longrightarrow>
        (if msg_is_initialized M m then parse_from_bytes T M b = Some (Inr m)
         else (\<exists>e. parse_from_bytes T M b = Some (Inl e))))
     \<and> (\<forall>b e. msg_merge_from M (msg_new M) b = Some (Inl e) \<longrightarrow>
          (\<exists>e'. parse_from_bytes T M b = Some (Inl e')))
     \<and> (\<forall>m b. msg_is_initialized M m \<longrightarrow>
          msg_write_to_with_cached_sizes M (snd (msg_compute_size M m)) [] = Inr b \<longrightarrow>
          length b = unat (fst (msg_compute_size M m)) \<longrightarrow> write_to_bytes T M m = Inr b)
     \<and> (\<forall>m. \<not> msg_is_initialized M m \<longrightarrow> (\<exists>e. write_to_bytes T M m = Inl e)))"

text \<open>The laws as rules.\<close>

lemma nested_rules:
  assumes "nested_ok N" and "small payload"
    and "msg_merge_from M (msg_new M) payload = Some (Inr (m, []))"
  shows nested_read_message: "msg_is_initialized M m \<Longrightarrow>
      read_message N M (delimited payload @ r) = Some (Inr (m, r))"
    and nested_read_singular:
      "read_singular_message_into N M WireTypeLengthDelimited (delimited payload @ r) None
        = Some (Inr (Some m, r))"
    and nested_read_repeated:
      "read_repeated_message_into N M WireTypeLengthDelimited (delimited payload @ r) ms
        = Some (Inr (ms @ [m], r))"
  using assms unfolding nested_ok_def by blast+

lemma nested_read_uninitialized:
  assumes "nested_ok N" and "small payload"
    and "msg_merge_from M (msg_new M) payload = Some (Inr (m, []))"
    and "\<not> msg_is_initialized M m"
  shows "\<exists>e. read_message N M (delimited payload @ r) = Some (Inl e)"
  using assms unfolding nested_ok_def by blast

lemma entry_parse:
  assumes "entry_ok T" and "msg_merge_from M (msg_new M) b = Some (Inr (m, []))"
  shows "msg_is_initialized M m \<Longrightarrow> parse_from_bytes T M b = Some (Inr m)"
    and "\<not> msg_is_initialized M m \<Longrightarrow> \<exists>e. parse_from_bytes T M b = Some (Inl e)"
  using assms unfolding entry_ok_def by metis+

lemma entry_parse_error:
  assumes "entry_ok T" and "msg_merge_from M (msg_new M) b = Some (Inl e)"
  shows "\<exists>e'. parse_from_bytes T M b = Some (Inl e')"
  using assms unfolding entry_ok_def by metis

lemma entry_write:
  assumes "entry_ok T" and "msg_is_initialized M m"
    and "msg_write_to_with_cached_sizes M (snd (msg_compute_size M m)) [] = Inr b"
    and "length b = unat (fst (msg_compute_size M m))"
  shows "write_to_bytes T M m = Inr b"
  using assms unfolding entry_ok_def by metis

lemma entry_write_uninitialized:
  assumes "entry_ok T" and "\<not> msg_is_initialized M m"
  shows "\<exists>e. write_to_bytes T M m = Inl e"
  using assms unfolding entry_ok_def by metis

section \<open>Repeated fields and nested sizes\<close>

lemma field_numbers [simp]:
  "field_number_ok 1" "field_number_ok 2" "field_number_ok 3" "field_number_ok 4"
  "field_number_ok 5" "field_number_ok 6" "field_number_ok 7" "field_number_ok 8"
  "field_number_ok 10" "field_number_ok 11" "field_number_ok 12" "field_number_ok 13"
  "field_number_ok 14" "field_number_ok 15" "field_number_ok 16"
  by (simp_all add: field_number_ok_def)

lemma small_append_iff: "small (a @ b) \<Longrightarrow> small a \<and> small b"
  by (simp add: small_def)

lemma small_enc_string: "small (enc_string f s) \<Longrightarrow> small s"
  using length_enc_string_ge [of s f] by (simp add: small_def)

lemma small_enc_message: "small (enc_message f p) \<Longrightarrow> small p"
  using length_enc_message_ge [of p f] by (simp add: small_def)

lemma small_delimited: "small (delimited p) \<Longrightarrow> small p"
  by (simp add: small_def length_delimited)

lemma small_string_bytes [simp]: "small (string_bytes s) = small s"
  by (simp add: small_def)

lemma small_concat: "small (concat (map enc vs)) \<Longrightarrow> \<forall>v\<in>set vs. small (enc v)"
  using length_concat_ge [of _ vs enc] by (fastforce simp: small_def)

lemmas small_parts =
  small_append_iff small_enc_string small_enc_message small_delimited small_concat

context scalar_runtime begin

text \<open>The loop of \<open>merge_from\<close>, and the reads of a field that ends the stream.\<close>

lemmas loop_end [codec] = merge_loop_end [OF eof]
lemmas loop_field [codec] = merge_loop_field [OF eof]

lemmas read_last [codec] =
  read_int32 [where r = "[]", simplified] read_uint32 [where r = "[]", simplified]
  read_bool [where r = "[]", simplified] read_string [where r = "[]", simplified]
  read_repeated_int32 [where r = "[]", simplified] read_repeated_bool [where r = "[]", simplified]
  read_repeated_string [where r = "[]", simplified]
  read_singular_string [where r = "[]", simplified]

lemma write_strings [codec]:
  "field_number_ok f \<Longrightarrow> \<forall>s\<in>set ss. small (enc_string f s) \<Longrightarrow>
     for_each (rt_write_string rt f) ss os = Inr (os @ concat (map (enc_string f) ss))"
  by (rule for_each_append, rule write_string) (simp_all add: small_enc_string [of f])

lemma size_strings [codec]:
  "field_number_ok f \<Longrightarrow> \<forall>s\<in>set ss. small (enc_string f s) \<Longrightarrow>
     foldl (\<lambda>my_size v. my_size + rt_string_size rt f v) n ss
       = n + of_nat (length (concat (map (enc_string f) ss)))"
  unfolding foldl_add_sum
  by (subst sum_list_lengths [where enc = "enc_string f"], rule string_size)
    (simp_all add: small_enc_string [of f])

lemma length_enc_bool: "unat f < 16 \<Longrightarrow> length (enc_bool f b) = 2"
  by (simp add: enc_bool_def length_wire_tag)

lemma length_bools:
  "unat f < 16 \<Longrightarrow> length (concat (map (enc_bool f) bs)) = 2 * length bs"
  by (induction bs) (simp_all add: enc_bool_def length_wire_tag)

text \<open>The size of a nested message field, as the code adds it up.\<close>

lemma nested_field_size:
  assumes "small p"
  shows "unat f < 16 \<Longrightarrow>
      1 + rt_compute_raw_varint32_size rt (of_nat (length p)) + of_nat (length p)
        = (of_nat (length (enc_message f p)) :: u32)"
    and "16 \<le> unat f \<Longrightarrow> unat f < 2048 \<Longrightarrow>
      2 + rt_compute_raw_varint32_size rt (of_nat (length p)) + of_nat (length p)
        = (of_nat (length (enc_message f p)) :: u32)"
  using small_unat [OF assms]
  by (simp_all add: enc_message_def length_delimited varint32_size length_wire_tag)

end

section \<open>The contract of a message type\<close>

text \<open>
  Every message type of the generated code promises the same to the messages that contain it and
  to the entry points: measuring it gives the length of its encoding, writing it after measuring
  it appends the encoding, and merging the encoding into a new message gives the message back,
  with its cached sizes cleared.  \<open>ok\<close> holds of messages with valid strings and no unknown
  fields, \<open>norm\<close> clears the cached sizes.
\<close>

locale message_codec = scalar_runtime rt for rt :: "'z scalar_rt_scheme" +
  fixes M :: "'m Message"
    and new :: 'm and init :: "'m \<Rightarrow> bool" and merge_from :: "'m \<Rightarrow> bytes \<Rightarrow> ('m \<times> bytes) reading"
    and csize :: "'m \<Rightarrow> u32 \<times> 'm" and write_to :: "'m \<Rightarrow> bytes \<Rightarrow> ProtobufError + bytes"
    and gcached :: "'m \<Rightarrow> u32"
    and wire :: "'m \<Rightarrow> bytes" and ok :: "'m \<Rightarrow> bool" and norm :: "'m \<Rightarrow> 'm"
  assumes message: "M = \<lparr>msg_new = new, msg_is_initialized = init, msg_merge_from = merge_from,
      msg_compute_size = csize, msg_write_to_with_cached_sizes = write_to,
      msg_get_cached_size = gcached\<rparr>"
    and size_wire: "ok m \<Longrightarrow> small (wire m) \<Longrightarrow> fst (csize m) = of_nat (length (wire m))"
    and cached_size: "gcached (snd (csize m)) = fst (csize m)"
    and write_wire: "ok m \<Longrightarrow> small (wire m) \<Longrightarrow> write_to (snd (csize m)) os = Inr (os @ wire m)"
    and merge_wire: "ok m \<Longrightarrow> small (wire m) \<Longrightarrow> init m \<Longrightarrow>
      merge_from new (wire m) = Some (Inr (norm m, []))"
    and init_norm: "init (norm m) = init m"
    and norm_wire: "wire (norm m) = wire m" and norm_ok: "ok (norm m) = ok m"
    and keeps: "norm (snd (csize m)) = norm m"
begin

lemma sel [simp]:
  "msg_new M = new" "msg_is_initialized M = init" "msg_merge_from M = merge_from"
  "msg_compute_size M = csize" "msg_write_to_with_cached_sizes M = write_to"
  "msg_get_cached_size M = gcached"
  by (simp_all add: message)

text \<open>Measuring a message changes its cached sizes only.\<close>

lemma after_size:
  "wire (snd (csize m)) = wire m" "ok (snd (csize m)) = ok m" "init (snd (csize m)) = init m"
  by (metis norm_wire keeps, metis norm_ok keeps, metis init_norm keeps)

text \<open>A message as a field of another one: its size and its bytes.\<close>

lemma field_size [codec]:
  assumes "ok m" and "small (wire m)"
  shows "unat f < 16 \<Longrightarrow>
      1 + rt_compute_raw_varint32_size rt (fst (csize m)) + fst (csize m)
        = of_nat (length (enc_message f (wire m)))"
    and "16 \<le> unat f \<Longrightarrow> unat f < 2048 \<Longrightarrow>
      2 + rt_compute_raw_varint32_size rt (fst (csize m)) + fst (csize m)
        = of_nat (length (enc_message f (wire m)))"
  by (simp_all add: size_wire assms nested_field_size)

lemmas field_size_assoc [codec] = field_size [unfolded add.assoc]

lemma field_write [codec]:
  assumes "ok m" and "small (wire m)" and "field_number_ok f"
  shows "and_then (rt_write_tag rt f WireTypeLengthDelimited os) (\<lambda>os.
      and_then (rt_write_raw_varint32 rt (gcached (snd (csize m))) os)
        (write_to (snd (csize m)))) = Inr (os @ enc_message f (wire m))"
  using assms
  by (simp add: write_tag write_raw_varint32 cached_size size_wire write_wire small_unat
      enc_message_def delimited_def)

lemma fields_okD:
  assumes "list_all ok ms" and "\<forall>m\<in>set ms. small (enc_message f (wire m))"
    and "m \<in> set ms"
  shows "ok m" and "small (wire m)"
  using assms by (auto simp: list_all_iff dest: small_enc_message)

lemma fields_size [codec]:
  assumes "list_all ok ms" and "\<forall>m\<in>set ms. small (enc_message f (wire m))"
    and "unat f < 16"
  shows "fst (size_each csize (\<lambda>len. 1 + rt_compute_raw_varint32_size rt len + len) ms n)
    = n + of_nat (length (concat (map (\<lambda>m. enc_message f (wire m)) ms)))"
proof -
  have "1 + rt_compute_raw_varint32_size rt (fst (csize m)) + fst (csize m)
      = of_nat (length (enc_message f (wire m)))" if "m \<in> set ms" for m
    using fields_okD [OF assms(1,2) that] assms(3) by (rule field_size(1))
  then show ?thesis
    unfolding size_each_fst
    by (subst sum_list_lengths [where enc = "\<lambda>m. enc_message f (wire m)"]) simp_all
qed

lemmas fields_size_assoc [codec] = fields_size [unfolded add.assoc]

lemma fields_write [codec]:
  assumes "list_all ok ms" and "\<forall>m\<in>set ms. small (enc_message f (wire m))"
    and "field_number_ok f"
  shows "for_each (\<lambda>v os. and_then (rt_write_tag rt f WireTypeLengthDelimited os) (\<lambda>os.
      and_then (rt_write_raw_varint32 rt (gcached v) os) (write_to v)))
      (map (\<lambda>m. snd (csize m)) ms) os
    = Inr (os @ concat (map (\<lambda>m. enc_message f (wire m)) ms))"
  unfolding for_each_map
  by (rule for_each_append, rule field_write) (simp_all add: fields_okD [OF assms(1,2)] assms(3))

end

text \<open>A message type that occurs as a field of another one, and one that is sent on its own.\<close>

locale nested_codec = message_codec rt M new init merge_from csize write_to gcached wire ok norm
  for rt :: "'z scalar_rt_scheme" and M :: "'m Message" and N :: "'m nested_rt"
    and new init merge_from csize write_to gcached wire ok norm +
  assumes nested: "nested_ok N"
begin

lemma read_wire:
  assumes "ok m" and "small (wire m)" and "init m"
  shows read_message_wire [codec]: "read_message N M (delimited (wire m) @ r) = Some (Inr (norm m, r))"
    and read_singular_wire [codec]:
      "read_singular_message_into N M WireTypeLengthDelimited (delimited (wire m) @ r) None
        = Some (Inr (Some (norm m), r))"
    and read_repeated_wire [codec]:
      "read_repeated_message_into N M WireTypeLengthDelimited (delimited (wire m) @ r) ms
        = Some (Inr (ms @ [norm m], r))"
  by (rule nested_rules [OF nested assms(2)], simp_all add: merge_wire assms init_norm)+

lemmas read_wire_last [codec] =
  read_message_wire [where r = "[]", simplified] read_singular_wire [where r = "[]", simplified]
  read_repeated_wire [where r = "[]", simplified]

end

locale entry_codec = message_codec rt M new init merge_from csize write_to gcached wire ok norm
  for rt :: "'z scalar_rt_scheme" and M :: "'m Message" and T :: "'m entry_rt"
    and new init merge_from csize write_to gcached wire ok norm +
  assumes entry: "entry_ok T"
begin

lemma parse_wire:
  assumes "ok m" and "small (wire m)" and "init m"
  shows "parse_from_bytes T M (wire m) = Some (Inr (norm m))"
  by (rule entry_parse [OF entry]) (simp_all add: merge_wire assms init_norm)

lemma write_to_bytes_wire:
  assumes "ok m" and "small (wire m)" and "init m"
  shows "write_to_bytes T M m = Inr (wire m)"
  by (rule entry_write [OF entry]) (simp_all add: write_wire size_wire assms small_unat)

lemma parse_uninitialized:
  assumes "merge_from new b = Some (Inr (m, []))" and "\<not> init m"
  shows "\<exists>e. parse_from_bytes T M b = Some (Inl e)"
  using assms by (intro entry_parse(2) [OF entry]) simp_all

lemma parse_error:
  assumes "merge_from new b = Some (Inl e)"
  shows "\<exists>e'. parse_from_bytes T M b = Some (Inl e')"
  using assms by (intro entry_parse_error [OF entry]) simp_all

lemma write_uninitialized: "\<not> init m \<Longrightarrow> \<exists>e. write_to_bytes T M m = Inl e"
  by (intro entry_write_uninitialized [OF entry]) simp_all

end

end
