(* ===== verification/Ctl_Enums.thy ===== *)
theory Ctl_Enums
  imports Runtime
begin

text \<open>
  The two enums of \<open>clients/rust/src/sysadminctl.rs\<close> with their numbers: \<open>CommitConfig\<close> (which
  hooks a commit runs) and \<open>StatusCode\<close> (the outcome of a command).
\<close>

datatype ctl_CommitConfig =
    ctl_DEFAULT
  | ctl_TEMPLATE_ONLY
  | ctl_NO_HOOKS

datatype ctl_StatusCode =
    ctl_SUCCESS
  | ctl_UNKNOWN_ERROR
  | ctl_TYPE_MISMATCH
  | ctl_COMMAND_TRANSLATION_ERROR
  | ctl_KEY_NOT_FOUND
  | ctl_EXTERNAL_PROCESS_ERROR
  | ctl_INVALID_KEY
  | ctl_FAILED_ROLLBACK
  | ctl_LOCKED_QUEUE
  | ctl_HOOK_NOT_FOUND
  | ctl_SUCCESS_KEY_CREATED
  | ctl_MESSAGE_SIZE_ERROR

primrec ctl_CommitConfig_value :: "ctl_CommitConfig \<Rightarrow> i32" where
  "ctl_CommitConfig_value ctl_DEFAULT = 0"
| "ctl_CommitConfig_value ctl_TEMPLATE_ONLY = 1"
| "ctl_CommitConfig_value ctl_NO_HOOKS = 3"

definition ctl_CommitConfig_from_i32 :: "i32 \<Rightarrow> ctl_CommitConfig option" where
  "ctl_CommitConfig_from_i32 v =
     (if v = 0 then Some ctl_DEFAULT
      else if v = 1 then Some ctl_TEMPLATE_ONLY
      else if v = 3 then Some ctl_NO_HOOKS
      else None)"

definition ctl_CommitConfig_values :: "ctl_CommitConfig list" where
  "ctl_CommitConfig_values = [ctl_DEFAULT, ctl_TEMPLATE_ONLY, ctl_NO_HOOKS]"

definition ctl_CommitConfig_enum :: "ctl_CommitConfig ProtobufEnum" where
  "ctl_CommitConfig_enum =
     \<lparr>enum_value = ctl_CommitConfig_value, enum_from_i32 = ctl_CommitConfig_from_i32\<rparr>"

primrec ctl_StatusCode_value :: "ctl_StatusCode \<Rightarrow> i32" where
  "ctl_StatusCode_value ctl_SUCCESS = 0"
| "ctl_StatusCode_value ctl_UNKNOWN_ERROR = 1"
| "ctl_StatusCode_value ctl_TYPE_MISMATCH = 2"
| "ctl_StatusCode_value ctl_COMMAND_TRANSLATION_ERROR = 3"
| "ctl_StatusCode_value ctl_KEY_NOT_FOUND = 4"
| "ctl_StatusCode_value ctl_EXTERNAL_PROCESS_ERROR = 5"
| "ctl_StatusCode_value ctl_INVALID_KEY = 6"
| "ctl_StatusCode_value ctl_FAILED_ROLLBACK = 7"
| "ctl_StatusCode_value ctl_LOCKED_QUEUE = 8"
| "ctl_StatusCode_value ctl_HOOK_NOT_FOUND = 9"
| "ctl_StatusCode_value ctl_SUCCESS_KEY_CREATED = 10"
| "ctl_StatusCode_value ctl_MESSAGE_SIZE_ERROR = 11"

definition ctl_StatusCode_from_i32 :: "i32 \<Rightarrow> ctl_StatusCode option" where
  "ctl_StatusCode_from_i32 v =
     (if v = 0 then Some ctl_SUCCESS
      else if v = 1 then Some ctl_UNKNOWN_ERROR
      else if v = 2 then Some ctl_TYPE_MISMATCH
      else if v = 3 then Some ctl_COMMAND_TRANSLATION_ERROR
      else if v = 4 then Some ctl_KEY_NOT_FOUND
      else if v = 5 then Some ctl_EXTERNAL_PROCESS_ERROR
      else if v = 6 then Some ctl_INVALID_KEY
      else if v = 7 then Some ctl_FAILED_ROLLBACK
      else if v = 8 then Some ctl_LOCKED_QUEUE
      else if v = 9 then Some ctl_HOOK_NOT_FOUND
      else if v = 10 then Some ctl_SUCCESS_KEY_CREATED
      else if v = 11 then Some ctl_MESSAGE_SIZE_ERROR
      else None)"

definition ctl_StatusCode_values :: "ctl_StatusCode list" where
  "ctl_StatusCode_values =
     [ctl_SUCCESS, ctl_UNKNOWN_ERROR, ctl_TYPE_MISMATCH, ctl_COMMAND_TRANSLATION_ERROR,
      ctl_KEY_NOT_FOUND, ctl_EXTERNAL_PROCESS_ERROR, ctl_INVALID_KEY, ctl_FAILED_ROLLBACK,
      ctl_LOCKED_QUEUE, ctl_HOOK_NOT_FOUND, ctl_SUCCESS_KEY_CREATED, ctl_MESSAGE_SIZE_ERROR]"

definition ctl_StatusCode_enum :: "ctl_StatusCode ProtobufEnum" where
  "ctl_StatusCode_enum =
     \<lparr>enum_value = ctl_StatusCode_value, enum_from_i32 = ctl_StatusCode_from_i32\<rparr>"

text \<open>
  The lists \<open>values()\<close> of the code enumerate the types, so quantifiers over an enum are decided by
  running through them.
\<close>

instantiation ctl_CommitConfig :: enum
begin

definition enum_ctl_CommitConfig :: "ctl_CommitConfig list" where
  "enum_ctl_CommitConfig = ctl_CommitConfig_values"

definition enum_all_ctl_CommitConfig :: "(ctl_CommitConfig \<Rightarrow> bool) \<Rightarrow> bool" where
  "enum_all_ctl_CommitConfig P \<longleftrightarrow> list_all P ctl_CommitConfig_values"

definition enum_ex_ctl_CommitConfig :: "(ctl_CommitConfig \<Rightarrow> bool) \<Rightarrow> bool" where
  "enum_ex_ctl_CommitConfig P \<longleftrightarrow> list_ex P ctl_CommitConfig_values"

instance proof
  show u: "(UNIV :: ctl_CommitConfig set) = set Enum.enum"
    by (auto simp: enum_ctl_CommitConfig_def ctl_CommitConfig_values_def intro: ctl_CommitConfig.exhaust)
  show "distinct (Enum.enum :: ctl_CommitConfig list)"
    by (simp add: enum_ctl_CommitConfig_def ctl_CommitConfig_values_def)
  fix P :: "ctl_CommitConfig \<Rightarrow> bool"
  show "Enum.enum_all P \<longleftrightarrow> Ball UNIV P"
    unfolding u by (simp add: enum_all_ctl_CommitConfig_def enum_ctl_CommitConfig_def list_all_iff)
  show "Enum.enum_ex P \<longleftrightarrow> Bex UNIV P"
    unfolding u by (simp add: enum_ex_ctl_CommitConfig_def enum_ctl_CommitConfig_def list_ex_iff)
qed

end

instantiation ctl_StatusCode :: enum
begin

definition enum_ctl_StatusCode :: "ctl_StatusCode list" where
  "enum_ctl_StatusCode = ctl_StatusCode_values"

definition enum_all_ctl_StatusCode :: "(ctl_StatusCode \<Rightarrow> bool) \<Rightarrow> bool" where
  "enum_all_ctl_StatusCode P \<longleftrightarrow> list_all P ctl_StatusCode_values"

definition enum_ex_ctl_StatusCode :: "(ctl_StatusCode \<Rightarrow> bool) \<Rightarrow> bool" where
  "enum_ex_ctl_StatusCode P \<longleftrightarrow> list_ex P ctl_StatusCode_values"

instance proof
  show u: "(UNIV :: ctl_StatusCode set) = set Enum.enum"
    by (auto simp: enum_ctl_StatusCode_def ctl_StatusCode_values_def intro: ctl_StatusCode.exhaust)
  show "distinct (Enum.enum :: ctl_StatusCode list)"
    by (simp add: enum_ctl_StatusCode_def ctl_StatusCode_values_def)
  fix P :: "ctl_StatusCode \<Rightarrow> bool"
  show "Enum.enum_all P \<longleftrightarrow> Ball UNIV P"
    unfolding u by (simp add: enum_all_ctl_StatusCode_def enum_ctl_StatusCode_def list_all_iff)
  show "Enum.enum_ex P \<longleftrightarrow> Bex UNIV P"
    unfolding u by (simp add: enum_ex_ctl_StatusCode_def enum_ctl_StatusCode_def list_ex_iff)
qed

end

text \<open>The numbers and the variants determine each other.\<close>

lemma ctl_CommitConfig_from_value [simp]:
  "ctl_CommitConfig_from_i32 (ctl_CommitConfig_value c) = Some c"
  by (cases c) (simp_all add: ctl_CommitConfig_from_i32_def)

lemma ctl_StatusCode_from_value [simp]:
  "ctl_StatusCode_from_i32 (ctl_StatusCode_value c) = Some c"
  by (cases c) (simp_all add: ctl_StatusCode_from_i32_def)

lemma ctl_CommitConfig_from_i32_Some:
  "ctl_CommitConfig_from_i32 v = Some c \<Longrightarrow> ctl_CommitConfig_value c = v"
  by (auto simp: ctl_CommitConfig_from_i32_def split: if_splits)

lemma ctl_StatusCode_from_i32_Some:
  "ctl_StatusCode_from_i32 v = Some c \<Longrightarrow> ctl_StatusCode_value c = v"
  by (auto simp: ctl_StatusCode_from_i32_def split: if_splits)

end
