(* ===== verification/Ctl_Values.thy ===== *)
theory Ctl_Values
  imports Ctl_Enums
begin

text \<open>
  The value messages of \<open>clients/rust/src/sysadminctl.rs\<close>: \<open>Int32List\<close>, \<open>BoolList\<close>,
  \<open>StringList\<close> and \<open>ConfigValue\<close>, as data with their accessors.  A type or function \<open>X\<close> of the
  module \<open>sysadminctl\<close> is \<open>ctl_X\<close> here.

  \<open>SingularField\<close>, \<open>SingularPtrField\<close> and \<open>Option\<close> are options, \<open>RepeatedField\<close> and \<open>Vec\<close> lists.
  A method on \<open>&mut self\<close> returns the changed message; \<open>mut_x\<close>, which returns a reference to the
  field, takes the update made through the reference; \<open>take_x\<close> returns the value and the
  message.  The panics the code writes down are values \<open>Inl (Panicked _)\<close>.
\<close>

subsection \<open>Int32List\<close>

record ctl_Int32List =
  ctl_Int32List_list :: "i32 list"
  ctl_Int32List_unknown_fields :: UnknownFields
  ctl_Int32List_cached_size :: u32

definition ctl_Int32List_new :: "ctl_Int32List" where [msg_defs]:
  "ctl_Int32List_new = \<lparr>ctl_Int32List_list = [], ctl_Int32List_unknown_fields =
      [], ctl_Int32List_cached_size = 0\<rparr>"

definition ctl_Int32List_default_instance :: "ctl_Int32List" where [msg_defs]:
  "ctl_Int32List_default_instance = ctl_Int32List_new"

text \<open>Field \<open>list\<close> (repeated int32, number 1).\<close>

definition ctl_Int32List_clear_list :: "ctl_Int32List \<Rightarrow> ctl_Int32List" where [msg_defs]:
  "ctl_Int32List_clear_list m = m\<lparr>ctl_Int32List_list := []\<rparr>"

definition ctl_Int32List_set_list :: "ctl_Int32List \<Rightarrow> i32 list \<Rightarrow> ctl_Int32List" where [msg_defs]:
  "ctl_Int32List_set_list m v = m\<lparr>ctl_Int32List_list := v\<rparr>"

definition ctl_Int32List_mut_list :: "ctl_Int32List \<Rightarrow> (i32 list \<Rightarrow> i32 list) \<Rightarrow> ctl_Int32List"
    where [msg_defs]:
  "ctl_Int32List_mut_list m upd = m\<lparr>ctl_Int32List_list := upd (ctl_Int32List_list m)\<rparr>"

definition ctl_Int32List_take_list :: "ctl_Int32List \<Rightarrow> i32 list \<times> ctl_Int32List" where [msg_defs]:
  "ctl_Int32List_take_list m = (ctl_Int32List_list m, m\<lparr>ctl_Int32List_list := []\<rparr>)"

definition ctl_Int32List_get_list :: "ctl_Int32List \<Rightarrow> i32 list" where [msg_defs]:
  "ctl_Int32List_get_list m = ctl_Int32List_list m"

definition ctl_Int32List_clear :: "ctl_Int32List \<Rightarrow> ctl_Int32List" where [msg_defs]:
  "ctl_Int32List_clear m =
     (let m = ctl_Int32List_clear_list m
      in m\<lparr>ctl_Int32List_unknown_fields := []\<rparr>)"

subsection \<open>BoolList\<close>

record ctl_BoolList =
  ctl_BoolList_list :: "bool list"
  ctl_BoolList_unknown_fields :: UnknownFields
  ctl_BoolList_cached_size :: u32

definition ctl_BoolList_new :: "ctl_BoolList" where [msg_defs]:
  "ctl_BoolList_new = \<lparr>ctl_BoolList_list = [], ctl_BoolList_unknown_fields =
      [], ctl_BoolList_cached_size = 0\<rparr>"

definition ctl_BoolList_default_instance :: "ctl_BoolList" where [msg_defs]:
  "ctl_BoolList_default_instance = ctl_BoolList_new"

text \<open>Field \<open>list\<close> (repeated bool, number 1).\<close>

definition ctl_BoolList_clear_list :: "ctl_BoolList \<Rightarrow> ctl_BoolList" where [msg_defs]:
  "ctl_BoolList_clear_list m = m\<lparr>ctl_BoolList_list := []\<rparr>"

definition ctl_BoolList_set_list :: "ctl_BoolList \<Rightarrow> bool list \<Rightarrow> ctl_BoolList" where [msg_defs]:
  "ctl_BoolList_set_list m v = m\<lparr>ctl_BoolList_list := v\<rparr>"

definition ctl_BoolList_mut_list :: "ctl_BoolList \<Rightarrow> (bool list \<Rightarrow> bool list) \<Rightarrow> ctl_BoolList"
    where [msg_defs]:
  "ctl_BoolList_mut_list m upd = m\<lparr>ctl_BoolList_list := upd (ctl_BoolList_list m)\<rparr>"

definition ctl_BoolList_take_list :: "ctl_BoolList \<Rightarrow> bool list \<times> ctl_BoolList" where [msg_defs]:
  "ctl_BoolList_take_list m = (ctl_BoolList_list m, m\<lparr>ctl_BoolList_list := []\<rparr>)"

definition ctl_BoolList_get_list :: "ctl_BoolList \<Rightarrow> bool list" where [msg_defs]:
  "ctl_BoolList_get_list m = ctl_BoolList_list m"

definition ctl_BoolList_clear :: "ctl_BoolList \<Rightarrow> ctl_BoolList" where [msg_defs]:
  "ctl_BoolList_clear m =
     (let m = ctl_BoolList_clear_list m
      in m\<lparr>ctl_BoolList_unknown_fields := []\<rparr>)"

subsection \<open>StringList\<close>

record ctl_StringList =
  ctl_StringList_list :: "string list"
  ctl_StringList_unknown_fields :: UnknownFields
  ctl_StringList_cached_size :: u32

definition ctl_StringList_new :: "ctl_StringList" where [msg_defs]:
  "ctl_StringList_new = \<lparr>ctl_StringList_list = [], ctl_StringList_unknown_fields =
      [], ctl_StringList_cached_size = 0\<rparr>"

definition ctl_StringList_default_instance :: "ctl_StringList" where [msg_defs]:
  "ctl_StringList_default_instance = ctl_StringList_new"

text \<open>Field \<open>list\<close> (repeated string, number 1).\<close>

definition ctl_StringList_clear_list :: "ctl_StringList \<Rightarrow> ctl_StringList" where [msg_defs]:
  "ctl_StringList_clear_list m = m\<lparr>ctl_StringList_list := []\<rparr>"

definition ctl_StringList_set_list :: "ctl_StringList \<Rightarrow> string list \<Rightarrow> ctl_StringList"
    where [msg_defs]:
  "ctl_StringList_set_list m v = m\<lparr>ctl_StringList_list := v\<rparr>"

definition ctl_StringList_mut_list :: "ctl_StringList \<Rightarrow> (string list \<Rightarrow> string list)
    \<Rightarrow> ctl_StringList" where [msg_defs]:
  "ctl_StringList_mut_list m upd = m\<lparr>ctl_StringList_list := upd (ctl_StringList_list m)\<rparr>"

definition ctl_StringList_take_list :: "ctl_StringList \<Rightarrow> string list
    \<times> ctl_StringList" where [msg_defs]:
  "ctl_StringList_take_list m = (ctl_StringList_list m, m\<lparr>ctl_StringList_list := []\<rparr>)"

definition ctl_StringList_get_list :: "ctl_StringList \<Rightarrow> string list" where [msg_defs]:
  "ctl_StringList_get_list m = ctl_StringList_list m"

definition ctl_StringList_clear :: "ctl_StringList \<Rightarrow> ctl_StringList" where [msg_defs]:
  "ctl_StringList_clear m =
     (let m = ctl_StringList_clear_list m
      in m\<lparr>ctl_StringList_unknown_fields := []\<rparr>)"

subsection \<open>ConfigValue\<close>

datatype ConfigValue_oneof_value =
    ConfigValue_oneof_value_int32val i32
  | ConfigValue_oneof_value_strval string
  | ConfigValue_oneof_value_boolval bool
  | ConfigValue_oneof_value_int32list ctl_Int32List
  | ConfigValue_oneof_value_boollist ctl_BoolList
  | ConfigValue_oneof_value_stringlist ctl_StringList

record ctl_ConfigValue =
  ctl_ConfigValue_value :: "ConfigValue_oneof_value option"
  ctl_ConfigValue_unknown_fields :: UnknownFields
  ctl_ConfigValue_cached_size :: u32

definition ctl_ConfigValue_new :: "ctl_ConfigValue" where [msg_defs]:
  "ctl_ConfigValue_new = \<lparr>ctl_ConfigValue_value = None, ctl_ConfigValue_unknown_fields =
      [], ctl_ConfigValue_cached_size = 0\<rparr>"

definition ctl_ConfigValue_default_instance :: "ctl_ConfigValue" where [msg_defs]:
  "ctl_ConfigValue_default_instance = ctl_ConfigValue_new"

text \<open>Alternative \<open>int32val\<close> of \<open>value\<close> (int32, number 1).\<close>

definition ctl_ConfigValue_clear_int32val :: "ctl_ConfigValue \<Rightarrow> ctl_ConfigValue" where [msg_defs]:
  "ctl_ConfigValue_clear_int32val m = m\<lparr>ctl_ConfigValue_value := None\<rparr>"

definition ctl_ConfigValue_has_int32val :: "ctl_ConfigValue \<Rightarrow> bool" where [msg_defs]:
  "ctl_ConfigValue_has_int32val m =
      (case ctl_ConfigValue_value m of Some (ConfigValue_oneof_value_int32val v) \<Rightarrow> True
        | _ \<Rightarrow> False)"

definition ctl_ConfigValue_set_int32val :: "ctl_ConfigValue \<Rightarrow> i32 \<Rightarrow> ctl_ConfigValue"
    where [msg_defs]:
  "ctl_ConfigValue_set_int32val m v =
      m\<lparr>ctl_ConfigValue_value := Some (ConfigValue_oneof_value_int32val v)\<rparr>"

definition ctl_ConfigValue_get_int32val :: "ctl_ConfigValue \<Rightarrow> i32" where [msg_defs]:
  "ctl_ConfigValue_get_int32val m =
      (case ctl_ConfigValue_value m of Some (ConfigValue_oneof_value_int32val v) \<Rightarrow> v | _ \<Rightarrow> 0)"

text \<open>Alternative \<open>strval\<close> of \<open>value\<close> (string, number 2).\<close>

definition ctl_ConfigValue_clear_strval :: "ctl_ConfigValue \<Rightarrow> ctl_ConfigValue" where [msg_defs]:
  "ctl_ConfigValue_clear_strval m = m\<lparr>ctl_ConfigValue_value := None\<rparr>"

definition ctl_ConfigValue_has_strval :: "ctl_ConfigValue \<Rightarrow> bool" where [msg_defs]:
  "ctl_ConfigValue_has_strval m =
      (case ctl_ConfigValue_value m of Some (ConfigValue_oneof_value_strval v) \<Rightarrow> True
        | _ \<Rightarrow> False)"

definition ctl_ConfigValue_set_strval :: "ctl_ConfigValue \<Rightarrow> string \<Rightarrow> ctl_ConfigValue"
    where [msg_defs]:
  "ctl_ConfigValue_set_strval m v =
      m\<lparr>ctl_ConfigValue_value := Some (ConfigValue_oneof_value_strval v)\<rparr>"

definition ctl_ConfigValue_mut_strval ::
    "ctl_ConfigValue \<Rightarrow> (string \<Rightarrow> string) \<Rightarrow> panic + ctl_ConfigValue" where [msg_defs]:
  "ctl_ConfigValue_mut_strval m upd =
     (let m = (case ctl_ConfigValue_value m of
                 Some (ConfigValue_oneof_value_strval _) \<Rightarrow> m
               | _ \<Rightarrow> m\<lparr>ctl_ConfigValue_value := Some (ConfigValue_oneof_value_strval '''')\<rparr>)
      in case ctl_ConfigValue_value m of
           Some (ConfigValue_oneof_value_strval v)
             \<Rightarrow> Inr (m\<lparr>ctl_ConfigValue_value := Some (ConfigValue_oneof_value_strval (upd v))\<rparr>)
         | _ \<Rightarrow> Inl (Panicked ''explicit panic''))"

definition ctl_ConfigValue_take_strval :: "ctl_ConfigValue \<Rightarrow> panic + string
    \<times> ctl_ConfigValue" where [msg_defs]:
  "ctl_ConfigValue_take_strval m =
     (if ctl_ConfigValue_has_strval m then
        (case ctl_ConfigValue_value m of
           Some (ConfigValue_oneof_value_strval v) \<Rightarrow> Inr (v, m\<lparr>ctl_ConfigValue_value := None\<rparr>)
         | _ \<Rightarrow> Inl (Panicked ''explicit panic''))
      else Inr ('''', m))"

definition ctl_ConfigValue_get_strval :: "ctl_ConfigValue \<Rightarrow> string" where [msg_defs]:
  "ctl_ConfigValue_get_strval m =
      (case ctl_ConfigValue_value m of Some (ConfigValue_oneof_value_strval v) \<Rightarrow> v | _ \<Rightarrow> '''')"

text \<open>Alternative \<open>boolval\<close> of \<open>value\<close> (bool, number 3).\<close>

definition ctl_ConfigValue_clear_boolval :: "ctl_ConfigValue \<Rightarrow> ctl_ConfigValue" where [msg_defs]:
  "ctl_ConfigValue_clear_boolval m = m\<lparr>ctl_ConfigValue_value := None\<rparr>"

definition ctl_ConfigValue_has_boolval :: "ctl_ConfigValue \<Rightarrow> bool" where [msg_defs]:
  "ctl_ConfigValue_has_boolval m =
      (case ctl_ConfigValue_value m of Some (ConfigValue_oneof_value_boolval v) \<Rightarrow> True
        | _ \<Rightarrow> False)"

definition ctl_ConfigValue_set_boolval :: "ctl_ConfigValue \<Rightarrow> bool \<Rightarrow> ctl_ConfigValue"
    where [msg_defs]:
  "ctl_ConfigValue_set_boolval m v =
      m\<lparr>ctl_ConfigValue_value := Some (ConfigValue_oneof_value_boolval v)\<rparr>"

definition ctl_ConfigValue_get_boolval :: "ctl_ConfigValue \<Rightarrow> bool" where [msg_defs]:
  "ctl_ConfigValue_get_boolval m =
      (case ctl_ConfigValue_value m of Some (ConfigValue_oneof_value_boolval v) \<Rightarrow> v | _ \<Rightarrow> False)"

text \<open>Alternative \<open>int32list\<close> of \<open>value\<close> (Int32List, number 4).\<close>

definition ctl_ConfigValue_clear_int32list :: "ctl_ConfigValue \<Rightarrow> ctl_ConfigValue"
    where [msg_defs]:
  "ctl_ConfigValue_clear_int32list m = m\<lparr>ctl_ConfigValue_value := None\<rparr>"

definition ctl_ConfigValue_has_int32list :: "ctl_ConfigValue \<Rightarrow> bool" where [msg_defs]:
  "ctl_ConfigValue_has_int32list m =
      (case ctl_ConfigValue_value m of Some (ConfigValue_oneof_value_int32list v) \<Rightarrow> True
        | _ \<Rightarrow> False)"

definition ctl_ConfigValue_set_int32list :: "ctl_ConfigValue \<Rightarrow> ctl_Int32List \<Rightarrow> ctl_ConfigValue"
    where [msg_defs]:
  "ctl_ConfigValue_set_int32list m v =
      m\<lparr>ctl_ConfigValue_value := Some (ConfigValue_oneof_value_int32list v)\<rparr>"

definition ctl_ConfigValue_mut_int32list ::
    "ctl_ConfigValue \<Rightarrow> (ctl_Int32List \<Rightarrow> ctl_Int32List) \<Rightarrow> panic + ctl_ConfigValue"
        where [msg_defs]:
  "ctl_ConfigValue_mut_int32list m upd =
     (let m = (case ctl_ConfigValue_value m of
                 Some (ConfigValue_oneof_value_int32list _) \<Rightarrow> m
               | _ \<Rightarrow> m\<lparr>ctl_ConfigValue_value := Some (ConfigValue_oneof_value_int32list ctl_Int32List_new)\<rparr>)
      in case ctl_ConfigValue_value m of
           Some (ConfigValue_oneof_value_int32list v)
             \<Rightarrow> Inr (m\<lparr>ctl_ConfigValue_value := Some (ConfigValue_oneof_value_int32list (upd v))\<rparr>)
         | _ \<Rightarrow> Inl (Panicked ''explicit panic''))"

definition ctl_ConfigValue_take_int32list :: "ctl_ConfigValue \<Rightarrow> panic + ctl_Int32List
    \<times> ctl_ConfigValue" where [msg_defs]:
  "ctl_ConfigValue_take_int32list m =
     (if ctl_ConfigValue_has_int32list m then
        (case ctl_ConfigValue_value m of
           Some (ConfigValue_oneof_value_int32list v) \<Rightarrow> Inr (v, m\<lparr>ctl_ConfigValue_value := None\<rparr>)
         | _ \<Rightarrow> Inl (Panicked ''explicit panic''))
      else Inr (ctl_Int32List_new, m))"

definition ctl_ConfigValue_get_int32list :: "ctl_ConfigValue \<Rightarrow> ctl_Int32List" where [msg_defs]:
  "ctl_ConfigValue_get_int32list m =
      (case ctl_ConfigValue_value m of Some (ConfigValue_oneof_value_int32list v) \<Rightarrow> v
        | _ \<Rightarrow> ctl_Int32List_default_instance)"

text \<open>Alternative \<open>boollist\<close> of \<open>value\<close> (BoolList, number 5).\<close>

definition ctl_ConfigValue_clear_boollist :: "ctl_ConfigValue \<Rightarrow> ctl_ConfigValue" where [msg_defs]:
  "ctl_ConfigValue_clear_boollist m = m\<lparr>ctl_ConfigValue_value := None\<rparr>"

definition ctl_ConfigValue_has_boollist :: "ctl_ConfigValue \<Rightarrow> bool" where [msg_defs]:
  "ctl_ConfigValue_has_boollist m =
      (case ctl_ConfigValue_value m of Some (ConfigValue_oneof_value_boollist v) \<Rightarrow> True
        | _ \<Rightarrow> False)"

definition ctl_ConfigValue_set_boollist :: "ctl_ConfigValue \<Rightarrow> ctl_BoolList \<Rightarrow> ctl_ConfigValue"
    where [msg_defs]:
  "ctl_ConfigValue_set_boollist m v =
      m\<lparr>ctl_ConfigValue_value := Some (ConfigValue_oneof_value_boollist v)\<rparr>"

definition ctl_ConfigValue_mut_boollist ::
    "ctl_ConfigValue \<Rightarrow> (ctl_BoolList \<Rightarrow> ctl_BoolList) \<Rightarrow> panic + ctl_ConfigValue" where [msg_defs]:
  "ctl_ConfigValue_mut_boollist m upd =
     (let m = (case ctl_ConfigValue_value m of
                 Some (ConfigValue_oneof_value_boollist _) \<Rightarrow> m
               | _ \<Rightarrow> m\<lparr>ctl_ConfigValue_value := Some (ConfigValue_oneof_value_boollist ctl_BoolList_new)\<rparr>)
      in case ctl_ConfigValue_value m of
           Some (ConfigValue_oneof_value_boollist v)
             \<Rightarrow> Inr (m\<lparr>ctl_ConfigValue_value := Some (ConfigValue_oneof_value_boollist (upd v))\<rparr>)
         | _ \<Rightarrow> Inl (Panicked ''explicit panic''))"

definition ctl_ConfigValue_take_boollist :: "ctl_ConfigValue \<Rightarrow> panic + ctl_BoolList
    \<times> ctl_ConfigValue" where [msg_defs]:
  "ctl_ConfigValue_take_boollist m =
     (if ctl_ConfigValue_has_boollist m then
        (case ctl_ConfigValue_value m of
           Some (ConfigValue_oneof_value_boollist v) \<Rightarrow> Inr (v, m\<lparr>ctl_ConfigValue_value := None\<rparr>)
         | _ \<Rightarrow> Inl (Panicked ''explicit panic''))
      else Inr (ctl_BoolList_new, m))"

definition ctl_ConfigValue_get_boollist :: "ctl_ConfigValue \<Rightarrow> ctl_BoolList" where [msg_defs]:
  "ctl_ConfigValue_get_boollist m =
      (case ctl_ConfigValue_value m of Some (ConfigValue_oneof_value_boollist v) \<Rightarrow> v
        | _ \<Rightarrow> ctl_BoolList_default_instance)"

text \<open>Alternative \<open>stringlist\<close> of \<open>value\<close> (StringList, number 6).\<close>

definition ctl_ConfigValue_clear_stringlist :: "ctl_ConfigValue \<Rightarrow> ctl_ConfigValue"
    where [msg_defs]:
  "ctl_ConfigValue_clear_stringlist m = m\<lparr>ctl_ConfigValue_value := None\<rparr>"

definition ctl_ConfigValue_has_stringlist :: "ctl_ConfigValue \<Rightarrow> bool" where [msg_defs]:
  "ctl_ConfigValue_has_stringlist m =
      (case ctl_ConfigValue_value m of Some (ConfigValue_oneof_value_stringlist v) \<Rightarrow> True
        | _ \<Rightarrow> False)"

definition ctl_ConfigValue_set_stringlist :: "ctl_ConfigValue \<Rightarrow> ctl_StringList \<Rightarrow> ctl_ConfigValue"
    where [msg_defs]:
  "ctl_ConfigValue_set_stringlist m v =
      m\<lparr>ctl_ConfigValue_value := Some (ConfigValue_oneof_value_stringlist v)\<rparr>"

definition ctl_ConfigValue_mut_stringlist ::
    "ctl_ConfigValue \<Rightarrow> (ctl_StringList \<Rightarrow> ctl_StringList) \<Rightarrow> panic + ctl_ConfigValue"
        where [msg_defs]:
  "ctl_ConfigValue_mut_stringlist m upd =
     (let m = (case ctl_ConfigValue_value m of
                 Some (ConfigValue_oneof_value_stringlist _) \<Rightarrow> m
               | _ \<Rightarrow> m\<lparr>ctl_ConfigValue_value := Some (ConfigValue_oneof_value_stringlist ctl_StringList_new)\<rparr>)
      in case ctl_ConfigValue_value m of
           Some (ConfigValue_oneof_value_stringlist v)
             \<Rightarrow> Inr (m\<lparr>ctl_ConfigValue_value := Some (ConfigValue_oneof_value_stringlist (upd v))\<rparr>)
         | _ \<Rightarrow> Inl (Panicked ''explicit panic''))"

definition ctl_ConfigValue_take_stringlist :: "ctl_ConfigValue \<Rightarrow> panic + ctl_StringList
    \<times> ctl_ConfigValue" where [msg_defs]:
  "ctl_ConfigValue_take_stringlist m =
     (if ctl_ConfigValue_has_stringlist m then
        (case ctl_ConfigValue_value m of
           Some (ConfigValue_oneof_value_stringlist v) \<Rightarrow> Inr (v, m\<lparr>ctl_ConfigValue_value := None\<rparr>)
         | _ \<Rightarrow> Inl (Panicked ''explicit panic''))
      else Inr (ctl_StringList_new, m))"

definition ctl_ConfigValue_get_stringlist :: "ctl_ConfigValue \<Rightarrow> ctl_StringList" where [msg_defs]:
  "ctl_ConfigValue_get_stringlist m =
      (case ctl_ConfigValue_value m of Some (ConfigValue_oneof_value_stringlist v) \<Rightarrow> v
        | _ \<Rightarrow> ctl_StringList_default_instance)"

definition ctl_ConfigValue_clear :: "ctl_ConfigValue \<Rightarrow> ctl_ConfigValue" where [msg_defs]:
  "ctl_ConfigValue_clear m =
     (let m = ctl_ConfigValue_clear_int32val m;
      m = ctl_ConfigValue_clear_strval m;
      m = ctl_ConfigValue_clear_boolval m;
      m = ctl_ConfigValue_clear_int32list m;
      m = ctl_ConfigValue_clear_boollist m;
      m = ctl_ConfigValue_clear_stringlist m
      in m\<lparr>ctl_ConfigValue_unknown_fields := []\<rparr>)"

end
