(* ===== verification/Ctl_Commands.thy ===== *)
theory Ctl_Commands
  imports Ctl_Values
begin

text \<open>
  The command messages of \<open>clients/rust/src/sysadminctl.rs\<close>, from \<open>Set\<close> to \<open>InFlight\<close>, and the
  \<open>Command\<close> that carries one of them as its \<open>payload\<close>, with the caller's \<open>id\<close> and \<open>xid\<close>: data and
  accessors, in the conventions of theory Ctl_Values.
\<close>

subsection \<open>Set\<close>

record ctl_Set =
  ctl_Set_key :: "string option"
  ctl_Set_value :: "ctl_ConfigValue option"
  ctl_Set_unknown_fields :: UnknownFields
  ctl_Set_cached_size :: u32

definition ctl_Set_new :: "ctl_Set" where [msg_defs]:
  "ctl_Set_new = \<lparr>ctl_Set_key = None, ctl_Set_value = None, ctl_Set_unknown_fields =
      [], ctl_Set_cached_size = 0\<rparr>"

definition ctl_Set_default_instance :: "ctl_Set" where [msg_defs]:
  "ctl_Set_default_instance = ctl_Set_new"

text \<open>Field \<open>key\<close> (required string, number 1).\<close>

definition ctl_Set_clear_key :: "ctl_Set \<Rightarrow> ctl_Set" where [msg_defs]:
  "ctl_Set_clear_key m = m\<lparr>ctl_Set_key := None\<rparr>"

definition ctl_Set_has_key :: "ctl_Set \<Rightarrow> bool" where [msg_defs]:
  "ctl_Set_has_key m = (ctl_Set_key m \<noteq> None)"

definition ctl_Set_set_key :: "ctl_Set \<Rightarrow> string \<Rightarrow> ctl_Set" where [msg_defs]:
  "ctl_Set_set_key m v = m\<lparr>ctl_Set_key := Some v\<rparr>"

definition ctl_Set_mut_key ::
    "ctl_Set \<Rightarrow> (string \<Rightarrow> string) \<Rightarrow> panic + ctl_Set" where [msg_defs]:
  "ctl_Set_mut_key m upd =
     (let m = (if ctl_Set_key m = None then m\<lparr>ctl_Set_key := Some ''''\<rparr> else m)
      in case ctl_Set_key m of
           Some v \<Rightarrow> Inr (m\<lparr>ctl_Set_key := Some (upd v)\<rparr>)
         | None \<Rightarrow> Inl (Panicked ''unwrap on None''))"

definition ctl_Set_take_key :: "ctl_Set \<Rightarrow> string \<times> ctl_Set" where [msg_defs]:
  "ctl_Set_take_key m =
     ((case ctl_Set_key m of Some v \<Rightarrow> v | None \<Rightarrow> ''''), m\<lparr>ctl_Set_key := None\<rparr>)"

definition ctl_Set_get_key :: "ctl_Set \<Rightarrow> string" where [msg_defs]:
  "ctl_Set_get_key m = (case ctl_Set_key m of Some v \<Rightarrow> v | None \<Rightarrow> '''')"

text \<open>Field \<open>value\<close> (required ConfigValue, number 2).\<close>

definition ctl_Set_clear_value :: "ctl_Set \<Rightarrow> ctl_Set" where [msg_defs]:
  "ctl_Set_clear_value m = m\<lparr>ctl_Set_value := None\<rparr>"

definition ctl_Set_has_value :: "ctl_Set \<Rightarrow> bool" where [msg_defs]:
  "ctl_Set_has_value m = (ctl_Set_value m \<noteq> None)"

definition ctl_Set_set_value :: "ctl_Set \<Rightarrow> ctl_ConfigValue \<Rightarrow> ctl_Set" where [msg_defs]:
  "ctl_Set_set_value m v = m\<lparr>ctl_Set_value := Some v\<rparr>"

definition ctl_Set_mut_value ::
    "ctl_Set \<Rightarrow> (ctl_ConfigValue \<Rightarrow> ctl_ConfigValue) \<Rightarrow> panic + ctl_Set" where [msg_defs]:
  "ctl_Set_mut_value m upd =
     (let m = (if ctl_Set_value m = None then m\<lparr>ctl_Set_value := Some ctl_ConfigValue_new\<rparr> else m)
      in case ctl_Set_value m of
           Some v \<Rightarrow> Inr (m\<lparr>ctl_Set_value := Some (upd v)\<rparr>)
         | None \<Rightarrow> Inl (Panicked ''unwrap on None''))"

definition ctl_Set_take_value :: "ctl_Set \<Rightarrow> ctl_ConfigValue \<times> ctl_Set" where [msg_defs]:
  "ctl_Set_take_value m =
     ((case ctl_Set_value m of Some v \<Rightarrow> v
       | None \<Rightarrow> ctl_ConfigValue_new), m\<lparr>ctl_Set_value := None\<rparr>)"

definition ctl_Set_get_value :: "ctl_Set \<Rightarrow> ctl_ConfigValue" where [msg_defs]:
  "ctl_Set_get_value m = (case ctl_Set_value m of Some v \<Rightarrow> v
      | None \<Rightarrow> ctl_ConfigValue_default_instance)"

definition ctl_Set_clear :: "ctl_Set \<Rightarrow> ctl_Set" where [msg_defs]:
  "ctl_Set_clear m =
     (let m = ctl_Set_clear_key m;
      m = ctl_Set_clear_value m
      in m\<lparr>ctl_Set_unknown_fields := []\<rparr>)"

subsection \<open>Get\<close>

record ctl_Get =
  ctl_Get_key :: "string option"
  ctl_Get_unknown_fields :: UnknownFields
  ctl_Get_cached_size :: u32

definition ctl_Get_new :: "ctl_Get" where [msg_defs]:
  "ctl_Get_new = \<lparr>ctl_Get_key = None, ctl_Get_unknown_fields = [], ctl_Get_cached_size = 0\<rparr>"

definition ctl_Get_default_instance :: "ctl_Get" where [msg_defs]:
  "ctl_Get_default_instance = ctl_Get_new"

text \<open>Field \<open>key\<close> (required string, number 1).\<close>

definition ctl_Get_clear_key :: "ctl_Get \<Rightarrow> ctl_Get" where [msg_defs]:
  "ctl_Get_clear_key m = m\<lparr>ctl_Get_key := None\<rparr>"

definition ctl_Get_has_key :: "ctl_Get \<Rightarrow> bool" where [msg_defs]:
  "ctl_Get_has_key m = (ctl_Get_key m \<noteq> None)"

definition ctl_Get_set_key :: "ctl_Get \<Rightarrow> string \<Rightarrow> ctl_Get" where [msg_defs]:
  "ctl_Get_set_key m v = m\<lparr>ctl_Get_key := Some v\<rparr>"

definition ctl_Get_mut_key ::
    "ctl_Get \<Rightarrow> (string \<Rightarrow> string) \<Rightarrow> panic + ctl_Get" where [msg_defs]:
  "ctl_Get_mut_key m upd =
     (let m = (if ctl_Get_key m = None then m\<lparr>ctl_Get_key := Some ''''\<rparr> else m)
      in case ctl_Get_key m of
           Some v \<Rightarrow> Inr (m\<lparr>ctl_Get_key := Some (upd v)\<rparr>)
         | None \<Rightarrow> Inl (Panicked ''unwrap on None''))"

definition ctl_Get_take_key :: "ctl_Get \<Rightarrow> string \<times> ctl_Get" where [msg_defs]:
  "ctl_Get_take_key m =
     ((case ctl_Get_key m of Some v \<Rightarrow> v | None \<Rightarrow> ''''), m\<lparr>ctl_Get_key := None\<rparr>)"

definition ctl_Get_get_key :: "ctl_Get \<Rightarrow> string" where [msg_defs]:
  "ctl_Get_get_key m = (case ctl_Get_key m of Some v \<Rightarrow> v | None \<Rightarrow> '''')"

definition ctl_Get_clear :: "ctl_Get \<Rightarrow> ctl_Get" where [msg_defs]:
  "ctl_Get_clear m =
     (let m = ctl_Get_clear_key m
      in m\<lparr>ctl_Get_unknown_fields := []\<rparr>)"

subsection \<open>Commit\<close>

record ctl_Commit =
  ctl_Commit_config :: "ctl_CommitConfig option"
  ctl_Commit_unknown_fields :: UnknownFields
  ctl_Commit_cached_size :: u32

definition ctl_Commit_new :: "ctl_Commit" where [msg_defs]:
  "ctl_Commit_new = \<lparr>ctl_Commit_config = None, ctl_Commit_unknown_fields =
      [], ctl_Commit_cached_size = 0\<rparr>"

definition ctl_Commit_default_instance :: "ctl_Commit" where [msg_defs]:
  "ctl_Commit_default_instance = ctl_Commit_new"

text \<open>Field \<open>config\<close> (optional CommitConfig, number 1).\<close>

definition ctl_Commit_clear_config :: "ctl_Commit \<Rightarrow> ctl_Commit" where [msg_defs]:
  "ctl_Commit_clear_config m = m\<lparr>ctl_Commit_config := None\<rparr>"

definition ctl_Commit_has_config :: "ctl_Commit \<Rightarrow> bool" where [msg_defs]:
  "ctl_Commit_has_config m = (ctl_Commit_config m \<noteq> None)"

definition ctl_Commit_set_config :: "ctl_Commit \<Rightarrow> ctl_CommitConfig \<Rightarrow> ctl_Commit" where [msg_defs]:
  "ctl_Commit_set_config m v = m\<lparr>ctl_Commit_config := Some v\<rparr>"

definition ctl_Commit_get_config :: "ctl_Commit \<Rightarrow> ctl_CommitConfig" where [msg_defs]:
  "ctl_Commit_get_config m = (case ctl_Commit_config m of Some v \<Rightarrow> v | None \<Rightarrow> ctl_DEFAULT)"

definition ctl_Commit_clear :: "ctl_Commit \<Rightarrow> ctl_Commit" where [msg_defs]:
  "ctl_Commit_clear m =
     (let m = ctl_Commit_clear_config m
      in m\<lparr>ctl_Commit_unknown_fields := []\<rparr>)"

subsection \<open>Drop\<close>

record ctl_Drop =
  ctl_Drop_unknown_fields :: UnknownFields
  ctl_Drop_cached_size :: u32

definition ctl_Drop_new :: "ctl_Drop" where [msg_defs]:
  "ctl_Drop_new = \<lparr>ctl_Drop_unknown_fields = [], ctl_Drop_cached_size = 0\<rparr>"

definition ctl_Drop_default_instance :: "ctl_Drop" where [msg_defs]:
  "ctl_Drop_default_instance = ctl_Drop_new"

definition ctl_Drop_clear :: "ctl_Drop \<Rightarrow> ctl_Drop" where [msg_defs]:
  "ctl_Drop_clear m = m\<lparr>ctl_Drop_unknown_fields := []\<rparr>"

subsection \<open>FireHooks\<close>

record ctl_FireHooks =
  ctl_FireHooks_unknown_fields :: UnknownFields
  ctl_FireHooks_cached_size :: u32

definition ctl_FireHooks_new :: "ctl_FireHooks" where [msg_defs]:
  "ctl_FireHooks_new = \<lparr>ctl_FireHooks_unknown_fields = [], ctl_FireHooks_cached_size = 0\<rparr>"

definition ctl_FireHooks_default_instance :: "ctl_FireHooks" where [msg_defs]:
  "ctl_FireHooks_default_instance = ctl_FireHooks_new"

definition ctl_FireHooks_clear :: "ctl_FireHooks \<Rightarrow> ctl_FireHooks" where [msg_defs]:
  "ctl_FireHooks_clear m = m\<lparr>ctl_FireHooks_unknown_fields := []\<rparr>"

subsection \<open>Rollback\<close>

record ctl_Rollback =
  ctl_Rollback_id :: "u32 option"
  ctl_Rollback_unknown_fields :: UnknownFields
  ctl_Rollback_cached_size :: u32

definition ctl_Rollback_new :: "ctl_Rollback" where [msg_defs]:
  "ctl_Rollback_new = \<lparr>ctl_Rollback_id = None, ctl_Rollback_unknown_fields =
      [], ctl_Rollback_cached_size = 0\<rparr>"

definition ctl_Rollback_default_instance :: "ctl_Rollback" where [msg_defs]:
  "ctl_Rollback_default_instance = ctl_Rollback_new"

text \<open>Field \<open>id\<close> (required uint32, number 1).\<close>

definition ctl_Rollback_clear_id :: "ctl_Rollback \<Rightarrow> ctl_Rollback" where [msg_defs]:
  "ctl_Rollback_clear_id m = m\<lparr>ctl_Rollback_id := None\<rparr>"

definition ctl_Rollback_has_id :: "ctl_Rollback \<Rightarrow> bool" where [msg_defs]:
  "ctl_Rollback_has_id m = (ctl_Rollback_id m \<noteq> None)"

definition ctl_Rollback_set_id :: "ctl_Rollback \<Rightarrow> u32 \<Rightarrow> ctl_Rollback" where [msg_defs]:
  "ctl_Rollback_set_id m v = m\<lparr>ctl_Rollback_id := Some v\<rparr>"

definition ctl_Rollback_get_id :: "ctl_Rollback \<Rightarrow> u32" where [msg_defs]:
  "ctl_Rollback_get_id m = (case ctl_Rollback_id m of Some v \<Rightarrow> v | None \<Rightarrow> 0)"

definition ctl_Rollback_clear :: "ctl_Rollback \<Rightarrow> ctl_Rollback" where [msg_defs]:
  "ctl_Rollback_clear m =
     (let m = ctl_Rollback_clear_id m
      in m\<lparr>ctl_Rollback_unknown_fields := []\<rparr>)"

subsection \<open>EraseKey\<close>

record ctl_EraseKey =
  ctl_EraseKey_key :: "string option"
  ctl_EraseKey_unknown_fields :: UnknownFields
  ctl_EraseKey_cached_size :: u32

definition ctl_EraseKey_new :: "ctl_EraseKey" where [msg_defs]:
  "ctl_EraseKey_new = \<lparr>ctl_EraseKey_key = None, ctl_EraseKey_unknown_fields =
      [], ctl_EraseKey_cached_size = 0\<rparr>"

definition ctl_EraseKey_default_instance :: "ctl_EraseKey" where [msg_defs]:
  "ctl_EraseKey_default_instance = ctl_EraseKey_new"

text \<open>Field \<open>key\<close> (required string, number 1).\<close>

definition ctl_EraseKey_clear_key :: "ctl_EraseKey \<Rightarrow> ctl_EraseKey" where [msg_defs]:
  "ctl_EraseKey_clear_key m = m\<lparr>ctl_EraseKey_key := None\<rparr>"

definition ctl_EraseKey_has_key :: "ctl_EraseKey \<Rightarrow> bool" where [msg_defs]:
  "ctl_EraseKey_has_key m = (ctl_EraseKey_key m \<noteq> None)"

definition ctl_EraseKey_set_key :: "ctl_EraseKey \<Rightarrow> string \<Rightarrow> ctl_EraseKey" where [msg_defs]:
  "ctl_EraseKey_set_key m v = m\<lparr>ctl_EraseKey_key := Some v\<rparr>"

definition ctl_EraseKey_mut_key ::
    "ctl_EraseKey \<Rightarrow> (string \<Rightarrow> string) \<Rightarrow> panic + ctl_EraseKey" where [msg_defs]:
  "ctl_EraseKey_mut_key m upd =
     (let m = (if ctl_EraseKey_key m = None then m\<lparr>ctl_EraseKey_key := Some ''''\<rparr> else m)
      in case ctl_EraseKey_key m of
           Some v \<Rightarrow> Inr (m\<lparr>ctl_EraseKey_key := Some (upd v)\<rparr>)
         | None \<Rightarrow> Inl (Panicked ''unwrap on None''))"

definition ctl_EraseKey_take_key :: "ctl_EraseKey \<Rightarrow> string \<times> ctl_EraseKey" where [msg_defs]:
  "ctl_EraseKey_take_key m =
     ((case ctl_EraseKey_key m of Some v \<Rightarrow> v | None \<Rightarrow> ''''), m\<lparr>ctl_EraseKey_key := None\<rparr>)"

definition ctl_EraseKey_get_key :: "ctl_EraseKey \<Rightarrow> string" where [msg_defs]:
  "ctl_EraseKey_get_key m = (case ctl_EraseKey_key m of Some v \<Rightarrow> v | None \<Rightarrow> '''')"

definition ctl_EraseKey_clear :: "ctl_EraseKey \<Rightarrow> ctl_EraseKey" where [msg_defs]:
  "ctl_EraseKey_clear m =
     (let m = ctl_EraseKey_clear_key m
      in m\<lparr>ctl_EraseKey_unknown_fields := []\<rparr>)"

subsection \<open>Reset\<close>

record ctl_Reset =
  ctl_Reset_unknown_fields :: UnknownFields
  ctl_Reset_cached_size :: u32

definition ctl_Reset_new :: "ctl_Reset" where [msg_defs]:
  "ctl_Reset_new = \<lparr>ctl_Reset_unknown_fields = [], ctl_Reset_cached_size = 0\<rparr>"

definition ctl_Reset_default_instance :: "ctl_Reset" where [msg_defs]:
  "ctl_Reset_default_instance = ctl_Reset_new"

definition ctl_Reset_clear :: "ctl_Reset \<Rightarrow> ctl_Reset" where [msg_defs]:
  "ctl_Reset_clear m = m\<lparr>ctl_Reset_unknown_fields := []\<rparr>"

subsection \<open>DumpHooks\<close>

record ctl_DumpHooks =
  ctl_DumpHooks_unknown_fields :: UnknownFields
  ctl_DumpHooks_cached_size :: u32

definition ctl_DumpHooks_new :: "ctl_DumpHooks" where [msg_defs]:
  "ctl_DumpHooks_new = \<lparr>ctl_DumpHooks_unknown_fields = [], ctl_DumpHooks_cached_size = 0\<rparr>"

definition ctl_DumpHooks_default_instance :: "ctl_DumpHooks" where [msg_defs]:
  "ctl_DumpHooks_default_instance = ctl_DumpHooks_new"

definition ctl_DumpHooks_clear :: "ctl_DumpHooks \<Rightarrow> ctl_DumpHooks" where [msg_defs]:
  "ctl_DumpHooks_clear m = m\<lparr>ctl_DumpHooks_unknown_fields := []\<rparr>"

subsection \<open>TriggerHook\<close>

record ctl_TriggerHook =
  ctl_TriggerHook_hook :: "string option"
  ctl_TriggerHook_unknown_fields :: UnknownFields
  ctl_TriggerHook_cached_size :: u32

definition ctl_TriggerHook_new :: "ctl_TriggerHook" where [msg_defs]:
  "ctl_TriggerHook_new = \<lparr>ctl_TriggerHook_hook = None, ctl_TriggerHook_unknown_fields =
      [], ctl_TriggerHook_cached_size = 0\<rparr>"

definition ctl_TriggerHook_default_instance :: "ctl_TriggerHook" where [msg_defs]:
  "ctl_TriggerHook_default_instance = ctl_TriggerHook_new"

text \<open>Field \<open>hook\<close> (required string, number 1).\<close>

definition ctl_TriggerHook_clear_hook :: "ctl_TriggerHook \<Rightarrow> ctl_TriggerHook" where [msg_defs]:
  "ctl_TriggerHook_clear_hook m = m\<lparr>ctl_TriggerHook_hook := None\<rparr>"

definition ctl_TriggerHook_has_hook :: "ctl_TriggerHook \<Rightarrow> bool" where [msg_defs]:
  "ctl_TriggerHook_has_hook m = (ctl_TriggerHook_hook m \<noteq> None)"

definition ctl_TriggerHook_set_hook :: "ctl_TriggerHook \<Rightarrow> string \<Rightarrow> ctl_TriggerHook"
    where [msg_defs]:
  "ctl_TriggerHook_set_hook m v = m\<lparr>ctl_TriggerHook_hook := Some v\<rparr>"

definition ctl_TriggerHook_mut_hook ::
    "ctl_TriggerHook \<Rightarrow> (string \<Rightarrow> string) \<Rightarrow> panic + ctl_TriggerHook" where [msg_defs]:
  "ctl_TriggerHook_mut_hook m upd =
     (let m = (if ctl_TriggerHook_hook m = None then m\<lparr>ctl_TriggerHook_hook := Some ''''\<rparr> else m)
      in case ctl_TriggerHook_hook m of
           Some v \<Rightarrow> Inr (m\<lparr>ctl_TriggerHook_hook := Some (upd v)\<rparr>)
         | None \<Rightarrow> Inl (Panicked ''unwrap on None''))"

definition ctl_TriggerHook_take_hook :: "ctl_TriggerHook \<Rightarrow> string
    \<times> ctl_TriggerHook" where [msg_defs]:
  "ctl_TriggerHook_take_hook m =
     ((case ctl_TriggerHook_hook m of Some v \<Rightarrow> v | None \<Rightarrow> ''''), m\<lparr>ctl_TriggerHook_hook := None\<rparr>)"

definition ctl_TriggerHook_get_hook :: "ctl_TriggerHook \<Rightarrow> string" where [msg_defs]:
  "ctl_TriggerHook_get_hook m = (case ctl_TriggerHook_hook m of Some v \<Rightarrow> v | None \<Rightarrow> '''')"

definition ctl_TriggerHook_clear :: "ctl_TriggerHook \<Rightarrow> ctl_TriggerHook" where [msg_defs]:
  "ctl_TriggerHook_clear m =
     (let m = ctl_TriggerHook_clear_hook m
      in m\<lparr>ctl_TriggerHook_unknown_fields := []\<rparr>)"

subsection \<open>Blame\<close>

record ctl_Blame =
  ctl_Blame_key :: "string option"
  ctl_Blame_unknown_fields :: UnknownFields
  ctl_Blame_cached_size :: u32

definition ctl_Blame_new :: "ctl_Blame" where [msg_defs]:
  "ctl_Blame_new = \<lparr>ctl_Blame_key = None, ctl_Blame_unknown_fields = [], ctl_Blame_cached_size =
      0\<rparr>"

definition ctl_Blame_default_instance :: "ctl_Blame" where [msg_defs]:
  "ctl_Blame_default_instance = ctl_Blame_new"

text \<open>Field \<open>key\<close> (required string, number 1).\<close>

definition ctl_Blame_clear_key :: "ctl_Blame \<Rightarrow> ctl_Blame" where [msg_defs]:
  "ctl_Blame_clear_key m = m\<lparr>ctl_Blame_key := None\<rparr>"

definition ctl_Blame_has_key :: "ctl_Blame \<Rightarrow> bool" where [msg_defs]:
  "ctl_Blame_has_key m = (ctl_Blame_key m \<noteq> None)"

definition ctl_Blame_set_key :: "ctl_Blame \<Rightarrow> string \<Rightarrow> ctl_Blame" where [msg_defs]:
  "ctl_Blame_set_key m v = m\<lparr>ctl_Blame_key := Some v\<rparr>"

definition ctl_Blame_mut_key ::
    "ctl_Blame \<Rightarrow> (string \<Rightarrow> string) \<Rightarrow> panic + ctl_Blame" where [msg_defs]:
  "ctl_Blame_mut_key m upd =
     (let m = (if ctl_Blame_key m = None then m\<lparr>ctl_Blame_key := Some ''''\<rparr> else m)
      in case ctl_Blame_key m of
           Some v \<Rightarrow> Inr (m\<lparr>ctl_Blame_key := Some (upd v)\<rparr>)
         | None \<Rightarrow> Inl (Panicked ''unwrap on None''))"

definition ctl_Blame_take_key :: "ctl_Blame \<Rightarrow> string \<times> ctl_Blame" where [msg_defs]:
  "ctl_Blame_take_key m =
     ((case ctl_Blame_key m of Some v \<Rightarrow> v | None \<Rightarrow> ''''), m\<lparr>ctl_Blame_key := None\<rparr>)"

definition ctl_Blame_get_key :: "ctl_Blame \<Rightarrow> string" where [msg_defs]:
  "ctl_Blame_get_key m = (case ctl_Blame_key m of Some v \<Rightarrow> v | None \<Rightarrow> '''')"

definition ctl_Blame_clear :: "ctl_Blame \<Rightarrow> ctl_Blame" where [msg_defs]:
  "ctl_Blame_clear m =
     (let m = ctl_Blame_clear_key m
      in m\<lparr>ctl_Blame_unknown_fields := []\<rparr>)"

subsection \<open>InFlight\<close>

record ctl_InFlight =
  ctl_InFlight_unknown_fields :: UnknownFields
  ctl_InFlight_cached_size :: u32

definition ctl_InFlight_new :: "ctl_InFlight" where [msg_defs]:
  "ctl_InFlight_new = \<lparr>ctl_InFlight_unknown_fields = [], ctl_InFlight_cached_size = 0\<rparr>"

definition ctl_InFlight_default_instance :: "ctl_InFlight" where [msg_defs]:
  "ctl_InFlight_default_instance = ctl_InFlight_new"

definition ctl_InFlight_clear :: "ctl_InFlight \<Rightarrow> ctl_InFlight" where [msg_defs]:
  "ctl_InFlight_clear m = m\<lparr>ctl_InFlight_unknown_fields := []\<rparr>"

subsection \<open>Command\<close>

datatype Command_oneof_payload =
    Command_oneof_payload_set ctl_Set
  | Command_oneof_payload_get ctl_Get
  | Command_oneof_payload_commit ctl_Commit
  | Command_oneof_payload_drop ctl_Drop
  | Command_oneof_payload_firehooks ctl_FireHooks
  | Command_oneof_payload_erase ctl_EraseKey
  | Command_oneof_payload_rollback ctl_Rollback
  | Command_oneof_payload_reset ctl_Reset
  | Command_oneof_payload_dump ctl_DumpHooks
  | Command_oneof_payload_trigger ctl_TriggerHook
  | Command_oneof_payload_blame ctl_Blame
  | Command_oneof_payload_inflight ctl_InFlight

record ctl_Command =
  ctl_Command_id :: "u32 option"
  ctl_Command_xid :: "u32 option"
  ctl_Command_payload :: "Command_oneof_payload option"
  ctl_Command_unknown_fields :: UnknownFields
  ctl_Command_cached_size :: u32

definition ctl_Command_new :: "ctl_Command" where [msg_defs]:
  "ctl_Command_new = \<lparr>ctl_Command_id = None, ctl_Command_xid = None, ctl_Command_payload =
      None, ctl_Command_unknown_fields = [], ctl_Command_cached_size = 0\<rparr>"

definition ctl_Command_default_instance :: "ctl_Command" where [msg_defs]:
  "ctl_Command_default_instance = ctl_Command_new"

text \<open>Field \<open>id\<close> (required uint32, number 6).\<close>

definition ctl_Command_clear_id :: "ctl_Command \<Rightarrow> ctl_Command" where [msg_defs]:
  "ctl_Command_clear_id m = m\<lparr>ctl_Command_id := None\<rparr>"

definition ctl_Command_has_id :: "ctl_Command \<Rightarrow> bool" where [msg_defs]:
  "ctl_Command_has_id m = (ctl_Command_id m \<noteq> None)"

definition ctl_Command_set_id :: "ctl_Command \<Rightarrow> u32 \<Rightarrow> ctl_Command" where [msg_defs]:
  "ctl_Command_set_id m v = m\<lparr>ctl_Command_id := Some v\<rparr>"

definition ctl_Command_get_id :: "ctl_Command \<Rightarrow> u32" where [msg_defs]:
  "ctl_Command_get_id m = (case ctl_Command_id m of Some v \<Rightarrow> v | None \<Rightarrow> 0)"

text \<open>Field \<open>xid\<close> (optional uint32, number 10).\<close>

definition ctl_Command_clear_xid :: "ctl_Command \<Rightarrow> ctl_Command" where [msg_defs]:
  "ctl_Command_clear_xid m = m\<lparr>ctl_Command_xid := None\<rparr>"

definition ctl_Command_has_xid :: "ctl_Command \<Rightarrow> bool" where [msg_defs]:
  "ctl_Command_has_xid m = (ctl_Command_xid m \<noteq> None)"

definition ctl_Command_set_xid :: "ctl_Command \<Rightarrow> u32 \<Rightarrow> ctl_Command" where [msg_defs]:
  "ctl_Command_set_xid m v = m\<lparr>ctl_Command_xid := Some v\<rparr>"

definition ctl_Command_get_xid :: "ctl_Command \<Rightarrow> u32" where [msg_defs]:
  "ctl_Command_get_xid m = (case ctl_Command_xid m of Some v \<Rightarrow> v | None \<Rightarrow> 0)"

text \<open>Alternative \<open>set\<close> of \<open>payload\<close> (Set, number 1).\<close>

definition ctl_Command_clear_set :: "ctl_Command \<Rightarrow> ctl_Command" where [msg_defs]:
  "ctl_Command_clear_set m = m\<lparr>ctl_Command_payload := None\<rparr>"

definition ctl_Command_has_set :: "ctl_Command \<Rightarrow> bool" where [msg_defs]:
  "ctl_Command_has_set m =
      (case ctl_Command_payload m of Some (Command_oneof_payload_set v) \<Rightarrow> True | _ \<Rightarrow> False)"

definition ctl_Command_set_set :: "ctl_Command \<Rightarrow> ctl_Set \<Rightarrow> ctl_Command" where [msg_defs]:
  "ctl_Command_set_set m v = m\<lparr>ctl_Command_payload := Some (Command_oneof_payload_set v)\<rparr>"

definition ctl_Command_mut_set ::
    "ctl_Command \<Rightarrow> (ctl_Set \<Rightarrow> ctl_Set) \<Rightarrow> panic + ctl_Command" where [msg_defs]:
  "ctl_Command_mut_set m upd =
     (let m = (case ctl_Command_payload m of
                 Some (Command_oneof_payload_set _) \<Rightarrow> m
               | _ \<Rightarrow> m\<lparr>ctl_Command_payload := Some (Command_oneof_payload_set ctl_Set_new)\<rparr>)
      in case ctl_Command_payload m of
           Some (Command_oneof_payload_set v)
             \<Rightarrow> Inr (m\<lparr>ctl_Command_payload := Some (Command_oneof_payload_set (upd v))\<rparr>)
         | _ \<Rightarrow> Inl (Panicked ''explicit panic''))"

definition ctl_Command_take_set :: "ctl_Command \<Rightarrow> panic + ctl_Set \<times> ctl_Command" where [msg_defs]:
  "ctl_Command_take_set m =
     (if ctl_Command_has_set m then
        (case ctl_Command_payload m of
           Some (Command_oneof_payload_set v) \<Rightarrow> Inr (v, m\<lparr>ctl_Command_payload := None\<rparr>)
         | _ \<Rightarrow> Inl (Panicked ''explicit panic''))
      else Inr (ctl_Set_new, m))"

definition ctl_Command_get_set :: "ctl_Command \<Rightarrow> ctl_Set" where [msg_defs]:
  "ctl_Command_get_set m = (case ctl_Command_payload m of Some (Command_oneof_payload_set v) \<Rightarrow> v
      | _ \<Rightarrow> ctl_Set_default_instance)"

text \<open>Alternative \<open>get\<close> of \<open>payload\<close> (Get, number 2).\<close>

definition ctl_Command_clear_get :: "ctl_Command \<Rightarrow> ctl_Command" where [msg_defs]:
  "ctl_Command_clear_get m = m\<lparr>ctl_Command_payload := None\<rparr>"

definition ctl_Command_has_get :: "ctl_Command \<Rightarrow> bool" where [msg_defs]:
  "ctl_Command_has_get m =
      (case ctl_Command_payload m of Some (Command_oneof_payload_get v) \<Rightarrow> True | _ \<Rightarrow> False)"

definition ctl_Command_set_get :: "ctl_Command \<Rightarrow> ctl_Get \<Rightarrow> ctl_Command" where [msg_defs]:
  "ctl_Command_set_get m v = m\<lparr>ctl_Command_payload := Some (Command_oneof_payload_get v)\<rparr>"

definition ctl_Command_mut_get ::
    "ctl_Command \<Rightarrow> (ctl_Get \<Rightarrow> ctl_Get) \<Rightarrow> panic + ctl_Command" where [msg_defs]:
  "ctl_Command_mut_get m upd =
     (let m = (case ctl_Command_payload m of
                 Some (Command_oneof_payload_get _) \<Rightarrow> m
               | _ \<Rightarrow> m\<lparr>ctl_Command_payload := Some (Command_oneof_payload_get ctl_Get_new)\<rparr>)
      in case ctl_Command_payload m of
           Some (Command_oneof_payload_get v)
             \<Rightarrow> Inr (m\<lparr>ctl_Command_payload := Some (Command_oneof_payload_get (upd v))\<rparr>)
         | _ \<Rightarrow> Inl (Panicked ''explicit panic''))"

definition ctl_Command_take_get :: "ctl_Command \<Rightarrow> panic + ctl_Get \<times> ctl_Command" where [msg_defs]:
  "ctl_Command_take_get m =
     (if ctl_Command_has_get m then
        (case ctl_Command_payload m of
           Some (Command_oneof_payload_get v) \<Rightarrow> Inr (v, m\<lparr>ctl_Command_payload := None\<rparr>)
         | _ \<Rightarrow> Inl (Panicked ''explicit panic''))
      else Inr (ctl_Get_new, m))"

definition ctl_Command_get_get :: "ctl_Command \<Rightarrow> ctl_Get" where [msg_defs]:
  "ctl_Command_get_get m = (case ctl_Command_payload m of Some (Command_oneof_payload_get v) \<Rightarrow> v
      | _ \<Rightarrow> ctl_Get_default_instance)"

text \<open>Alternative \<open>commit\<close> of \<open>payload\<close> (Commit, number 3).\<close>

definition ctl_Command_clear_commit :: "ctl_Command \<Rightarrow> ctl_Command" where [msg_defs]:
  "ctl_Command_clear_commit m = m\<lparr>ctl_Command_payload := None\<rparr>"

definition ctl_Command_has_commit :: "ctl_Command \<Rightarrow> bool" where [msg_defs]:
  "ctl_Command_has_commit m =
      (case ctl_Command_payload m of Some (Command_oneof_payload_commit v) \<Rightarrow> True | _ \<Rightarrow> False)"

definition ctl_Command_set_commit :: "ctl_Command \<Rightarrow> ctl_Commit \<Rightarrow> ctl_Command" where [msg_defs]:
  "ctl_Command_set_commit m v = m\<lparr>ctl_Command_payload := Some (Command_oneof_payload_commit v)\<rparr>"

definition ctl_Command_mut_commit ::
    "ctl_Command \<Rightarrow> (ctl_Commit \<Rightarrow> ctl_Commit) \<Rightarrow> panic + ctl_Command" where [msg_defs]:
  "ctl_Command_mut_commit m upd =
     (let m = (case ctl_Command_payload m of
                 Some (Command_oneof_payload_commit _) \<Rightarrow> m
               | _ \<Rightarrow> m\<lparr>ctl_Command_payload := Some (Command_oneof_payload_commit ctl_Commit_new)\<rparr>)
      in case ctl_Command_payload m of
           Some (Command_oneof_payload_commit v)
             \<Rightarrow> Inr (m\<lparr>ctl_Command_payload := Some (Command_oneof_payload_commit (upd v))\<rparr>)
         | _ \<Rightarrow> Inl (Panicked ''explicit panic''))"

definition ctl_Command_take_commit :: "ctl_Command \<Rightarrow> panic + ctl_Commit
    \<times> ctl_Command" where [msg_defs]:
  "ctl_Command_take_commit m =
     (if ctl_Command_has_commit m then
        (case ctl_Command_payload m of
           Some (Command_oneof_payload_commit v) \<Rightarrow> Inr (v, m\<lparr>ctl_Command_payload := None\<rparr>)
         | _ \<Rightarrow> Inl (Panicked ''explicit panic''))
      else Inr (ctl_Commit_new, m))"

definition ctl_Command_get_commit :: "ctl_Command \<Rightarrow> ctl_Commit" where [msg_defs]:
  "ctl_Command_get_commit m =
      (case ctl_Command_payload m of Some (Command_oneof_payload_commit v) \<Rightarrow> v
        | _ \<Rightarrow> ctl_Commit_default_instance)"

text \<open>Alternative \<open>drop\<close> of \<open>payload\<close> (Drop, number 4).\<close>

definition ctl_Command_clear_drop :: "ctl_Command \<Rightarrow> ctl_Command" where [msg_defs]:
  "ctl_Command_clear_drop m = m\<lparr>ctl_Command_payload := None\<rparr>"

definition ctl_Command_has_drop :: "ctl_Command \<Rightarrow> bool" where [msg_defs]:
  "ctl_Command_has_drop m =
      (case ctl_Command_payload m of Some (Command_oneof_payload_drop v) \<Rightarrow> True | _ \<Rightarrow> False)"

definition ctl_Command_set_drop :: "ctl_Command \<Rightarrow> ctl_Drop \<Rightarrow> ctl_Command" where [msg_defs]:
  "ctl_Command_set_drop m v = m\<lparr>ctl_Command_payload := Some (Command_oneof_payload_drop v)\<rparr>"

definition ctl_Command_mut_drop ::
    "ctl_Command \<Rightarrow> (ctl_Drop \<Rightarrow> ctl_Drop) \<Rightarrow> panic + ctl_Command" where [msg_defs]:
  "ctl_Command_mut_drop m upd =
     (let m = (case ctl_Command_payload m of
                 Some (Command_oneof_payload_drop _) \<Rightarrow> m
               | _ \<Rightarrow> m\<lparr>ctl_Command_payload := Some (Command_oneof_payload_drop ctl_Drop_new)\<rparr>)
      in case ctl_Command_payload m of
           Some (Command_oneof_payload_drop v)
             \<Rightarrow> Inr (m\<lparr>ctl_Command_payload := Some (Command_oneof_payload_drop (upd v))\<rparr>)
         | _ \<Rightarrow> Inl (Panicked ''explicit panic''))"

definition ctl_Command_take_drop :: "ctl_Command \<Rightarrow> panic + ctl_Drop
    \<times> ctl_Command" where [msg_defs]:
  "ctl_Command_take_drop m =
     (if ctl_Command_has_drop m then
        (case ctl_Command_payload m of
           Some (Command_oneof_payload_drop v) \<Rightarrow> Inr (v, m\<lparr>ctl_Command_payload := None\<rparr>)
         | _ \<Rightarrow> Inl (Panicked ''explicit panic''))
      else Inr (ctl_Drop_new, m))"

definition ctl_Command_get_drop :: "ctl_Command \<Rightarrow> ctl_Drop" where [msg_defs]:
  "ctl_Command_get_drop m = (case ctl_Command_payload m of Some (Command_oneof_payload_drop v) \<Rightarrow> v
      | _ \<Rightarrow> ctl_Drop_default_instance)"

text \<open>Alternative \<open>firehooks\<close> of \<open>payload\<close> (FireHooks, number 7).\<close>

definition ctl_Command_clear_firehooks :: "ctl_Command \<Rightarrow> ctl_Command" where [msg_defs]:
  "ctl_Command_clear_firehooks m = m\<lparr>ctl_Command_payload := None\<rparr>"

definition ctl_Command_has_firehooks :: "ctl_Command \<Rightarrow> bool" where [msg_defs]:
  "ctl_Command_has_firehooks m =
      (case ctl_Command_payload m of Some (Command_oneof_payload_firehooks v) \<Rightarrow> True | _ \<Rightarrow> False)"

definition ctl_Command_set_firehooks :: "ctl_Command \<Rightarrow> ctl_FireHooks \<Rightarrow> ctl_Command"
    where [msg_defs]:
  "ctl_Command_set_firehooks m v =
      m\<lparr>ctl_Command_payload := Some (Command_oneof_payload_firehooks v)\<rparr>"

definition ctl_Command_mut_firehooks ::
    "ctl_Command \<Rightarrow> (ctl_FireHooks \<Rightarrow> ctl_FireHooks) \<Rightarrow> panic + ctl_Command" where [msg_defs]:
  "ctl_Command_mut_firehooks m upd =
     (let m = (case ctl_Command_payload m of
                 Some (Command_oneof_payload_firehooks _) \<Rightarrow> m
               | _ \<Rightarrow> m\<lparr>ctl_Command_payload := Some (Command_oneof_payload_firehooks ctl_FireHooks_new)\<rparr>)
      in case ctl_Command_payload m of
           Some (Command_oneof_payload_firehooks v)
             \<Rightarrow> Inr (m\<lparr>ctl_Command_payload := Some (Command_oneof_payload_firehooks (upd v))\<rparr>)
         | _ \<Rightarrow> Inl (Panicked ''explicit panic''))"

definition ctl_Command_take_firehooks :: "ctl_Command \<Rightarrow> panic + ctl_FireHooks
    \<times> ctl_Command" where [msg_defs]:
  "ctl_Command_take_firehooks m =
     (if ctl_Command_has_firehooks m then
        (case ctl_Command_payload m of
           Some (Command_oneof_payload_firehooks v) \<Rightarrow> Inr (v, m\<lparr>ctl_Command_payload := None\<rparr>)
         | _ \<Rightarrow> Inl (Panicked ''explicit panic''))
      else Inr (ctl_FireHooks_new, m))"

definition ctl_Command_get_firehooks :: "ctl_Command \<Rightarrow> ctl_FireHooks" where [msg_defs]:
  "ctl_Command_get_firehooks m =
      (case ctl_Command_payload m of Some (Command_oneof_payload_firehooks v) \<Rightarrow> v
        | _ \<Rightarrow> ctl_FireHooks_default_instance)"

text \<open>Alternative \<open>erase\<close> of \<open>payload\<close> (EraseKey, number 8).\<close>

definition ctl_Command_clear_erase :: "ctl_Command \<Rightarrow> ctl_Command" where [msg_defs]:
  "ctl_Command_clear_erase m = m\<lparr>ctl_Command_payload := None\<rparr>"

definition ctl_Command_has_erase :: "ctl_Command \<Rightarrow> bool" where [msg_defs]:
  "ctl_Command_has_erase m =
      (case ctl_Command_payload m of Some (Command_oneof_payload_erase v) \<Rightarrow> True | _ \<Rightarrow> False)"

definition ctl_Command_set_erase :: "ctl_Command \<Rightarrow> ctl_EraseKey \<Rightarrow> ctl_Command" where [msg_defs]:
  "ctl_Command_set_erase m v = m\<lparr>ctl_Command_payload := Some (Command_oneof_payload_erase v)\<rparr>"

definition ctl_Command_mut_erase ::
    "ctl_Command \<Rightarrow> (ctl_EraseKey \<Rightarrow> ctl_EraseKey) \<Rightarrow> panic + ctl_Command" where [msg_defs]:
  "ctl_Command_mut_erase m upd =
     (let m = (case ctl_Command_payload m of
                 Some (Command_oneof_payload_erase _) \<Rightarrow> m
               | _ \<Rightarrow> m\<lparr>ctl_Command_payload := Some (Command_oneof_payload_erase ctl_EraseKey_new)\<rparr>)
      in case ctl_Command_payload m of
           Some (Command_oneof_payload_erase v)
             \<Rightarrow> Inr (m\<lparr>ctl_Command_payload := Some (Command_oneof_payload_erase (upd v))\<rparr>)
         | _ \<Rightarrow> Inl (Panicked ''explicit panic''))"

definition ctl_Command_take_erase :: "ctl_Command \<Rightarrow> panic + ctl_EraseKey
    \<times> ctl_Command" where [msg_defs]:
  "ctl_Command_take_erase m =
     (if ctl_Command_has_erase m then
        (case ctl_Command_payload m of
           Some (Command_oneof_payload_erase v) \<Rightarrow> Inr (v, m\<lparr>ctl_Command_payload := None\<rparr>)
         | _ \<Rightarrow> Inl (Panicked ''explicit panic''))
      else Inr (ctl_EraseKey_new, m))"

definition ctl_Command_get_erase :: "ctl_Command \<Rightarrow> ctl_EraseKey" where [msg_defs]:
  "ctl_Command_get_erase m =
      (case ctl_Command_payload m of Some (Command_oneof_payload_erase v) \<Rightarrow> v
        | _ \<Rightarrow> ctl_EraseKey_default_instance)"

text \<open>Alternative \<open>rollback\<close> of \<open>payload\<close> (Rollback, number 11).\<close>

definition ctl_Command_clear_rollback :: "ctl_Command \<Rightarrow> ctl_Command" where [msg_defs]:
  "ctl_Command_clear_rollback m = m\<lparr>ctl_Command_payload := None\<rparr>"

definition ctl_Command_has_rollback :: "ctl_Command \<Rightarrow> bool" where [msg_defs]:
  "ctl_Command_has_rollback m =
      (case ctl_Command_payload m of Some (Command_oneof_payload_rollback v) \<Rightarrow> True | _ \<Rightarrow> False)"

definition ctl_Command_set_rollback :: "ctl_Command \<Rightarrow> ctl_Rollback \<Rightarrow> ctl_Command"
    where [msg_defs]:
  "ctl_Command_set_rollback m v =
      m\<lparr>ctl_Command_payload := Some (Command_oneof_payload_rollback v)\<rparr>"

definition ctl_Command_mut_rollback ::
    "ctl_Command \<Rightarrow> (ctl_Rollback \<Rightarrow> ctl_Rollback) \<Rightarrow> panic + ctl_Command" where [msg_defs]:
  "ctl_Command_mut_rollback m upd =
     (let m = (case ctl_Command_payload m of
                 Some (Command_oneof_payload_rollback _) \<Rightarrow> m
               | _ \<Rightarrow> m\<lparr>ctl_Command_payload := Some (Command_oneof_payload_rollback ctl_Rollback_new)\<rparr>)
      in case ctl_Command_payload m of
           Some (Command_oneof_payload_rollback v)
             \<Rightarrow> Inr (m\<lparr>ctl_Command_payload := Some (Command_oneof_payload_rollback (upd v))\<rparr>)
         | _ \<Rightarrow> Inl (Panicked ''explicit panic''))"

definition ctl_Command_take_rollback :: "ctl_Command \<Rightarrow> panic + ctl_Rollback
    \<times> ctl_Command" where [msg_defs]:
  "ctl_Command_take_rollback m =
     (if ctl_Command_has_rollback m then
        (case ctl_Command_payload m of
           Some (Command_oneof_payload_rollback v) \<Rightarrow> Inr (v, m\<lparr>ctl_Command_payload := None\<rparr>)
         | _ \<Rightarrow> Inl (Panicked ''explicit panic''))
      else Inr (ctl_Rollback_new, m))"

definition ctl_Command_get_rollback :: "ctl_Command \<Rightarrow> ctl_Rollback" where [msg_defs]:
  "ctl_Command_get_rollback m =
      (case ctl_Command_payload m of Some (Command_oneof_payload_rollback v) \<Rightarrow> v
        | _ \<Rightarrow> ctl_Rollback_default_instance)"

text \<open>Alternative \<open>reset\<close> of \<open>payload\<close> (Reset, number 12).\<close>

definition ctl_Command_clear_reset :: "ctl_Command \<Rightarrow> ctl_Command" where [msg_defs]:
  "ctl_Command_clear_reset m = m\<lparr>ctl_Command_payload := None\<rparr>"

definition ctl_Command_has_reset :: "ctl_Command \<Rightarrow> bool" where [msg_defs]:
  "ctl_Command_has_reset m =
      (case ctl_Command_payload m of Some (Command_oneof_payload_reset v) \<Rightarrow> True | _ \<Rightarrow> False)"

definition ctl_Command_set_reset :: "ctl_Command \<Rightarrow> ctl_Reset \<Rightarrow> ctl_Command" where [msg_defs]:
  "ctl_Command_set_reset m v = m\<lparr>ctl_Command_payload := Some (Command_oneof_payload_reset v)\<rparr>"

definition ctl_Command_mut_reset ::
    "ctl_Command \<Rightarrow> (ctl_Reset \<Rightarrow> ctl_Reset) \<Rightarrow> panic + ctl_Command" where [msg_defs]:
  "ctl_Command_mut_reset m upd =
     (let m = (case ctl_Command_payload m of
                 Some (Command_oneof_payload_reset _) \<Rightarrow> m
               | _ \<Rightarrow> m\<lparr>ctl_Command_payload := Some (Command_oneof_payload_reset ctl_Reset_new)\<rparr>)
      in case ctl_Command_payload m of
           Some (Command_oneof_payload_reset v)
             \<Rightarrow> Inr (m\<lparr>ctl_Command_payload := Some (Command_oneof_payload_reset (upd v))\<rparr>)
         | _ \<Rightarrow> Inl (Panicked ''explicit panic''))"

definition ctl_Command_take_reset :: "ctl_Command \<Rightarrow> panic + ctl_Reset
    \<times> ctl_Command" where [msg_defs]:
  "ctl_Command_take_reset m =
     (if ctl_Command_has_reset m then
        (case ctl_Command_payload m of
           Some (Command_oneof_payload_reset v) \<Rightarrow> Inr (v, m\<lparr>ctl_Command_payload := None\<rparr>)
         | _ \<Rightarrow> Inl (Panicked ''explicit panic''))
      else Inr (ctl_Reset_new, m))"

definition ctl_Command_get_reset :: "ctl_Command \<Rightarrow> ctl_Reset" where [msg_defs]:
  "ctl_Command_get_reset m =
      (case ctl_Command_payload m of Some (Command_oneof_payload_reset v) \<Rightarrow> v
        | _ \<Rightarrow> ctl_Reset_default_instance)"

text \<open>Alternative \<open>dump\<close> of \<open>payload\<close> (DumpHooks, number 13).\<close>

definition ctl_Command_clear_dump :: "ctl_Command \<Rightarrow> ctl_Command" where [msg_defs]:
  "ctl_Command_clear_dump m = m\<lparr>ctl_Command_payload := None\<rparr>"

definition ctl_Command_has_dump :: "ctl_Command \<Rightarrow> bool" where [msg_defs]:
  "ctl_Command_has_dump m =
      (case ctl_Command_payload m of Some (Command_oneof_payload_dump v) \<Rightarrow> True | _ \<Rightarrow> False)"

definition ctl_Command_set_dump :: "ctl_Command \<Rightarrow> ctl_DumpHooks \<Rightarrow> ctl_Command" where [msg_defs]:
  "ctl_Command_set_dump m v = m\<lparr>ctl_Command_payload := Some (Command_oneof_payload_dump v)\<rparr>"

definition ctl_Command_mut_dump ::
    "ctl_Command \<Rightarrow> (ctl_DumpHooks \<Rightarrow> ctl_DumpHooks) \<Rightarrow> panic + ctl_Command" where [msg_defs]:
  "ctl_Command_mut_dump m upd =
     (let m = (case ctl_Command_payload m of
                 Some (Command_oneof_payload_dump _) \<Rightarrow> m
               | _ \<Rightarrow> m\<lparr>ctl_Command_payload := Some (Command_oneof_payload_dump ctl_DumpHooks_new)\<rparr>)
      in case ctl_Command_payload m of
           Some (Command_oneof_payload_dump v)
             \<Rightarrow> Inr (m\<lparr>ctl_Command_payload := Some (Command_oneof_payload_dump (upd v))\<rparr>)
         | _ \<Rightarrow> Inl (Panicked ''explicit panic''))"

definition ctl_Command_take_dump :: "ctl_Command \<Rightarrow> panic + ctl_DumpHooks
    \<times> ctl_Command" where [msg_defs]:
  "ctl_Command_take_dump m =
     (if ctl_Command_has_dump m then
        (case ctl_Command_payload m of
           Some (Command_oneof_payload_dump v) \<Rightarrow> Inr (v, m\<lparr>ctl_Command_payload := None\<rparr>)
         | _ \<Rightarrow> Inl (Panicked ''explicit panic''))
      else Inr (ctl_DumpHooks_new, m))"

definition ctl_Command_get_dump :: "ctl_Command \<Rightarrow> ctl_DumpHooks" where [msg_defs]:
  "ctl_Command_get_dump m = (case ctl_Command_payload m of Some (Command_oneof_payload_dump v) \<Rightarrow> v
      | _ \<Rightarrow> ctl_DumpHooks_default_instance)"

text \<open>Alternative \<open>trigger\<close> of \<open>payload\<close> (TriggerHook, number 14).\<close>

definition ctl_Command_clear_trigger :: "ctl_Command \<Rightarrow> ctl_Command" where [msg_defs]:
  "ctl_Command_clear_trigger m = m\<lparr>ctl_Command_payload := None\<rparr>"

definition ctl_Command_has_trigger :: "ctl_Command \<Rightarrow> bool" where [msg_defs]:
  "ctl_Command_has_trigger m =
      (case ctl_Command_payload m of Some (Command_oneof_payload_trigger v) \<Rightarrow> True | _ \<Rightarrow> False)"

definition ctl_Command_set_trigger :: "ctl_Command \<Rightarrow> ctl_TriggerHook \<Rightarrow> ctl_Command"
    where [msg_defs]:
  "ctl_Command_set_trigger m v = m\<lparr>ctl_Command_payload := Some (Command_oneof_payload_trigger v)\<rparr>"

definition ctl_Command_mut_trigger ::
    "ctl_Command \<Rightarrow> (ctl_TriggerHook \<Rightarrow> ctl_TriggerHook) \<Rightarrow> panic + ctl_Command" where [msg_defs]:
  "ctl_Command_mut_trigger m upd =
     (let m = (case ctl_Command_payload m of
                 Some (Command_oneof_payload_trigger _) \<Rightarrow> m
               | _ \<Rightarrow> m\<lparr>ctl_Command_payload := Some (Command_oneof_payload_trigger ctl_TriggerHook_new)\<rparr>)
      in case ctl_Command_payload m of
           Some (Command_oneof_payload_trigger v)
             \<Rightarrow> Inr (m\<lparr>ctl_Command_payload := Some (Command_oneof_payload_trigger (upd v))\<rparr>)
         | _ \<Rightarrow> Inl (Panicked ''explicit panic''))"

definition ctl_Command_take_trigger :: "ctl_Command \<Rightarrow> panic + ctl_TriggerHook
    \<times> ctl_Command" where [msg_defs]:
  "ctl_Command_take_trigger m =
     (if ctl_Command_has_trigger m then
        (case ctl_Command_payload m of
           Some (Command_oneof_payload_trigger v) \<Rightarrow> Inr (v, m\<lparr>ctl_Command_payload := None\<rparr>)
         | _ \<Rightarrow> Inl (Panicked ''explicit panic''))
      else Inr (ctl_TriggerHook_new, m))"

definition ctl_Command_get_trigger :: "ctl_Command \<Rightarrow> ctl_TriggerHook" where [msg_defs]:
  "ctl_Command_get_trigger m =
      (case ctl_Command_payload m of Some (Command_oneof_payload_trigger v) \<Rightarrow> v
        | _ \<Rightarrow> ctl_TriggerHook_default_instance)"

text \<open>Alternative \<open>blame\<close> of \<open>payload\<close> (Blame, number 15).\<close>

definition ctl_Command_clear_blame :: "ctl_Command \<Rightarrow> ctl_Command" where [msg_defs]:
  "ctl_Command_clear_blame m = m\<lparr>ctl_Command_payload := None\<rparr>"

definition ctl_Command_has_blame :: "ctl_Command \<Rightarrow> bool" where [msg_defs]:
  "ctl_Command_has_blame m =
      (case ctl_Command_payload m of Some (Command_oneof_payload_blame v) \<Rightarrow> True | _ \<Rightarrow> False)"

definition ctl_Command_set_blame :: "ctl_Command \<Rightarrow> ctl_Blame \<Rightarrow> ctl_Command" where [msg_defs]:
  "ctl_Command_set_blame m v = m\<lparr>ctl_Command_payload := Some (Command_oneof_payload_blame v)\<rparr>"

definition ctl_Command_mut_blame ::
    "ctl_Command \<Rightarrow> (ctl_Blame \<Rightarrow> ctl_Blame) \<Rightarrow> panic + ctl_Command" where [msg_defs]:
  "ctl_Command_mut_blame m upd =
     (let m = (case ctl_Command_payload m of
                 Some (Command_oneof_payload_blame _) \<Rightarrow> m
               | _ \<Rightarrow> m\<lparr>ctl_Command_payload := Some (Command_oneof_payload_blame ctl_Blame_new)\<rparr>)
      in case ctl_Command_payload m of
           Some (Command_oneof_payload_blame v)
             \<Rightarrow> Inr (m\<lparr>ctl_Command_payload := Some (Command_oneof_payload_blame (upd v))\<rparr>)
         | _ \<Rightarrow> Inl (Panicked ''explicit panic''))"

definition ctl_Command_take_blame :: "ctl_Command \<Rightarrow> panic + ctl_Blame
    \<times> ctl_Command" where [msg_defs]:
  "ctl_Command_take_blame m =
     (if ctl_Command_has_blame m then
        (case ctl_Command_payload m of
           Some (Command_oneof_payload_blame v) \<Rightarrow> Inr (v, m\<lparr>ctl_Command_payload := None\<rparr>)
         | _ \<Rightarrow> Inl (Panicked ''explicit panic''))
      else Inr (ctl_Blame_new, m))"

definition ctl_Command_get_blame :: "ctl_Command \<Rightarrow> ctl_Blame" where [msg_defs]:
  "ctl_Command_get_blame m =
      (case ctl_Command_payload m of Some (Command_oneof_payload_blame v) \<Rightarrow> v
        | _ \<Rightarrow> ctl_Blame_default_instance)"

text \<open>Alternative \<open>inflight\<close> of \<open>payload\<close> (InFlight, number 16).\<close>

definition ctl_Command_clear_inflight :: "ctl_Command \<Rightarrow> ctl_Command" where [msg_defs]:
  "ctl_Command_clear_inflight m = m\<lparr>ctl_Command_payload := None\<rparr>"

definition ctl_Command_has_inflight :: "ctl_Command \<Rightarrow> bool" where [msg_defs]:
  "ctl_Command_has_inflight m =
      (case ctl_Command_payload m of Some (Command_oneof_payload_inflight v) \<Rightarrow> True | _ \<Rightarrow> False)"

definition ctl_Command_set_inflight :: "ctl_Command \<Rightarrow> ctl_InFlight \<Rightarrow> ctl_Command"
    where [msg_defs]:
  "ctl_Command_set_inflight m v =
      m\<lparr>ctl_Command_payload := Some (Command_oneof_payload_inflight v)\<rparr>"

definition ctl_Command_mut_inflight ::
    "ctl_Command \<Rightarrow> (ctl_InFlight \<Rightarrow> ctl_InFlight) \<Rightarrow> panic + ctl_Command" where [msg_defs]:
  "ctl_Command_mut_inflight m upd =
     (let m = (case ctl_Command_payload m of
                 Some (Command_oneof_payload_inflight _) \<Rightarrow> m
               | _ \<Rightarrow> m\<lparr>ctl_Command_payload := Some (Command_oneof_payload_inflight ctl_InFlight_new)\<rparr>)
      in case ctl_Command_payload m of
           Some (Command_oneof_payload_inflight v)
             \<Rightarrow> Inr (m\<lparr>ctl_Command_payload := Some (Command_oneof_payload_inflight (upd v))\<rparr>)
         | _ \<Rightarrow> Inl (Panicked ''explicit panic''))"

definition ctl_Command_take_inflight :: "ctl_Command \<Rightarrow> panic + ctl_InFlight
    \<times> ctl_Command" where [msg_defs]:
  "ctl_Command_take_inflight m =
     (if ctl_Command_has_inflight m then
        (case ctl_Command_payload m of
           Some (Command_oneof_payload_inflight v) \<Rightarrow> Inr (v, m\<lparr>ctl_Command_payload := None\<rparr>)
         | _ \<Rightarrow> Inl (Panicked ''explicit panic''))
      else Inr (ctl_InFlight_new, m))"

definition ctl_Command_get_inflight :: "ctl_Command \<Rightarrow> ctl_InFlight" where [msg_defs]:
  "ctl_Command_get_inflight m =
      (case ctl_Command_payload m of Some (Command_oneof_payload_inflight v) \<Rightarrow> v
        | _ \<Rightarrow> ctl_InFlight_default_instance)"

definition ctl_Command_clear :: "ctl_Command \<Rightarrow> ctl_Command" where [msg_defs]:
  "ctl_Command_clear m =
     (let m = ctl_Command_clear_set m;
      m = ctl_Command_clear_get m;
      m = ctl_Command_clear_commit m;
      m = ctl_Command_clear_drop m;
      m = ctl_Command_clear_firehooks m;
      m = ctl_Command_clear_erase m;
      m = ctl_Command_clear_rollback m;
      m = ctl_Command_clear_reset m;
      m = ctl_Command_clear_dump m;
      m = ctl_Command_clear_trigger m;
      m = ctl_Command_clear_blame m;
      m = ctl_Command_clear_inflight m;
      m = ctl_Command_clear_id m;
      m = ctl_Command_clear_xid m
      in m\<lparr>ctl_Command_unknown_fields := []\<rparr>)"

end
