(* ===== verification/Ctl_Responses.thy ===== *)
theory Ctl_Responses
  imports Ctl_Values
begin

text \<open>
  The response messages of \<open>clients/rust/src/sysadminctl.rs\<close>, from \<open>MappedField\<close> to
  \<open>InFlightResponse\<close>, and the \<open>Response\<close> that carries one of them with the \<open>id\<close> and the
  \<open>status\<close>: data and accessors, in the conventions of theory Ctl_Values.
\<close>

subsection \<open>MappedField\<close>

record ctl_MappedField =
  ctl_MappedField_key :: "string option"
  ctl_MappedField_value :: "ctl_ConfigValue option"
  ctl_MappedField_unknown_fields :: UnknownFields
  ctl_MappedField_cached_size :: u32

definition ctl_MappedField_new :: "ctl_MappedField" where [msg_defs]:
  "ctl_MappedField_new = \<lparr>ctl_MappedField_key = None, ctl_MappedField_value =
      None, ctl_MappedField_unknown_fields = [], ctl_MappedField_cached_size = 0\<rparr>"

definition ctl_MappedField_default_instance :: "ctl_MappedField" where [msg_defs]:
  "ctl_MappedField_default_instance = ctl_MappedField_new"

text \<open>Field \<open>key\<close> (required string, number 1).\<close>

definition ctl_MappedField_clear_key :: "ctl_MappedField \<Rightarrow> ctl_MappedField" where [msg_defs]:
  "ctl_MappedField_clear_key m = m\<lparr>ctl_MappedField_key := None\<rparr>"

definition ctl_MappedField_has_key :: "ctl_MappedField \<Rightarrow> bool" where [msg_defs]:
  "ctl_MappedField_has_key m = (ctl_MappedField_key m \<noteq> None)"

definition ctl_MappedField_set_key :: "ctl_MappedField \<Rightarrow> string \<Rightarrow> ctl_MappedField"
    where [msg_defs]:
  "ctl_MappedField_set_key m v = m\<lparr>ctl_MappedField_key := Some v\<rparr>"

definition ctl_MappedField_mut_key ::
    "ctl_MappedField \<Rightarrow> (string \<Rightarrow> string) \<Rightarrow> panic + ctl_MappedField" where [msg_defs]:
  "ctl_MappedField_mut_key m upd =
     (let m = (if ctl_MappedField_key m = None then m\<lparr>ctl_MappedField_key := Some ''''\<rparr> else m)
      in case ctl_MappedField_key m of
           Some v \<Rightarrow> Inr (m\<lparr>ctl_MappedField_key := Some (upd v)\<rparr>)
         | None \<Rightarrow> Inl (Panicked ''unwrap on None''))"

definition ctl_MappedField_take_key :: "ctl_MappedField \<Rightarrow> string
    \<times> ctl_MappedField" where [msg_defs]:
  "ctl_MappedField_take_key m =
     ((case ctl_MappedField_key m of Some v \<Rightarrow> v | None \<Rightarrow> ''''), m\<lparr>ctl_MappedField_key := None\<rparr>)"

definition ctl_MappedField_get_key :: "ctl_MappedField \<Rightarrow> string" where [msg_defs]:
  "ctl_MappedField_get_key m = (case ctl_MappedField_key m of Some v \<Rightarrow> v | None \<Rightarrow> '''')"

text \<open>Field \<open>value\<close> (optional ConfigValue, number 2).\<close>

definition ctl_MappedField_clear_value :: "ctl_MappedField \<Rightarrow> ctl_MappedField" where [msg_defs]:
  "ctl_MappedField_clear_value m = m\<lparr>ctl_MappedField_value := None\<rparr>"

definition ctl_MappedField_has_value :: "ctl_MappedField \<Rightarrow> bool" where [msg_defs]:
  "ctl_MappedField_has_value m = (ctl_MappedField_value m \<noteq> None)"

definition ctl_MappedField_set_value :: "ctl_MappedField \<Rightarrow> ctl_ConfigValue \<Rightarrow> ctl_MappedField"
    where [msg_defs]:
  "ctl_MappedField_set_value m v = m\<lparr>ctl_MappedField_value := Some v\<rparr>"

definition ctl_MappedField_mut_value ::
    "ctl_MappedField \<Rightarrow> (ctl_ConfigValue \<Rightarrow> ctl_ConfigValue) \<Rightarrow> panic + ctl_MappedField"
        where [msg_defs]:
  "ctl_MappedField_mut_value m upd =
     (let m = (if ctl_MappedField_value m =
       None then m\<lparr>ctl_MappedField_value := Some ctl_ConfigValue_new\<rparr> else m)
      in case ctl_MappedField_value m of
           Some v \<Rightarrow> Inr (m\<lparr>ctl_MappedField_value := Some (upd v)\<rparr>)
         | None \<Rightarrow> Inl (Panicked ''unwrap on None''))"

definition ctl_MappedField_take_value :: "ctl_MappedField \<Rightarrow> ctl_ConfigValue
    \<times> ctl_MappedField" where [msg_defs]:
  "ctl_MappedField_take_value m =
     ((case ctl_MappedField_value m of Some v \<Rightarrow> v
       | None \<Rightarrow> ctl_ConfigValue_new), m\<lparr>ctl_MappedField_value := None\<rparr>)"

definition ctl_MappedField_get_value :: "ctl_MappedField \<Rightarrow> ctl_ConfigValue" where [msg_defs]:
  "ctl_MappedField_get_value m = (case ctl_MappedField_value m of Some v \<Rightarrow> v
      | None \<Rightarrow> ctl_ConfigValue_default_instance)"

definition ctl_MappedField_clear :: "ctl_MappedField \<Rightarrow> ctl_MappedField" where [msg_defs]:
  "ctl_MappedField_clear m =
     (let m = ctl_MappedField_clear_key m;
      m = ctl_MappedField_clear_value m
      in m\<lparr>ctl_MappedField_unknown_fields := []\<rparr>)"

subsection \<open>GetResponse\<close>

record ctl_GetResponse =
  ctl_GetResponse_kvs :: "ctl_MappedField list"
  ctl_GetResponse_unknown_fields :: UnknownFields
  ctl_GetResponse_cached_size :: u32

definition ctl_GetResponse_new :: "ctl_GetResponse" where [msg_defs]:
  "ctl_GetResponse_new = \<lparr>ctl_GetResponse_kvs = [], ctl_GetResponse_unknown_fields =
      [], ctl_GetResponse_cached_size = 0\<rparr>"

definition ctl_GetResponse_default_instance :: "ctl_GetResponse" where [msg_defs]:
  "ctl_GetResponse_default_instance = ctl_GetResponse_new"

text \<open>Field \<open>kvs\<close> (repeated MappedField, number 1).\<close>

definition ctl_GetResponse_clear_kvs :: "ctl_GetResponse \<Rightarrow> ctl_GetResponse" where [msg_defs]:
  "ctl_GetResponse_clear_kvs m = m\<lparr>ctl_GetResponse_kvs := []\<rparr>"

definition ctl_GetResponse_set_kvs :: "ctl_GetResponse \<Rightarrow> ctl_MappedField list \<Rightarrow> ctl_GetResponse"
    where [msg_defs]:
  "ctl_GetResponse_set_kvs m v = m\<lparr>ctl_GetResponse_kvs := v\<rparr>"

definition ctl_GetResponse_mut_kvs :: "ctl_GetResponse \<Rightarrow> (ctl_MappedField list
    \<Rightarrow> ctl_MappedField list) \<Rightarrow> ctl_GetResponse" where [msg_defs]:
  "ctl_GetResponse_mut_kvs m upd = m\<lparr>ctl_GetResponse_kvs := upd (ctl_GetResponse_kvs m)\<rparr>"

definition ctl_GetResponse_take_kvs :: "ctl_GetResponse \<Rightarrow> ctl_MappedField list
    \<times> ctl_GetResponse" where [msg_defs]:
  "ctl_GetResponse_take_kvs m = (ctl_GetResponse_kvs m, m\<lparr>ctl_GetResponse_kvs := []\<rparr>)"

definition ctl_GetResponse_get_kvs :: "ctl_GetResponse \<Rightarrow> ctl_MappedField list" where [msg_defs]:
  "ctl_GetResponse_get_kvs m = ctl_GetResponse_kvs m"

definition ctl_GetResponse_clear :: "ctl_GetResponse \<Rightarrow> ctl_GetResponse" where [msg_defs]:
  "ctl_GetResponse_clear m =
     (let m = ctl_GetResponse_clear_kvs m
      in m\<lparr>ctl_GetResponse_unknown_fields := []\<rparr>)"

subsection \<open>CommitResponse\<close>

record ctl_CommitResponse =
  ctl_CommitResponse_commit_id :: "u32 option"
  ctl_CommitResponse_unknown_fields :: UnknownFields
  ctl_CommitResponse_cached_size :: u32

definition ctl_CommitResponse_new :: "ctl_CommitResponse" where [msg_defs]:
  "ctl_CommitResponse_new = \<lparr>ctl_CommitResponse_commit_id =
      None, ctl_CommitResponse_unknown_fields = [], ctl_CommitResponse_cached_size = 0\<rparr>"

definition ctl_CommitResponse_default_instance :: "ctl_CommitResponse" where [msg_defs]:
  "ctl_CommitResponse_default_instance = ctl_CommitResponse_new"

text \<open>Field \<open>commit_id\<close> (required uint32, number 1).\<close>

definition ctl_CommitResponse_clear_commit_id :: "ctl_CommitResponse \<Rightarrow> ctl_CommitResponse"
    where [msg_defs]:
  "ctl_CommitResponse_clear_commit_id m = m\<lparr>ctl_CommitResponse_commit_id := None\<rparr>"

definition ctl_CommitResponse_has_commit_id :: "ctl_CommitResponse \<Rightarrow> bool" where [msg_defs]:
  "ctl_CommitResponse_has_commit_id m = (ctl_CommitResponse_commit_id m \<noteq> None)"

definition ctl_CommitResponse_set_commit_id :: "ctl_CommitResponse \<Rightarrow> u32 \<Rightarrow> ctl_CommitResponse"
    where [msg_defs]:
  "ctl_CommitResponse_set_commit_id m v = m\<lparr>ctl_CommitResponse_commit_id := Some v\<rparr>"

definition ctl_CommitResponse_get_commit_id :: "ctl_CommitResponse \<Rightarrow> u32" where [msg_defs]:
  "ctl_CommitResponse_get_commit_id m = (case ctl_CommitResponse_commit_id m of Some v \<Rightarrow> v
      | None \<Rightarrow> 0)"

definition ctl_CommitResponse_clear :: "ctl_CommitResponse \<Rightarrow> ctl_CommitResponse" where [msg_defs]:
  "ctl_CommitResponse_clear m =
     (let m = ctl_CommitResponse_clear_commit_id m
      in m\<lparr>ctl_CommitResponse_unknown_fields := []\<rparr>)"

subsection \<open>ResetResponse\<close>

record ctl_ResetResponse =
  ctl_ResetResponse_commit_id :: "u32 option"
  ctl_ResetResponse_unknown_fields :: UnknownFields
  ctl_ResetResponse_cached_size :: u32

definition ctl_ResetResponse_new :: "ctl_ResetResponse" where [msg_defs]:
  "ctl_ResetResponse_new = \<lparr>ctl_ResetResponse_commit_id = None, ctl_ResetResponse_unknown_fields =
      [], ctl_ResetResponse_cached_size = 0\<rparr>"

definition ctl_ResetResponse_default_instance :: "ctl_ResetResponse" where [msg_defs]:
  "ctl_ResetResponse_default_instance = ctl_ResetResponse_new"

text \<open>Field \<open>commit_id\<close> (optional uint32, number 1).\<close>

definition ctl_ResetResponse_clear_commit_id :: "ctl_ResetResponse \<Rightarrow> ctl_ResetResponse"
    where [msg_defs]:
  "ctl_ResetResponse_clear_commit_id m = m\<lparr>ctl_ResetResponse_commit_id := None\<rparr>"

definition ctl_ResetResponse_has_commit_id :: "ctl_ResetResponse \<Rightarrow> bool" where [msg_defs]:
  "ctl_ResetResponse_has_commit_id m = (ctl_ResetResponse_commit_id m \<noteq> None)"

definition ctl_ResetResponse_set_commit_id :: "ctl_ResetResponse \<Rightarrow> u32 \<Rightarrow> ctl_ResetResponse"
    where [msg_defs]:
  "ctl_ResetResponse_set_commit_id m v = m\<lparr>ctl_ResetResponse_commit_id := Some v\<rparr>"

definition ctl_ResetResponse_get_commit_id :: "ctl_ResetResponse \<Rightarrow> u32" where [msg_defs]:
  "ctl_ResetResponse_get_commit_id m = (case ctl_ResetResponse_commit_id m of Some v \<Rightarrow> v
      | None \<Rightarrow> 0)"

definition ctl_ResetResponse_clear :: "ctl_ResetResponse \<Rightarrow> ctl_ResetResponse" where [msg_defs]:
  "ctl_ResetResponse_clear m =
     (let m = ctl_ResetResponse_clear_commit_id m
      in m\<lparr>ctl_ResetResponse_unknown_fields := []\<rparr>)"

subsection \<open>DumpResponse\<close>

record ctl_DumpResponse =
  ctl_DumpResponse_templatehooks :: "string list"
  ctl_DumpResponse_servicehooks :: "string list"
  ctl_DumpResponse_unknown_fields :: UnknownFields
  ctl_DumpResponse_cached_size :: u32

definition ctl_DumpResponse_new :: "ctl_DumpResponse" where [msg_defs]:
  "ctl_DumpResponse_new = \<lparr>ctl_DumpResponse_templatehooks = [], ctl_DumpResponse_servicehooks =
      [], ctl_DumpResponse_unknown_fields = [], ctl_DumpResponse_cached_size = 0\<rparr>"

definition ctl_DumpResponse_default_instance :: "ctl_DumpResponse" where [msg_defs]:
  "ctl_DumpResponse_default_instance = ctl_DumpResponse_new"

text \<open>Field \<open>templatehooks\<close> (repeated string, number 1).\<close>

definition ctl_DumpResponse_clear_templatehooks :: "ctl_DumpResponse \<Rightarrow> ctl_DumpResponse"
    where [msg_defs]:
  "ctl_DumpResponse_clear_templatehooks m = m\<lparr>ctl_DumpResponse_templatehooks := []\<rparr>"

definition ctl_DumpResponse_set_templatehooks :: "ctl_DumpResponse \<Rightarrow> string list
    \<Rightarrow> ctl_DumpResponse" where [msg_defs]:
  "ctl_DumpResponse_set_templatehooks m v = m\<lparr>ctl_DumpResponse_templatehooks := v\<rparr>"

definition ctl_DumpResponse_mut_templatehooks :: "ctl_DumpResponse \<Rightarrow> (string list \<Rightarrow> string list)
    \<Rightarrow> ctl_DumpResponse" where [msg_defs]:
  "ctl_DumpResponse_mut_templatehooks m upd =
      m\<lparr>ctl_DumpResponse_templatehooks := upd (ctl_DumpResponse_templatehooks m)\<rparr>"

definition ctl_DumpResponse_take_templatehooks :: "ctl_DumpResponse \<Rightarrow> string list
    \<times> ctl_DumpResponse" where [msg_defs]:
  "ctl_DumpResponse_take_templatehooks m =
      (ctl_DumpResponse_templatehooks m, m\<lparr>ctl_DumpResponse_templatehooks := []\<rparr>)"

definition ctl_DumpResponse_get_templatehooks :: "ctl_DumpResponse \<Rightarrow> string list"
    where [msg_defs]:
  "ctl_DumpResponse_get_templatehooks m = ctl_DumpResponse_templatehooks m"

text \<open>Field \<open>servicehooks\<close> (repeated string, number 2).\<close>

definition ctl_DumpResponse_clear_servicehooks :: "ctl_DumpResponse \<Rightarrow> ctl_DumpResponse"
    where [msg_defs]:
  "ctl_DumpResponse_clear_servicehooks m = m\<lparr>ctl_DumpResponse_servicehooks := []\<rparr>"

definition ctl_DumpResponse_set_servicehooks :: "ctl_DumpResponse \<Rightarrow> string list
    \<Rightarrow> ctl_DumpResponse" where [msg_defs]:
  "ctl_DumpResponse_set_servicehooks m v = m\<lparr>ctl_DumpResponse_servicehooks := v\<rparr>"

definition ctl_DumpResponse_mut_servicehooks :: "ctl_DumpResponse \<Rightarrow> (string list \<Rightarrow> string list)
    \<Rightarrow> ctl_DumpResponse" where [msg_defs]:
  "ctl_DumpResponse_mut_servicehooks m upd =
      m\<lparr>ctl_DumpResponse_servicehooks := upd (ctl_DumpResponse_servicehooks m)\<rparr>"

definition ctl_DumpResponse_take_servicehooks :: "ctl_DumpResponse \<Rightarrow> string list
    \<times> ctl_DumpResponse" where [msg_defs]:
  "ctl_DumpResponse_take_servicehooks m =
      (ctl_DumpResponse_servicehooks m, m\<lparr>ctl_DumpResponse_servicehooks := []\<rparr>)"

definition ctl_DumpResponse_get_servicehooks :: "ctl_DumpResponse \<Rightarrow> string list" where [msg_defs]:
  "ctl_DumpResponse_get_servicehooks m = ctl_DumpResponse_servicehooks m"

definition ctl_DumpResponse_clear :: "ctl_DumpResponse \<Rightarrow> ctl_DumpResponse" where [msg_defs]:
  "ctl_DumpResponse_clear m =
     (let m = ctl_DumpResponse_clear_templatehooks m;
      m = ctl_DumpResponse_clear_servicehooks m
      in m\<lparr>ctl_DumpResponse_unknown_fields := []\<rparr>)"

subsection \<open>BlameEntry\<close>

record ctl_BlameEntry =
  ctl_BlameEntry_commit_id :: "u32 option"
  ctl_BlameEntry_commit_time :: "string option"
  ctl_BlameEntry_val :: "ctl_ConfigValue option"
  ctl_BlameEntry_unknown_fields :: UnknownFields
  ctl_BlameEntry_cached_size :: u32

definition ctl_BlameEntry_new :: "ctl_BlameEntry" where [msg_defs]:
  "ctl_BlameEntry_new = \<lparr>ctl_BlameEntry_commit_id = None, ctl_BlameEntry_commit_time =
      None, ctl_BlameEntry_val = None, ctl_BlameEntry_unknown_fields =
        [], ctl_BlameEntry_cached_size = 0\<rparr>"

definition ctl_BlameEntry_default_instance :: "ctl_BlameEntry" where [msg_defs]:
  "ctl_BlameEntry_default_instance = ctl_BlameEntry_new"

text \<open>Field \<open>commit_id\<close> (required uint32, number 1).\<close>

definition ctl_BlameEntry_clear_commit_id :: "ctl_BlameEntry \<Rightarrow> ctl_BlameEntry" where [msg_defs]:
  "ctl_BlameEntry_clear_commit_id m = m\<lparr>ctl_BlameEntry_commit_id := None\<rparr>"

definition ctl_BlameEntry_has_commit_id :: "ctl_BlameEntry \<Rightarrow> bool" where [msg_defs]:
  "ctl_BlameEntry_has_commit_id m = (ctl_BlameEntry_commit_id m \<noteq> None)"

definition ctl_BlameEntry_set_commit_id :: "ctl_BlameEntry \<Rightarrow> u32 \<Rightarrow> ctl_BlameEntry"
    where [msg_defs]:
  "ctl_BlameEntry_set_commit_id m v = m\<lparr>ctl_BlameEntry_commit_id := Some v\<rparr>"

definition ctl_BlameEntry_get_commit_id :: "ctl_BlameEntry \<Rightarrow> u32" where [msg_defs]:
  "ctl_BlameEntry_get_commit_id m = (case ctl_BlameEntry_commit_id m of Some v \<Rightarrow> v | None \<Rightarrow> 0)"

text \<open>Field \<open>commit_time\<close> (required string, number 2).\<close>

definition ctl_BlameEntry_clear_commit_time :: "ctl_BlameEntry \<Rightarrow> ctl_BlameEntry" where [msg_defs]:
  "ctl_BlameEntry_clear_commit_time m = m\<lparr>ctl_BlameEntry_commit_time := None\<rparr>"

definition ctl_BlameEntry_has_commit_time :: "ctl_BlameEntry \<Rightarrow> bool" where [msg_defs]:
  "ctl_BlameEntry_has_commit_time m = (ctl_BlameEntry_commit_time m \<noteq> None)"

definition ctl_BlameEntry_set_commit_time :: "ctl_BlameEntry \<Rightarrow> string \<Rightarrow> ctl_BlameEntry"
    where [msg_defs]:
  "ctl_BlameEntry_set_commit_time m v = m\<lparr>ctl_BlameEntry_commit_time := Some v\<rparr>"

definition ctl_BlameEntry_mut_commit_time ::
    "ctl_BlameEntry \<Rightarrow> (string \<Rightarrow> string) \<Rightarrow> panic + ctl_BlameEntry" where [msg_defs]:
  "ctl_BlameEntry_mut_commit_time m upd =
     (let m = (if ctl_BlameEntry_commit_time m =
       None then m\<lparr>ctl_BlameEntry_commit_time := Some ''''\<rparr> else m)
      in case ctl_BlameEntry_commit_time m of
           Some v \<Rightarrow> Inr (m\<lparr>ctl_BlameEntry_commit_time := Some (upd v)\<rparr>)
         | None \<Rightarrow> Inl (Panicked ''unwrap on None''))"

definition ctl_BlameEntry_take_commit_time :: "ctl_BlameEntry \<Rightarrow> string
    \<times> ctl_BlameEntry" where [msg_defs]:
  "ctl_BlameEntry_take_commit_time m =
     ((case ctl_BlameEntry_commit_time m of Some v \<Rightarrow> v
       | None \<Rightarrow> ''''), m\<lparr>ctl_BlameEntry_commit_time := None\<rparr>)"

definition ctl_BlameEntry_get_commit_time :: "ctl_BlameEntry \<Rightarrow> string" where [msg_defs]:
  "ctl_BlameEntry_get_commit_time m = (case ctl_BlameEntry_commit_time m of Some v \<Rightarrow> v
      | None \<Rightarrow> '''')"

text \<open>Field \<open>val\<close> (required ConfigValue, number 3).\<close>

definition ctl_BlameEntry_clear_val :: "ctl_BlameEntry \<Rightarrow> ctl_BlameEntry" where [msg_defs]:
  "ctl_BlameEntry_clear_val m = m\<lparr>ctl_BlameEntry_val := None\<rparr>"

definition ctl_BlameEntry_has_val :: "ctl_BlameEntry \<Rightarrow> bool" where [msg_defs]:
  "ctl_BlameEntry_has_val m = (ctl_BlameEntry_val m \<noteq> None)"

definition ctl_BlameEntry_set_val :: "ctl_BlameEntry \<Rightarrow> ctl_ConfigValue \<Rightarrow> ctl_BlameEntry"
    where [msg_defs]:
  "ctl_BlameEntry_set_val m v = m\<lparr>ctl_BlameEntry_val := Some v\<rparr>"

definition ctl_BlameEntry_mut_val ::
    "ctl_BlameEntry \<Rightarrow> (ctl_ConfigValue \<Rightarrow> ctl_ConfigValue) \<Rightarrow> panic + ctl_BlameEntry"
        where [msg_defs]:
  "ctl_BlameEntry_mut_val m upd =
     (let m = (if ctl_BlameEntry_val m =
       None then m\<lparr>ctl_BlameEntry_val := Some ctl_ConfigValue_new\<rparr> else m)
      in case ctl_BlameEntry_val m of
           Some v \<Rightarrow> Inr (m\<lparr>ctl_BlameEntry_val := Some (upd v)\<rparr>)
         | None \<Rightarrow> Inl (Panicked ''unwrap on None''))"

definition ctl_BlameEntry_take_val :: "ctl_BlameEntry \<Rightarrow> ctl_ConfigValue
    \<times> ctl_BlameEntry" where [msg_defs]:
  "ctl_BlameEntry_take_val m =
     ((case ctl_BlameEntry_val m of Some v \<Rightarrow> v
       | None \<Rightarrow> ctl_ConfigValue_new), m\<lparr>ctl_BlameEntry_val := None\<rparr>)"

definition ctl_BlameEntry_get_val :: "ctl_BlameEntry \<Rightarrow> ctl_ConfigValue" where [msg_defs]:
  "ctl_BlameEntry_get_val m = (case ctl_BlameEntry_val m of Some v \<Rightarrow> v
      | None \<Rightarrow> ctl_ConfigValue_default_instance)"

definition ctl_BlameEntry_clear :: "ctl_BlameEntry \<Rightarrow> ctl_BlameEntry" where [msg_defs]:
  "ctl_BlameEntry_clear m =
     (let m = ctl_BlameEntry_clear_commit_id m;
      m = ctl_BlameEntry_clear_commit_time m;
      m = ctl_BlameEntry_clear_val m
      in m\<lparr>ctl_BlameEntry_unknown_fields := []\<rparr>)"

subsection \<open>BlameResponse\<close>

record ctl_BlameResponse =
  ctl_BlameResponse_key :: "string option"
  ctl_BlameResponse_entries :: "ctl_BlameEntry list"
  ctl_BlameResponse_unknown_fields :: UnknownFields
  ctl_BlameResponse_cached_size :: u32

definition ctl_BlameResponse_new :: "ctl_BlameResponse" where [msg_defs]:
  "ctl_BlameResponse_new = \<lparr>ctl_BlameResponse_key = None, ctl_BlameResponse_entries =
      [], ctl_BlameResponse_unknown_fields = [], ctl_BlameResponse_cached_size = 0\<rparr>"

definition ctl_BlameResponse_default_instance :: "ctl_BlameResponse" where [msg_defs]:
  "ctl_BlameResponse_default_instance = ctl_BlameResponse_new"

text \<open>Field \<open>key\<close> (required string, number 1).\<close>

definition ctl_BlameResponse_clear_key :: "ctl_BlameResponse \<Rightarrow> ctl_BlameResponse"
    where [msg_defs]:
  "ctl_BlameResponse_clear_key m = m\<lparr>ctl_BlameResponse_key := None\<rparr>"

definition ctl_BlameResponse_has_key :: "ctl_BlameResponse \<Rightarrow> bool" where [msg_defs]:
  "ctl_BlameResponse_has_key m = (ctl_BlameResponse_key m \<noteq> None)"

definition ctl_BlameResponse_set_key :: "ctl_BlameResponse \<Rightarrow> string \<Rightarrow> ctl_BlameResponse"
    where [msg_defs]:
  "ctl_BlameResponse_set_key m v = m\<lparr>ctl_BlameResponse_key := Some v\<rparr>"

definition ctl_BlameResponse_mut_key ::
    "ctl_BlameResponse \<Rightarrow> (string \<Rightarrow> string) \<Rightarrow> panic + ctl_BlameResponse" where [msg_defs]:
  "ctl_BlameResponse_mut_key m upd =
     (let m = (if ctl_BlameResponse_key m = None then m\<lparr>ctl_BlameResponse_key := Some ''''\<rparr>
       else m)
      in case ctl_BlameResponse_key m of
           Some v \<Rightarrow> Inr (m\<lparr>ctl_BlameResponse_key := Some (upd v)\<rparr>)
         | None \<Rightarrow> Inl (Panicked ''unwrap on None''))"

definition ctl_BlameResponse_take_key :: "ctl_BlameResponse \<Rightarrow> string
    \<times> ctl_BlameResponse" where [msg_defs]:
  "ctl_BlameResponse_take_key m =
     ((case ctl_BlameResponse_key m of Some v \<Rightarrow> v
       | None \<Rightarrow> ''''), m\<lparr>ctl_BlameResponse_key := None\<rparr>)"

definition ctl_BlameResponse_get_key :: "ctl_BlameResponse \<Rightarrow> string" where [msg_defs]:
  "ctl_BlameResponse_get_key m = (case ctl_BlameResponse_key m of Some v \<Rightarrow> v | None \<Rightarrow> '''')"

text \<open>Field \<open>entries\<close> (repeated BlameEntry, number 2).\<close>

definition ctl_BlameResponse_clear_entries :: "ctl_BlameResponse \<Rightarrow> ctl_BlameResponse"
    where [msg_defs]:
  "ctl_BlameResponse_clear_entries m = m\<lparr>ctl_BlameResponse_entries := []\<rparr>"

definition ctl_BlameResponse_set_entries :: "ctl_BlameResponse \<Rightarrow> ctl_BlameEntry list
    \<Rightarrow> ctl_BlameResponse" where [msg_defs]:
  "ctl_BlameResponse_set_entries m v = m\<lparr>ctl_BlameResponse_entries := v\<rparr>"

definition ctl_BlameResponse_mut_entries :: "ctl_BlameResponse \<Rightarrow> (ctl_BlameEntry list
    \<Rightarrow> ctl_BlameEntry list) \<Rightarrow> ctl_BlameResponse" where [msg_defs]:
  "ctl_BlameResponse_mut_entries m upd =
      m\<lparr>ctl_BlameResponse_entries := upd (ctl_BlameResponse_entries m)\<rparr>"

definition ctl_BlameResponse_take_entries :: "ctl_BlameResponse \<Rightarrow> ctl_BlameEntry list
    \<times> ctl_BlameResponse" where [msg_defs]:
  "ctl_BlameResponse_take_entries m =
      (ctl_BlameResponse_entries m, m\<lparr>ctl_BlameResponse_entries := []\<rparr>)"

definition ctl_BlameResponse_get_entries :: "ctl_BlameResponse \<Rightarrow> ctl_BlameEntry list"
    where [msg_defs]:
  "ctl_BlameResponse_get_entries m = ctl_BlameResponse_entries m"

definition ctl_BlameResponse_clear :: "ctl_BlameResponse \<Rightarrow> ctl_BlameResponse" where [msg_defs]:
  "ctl_BlameResponse_clear m =
     (let m = ctl_BlameResponse_clear_key m;
      m = ctl_BlameResponse_clear_entries m
      in m\<lparr>ctl_BlameResponse_unknown_fields := []\<rparr>)"

subsection \<open>InFlightResponse\<close>

record ctl_InFlightResponse =
  ctl_InFlightResponse_kvs :: "ctl_MappedField list"
  ctl_InFlightResponse_unknown_fields :: UnknownFields
  ctl_InFlightResponse_cached_size :: u32

definition ctl_InFlightResponse_new :: "ctl_InFlightResponse" where [msg_defs]:
  "ctl_InFlightResponse_new = \<lparr>ctl_InFlightResponse_kvs = [], ctl_InFlightResponse_unknown_fields =
      [], ctl_InFlightResponse_cached_size = 0\<rparr>"

definition ctl_InFlightResponse_default_instance :: "ctl_InFlightResponse" where [msg_defs]:
  "ctl_InFlightResponse_default_instance = ctl_InFlightResponse_new"

text \<open>Field \<open>kvs\<close> (repeated MappedField, number 1).\<close>

definition ctl_InFlightResponse_clear_kvs :: "ctl_InFlightResponse \<Rightarrow> ctl_InFlightResponse"
    where [msg_defs]:
  "ctl_InFlightResponse_clear_kvs m = m\<lparr>ctl_InFlightResponse_kvs := []\<rparr>"

definition ctl_InFlightResponse_set_kvs :: "ctl_InFlightResponse \<Rightarrow> ctl_MappedField list
    \<Rightarrow> ctl_InFlightResponse" where [msg_defs]:
  "ctl_InFlightResponse_set_kvs m v = m\<lparr>ctl_InFlightResponse_kvs := v\<rparr>"

definition ctl_InFlightResponse_mut_kvs :: "ctl_InFlightResponse \<Rightarrow> (ctl_MappedField list
    \<Rightarrow> ctl_MappedField list) \<Rightarrow> ctl_InFlightResponse" where [msg_defs]:
  "ctl_InFlightResponse_mut_kvs m upd =
      m\<lparr>ctl_InFlightResponse_kvs := upd (ctl_InFlightResponse_kvs m)\<rparr>"

definition ctl_InFlightResponse_take_kvs :: "ctl_InFlightResponse \<Rightarrow> ctl_MappedField list
    \<times> ctl_InFlightResponse" where [msg_defs]:
  "ctl_InFlightResponse_take_kvs m =
      (ctl_InFlightResponse_kvs m, m\<lparr>ctl_InFlightResponse_kvs := []\<rparr>)"

definition ctl_InFlightResponse_get_kvs :: "ctl_InFlightResponse \<Rightarrow> ctl_MappedField list"
    where [msg_defs]:
  "ctl_InFlightResponse_get_kvs m = ctl_InFlightResponse_kvs m"

definition ctl_InFlightResponse_clear :: "ctl_InFlightResponse \<Rightarrow> ctl_InFlightResponse"
    where [msg_defs]:
  "ctl_InFlightResponse_clear m =
     (let m = ctl_InFlightResponse_clear_kvs m
      in m\<lparr>ctl_InFlightResponse_unknown_fields := []\<rparr>)"

subsection \<open>Response\<close>

datatype Response_oneof_payload =
    Response_oneof_payload_get ctl_GetResponse
  | Response_oneof_payload_commit ctl_CommitResponse
  | Response_oneof_payload_reset ctl_ResetResponse
  | Response_oneof_payload_dump ctl_DumpResponse
  | Response_oneof_payload_blame ctl_BlameResponse
  | Response_oneof_payload_inflight ctl_InFlightResponse

record ctl_Response =
  ctl_Response_id :: "u32 option"
  ctl_Response_status :: "ctl_StatusCode option"
  ctl_Response_payload :: "Response_oneof_payload option"
  ctl_Response_unknown_fields :: UnknownFields
  ctl_Response_cached_size :: u32

definition ctl_Response_new :: "ctl_Response" where [msg_defs]:
  "ctl_Response_new = \<lparr>ctl_Response_id = None, ctl_Response_status = None, ctl_Response_payload =
      None, ctl_Response_unknown_fields = [], ctl_Response_cached_size = 0\<rparr>"

definition ctl_Response_default_instance :: "ctl_Response" where [msg_defs]:
  "ctl_Response_default_instance = ctl_Response_new"

text \<open>Field \<open>id\<close> (required uint32, number 6).\<close>

definition ctl_Response_clear_id :: "ctl_Response \<Rightarrow> ctl_Response" where [msg_defs]:
  "ctl_Response_clear_id m = m\<lparr>ctl_Response_id := None\<rparr>"

definition ctl_Response_has_id :: "ctl_Response \<Rightarrow> bool" where [msg_defs]:
  "ctl_Response_has_id m = (ctl_Response_id m \<noteq> None)"

definition ctl_Response_set_id :: "ctl_Response \<Rightarrow> u32 \<Rightarrow> ctl_Response" where [msg_defs]:
  "ctl_Response_set_id m v = m\<lparr>ctl_Response_id := Some v\<rparr>"

definition ctl_Response_get_id :: "ctl_Response \<Rightarrow> u32" where [msg_defs]:
  "ctl_Response_get_id m = (case ctl_Response_id m of Some v \<Rightarrow> v | None \<Rightarrow> 0)"

text \<open>Field \<open>status\<close> (required StatusCode, number 7).\<close>

definition ctl_Response_clear_status :: "ctl_Response \<Rightarrow> ctl_Response" where [msg_defs]:
  "ctl_Response_clear_status m = m\<lparr>ctl_Response_status := None\<rparr>"

definition ctl_Response_has_status :: "ctl_Response \<Rightarrow> bool" where [msg_defs]:
  "ctl_Response_has_status m = (ctl_Response_status m \<noteq> None)"

definition ctl_Response_set_status :: "ctl_Response \<Rightarrow> ctl_StatusCode \<Rightarrow> ctl_Response"
    where [msg_defs]:
  "ctl_Response_set_status m v = m\<lparr>ctl_Response_status := Some v\<rparr>"

definition ctl_Response_get_status :: "ctl_Response \<Rightarrow> ctl_StatusCode" where [msg_defs]:
  "ctl_Response_get_status m = (case ctl_Response_status m of Some v \<Rightarrow> v | None \<Rightarrow> ctl_SUCCESS)"

text \<open>Alternative \<open>get\<close> of \<open>payload\<close> (GetResponse, number 1).\<close>

definition ctl_Response_clear_get :: "ctl_Response \<Rightarrow> ctl_Response" where [msg_defs]:
  "ctl_Response_clear_get m = m\<lparr>ctl_Response_payload := None\<rparr>"

definition ctl_Response_has_get :: "ctl_Response \<Rightarrow> bool" where [msg_defs]:
  "ctl_Response_has_get m =
      (case ctl_Response_payload m of Some (Response_oneof_payload_get v) \<Rightarrow> True | _ \<Rightarrow> False)"

definition ctl_Response_set_get :: "ctl_Response \<Rightarrow> ctl_GetResponse \<Rightarrow> ctl_Response"
    where [msg_defs]:
  "ctl_Response_set_get m v = m\<lparr>ctl_Response_payload := Some (Response_oneof_payload_get v)\<rparr>"

definition ctl_Response_mut_get ::
    "ctl_Response \<Rightarrow> (ctl_GetResponse \<Rightarrow> ctl_GetResponse) \<Rightarrow> panic + ctl_Response" where [msg_defs]:
  "ctl_Response_mut_get m upd =
     (let m = (case ctl_Response_payload m of
                 Some (Response_oneof_payload_get _) \<Rightarrow> m
               | _ \<Rightarrow> m\<lparr>ctl_Response_payload := Some (Response_oneof_payload_get ctl_GetResponse_new)\<rparr>)
      in case ctl_Response_payload m of
           Some (Response_oneof_payload_get v)
             \<Rightarrow> Inr (m\<lparr>ctl_Response_payload := Some (Response_oneof_payload_get (upd v))\<rparr>)
         | _ \<Rightarrow> Inl (Panicked ''explicit panic''))"

definition ctl_Response_take_get :: "ctl_Response \<Rightarrow> panic + ctl_GetResponse
    \<times> ctl_Response" where [msg_defs]:
  "ctl_Response_take_get m =
     (if ctl_Response_has_get m then
        (case ctl_Response_payload m of
           Some (Response_oneof_payload_get v) \<Rightarrow> Inr (v, m\<lparr>ctl_Response_payload := None\<rparr>)
         | _ \<Rightarrow> Inl (Panicked ''explicit panic''))
      else Inr (ctl_GetResponse_new, m))"

definition ctl_Response_get_get :: "ctl_Response \<Rightarrow> ctl_GetResponse" where [msg_defs]:
  "ctl_Response_get_get m =
      (case ctl_Response_payload m of Some (Response_oneof_payload_get v) \<Rightarrow> v
        | _ \<Rightarrow> ctl_GetResponse_default_instance)"

text \<open>Alternative \<open>commit\<close> of \<open>payload\<close> (CommitResponse, number 2).\<close>

definition ctl_Response_clear_commit :: "ctl_Response \<Rightarrow> ctl_Response" where [msg_defs]:
  "ctl_Response_clear_commit m = m\<lparr>ctl_Response_payload := None\<rparr>"

definition ctl_Response_has_commit :: "ctl_Response \<Rightarrow> bool" where [msg_defs]:
  "ctl_Response_has_commit m =
      (case ctl_Response_payload m of Some (Response_oneof_payload_commit v) \<Rightarrow> True | _ \<Rightarrow> False)"

definition ctl_Response_set_commit :: "ctl_Response \<Rightarrow> ctl_CommitResponse \<Rightarrow> ctl_Response"
    where [msg_defs]:
  "ctl_Response_set_commit m v =
      m\<lparr>ctl_Response_payload := Some (Response_oneof_payload_commit v)\<rparr>"

definition ctl_Response_mut_commit ::
    "ctl_Response \<Rightarrow> (ctl_CommitResponse \<Rightarrow> ctl_CommitResponse) \<Rightarrow> panic + ctl_Response"
        where [msg_defs]:
  "ctl_Response_mut_commit m upd =
     (let m = (case ctl_Response_payload m of
                 Some (Response_oneof_payload_commit _) \<Rightarrow> m
               | _ \<Rightarrow> m\<lparr>ctl_Response_payload := Some (Response_oneof_payload_commit ctl_CommitResponse_new)\<rparr>)
      in case ctl_Response_payload m of
           Some (Response_oneof_payload_commit v)
             \<Rightarrow> Inr (m\<lparr>ctl_Response_payload := Some (Response_oneof_payload_commit (upd v))\<rparr>)
         | _ \<Rightarrow> Inl (Panicked ''explicit panic''))"

definition ctl_Response_take_commit :: "ctl_Response \<Rightarrow> panic + ctl_CommitResponse
    \<times> ctl_Response" where [msg_defs]:
  "ctl_Response_take_commit m =
     (if ctl_Response_has_commit m then
        (case ctl_Response_payload m of
           Some (Response_oneof_payload_commit v) \<Rightarrow> Inr (v, m\<lparr>ctl_Response_payload := None\<rparr>)
         | _ \<Rightarrow> Inl (Panicked ''explicit panic''))
      else Inr (ctl_CommitResponse_new, m))"

definition ctl_Response_get_commit :: "ctl_Response \<Rightarrow> ctl_CommitResponse" where [msg_defs]:
  "ctl_Response_get_commit m =
      (case ctl_Response_payload m of Some (Response_oneof_payload_commit v) \<Rightarrow> v
        | _ \<Rightarrow> ctl_CommitResponse_default_instance)"

text \<open>Alternative \<open>reset\<close> of \<open>payload\<close> (ResetResponse, number 3).\<close>

definition ctl_Response_clear_reset :: "ctl_Response \<Rightarrow> ctl_Response" where [msg_defs]:
  "ctl_Response_clear_reset m = m\<lparr>ctl_Response_payload := None\<rparr>"

definition ctl_Response_has_reset :: "ctl_Response \<Rightarrow> bool" where [msg_defs]:
  "ctl_Response_has_reset m =
      (case ctl_Response_payload m of Some (Response_oneof_payload_reset v) \<Rightarrow> True | _ \<Rightarrow> False)"

definition ctl_Response_set_reset :: "ctl_Response \<Rightarrow> ctl_ResetResponse \<Rightarrow> ctl_Response"
    where [msg_defs]:
  "ctl_Response_set_reset m v = m\<lparr>ctl_Response_payload := Some (Response_oneof_payload_reset v)\<rparr>"

definition ctl_Response_mut_reset ::
    "ctl_Response \<Rightarrow> (ctl_ResetResponse \<Rightarrow> ctl_ResetResponse) \<Rightarrow> panic + ctl_Response"
        where [msg_defs]:
  "ctl_Response_mut_reset m upd =
     (let m = (case ctl_Response_payload m of
                 Some (Response_oneof_payload_reset _) \<Rightarrow> m
               | _ \<Rightarrow> m\<lparr>ctl_Response_payload := Some (Response_oneof_payload_reset ctl_ResetResponse_new)\<rparr>)
      in case ctl_Response_payload m of
           Some (Response_oneof_payload_reset v)
             \<Rightarrow> Inr (m\<lparr>ctl_Response_payload := Some (Response_oneof_payload_reset (upd v))\<rparr>)
         | _ \<Rightarrow> Inl (Panicked ''explicit panic''))"

definition ctl_Response_take_reset :: "ctl_Response \<Rightarrow> panic + ctl_ResetResponse
    \<times> ctl_Response" where [msg_defs]:
  "ctl_Response_take_reset m =
     (if ctl_Response_has_reset m then
        (case ctl_Response_payload m of
           Some (Response_oneof_payload_reset v) \<Rightarrow> Inr (v, m\<lparr>ctl_Response_payload := None\<rparr>)
         | _ \<Rightarrow> Inl (Panicked ''explicit panic''))
      else Inr (ctl_ResetResponse_new, m))"

definition ctl_Response_get_reset :: "ctl_Response \<Rightarrow> ctl_ResetResponse" where [msg_defs]:
  "ctl_Response_get_reset m =
      (case ctl_Response_payload m of Some (Response_oneof_payload_reset v) \<Rightarrow> v
        | _ \<Rightarrow> ctl_ResetResponse_default_instance)"

text \<open>Alternative \<open>dump\<close> of \<open>payload\<close> (DumpResponse, number 4).\<close>

definition ctl_Response_clear_dump :: "ctl_Response \<Rightarrow> ctl_Response" where [msg_defs]:
  "ctl_Response_clear_dump m = m\<lparr>ctl_Response_payload := None\<rparr>"

definition ctl_Response_has_dump :: "ctl_Response \<Rightarrow> bool" where [msg_defs]:
  "ctl_Response_has_dump m =
      (case ctl_Response_payload m of Some (Response_oneof_payload_dump v) \<Rightarrow> True | _ \<Rightarrow> False)"

definition ctl_Response_set_dump :: "ctl_Response \<Rightarrow> ctl_DumpResponse \<Rightarrow> ctl_Response"
    where [msg_defs]:
  "ctl_Response_set_dump m v = m\<lparr>ctl_Response_payload := Some (Response_oneof_payload_dump v)\<rparr>"

definition ctl_Response_mut_dump ::
    "ctl_Response \<Rightarrow> (ctl_DumpResponse \<Rightarrow> ctl_DumpResponse) \<Rightarrow> panic + ctl_Response"
        where [msg_defs]:
  "ctl_Response_mut_dump m upd =
     (let m = (case ctl_Response_payload m of
                 Some (Response_oneof_payload_dump _) \<Rightarrow> m
               | _ \<Rightarrow> m\<lparr>ctl_Response_payload := Some (Response_oneof_payload_dump ctl_DumpResponse_new)\<rparr>)
      in case ctl_Response_payload m of
           Some (Response_oneof_payload_dump v)
             \<Rightarrow> Inr (m\<lparr>ctl_Response_payload := Some (Response_oneof_payload_dump (upd v))\<rparr>)
         | _ \<Rightarrow> Inl (Panicked ''explicit panic''))"

definition ctl_Response_take_dump :: "ctl_Response \<Rightarrow> panic + ctl_DumpResponse
    \<times> ctl_Response" where [msg_defs]:
  "ctl_Response_take_dump m =
     (if ctl_Response_has_dump m then
        (case ctl_Response_payload m of
           Some (Response_oneof_payload_dump v) \<Rightarrow> Inr (v, m\<lparr>ctl_Response_payload := None\<rparr>)
         | _ \<Rightarrow> Inl (Panicked ''explicit panic''))
      else Inr (ctl_DumpResponse_new, m))"

definition ctl_Response_get_dump :: "ctl_Response \<Rightarrow> ctl_DumpResponse" where [msg_defs]:
  "ctl_Response_get_dump m =
      (case ctl_Response_payload m of Some (Response_oneof_payload_dump v) \<Rightarrow> v
        | _ \<Rightarrow> ctl_DumpResponse_default_instance)"

text \<open>Alternative \<open>blame\<close> of \<open>payload\<close> (BlameResponse, number 5).\<close>

definition ctl_Response_clear_blame :: "ctl_Response \<Rightarrow> ctl_Response" where [msg_defs]:
  "ctl_Response_clear_blame m = m\<lparr>ctl_Response_payload := None\<rparr>"

definition ctl_Response_has_blame :: "ctl_Response \<Rightarrow> bool" where [msg_defs]:
  "ctl_Response_has_blame m =
      (case ctl_Response_payload m of Some (Response_oneof_payload_blame v) \<Rightarrow> True | _ \<Rightarrow> False)"

definition ctl_Response_set_blame :: "ctl_Response \<Rightarrow> ctl_BlameResponse \<Rightarrow> ctl_Response"
    where [msg_defs]:
  "ctl_Response_set_blame m v = m\<lparr>ctl_Response_payload := Some (Response_oneof_payload_blame v)\<rparr>"

definition ctl_Response_mut_blame ::
    "ctl_Response \<Rightarrow> (ctl_BlameResponse \<Rightarrow> ctl_BlameResponse) \<Rightarrow> panic + ctl_Response"
        where [msg_defs]:
  "ctl_Response_mut_blame m upd =
     (let m = (case ctl_Response_payload m of
                 Some (Response_oneof_payload_blame _) \<Rightarrow> m
               | _ \<Rightarrow> m\<lparr>ctl_Response_payload := Some (Response_oneof_payload_blame ctl_BlameResponse_new)\<rparr>)
      in case ctl_Response_payload m of
           Some (Response_oneof_payload_blame v)
             \<Rightarrow> Inr (m\<lparr>ctl_Response_payload := Some (Response_oneof_payload_blame (upd v))\<rparr>)
         | _ \<Rightarrow> Inl (Panicked ''explicit panic''))"

definition ctl_Response_take_blame :: "ctl_Response \<Rightarrow> panic + ctl_BlameResponse
    \<times> ctl_Response" where [msg_defs]:
  "ctl_Response_take_blame m =
     (if ctl_Response_has_blame m then
        (case ctl_Response_payload m of
           Some (Response_oneof_payload_blame v) \<Rightarrow> Inr (v, m\<lparr>ctl_Response_payload := None\<rparr>)
         | _ \<Rightarrow> Inl (Panicked ''explicit panic''))
      else Inr (ctl_BlameResponse_new, m))"

definition ctl_Response_get_blame :: "ctl_Response \<Rightarrow> ctl_BlameResponse" where [msg_defs]:
  "ctl_Response_get_blame m =
      (case ctl_Response_payload m of Some (Response_oneof_payload_blame v) \<Rightarrow> v
        | _ \<Rightarrow> ctl_BlameResponse_default_instance)"

text \<open>Alternative \<open>inflight\<close> of \<open>payload\<close> (InFlightResponse, number 8).\<close>

definition ctl_Response_clear_inflight :: "ctl_Response \<Rightarrow> ctl_Response" where [msg_defs]:
  "ctl_Response_clear_inflight m = m\<lparr>ctl_Response_payload := None\<rparr>"

definition ctl_Response_has_inflight :: "ctl_Response \<Rightarrow> bool" where [msg_defs]:
  "ctl_Response_has_inflight m =
      (case ctl_Response_payload m of Some (Response_oneof_payload_inflight v) \<Rightarrow> True
        | _ \<Rightarrow> False)"

definition ctl_Response_set_inflight :: "ctl_Response \<Rightarrow> ctl_InFlightResponse \<Rightarrow> ctl_Response"
    where [msg_defs]:
  "ctl_Response_set_inflight m v =
      m\<lparr>ctl_Response_payload := Some (Response_oneof_payload_inflight v)\<rparr>"

definition ctl_Response_mut_inflight ::
    "ctl_Response \<Rightarrow> (ctl_InFlightResponse \<Rightarrow> ctl_InFlightResponse) \<Rightarrow> panic + ctl_Response"
        where [msg_defs]:
  "ctl_Response_mut_inflight m upd =
     (let m = (case ctl_Response_payload m of
                 Some (Response_oneof_payload_inflight _) \<Rightarrow> m
               | _ \<Rightarrow> m\<lparr>ctl_Response_payload := Some (Response_oneof_payload_inflight ctl_InFlightResponse_new)\<rparr>)
      in case ctl_Response_payload m of
           Some (Response_oneof_payload_inflight v)
             \<Rightarrow> Inr (m\<lparr>ctl_Response_payload := Some (Response_oneof_payload_inflight (upd v))\<rparr>)
         | _ \<Rightarrow> Inl (Panicked ''explicit panic''))"

definition ctl_Response_take_inflight :: "ctl_Response \<Rightarrow> panic + ctl_InFlightResponse
    \<times> ctl_Response" where [msg_defs]:
  "ctl_Response_take_inflight m =
     (if ctl_Response_has_inflight m then
        (case ctl_Response_payload m of
           Some (Response_oneof_payload_inflight v) \<Rightarrow> Inr (v, m\<lparr>ctl_Response_payload := None\<rparr>)
         | _ \<Rightarrow> Inl (Panicked ''explicit panic''))
      else Inr (ctl_InFlightResponse_new, m))"

definition ctl_Response_get_inflight :: "ctl_Response \<Rightarrow> ctl_InFlightResponse" where [msg_defs]:
  "ctl_Response_get_inflight m =
      (case ctl_Response_payload m of Some (Response_oneof_payload_inflight v) \<Rightarrow> v
        | _ \<Rightarrow> ctl_InFlightResponse_default_instance)"

definition ctl_Response_clear :: "ctl_Response \<Rightarrow> ctl_Response" where [msg_defs]:
  "ctl_Response_clear m =
     (let m = ctl_Response_clear_get m;
      m = ctl_Response_clear_commit m;
      m = ctl_Response_clear_reset m;
      m = ctl_Response_clear_dump m;
      m = ctl_Response_clear_blame m;
      m = ctl_Response_clear_inflight m;
      m = ctl_Response_clear_id m;
      m = ctl_Response_clear_status m
      in m\<lparr>ctl_Response_unknown_fields := []\<rparr>)"

end
