(* ===== verification/Bindings.thy ===== *)
theory Bindings
  imports Ctl_Commands Ctl_Responses
begin

text \<open>
  The runtime parameter in full: the scalar operations of theory Runtime, the generic operations
  of the crate at each message and enum type the generated code uses them at, and the two entry
  points the client calls.  The locale collects what the development assumes of it; theory
  Reference_Runtime gives a runtime that satisfies it.
\<close>

record protobuf = scalar_rt +
  pb_CommitConfig :: "ctl_CommitConfig enum_rt"
  pb_StatusCode :: "ctl_StatusCode enum_rt"
  pb_Int32List :: "ctl_Int32List nested_rt"
  pb_BoolList :: "ctl_BoolList nested_rt"
  pb_StringList :: "ctl_StringList nested_rt"
  pb_ConfigValue :: "ctl_ConfigValue nested_rt"
  pb_Set :: "ctl_Set nested_rt"
  pb_Get :: "ctl_Get nested_rt"
  pb_Commit :: "ctl_Commit nested_rt"
  pb_Drop :: "ctl_Drop nested_rt"
  pb_FireHooks :: "ctl_FireHooks nested_rt"
  pb_EraseKey :: "ctl_EraseKey nested_rt"
  pb_Rollback :: "ctl_Rollback nested_rt"
  pb_Reset :: "ctl_Reset nested_rt"
  pb_DumpHooks :: "ctl_DumpHooks nested_rt"
  pb_TriggerHook :: "ctl_TriggerHook nested_rt"
  pb_Blame :: "ctl_Blame nested_rt"
  pb_InFlight :: "ctl_InFlight nested_rt"
  pb_MappedField :: "ctl_MappedField nested_rt"
  pb_GetResponse :: "ctl_GetResponse nested_rt"
  pb_CommitResponse :: "ctl_CommitResponse nested_rt"
  pb_ResetResponse :: "ctl_ResetResponse nested_rt"
  pb_DumpResponse :: "ctl_DumpResponse nested_rt"
  pb_BlameEntry :: "ctl_BlameEntry nested_rt"
  pb_BlameResponse :: "ctl_BlameResponse nested_rt"
  pb_InFlightResponse :: "ctl_InFlightResponse nested_rt"
  pb_entry_Command :: "ctl_Command entry_rt"
  pb_entry_Response :: "ctl_Response entry_rt"

locale protobuf_runtime = scalar_runtime rt for rt :: protobuf +
  assumes enum_CommitConfig: "enum_ok (pb_CommitConfig rt)"
    and enum_StatusCode: "enum_ok (pb_StatusCode rt)"
    and nested_Int32List: "nested_ok (pb_Int32List rt)"
    and nested_BoolList: "nested_ok (pb_BoolList rt)"
    and nested_StringList: "nested_ok (pb_StringList rt)"
    and nested_ConfigValue: "nested_ok (pb_ConfigValue rt)"
    and nested_Set: "nested_ok (pb_Set rt)"
    and nested_Get: "nested_ok (pb_Get rt)"
    and nested_Commit: "nested_ok (pb_Commit rt)"
    and nested_Drop: "nested_ok (pb_Drop rt)"
    and nested_FireHooks: "nested_ok (pb_FireHooks rt)"
    and nested_EraseKey: "nested_ok (pb_EraseKey rt)"
    and nested_Rollback: "nested_ok (pb_Rollback rt)"
    and nested_Reset: "nested_ok (pb_Reset rt)"
    and nested_DumpHooks: "nested_ok (pb_DumpHooks rt)"
    and nested_TriggerHook: "nested_ok (pb_TriggerHook rt)"
    and nested_Blame: "nested_ok (pb_Blame rt)"
    and nested_InFlight: "nested_ok (pb_InFlight rt)"
    and nested_MappedField: "nested_ok (pb_MappedField rt)"
    and nested_GetResponse: "nested_ok (pb_GetResponse rt)"
    and nested_CommitResponse: "nested_ok (pb_CommitResponse rt)"
    and nested_ResetResponse: "nested_ok (pb_ResetResponse rt)"
    and nested_DumpResponse: "nested_ok (pb_DumpResponse rt)"
    and nested_BlameEntry: "nested_ok (pb_BlameEntry rt)"
    and nested_BlameResponse: "nested_ok (pb_BlameResponse rt)"
    and nested_InFlightResponse: "nested_ok (pb_InFlightResponse rt)"
    and entry_Command: "entry_ok (pb_entry_Command rt)"
    and entry_Response: "entry_ok (pb_entry_Response rt)"
begin

lemma enum_sizes [codec]:
  "field_number_ok f \<Longrightarrow> enum_size (pb_CommitConfig rt) ctl_CommitConfig_enum f c
     = of_nat (length (enc_int32 f (ctl_CommitConfig_value c)))"
  "field_number_ok f \<Longrightarrow> enum_size (pb_StatusCode rt) ctl_StatusCode_enum f s
     = of_nat (length (enc_int32 f (ctl_StatusCode_value s)))"
  using enum_CommitConfig enum_StatusCode
  by (simp_all add: enum_ok_def ctl_CommitConfig_enum_def ctl_StatusCode_enum_def)

lemma read_enums [codec]:
  "read_enum (pb_CommitConfig rt) ctl_CommitConfig_enum (int32_varint (ctl_CommitConfig_value c) @ r)
     = Inr (c, r)"
  "read_enum (pb_StatusCode rt) ctl_StatusCode_enum (int32_varint (ctl_StatusCode_value s) @ r)
     = Inr (s, r)"
  using enum_CommitConfig enum_StatusCode
  by (simp_all add: enum_ok_def ctl_CommitConfig_enum_def ctl_StatusCode_enum_def)

lemmas read_enums_last [codec] = read_enums [where r = "[]", simplified]

end

end
