(* ===== verification/Codec_Values.thy ===== *)
theory Codec_Values
  imports Bindings
begin

text \<open>
  \<open>impl Message\<close> for the value messages of \<open>clients/rust/src/sysadminctl.rs\<close>:
  \<open>is_initialized\<close>, \<open>merge_from\<close>, \<open>compute_size\<close>, \<open>write_to_with_cached_sizes\<close> and the field
  getters, then the encoding each message is specified to have (\<open>_wire\<close>), the messages the
  specification covers (\<open>_ok\<close>) and the proof that the code implements it.

  \<open>merge_from\<close> is the loop \<open>merge_loop\<close> over \<open>merge_field\<close>, the body of the \<open>while\<close>.
  \<open>compute_size\<close> takes \<open>&self\<close> but stores the sizes it finds in the message and its parts
  (\<open>cached_size\<close> is a cell): it returns the message as it is afterwards.  Sizes are \<open>u32\<close> and
  their sums wrap around.
\<close>

subsection \<open>Int32List\<close>

definition ctl_Int32List_is_initialized :: "ctl_Int32List \<Rightarrow> bool" where
  "ctl_Int32List_is_initialized m = True"

definition ctl_Int32List_merge_field :: "protobuf \<Rightarrow> ctl_Int32List \<Rightarrow> bytes \<Rightarrow> (ctl_Int32List
    \<times> bytes) reading" where
  "ctl_Int32List_merge_field rt m input =
     run_then (Some (rt_read_tag_unpack rt input)) (\<lambda>((field_number, wire_type), input).
      if field_number = 1 then
        run_then (Some (rt_read_repeated_int32_into rt wire_type input (ctl_Int32List_list m))) (\<lambda>(v, input).
          Some (Inr (m\<lparr>ctl_Int32List_list := v\<rparr>, input)))
      else
        run_then (Some (rt_read_unknown_or_skip_group rt field_number wire_type input (ctl_Int32List_unknown_fields m)))
          (\<lambda>(uf, input). Some (Inr (m\<lparr>ctl_Int32List_unknown_fields := uf\<rparr>, input))))"

definition ctl_Int32List_merge_from :: "protobuf \<Rightarrow> ctl_Int32List \<Rightarrow> bytes \<Rightarrow> (ctl_Int32List
    \<times> bytes) reading" where
  "ctl_Int32List_merge_from rt m input =
      merge_loop (rt_eof rt) (ctl_Int32List_merge_field rt) m input"

definition ctl_Int32List_compute_size :: "protobuf \<Rightarrow> ctl_Int32List \<Rightarrow> u32 \<times> ctl_Int32List" where
  "ctl_Int32List_compute_size rt m =
     (let my_size = 0;
          my_size = foldl (\<lambda>my_size v. my_size + rt_value_size_i32 rt 1 v WireTypeVarint) my_size (ctl_Int32List_list m);
          my_size = my_size + rt_unknown_fields_size rt (ctl_Int32List_unknown_fields m)
      in (my_size, m\<lparr>ctl_Int32List_cached_size := my_size\<rparr>))"

definition ctl_Int32List_write_to_with_cached_sizes ::
    "protobuf \<Rightarrow> ctl_Int32List \<Rightarrow> bytes \<Rightarrow> ProtobufError + bytes" where
  "ctl_Int32List_write_to_with_cached_sizes rt m os =
      and_then (for_each (\<lambda>v os. rt_write_int32 rt 1 v os) (ctl_Int32List_list m) os) (\<lambda>os.
      rt_write_unknown_fields rt (ctl_Int32List_unknown_fields m) os)"

definition ctl_Int32List_get_cached_size :: "ctl_Int32List \<Rightarrow> u32" where
  "ctl_Int32List_get_cached_size m = ctl_Int32List_cached_size m"

definition ctl_Int32List_get_unknown_fields :: "ctl_Int32List \<Rightarrow> UnknownFields" where
  "ctl_Int32List_get_unknown_fields m = ctl_Int32List_unknown_fields m"

definition ctl_Int32List_message :: "protobuf \<Rightarrow> ctl_Int32List Message" where
  "ctl_Int32List_message rt =
     \<lparr>msg_new = ctl_Int32List_new, msg_is_initialized = ctl_Int32List_is_initialized,
      msg_merge_from = ctl_Int32List_merge_from rt, msg_compute_size =
        ctl_Int32List_compute_size rt,
      msg_write_to_with_cached_sizes = ctl_Int32List_write_to_with_cached_sizes rt,
      msg_get_cached_size = ctl_Int32List_get_cached_size\<rparr>"

subsection \<open>BoolList\<close>

definition ctl_BoolList_is_initialized :: "ctl_BoolList \<Rightarrow> bool" where
  "ctl_BoolList_is_initialized m = True"

definition ctl_BoolList_merge_field :: "protobuf \<Rightarrow> ctl_BoolList \<Rightarrow> bytes \<Rightarrow> (ctl_BoolList
    \<times> bytes) reading" where
  "ctl_BoolList_merge_field rt m input =
     run_then (Some (rt_read_tag_unpack rt input)) (\<lambda>((field_number, wire_type), input).
      if field_number = 1 then
        run_then (Some (rt_read_repeated_bool_into rt wire_type input (ctl_BoolList_list m))) (\<lambda>(v,
          input).
          Some (Inr (m\<lparr>ctl_BoolList_list := v\<rparr>, input)))
      else
        run_then (Some (rt_read_unknown_or_skip_group rt field_number wire_type input (ctl_BoolList_unknown_fields m)))
          (\<lambda>(uf, input). Some (Inr (m\<lparr>ctl_BoolList_unknown_fields := uf\<rparr>, input))))"

definition ctl_BoolList_merge_from :: "protobuf \<Rightarrow> ctl_BoolList \<Rightarrow> bytes \<Rightarrow> (ctl_BoolList
    \<times> bytes) reading" where
  "ctl_BoolList_merge_from rt m input =
      merge_loop (rt_eof rt) (ctl_BoolList_merge_field rt) m input"

definition ctl_BoolList_compute_size :: "protobuf \<Rightarrow> ctl_BoolList \<Rightarrow> u32 \<times> ctl_BoolList" where
  "ctl_BoolList_compute_size rt m =
     (let my_size = 0;
          my_size = my_size + 2 * of_nat (length (ctl_BoolList_list m));
          my_size = my_size + rt_unknown_fields_size rt (ctl_BoolList_unknown_fields m)
      in (my_size, m\<lparr>ctl_BoolList_cached_size := my_size\<rparr>))"

definition ctl_BoolList_write_to_with_cached_sizes ::
    "protobuf \<Rightarrow> ctl_BoolList \<Rightarrow> bytes \<Rightarrow> ProtobufError + bytes" where
  "ctl_BoolList_write_to_with_cached_sizes rt m os =
      and_then (for_each (\<lambda>v os. rt_write_bool rt 1 v os) (ctl_BoolList_list m) os) (\<lambda>os.
      rt_write_unknown_fields rt (ctl_BoolList_unknown_fields m) os)"

definition ctl_BoolList_get_cached_size :: "ctl_BoolList \<Rightarrow> u32" where
  "ctl_BoolList_get_cached_size m = ctl_BoolList_cached_size m"

definition ctl_BoolList_get_unknown_fields :: "ctl_BoolList \<Rightarrow> UnknownFields" where
  "ctl_BoolList_get_unknown_fields m = ctl_BoolList_unknown_fields m"

definition ctl_BoolList_message :: "protobuf \<Rightarrow> ctl_BoolList Message" where
  "ctl_BoolList_message rt =
     \<lparr>msg_new = ctl_BoolList_new, msg_is_initialized = ctl_BoolList_is_initialized,
      msg_merge_from = ctl_BoolList_merge_from rt, msg_compute_size =
        ctl_BoolList_compute_size rt,
      msg_write_to_with_cached_sizes = ctl_BoolList_write_to_with_cached_sizes rt,
      msg_get_cached_size = ctl_BoolList_get_cached_size\<rparr>"

subsection \<open>StringList\<close>

definition ctl_StringList_is_initialized :: "ctl_StringList \<Rightarrow> bool" where
  "ctl_StringList_is_initialized m = True"

definition ctl_StringList_merge_field :: "protobuf \<Rightarrow> ctl_StringList \<Rightarrow> bytes \<Rightarrow> (ctl_StringList
    \<times> bytes) reading" where
  "ctl_StringList_merge_field rt m input =
     run_then (Some (rt_read_tag_unpack rt input)) (\<lambda>((field_number, wire_type), input).
      if field_number = 1 then
        run_then (Some (rt_read_repeated_string_into rt wire_type input (ctl_StringList_list m))) (\<lambda>(v, input).
          Some (Inr (m\<lparr>ctl_StringList_list := v\<rparr>, input)))
      else
        run_then (Some (rt_read_unknown_or_skip_group rt field_number wire_type input (ctl_StringList_unknown_fields m)))
          (\<lambda>(uf, input). Some (Inr (m\<lparr>ctl_StringList_unknown_fields := uf\<rparr>, input))))"

definition ctl_StringList_merge_from :: "protobuf \<Rightarrow> ctl_StringList \<Rightarrow> bytes \<Rightarrow> (ctl_StringList
    \<times> bytes) reading" where
  "ctl_StringList_merge_from rt m input =
      merge_loop (rt_eof rt) (ctl_StringList_merge_field rt) m input"

definition ctl_StringList_compute_size :: "protobuf \<Rightarrow> ctl_StringList \<Rightarrow> u32 \<times> ctl_StringList" where
  "ctl_StringList_compute_size rt m =
     (let my_size = 0;
          my_size = foldl (\<lambda>my_size v. my_size + rt_string_size rt 1 v) my_size (ctl_StringList_list m);
          my_size = my_size + rt_unknown_fields_size rt (ctl_StringList_unknown_fields m)
      in (my_size, m\<lparr>ctl_StringList_cached_size := my_size\<rparr>))"

definition ctl_StringList_write_to_with_cached_sizes ::
    "protobuf \<Rightarrow> ctl_StringList \<Rightarrow> bytes \<Rightarrow> ProtobufError + bytes" where
  "ctl_StringList_write_to_with_cached_sizes rt m os =
      and_then (for_each (\<lambda>v os. rt_write_string rt 1 v os) (ctl_StringList_list m) os) (\<lambda>os.
      rt_write_unknown_fields rt (ctl_StringList_unknown_fields m) os)"

definition ctl_StringList_get_cached_size :: "ctl_StringList \<Rightarrow> u32" where
  "ctl_StringList_get_cached_size m = ctl_StringList_cached_size m"

definition ctl_StringList_get_unknown_fields :: "ctl_StringList \<Rightarrow> UnknownFields" where
  "ctl_StringList_get_unknown_fields m = ctl_StringList_unknown_fields m"

definition ctl_StringList_message :: "protobuf \<Rightarrow> ctl_StringList Message" where
  "ctl_StringList_message rt =
     \<lparr>msg_new = ctl_StringList_new, msg_is_initialized = ctl_StringList_is_initialized,
      msg_merge_from = ctl_StringList_merge_from rt, msg_compute_size =
        ctl_StringList_compute_size rt,
      msg_write_to_with_cached_sizes = ctl_StringList_write_to_with_cached_sizes rt,
      msg_get_cached_size = ctl_StringList_get_cached_size\<rparr>"

subsection \<open>ConfigValue\<close>

definition ctl_ConfigValue_is_initialized :: "ctl_ConfigValue \<Rightarrow> bool" where
  "ctl_ConfigValue_is_initialized m =
     (if (case ctl_ConfigValue_value m of Some (ConfigValue_oneof_value_int32list v)
       \<Rightarrow> \<not> ctl_Int32List_is_initialized v | _ \<Rightarrow> False) then False
      else if (case ctl_ConfigValue_value m of Some (ConfigValue_oneof_value_boollist v)
        \<Rightarrow> \<not> ctl_BoolList_is_initialized v | _ \<Rightarrow> False) then False
      else if (case ctl_ConfigValue_value m of Some (ConfigValue_oneof_value_stringlist v)
        \<Rightarrow> \<not> ctl_StringList_is_initialized v | _ \<Rightarrow> False) then False
      else True)"

definition ctl_ConfigValue_merge_field :: "protobuf \<Rightarrow> ctl_ConfigValue \<Rightarrow> bytes \<Rightarrow> (ctl_ConfigValue
    \<times> bytes) reading" where
  "ctl_ConfigValue_merge_field rt m input =
     run_then (Some (rt_read_tag_unpack rt input)) (\<lambda>((field_number, wire_type), input).
      if field_number = 1 then
        if wire_type \<noteq> WireTypeVarint then Some (Inl (rt_unexpected_wire_type rt wire_type))
        else run_then (Some (rt_read_int32 rt input)) (\<lambda>(v, input).
          Some (Inr (m\<lparr>ctl_ConfigValue_value := Some (ConfigValue_oneof_value_int32val v)\<rparr>,
            input)))
      else if field_number = 2 then
        if wire_type \<noteq> WireTypeLengthDelimited then Some (Inl (rt_unexpected_wire_type rt wire_type))
        else run_then (Some (rt_read_string rt input)) (\<lambda>(v, input).
          Some (Inr (m\<lparr>ctl_ConfigValue_value := Some (ConfigValue_oneof_value_strval v)\<rparr>, input)))
      else if field_number = 3 then
        if wire_type \<noteq> WireTypeVarint then Some (Inl (rt_unexpected_wire_type rt wire_type))
        else run_then (Some (rt_read_bool rt input)) (\<lambda>(v, input).
          Some (Inr (m\<lparr>ctl_ConfigValue_value := Some (ConfigValue_oneof_value_boolval v)\<rparr>,
            input)))
      else if field_number = 4 then
        if wire_type \<noteq> WireTypeLengthDelimited then Some (Inl (rt_unexpected_wire_type rt wire_type))
        else run_then (read_message (pb_Int32List rt) (ctl_Int32List_message rt) input) (\<lambda>(v,
          input).
          Some (Inr (m\<lparr>ctl_ConfigValue_value := Some (ConfigValue_oneof_value_int32list v)\<rparr>,
            input)))
      else if field_number = 5 then
        if wire_type \<noteq> WireTypeLengthDelimited then Some (Inl (rt_unexpected_wire_type rt wire_type))
        else run_then (read_message (pb_BoolList rt) (ctl_BoolList_message rt) input) (\<lambda>(v,
          input).
          Some (Inr (m\<lparr>ctl_ConfigValue_value := Some (ConfigValue_oneof_value_boollist v)\<rparr>,
            input)))
      else if field_number = 6 then
        if wire_type \<noteq> WireTypeLengthDelimited then Some (Inl (rt_unexpected_wire_type rt wire_type))
        else run_then (read_message (pb_StringList rt) (ctl_StringList_message rt) input) (\<lambda>(v,
          input).
          Some (Inr (m\<lparr>ctl_ConfigValue_value := Some (ConfigValue_oneof_value_stringlist v)\<rparr>,
            input)))
      else
        run_then (Some (rt_read_unknown_or_skip_group rt field_number wire_type input (ctl_ConfigValue_unknown_fields m)))
          (\<lambda>(uf, input). Some (Inr (m\<lparr>ctl_ConfigValue_unknown_fields := uf\<rparr>, input))))"

definition ctl_ConfigValue_merge_from :: "protobuf \<Rightarrow> ctl_ConfigValue \<Rightarrow> bytes \<Rightarrow> (ctl_ConfigValue
    \<times> bytes) reading" where
  "ctl_ConfigValue_merge_from rt m input =
      merge_loop (rt_eof rt) (ctl_ConfigValue_merge_field rt) m input"

definition ctl_ConfigValue_compute_size :: "protobuf \<Rightarrow> ctl_ConfigValue \<Rightarrow> u32
    \<times> ctl_ConfigValue" where
  "ctl_ConfigValue_compute_size rt m =
     (let my_size = 0;
          (my_size, m) = (case ctl_ConfigValue_value m of None \<Rightarrow> (my_size, m)
            | Some p \<Rightarrow> (case p of
              ConfigValue_oneof_value_int32val v
                \<Rightarrow> (my_size + rt_value_size_i32 rt 1 v WireTypeVarint, m)
            | ConfigValue_oneof_value_strval v \<Rightarrow> (my_size + rt_string_size rt 2 v, m)
            | ConfigValue_oneof_value_boolval v \<Rightarrow> (my_size + 2, m)
            | ConfigValue_oneof_value_int32list v \<Rightarrow> (let (len, v) =
              ctl_Int32List_compute_size rt v
                in (my_size + (1 + rt_compute_raw_varint32_size rt len + len),
                  m\<lparr>ctl_ConfigValue_value := Some (ConfigValue_oneof_value_int32list v)\<rparr>))
            | ConfigValue_oneof_value_boollist v \<Rightarrow> (let (len, v) = ctl_BoolList_compute_size rt v
                in (my_size + (1 + rt_compute_raw_varint32_size rt len + len),
                  m\<lparr>ctl_ConfigValue_value := Some (ConfigValue_oneof_value_boollist v)\<rparr>))
            | ConfigValue_oneof_value_stringlist v \<Rightarrow> (let (len, v) =
              ctl_StringList_compute_size rt v
                in (my_size + (1 + rt_compute_raw_varint32_size rt len + len),
                  m\<lparr>ctl_ConfigValue_value := Some (ConfigValue_oneof_value_stringlist v)\<rparr>))));
          my_size = my_size + rt_unknown_fields_size rt (ctl_ConfigValue_unknown_fields m)
      in (my_size, m\<lparr>ctl_ConfigValue_cached_size := my_size\<rparr>))"

definition ctl_ConfigValue_write_to_with_cached_sizes ::
    "protobuf \<Rightarrow> ctl_ConfigValue \<Rightarrow> bytes \<Rightarrow> ProtobufError + bytes" where
  "ctl_ConfigValue_write_to_with_cached_sizes rt m os =
      and_then (case ctl_ConfigValue_value m of None \<Rightarrow> Inr os | Some p \<Rightarrow> (case p of
             ConfigValue_oneof_value_int32val v \<Rightarrow> rt_write_int32 rt 1 v os
           | ConfigValue_oneof_value_strval v \<Rightarrow> rt_write_string rt 2 v os
           | ConfigValue_oneof_value_boolval v \<Rightarrow> rt_write_bool rt 3 v os
           | ConfigValue_oneof_value_int32list v \<Rightarrow>
             and_then (rt_write_tag rt 4 WireTypeLengthDelimited os) (\<lambda>os.
             and_then (rt_write_raw_varint32 rt (ctl_Int32List_get_cached_size v) os) (\<lambda>os.
             ctl_Int32List_write_to_with_cached_sizes rt v os))
           | ConfigValue_oneof_value_boollist v \<Rightarrow>
             and_then (rt_write_tag rt 5 WireTypeLengthDelimited os) (\<lambda>os.
             and_then (rt_write_raw_varint32 rt (ctl_BoolList_get_cached_size v) os) (\<lambda>os.
             ctl_BoolList_write_to_with_cached_sizes rt v os))
           | ConfigValue_oneof_value_stringlist v \<Rightarrow>
             and_then (rt_write_tag rt 6 WireTypeLengthDelimited os) (\<lambda>os.
             and_then (rt_write_raw_varint32 rt (ctl_StringList_get_cached_size v) os) (\<lambda>os.
             ctl_StringList_write_to_with_cached_sizes rt v os)))) (\<lambda>os.
      rt_write_unknown_fields rt (ctl_ConfigValue_unknown_fields m) os)"

definition ctl_ConfigValue_get_cached_size :: "ctl_ConfigValue \<Rightarrow> u32" where
  "ctl_ConfigValue_get_cached_size m = ctl_ConfigValue_cached_size m"

definition ctl_ConfigValue_get_unknown_fields :: "ctl_ConfigValue \<Rightarrow> UnknownFields" where
  "ctl_ConfigValue_get_unknown_fields m = ctl_ConfigValue_unknown_fields m"

definition ctl_ConfigValue_message :: "protobuf \<Rightarrow> ctl_ConfigValue Message" where
  "ctl_ConfigValue_message rt =
     \<lparr>msg_new = ctl_ConfigValue_new, msg_is_initialized = ctl_ConfigValue_is_initialized,
      msg_merge_from = ctl_ConfigValue_merge_from rt, msg_compute_size =
        ctl_ConfigValue_compute_size rt,
      msg_write_to_with_cached_sizes = ctl_ConfigValue_write_to_with_cached_sizes rt,
      msg_get_cached_size = ctl_ConfigValue_get_cached_size\<rparr>"

section \<open>The encodings\<close>

definition ctl_Int32List_wire :: "ctl_Int32List \<Rightarrow> bytes" where
  "ctl_Int32List_wire m =
     concat (map (enc_int32 1) (ctl_Int32List_list m))"

definition ctl_Int32List_ok :: "ctl_Int32List \<Rightarrow> bool" where
  "ctl_Int32List_ok m \<longleftrightarrow> ctl_Int32List_unknown_fields m = []"

definition ctl_Int32List_norm :: "ctl_Int32List \<Rightarrow> ctl_Int32List" where
  "ctl_Int32List_norm m = m\<lparr>ctl_Int32List_cached_size := 0\<rparr>"

definition ctl_BoolList_wire :: "ctl_BoolList \<Rightarrow> bytes" where
  "ctl_BoolList_wire m =
     concat (map (enc_bool 1) (ctl_BoolList_list m))"

definition ctl_BoolList_ok :: "ctl_BoolList \<Rightarrow> bool" where
  "ctl_BoolList_ok m \<longleftrightarrow> ctl_BoolList_unknown_fields m = []"

definition ctl_BoolList_norm :: "ctl_BoolList \<Rightarrow> ctl_BoolList" where
  "ctl_BoolList_norm m = m\<lparr>ctl_BoolList_cached_size := 0\<rparr>"

definition ctl_StringList_wire :: "ctl_StringList \<Rightarrow> bytes" where
  "ctl_StringList_wire m =
     concat (map (enc_string 1) (ctl_StringList_list m))"

definition ctl_StringList_ok :: "ctl_StringList \<Rightarrow> bool" where
  "ctl_StringList_ok m \<longleftrightarrow> list_all string_ok (ctl_StringList_list m) \<and> ctl_StringList_unknown_fields m = []"

definition ctl_StringList_norm :: "ctl_StringList \<Rightarrow> ctl_StringList" where
  "ctl_StringList_norm m = m\<lparr>ctl_StringList_cached_size := 0\<rparr>"

primrec ConfigValue_oneof_value_wire :: "ConfigValue_oneof_value \<Rightarrow> bytes" where
  "ConfigValue_oneof_value_wire (ConfigValue_oneof_value_int32val v) = enc_int32 1 v"
| "ConfigValue_oneof_value_wire (ConfigValue_oneof_value_strval v) = enc_string 2 v"
| "ConfigValue_oneof_value_wire (ConfigValue_oneof_value_boolval v) = enc_bool 3 v"
| "ConfigValue_oneof_value_wire (ConfigValue_oneof_value_int32list v) =
    enc_message 4 (ctl_Int32List_wire v)"
| "ConfigValue_oneof_value_wire (ConfigValue_oneof_value_boollist v) =
    enc_message 5 (ctl_BoolList_wire v)"
| "ConfigValue_oneof_value_wire (ConfigValue_oneof_value_stringlist v) =
    enc_message 6 (ctl_StringList_wire v)"

primrec ConfigValue_oneof_value_ok :: "ConfigValue_oneof_value \<Rightarrow> bool" where
  "ConfigValue_oneof_value_ok (ConfigValue_oneof_value_int32val v) = True"
| "ConfigValue_oneof_value_ok (ConfigValue_oneof_value_strval v) = string_ok v"
| "ConfigValue_oneof_value_ok (ConfigValue_oneof_value_boolval v) = True"
| "ConfigValue_oneof_value_ok (ConfigValue_oneof_value_int32list v) = ctl_Int32List_ok v"
| "ConfigValue_oneof_value_ok (ConfigValue_oneof_value_boollist v) = ctl_BoolList_ok v"
| "ConfigValue_oneof_value_ok (ConfigValue_oneof_value_stringlist v) = ctl_StringList_ok v"

primrec ConfigValue_oneof_value_norm :: "ConfigValue_oneof_value \<Rightarrow> ConfigValue_oneof_value" where
  "ConfigValue_oneof_value_norm (ConfigValue_oneof_value_int32val v) =
      ConfigValue_oneof_value_int32val v"
| "ConfigValue_oneof_value_norm (ConfigValue_oneof_value_strval v) =
    ConfigValue_oneof_value_strval v"
| "ConfigValue_oneof_value_norm (ConfigValue_oneof_value_boolval v) =
    ConfigValue_oneof_value_boolval v"
| "ConfigValue_oneof_value_norm (ConfigValue_oneof_value_int32list v) =
    ConfigValue_oneof_value_int32list (ctl_Int32List_norm v)"
| "ConfigValue_oneof_value_norm (ConfigValue_oneof_value_boollist v) =
    ConfigValue_oneof_value_boollist (ctl_BoolList_norm v)"
| "ConfigValue_oneof_value_norm (ConfigValue_oneof_value_stringlist v) =
    ConfigValue_oneof_value_stringlist (ctl_StringList_norm v)"

primrec ConfigValue_oneof_value_init :: "ConfigValue_oneof_value \<Rightarrow> bool" where
  "ConfigValue_oneof_value_init (ConfigValue_oneof_value_int32val v) = True"
| "ConfigValue_oneof_value_init (ConfigValue_oneof_value_strval v) = True"
| "ConfigValue_oneof_value_init (ConfigValue_oneof_value_boolval v) = True"
| "ConfigValue_oneof_value_init (ConfigValue_oneof_value_int32list v) =
    ctl_Int32List_is_initialized v"
| "ConfigValue_oneof_value_init (ConfigValue_oneof_value_boollist v) =
    ctl_BoolList_is_initialized v"
| "ConfigValue_oneof_value_init (ConfigValue_oneof_value_stringlist v) =
    ctl_StringList_is_initialized v"

definition ctl_ConfigValue_wire :: "ctl_ConfigValue \<Rightarrow> bytes" where
  "ctl_ConfigValue_wire m =
     enc_opt ConfigValue_oneof_value_wire (ctl_ConfigValue_value m)"

definition ctl_ConfigValue_ok :: "ctl_ConfigValue \<Rightarrow> bool" where
  "ctl_ConfigValue_ok m \<longleftrightarrow> ok_opt ConfigValue_oneof_value_ok (ctl_ConfigValue_value m) \<and> ctl_ConfigValue_unknown_fields m = []"

definition ctl_ConfigValue_norm :: "ctl_ConfigValue \<Rightarrow> ctl_ConfigValue" where
  "ctl_ConfigValue_norm m =
      m\<lparr>ctl_ConfigValue_value := map_option ConfigValue_oneof_value_norm (ctl_ConfigValue_value m),
       ctl_ConfigValue_cached_size := 0\<rparr>"

section \<open>The code implements the encodings\<close>

subsection \<open>Int32List\<close>

lemmas ctl_Int32List_ops =
  ctl_Int32List_new_def ctl_Int32List_is_initialized_def ctl_Int32List_merge_from_def ctl_Int32List_merge_field_def
  ctl_Int32List_compute_size_def ctl_Int32List_write_to_with_cached_sizes_def ctl_Int32List_get_cached_size_def

lemmas ctl_Int32List_spec = ctl_Int32List_wire_def ctl_Int32List_ok_def ctl_Int32List_norm_def

context protobuf_runtime begin

lemma ctl_Int32List_cached:
  "ctl_Int32List_get_cached_size (snd (ctl_Int32List_compute_size rt m)) =
      fst (ctl_Int32List_compute_size rt m)"
  by (simp add: ctl_Int32List_get_cached_size_def ctl_Int32List_compute_size_def Let_def split_beta)

lemma ctl_Int32List_merge_list:
  shows "merge_loop (rt_eof rt) (ctl_Int32List_merge_field rt) m (concat (map (enc_int32 1) xs) @ r)
    = merge_loop (rt_eof rt) (ctl_Int32List_merge_field rt) (m\<lparr>ctl_Int32List_list := ctl_Int32List_list m @ xs\<rparr>) r"
proof -
  have "merge_loop (rt_eof rt) (ctl_Int32List_merge_field rt) (m\<lparr>ctl_Int32List_list := ctl_Int32List_list m\<rparr>) (concat (map (enc_int32 1) xs) @ r)
    = merge_loop (rt_eof rt) (ctl_Int32List_merge_field rt) (m\<lparr>ctl_Int32List_list := ctl_Int32List_list m @ map id xs\<rparr>) r"
    by (intro merge_loop_list [OF eof, where put = "\<lambda>l. m\<lparr>ctl_Int32List_list := l\<rparr>"])
      (auto simp: codec ctl_Int32List_merge_field_def enc_int32_def dest!: small_parts)
  then show ?thesis by simp
qed

lemma ctl_Int32List_init_norm: "ctl_Int32List_is_initialized (ctl_Int32List_norm m) =
    ctl_Int32List_is_initialized m"
  by (simp add: ctl_Int32List_norm_def ctl_Int32List_is_initialized_def)

lemma ctl_Int32List_norm_eqs:
  "ctl_Int32List_wire (ctl_Int32List_norm m) =
      ctl_Int32List_wire m" "ctl_Int32List_ok (ctl_Int32List_norm m) = ctl_Int32List_ok m"
  by (simp_all add: ctl_Int32List_spec enc_opt_def ok_opt_def split: option.split)

lemma ctl_Int32List_keeps: "ctl_Int32List_norm (snd (ctl_Int32List_compute_size rt m)) =
    ctl_Int32List_norm m"
  by (simp add: ctl_Int32List_norm_def ctl_Int32List_compute_size_def Let_def split_beta
      split: option.split)

lemma ctl_Int32List_size:
  assumes "ctl_Int32List_ok m" and "small (ctl_Int32List_wire m)"
  shows "fst (ctl_Int32List_compute_size rt m) = of_nat (length (ctl_Int32List_wire m))"
  using assms
  by (cases m) (auto simp: codec ctl_Int32List_ops ctl_Int32List_spec Let_def split_beta add.assoc
      split: option.splits dest!: small_parts)

lemma ctl_Int32List_write:
  assumes "ctl_Int32List_ok m" and "small (ctl_Int32List_wire m)"
  shows "ctl_Int32List_write_to_with_cached_sizes rt (snd (ctl_Int32List_compute_size rt m)) os
    = Inr (os @ ctl_Int32List_wire m)"
  using assms
  by (cases m) (auto simp: codec ctl_Int32List_ops ctl_Int32List_spec Let_def split_beta split: option.splits
      dest!: small_parts)

lemma ctl_Int32List_merge:
  assumes "ctl_Int32List_ok m" and "small (ctl_Int32List_wire m)" and "ctl_Int32List_is_initialized m"
  shows "ctl_Int32List_merge_from rt ctl_Int32List_new (ctl_Int32List_wire m) =
      Some (Inr (ctl_Int32List_norm m, []))"
  using assms
  by (cases m) (auto simp: codec ctl_Int32List_ops ctl_Int32List_spec enc_opt_def ok_opt_def 
      ctl_Int32List_merge_list
      ctl_Int32List_merge_list [where r = "[]", simplified]
      split: option.splits if_splits dest!: small_parts)

end

sublocale protobuf_runtime \<subseteq> Int32List: nested_codec rt "ctl_Int32List_message rt" "pb_Int32List rt"
  ctl_Int32List_new ctl_Int32List_is_initialized "ctl_Int32List_merge_from rt" "ctl_Int32List_compute_size rt"
  "ctl_Int32List_write_to_with_cached_sizes rt" ctl_Int32List_get_cached_size ctl_Int32List_wire ctl_Int32List_ok ctl_Int32List_norm
  by unfold_locales
    (simp_all add: ctl_Int32List_message_def nested_Int32List ctl_Int32List_size ctl_Int32List_write ctl_Int32List_merge ctl_Int32List_cached ctl_Int32List_init_norm ctl_Int32List_norm_eqs ctl_Int32List_keeps)

subsection \<open>BoolList\<close>

lemmas ctl_BoolList_ops =
  ctl_BoolList_new_def ctl_BoolList_is_initialized_def ctl_BoolList_merge_from_def ctl_BoolList_merge_field_def
  ctl_BoolList_compute_size_def ctl_BoolList_write_to_with_cached_sizes_def ctl_BoolList_get_cached_size_def

lemmas ctl_BoolList_spec = ctl_BoolList_wire_def ctl_BoolList_ok_def ctl_BoolList_norm_def

context protobuf_runtime begin

lemma ctl_BoolList_cached:
  "ctl_BoolList_get_cached_size (snd (ctl_BoolList_compute_size rt m)) =
      fst (ctl_BoolList_compute_size rt m)"
  by (simp add: ctl_BoolList_get_cached_size_def ctl_BoolList_compute_size_def Let_def split_beta)

lemma ctl_BoolList_merge_list:
  shows "merge_loop (rt_eof rt) (ctl_BoolList_merge_field rt) m (concat (map (enc_bool 1) xs) @ r)
    = merge_loop (rt_eof rt) (ctl_BoolList_merge_field rt) (m\<lparr>ctl_BoolList_list := ctl_BoolList_list m @ xs\<rparr>) r"
proof -
  have "merge_loop (rt_eof rt) (ctl_BoolList_merge_field rt) (m\<lparr>ctl_BoolList_list := ctl_BoolList_list m\<rparr>) (concat (map (enc_bool 1) xs) @ r)
    = merge_loop (rt_eof rt) (ctl_BoolList_merge_field rt) (m\<lparr>ctl_BoolList_list := ctl_BoolList_list m @ map id xs\<rparr>) r"
    by (intro merge_loop_list [OF eof, where put = "\<lambda>l. m\<lparr>ctl_BoolList_list := l\<rparr>"])
      (auto simp: codec ctl_BoolList_merge_field_def enc_bool_def dest!: small_parts)
  then show ?thesis by simp
qed

lemma ctl_BoolList_init_norm: "ctl_BoolList_is_initialized (ctl_BoolList_norm m) =
    ctl_BoolList_is_initialized m"
  by (simp add: ctl_BoolList_norm_def ctl_BoolList_is_initialized_def)

lemma ctl_BoolList_norm_eqs:
  "ctl_BoolList_wire (ctl_BoolList_norm m) =
      ctl_BoolList_wire m" "ctl_BoolList_ok (ctl_BoolList_norm m) = ctl_BoolList_ok m"
  by (simp_all add: ctl_BoolList_spec enc_opt_def ok_opt_def split: option.split)

lemma ctl_BoolList_keeps: "ctl_BoolList_norm (snd (ctl_BoolList_compute_size rt m)) =
    ctl_BoolList_norm m"
  by (simp add: ctl_BoolList_norm_def ctl_BoolList_compute_size_def Let_def split_beta
      split: option.split)

lemma ctl_BoolList_size:
  assumes "ctl_BoolList_ok m" and "small (ctl_BoolList_wire m)"
  shows "fst (ctl_BoolList_compute_size rt m) = of_nat (length (ctl_BoolList_wire m))"
  using assms
  by (cases m) (auto simp: codec ctl_BoolList_ops ctl_BoolList_spec Let_def split_beta add.assoc length_bools
      split: option.splits dest!: small_parts)

lemma ctl_BoolList_write:
  assumes "ctl_BoolList_ok m" and "small (ctl_BoolList_wire m)"
  shows "ctl_BoolList_write_to_with_cached_sizes rt (snd (ctl_BoolList_compute_size rt m)) os
    = Inr (os @ ctl_BoolList_wire m)"
  using assms
  by (cases m) (auto simp: codec ctl_BoolList_ops ctl_BoolList_spec Let_def split_beta split: option.splits
      dest!: small_parts)

lemma ctl_BoolList_merge:
  assumes "ctl_BoolList_ok m" and "small (ctl_BoolList_wire m)" and "ctl_BoolList_is_initialized m"
  shows "ctl_BoolList_merge_from rt ctl_BoolList_new (ctl_BoolList_wire m) =
      Some (Inr (ctl_BoolList_norm m, []))"
  using assms
  by (cases m) (auto simp: codec ctl_BoolList_ops ctl_BoolList_spec enc_opt_def ok_opt_def 
      ctl_BoolList_merge_list
      ctl_BoolList_merge_list [where r = "[]", simplified]
      split: option.splits if_splits dest!: small_parts)

end

sublocale protobuf_runtime \<subseteq> BoolList: nested_codec rt "ctl_BoolList_message rt" "pb_BoolList rt"
  ctl_BoolList_new ctl_BoolList_is_initialized "ctl_BoolList_merge_from rt" "ctl_BoolList_compute_size rt"
  "ctl_BoolList_write_to_with_cached_sizes rt" ctl_BoolList_get_cached_size ctl_BoolList_wire ctl_BoolList_ok ctl_BoolList_norm
  by unfold_locales
    (simp_all add: ctl_BoolList_message_def nested_BoolList ctl_BoolList_size ctl_BoolList_write ctl_BoolList_merge ctl_BoolList_cached ctl_BoolList_init_norm ctl_BoolList_norm_eqs ctl_BoolList_keeps)

subsection \<open>StringList\<close>

lemmas ctl_StringList_ops =
  ctl_StringList_new_def ctl_StringList_is_initialized_def ctl_StringList_merge_from_def ctl_StringList_merge_field_def
  ctl_StringList_compute_size_def ctl_StringList_write_to_with_cached_sizes_def ctl_StringList_get_cached_size_def

lemmas ctl_StringList_spec = ctl_StringList_wire_def ctl_StringList_ok_def ctl_StringList_norm_def

context protobuf_runtime begin

lemma ctl_StringList_cached:
  "ctl_StringList_get_cached_size (snd (ctl_StringList_compute_size rt m)) =
      fst (ctl_StringList_compute_size rt m)"
  by (simp add: ctl_StringList_get_cached_size_def ctl_StringList_compute_size_def Let_def split_beta)

lemma ctl_StringList_merge_list:
  assumes "list_all string_ok xs" and "\<forall>s\<in>set xs. small (enc_string 1 s)"
  shows "merge_loop (rt_eof rt) (ctl_StringList_merge_field rt) m (concat (map (enc_string 1) xs) @ r)
    = merge_loop (rt_eof rt) (ctl_StringList_merge_field rt) (m\<lparr>ctl_StringList_list := ctl_StringList_list m @ xs\<rparr>) r"
proof -
  have "merge_loop (rt_eof rt) (ctl_StringList_merge_field rt) (m\<lparr>ctl_StringList_list := ctl_StringList_list m\<rparr>) (concat (map (enc_string 1) xs) @ r)
    = merge_loop (rt_eof rt) (ctl_StringList_merge_field rt) (m\<lparr>ctl_StringList_list := ctl_StringList_list m @ map id xs\<rparr>) r"
    using assms by (intro merge_loop_list [OF eof, where put = "\<lambda>l. m\<lparr>ctl_StringList_list := l\<rparr>"])
      (auto simp: codec ctl_StringList_merge_field_def enc_string_def list_all_iff dest!: small_parts)
  then show ?thesis by simp
qed

lemma ctl_StringList_init_norm: "ctl_StringList_is_initialized (ctl_StringList_norm m) =
    ctl_StringList_is_initialized m"
  by (simp add: ctl_StringList_norm_def ctl_StringList_is_initialized_def)

lemma ctl_StringList_norm_eqs:
  "ctl_StringList_wire (ctl_StringList_norm m) =
      ctl_StringList_wire m" "ctl_StringList_ok (ctl_StringList_norm m) = ctl_StringList_ok m"
  by (simp_all add: ctl_StringList_spec enc_opt_def ok_opt_def split: option.split)

lemma ctl_StringList_keeps: "ctl_StringList_norm (snd (ctl_StringList_compute_size rt m)) =
    ctl_StringList_norm m"
  by (simp add: ctl_StringList_norm_def ctl_StringList_compute_size_def Let_def split_beta
      split: option.split)

lemma ctl_StringList_size:
  assumes "ctl_StringList_ok m" and "small (ctl_StringList_wire m)"
  shows "fst (ctl_StringList_compute_size rt m) = of_nat (length (ctl_StringList_wire m))"
  using assms
  by (cases m) (auto simp: codec ctl_StringList_ops ctl_StringList_spec Let_def split_beta add.assoc
      split: option.splits dest!: small_parts)

lemma ctl_StringList_write:
  assumes "ctl_StringList_ok m" and "small (ctl_StringList_wire m)"
  shows "ctl_StringList_write_to_with_cached_sizes rt (snd (ctl_StringList_compute_size rt m)) os
    = Inr (os @ ctl_StringList_wire m)"
  using assms
  by (cases m) (auto simp: codec ctl_StringList_ops ctl_StringList_spec Let_def split_beta split: option.splits
      dest!: small_parts)

lemma ctl_StringList_merge:
  assumes "ctl_StringList_ok m" and "small (ctl_StringList_wire m)" and "ctl_StringList_is_initialized m"
  shows "ctl_StringList_merge_from rt ctl_StringList_new (ctl_StringList_wire m) =
      Some (Inr (ctl_StringList_norm m, []))"
  using assms
  by (cases m) (auto simp: codec ctl_StringList_ops ctl_StringList_spec enc_opt_def ok_opt_def 
      ctl_StringList_merge_list
      ctl_StringList_merge_list [where r = "[]", simplified]
      split: option.splits if_splits dest!: small_parts)

end

sublocale protobuf_runtime \<subseteq> StringList: nested_codec rt "ctl_StringList_message rt" "pb_StringList rt"
  ctl_StringList_new ctl_StringList_is_initialized "ctl_StringList_merge_from rt" "ctl_StringList_compute_size rt"
  "ctl_StringList_write_to_with_cached_sizes rt" ctl_StringList_get_cached_size ctl_StringList_wire ctl_StringList_ok ctl_StringList_norm
  by unfold_locales
    (simp_all add: ctl_StringList_message_def nested_StringList ctl_StringList_size ctl_StringList_write ctl_StringList_merge ctl_StringList_cached ctl_StringList_init_norm ctl_StringList_norm_eqs ctl_StringList_keeps)

subsection \<open>ConfigValue\<close>

lemmas ctl_ConfigValue_ops =
  ctl_ConfigValue_new_def ctl_ConfigValue_is_initialized_def ctl_ConfigValue_merge_from_def ctl_ConfigValue_merge_field_def
  ctl_ConfigValue_compute_size_def ctl_ConfigValue_write_to_with_cached_sizes_def ctl_ConfigValue_get_cached_size_def

lemmas ctl_ConfigValue_spec =
    ctl_ConfigValue_wire_def ctl_ConfigValue_ok_def ctl_ConfigValue_norm_def

context protobuf_runtime begin

lemma ctl_ConfigValue_cached:
  "ctl_ConfigValue_get_cached_size (snd (ctl_ConfigValue_compute_size rt m)) =
      fst (ctl_ConfigValue_compute_size rt m)"
  by (simp add: ctl_ConfigValue_get_cached_size_def ctl_ConfigValue_compute_size_def Let_def split_beta)

lemma ConfigValue_oneof_value_init_norm: "ConfigValue_oneof_value_init (ConfigValue_oneof_value_norm p) = ConfigValue_oneof_value_init p"
  by (cases p) (simp_all add: Int32List.init_norm BoolList.init_norm StringList.init_norm)

lemma ctl_ConfigValue_is_initialized_iff:
  "ctl_ConfigValue_is_initialized m \<longleftrightarrow> ok_opt ConfigValue_oneof_value_init (ctl_ConfigValue_value m)"
  by (auto simp: ctl_ConfigValue_is_initialized_def ok_opt_def split: option.splits ConfigValue_oneof_value.splits)

lemma ctl_ConfigValue_init_norm: "ctl_ConfigValue_is_initialized (ctl_ConfigValue_norm m) =
    ctl_ConfigValue_is_initialized m"
  by (auto simp: ctl_ConfigValue_is_initialized_iff ctl_ConfigValue_norm_def ok_opt_def ConfigValue_oneof_value_init_norm split: option.splits)

text \<open>One alternative in its field: size, bytes and merge.\<close>

lemma ConfigValue_oneof_value_merge:
  assumes "ConfigValue_oneof_value_ok p" and "small (ConfigValue_oneof_value_wire p)" and "ConfigValue_oneof_value_init p"
  shows "ctl_ConfigValue_merge_field rt m (ConfigValue_oneof_value_wire p @ r)
    = Some (Inr (m\<lparr>ctl_ConfigValue_value := Some (ConfigValue_oneof_value_norm p)\<rparr>, r))"
  using assms
  by (cases p) (auto simp: codec ctl_ConfigValue_merge_field_def enc_bool_def enc_int32_def enc_message_def enc_string_def dest!: small_parts)

lemma ConfigValue_oneof_value_wire_nonempty [simp]: "ConfigValue_oneof_value_wire p \<noteq> []"
  by (cases p) simp_all

lemma ConfigValue_oneof_value_norm_eqs:
  "ConfigValue_oneof_value_wire (ConfigValue_oneof_value_norm p) =
      ConfigValue_oneof_value_wire p" "ConfigValue_oneof_value_ok (ConfigValue_oneof_value_norm p) =
        ConfigValue_oneof_value_ok p"
  by (cases p,
      simp_all add: BoolList.norm_wire Int32List.norm_wire StringList.norm_wire BoolList.norm_ok Int32List.norm_ok StringList.norm_ok)+

lemma ctl_ConfigValue_norm_eqs:
  "ctl_ConfigValue_wire (ctl_ConfigValue_norm m) =
      ctl_ConfigValue_wire m" "ctl_ConfigValue_ok (ctl_ConfigValue_norm m) = ctl_ConfigValue_ok m"
  by (simp_all add: ctl_ConfigValue_spec ConfigValue_oneof_value_norm_eqs enc_opt_def ok_opt_def split: option.split)

lemma ctl_ConfigValue_keeps: "ctl_ConfigValue_norm (snd (ctl_ConfigValue_compute_size rt m)) =
    ctl_ConfigValue_norm m"
  by (simp add: ctl_ConfigValue_norm_def ctl_ConfigValue_compute_size_def Let_def split_beta BoolList.keeps Int32List.keeps StringList.keeps
      split: option.split ConfigValue_oneof_value.split)

lemma ctl_ConfigValue_size:
  assumes "ctl_ConfigValue_ok m" and "small (ctl_ConfigValue_wire m)"
  shows "fst (ctl_ConfigValue_compute_size rt m) = of_nat (length (ctl_ConfigValue_wire m))"
proof (cases "ctl_ConfigValue_value m")
  case None
  with assms show ?thesis
    by (auto simp: codec ctl_ConfigValue_ops ctl_ConfigValue_spec Let_def split: option.splits dest!: small_parts)
next
  case (Some p)
  with assms show ?thesis
    by (cases p) (auto simp: codec ctl_ConfigValue_ops ctl_ConfigValue_spec Let_def split_beta add.assoc length_enc_bool
        split: option.splits dest!: small_parts)
qed

lemma ctl_ConfigValue_write:
  assumes "ctl_ConfigValue_ok m" and "small (ctl_ConfigValue_wire m)"
  shows "ctl_ConfigValue_write_to_with_cached_sizes rt (snd (ctl_ConfigValue_compute_size rt m)) os
    = Inr (os @ ctl_ConfigValue_wire m)"
proof (cases "ctl_ConfigValue_value m")
  case None
  with assms show ?thesis
    by (auto simp: codec ctl_ConfigValue_ops ctl_ConfigValue_spec Let_def split_beta split: option.splits dest!: small_parts)
next
  case (Some p)
  with assms show ?thesis
    by (cases p) (auto simp: codec ctl_ConfigValue_ops ctl_ConfigValue_spec Let_def split_beta split: option.splits
        dest!: small_parts)
qed

lemma ctl_ConfigValue_merge:
  assumes "ctl_ConfigValue_ok m" and "small (ctl_ConfigValue_wire m)" and "ctl_ConfigValue_is_initialized m"
  shows "ctl_ConfigValue_merge_from rt ctl_ConfigValue_new (ctl_ConfigValue_wire m) =
      Some (Inr (ctl_ConfigValue_norm m, []))"
  using assms
  by (cases m) (auto simp: codec ctl_ConfigValue_is_initialized_iff ctl_ConfigValue_new_def ctl_ConfigValue_merge_from_def
      ctl_ConfigValue_spec enc_opt_def ok_opt_def
      ConfigValue_oneof_value_merge ConfigValue_oneof_value_merge [where r =
        "[]", simplified] split: option.splits dest!: small_parts)

end

sublocale protobuf_runtime \<subseteq> ConfigValue: nested_codec rt "ctl_ConfigValue_message rt" "pb_ConfigValue rt"
  ctl_ConfigValue_new ctl_ConfigValue_is_initialized "ctl_ConfigValue_merge_from rt" "ctl_ConfigValue_compute_size rt"
  "ctl_ConfigValue_write_to_with_cached_sizes rt" ctl_ConfigValue_get_cached_size ctl_ConfigValue_wire ctl_ConfigValue_ok ctl_ConfigValue_norm
  by unfold_locales
    (simp_all add: ctl_ConfigValue_message_def nested_ConfigValue ctl_ConfigValue_size ctl_ConfigValue_write ctl_ConfigValue_merge ctl_ConfigValue_cached ctl_ConfigValue_init_norm ctl_ConfigValue_norm_eqs ctl_ConfigValue_keeps)

end
