(* ===== verification/Codec_Commands.thy ===== *)
theory Codec_Commands
  imports Codec_Values
begin

text \<open>
  \<open>impl Message\<close> for the command messages and for \<open>Command\<close>
  (\<open>clients/rust/src/sysadminctl.rs\<close>), with the encodings they implement, in the conventions of
  theory Codec_Values.
\<close>

subsection \<open>Set\<close>

definition ctl_Set_is_initialized :: "ctl_Set \<Rightarrow> bool" where
  "ctl_Set_is_initialized m =
     (if ctl_Set_key m = None then False
      else if ctl_Set_value m = None then False
      else if (case ctl_Set_value m of Some v \<Rightarrow> \<not> ctl_ConfigValue_is_initialized v
        | None \<Rightarrow> False) then False
      else True)"

definition ctl_Set_merge_field :: "protobuf \<Rightarrow> ctl_Set \<Rightarrow> bytes \<Rightarrow> (ctl_Set \<times> bytes) reading" where
  "ctl_Set_merge_field rt m input =
     run_then (Some (rt_read_tag_unpack rt input)) (\<lambda>((field_number, wire_type), input).
      if field_number = 1 then
        run_then (Some (rt_read_singular_string_into rt wire_type input (ctl_Set_key m))) (\<lambda>(v,
          input).
          Some (Inr (m\<lparr>ctl_Set_key := v\<rparr>, input)))
      else if field_number = 2 then
        run_then (read_singular_message_into (pb_ConfigValue rt) (ctl_ConfigValue_message rt) wire_type input (ctl_Set_value m)) (\<lambda>(v, input).
          Some (Inr (m\<lparr>ctl_Set_value := v\<rparr>, input)))
      else
        run_then (Some (rt_read_unknown_or_skip_group rt field_number wire_type input (ctl_Set_unknown_fields m)))
          (\<lambda>(uf, input). Some (Inr (m\<lparr>ctl_Set_unknown_fields := uf\<rparr>, input))))"

definition ctl_Set_merge_from :: "protobuf \<Rightarrow> ctl_Set \<Rightarrow> bytes \<Rightarrow> (ctl_Set \<times> bytes) reading" where
  "ctl_Set_merge_from rt m input = merge_loop (rt_eof rt) (ctl_Set_merge_field rt) m input"

definition ctl_Set_compute_size :: "protobuf \<Rightarrow> ctl_Set \<Rightarrow> u32 \<times> ctl_Set" where
  "ctl_Set_compute_size rt m =
     (let my_size = 0;
          my_size = (case ctl_Set_key m of Some v \<Rightarrow> my_size + rt_string_size rt 1 v
            | None \<Rightarrow> my_size);
          (my_size, m) = (case ctl_Set_value m of
              Some v \<Rightarrow> (let (len, v) = ctl_ConfigValue_compute_size rt v
                in (my_size + (1 + rt_compute_raw_varint32_size rt len + len),
                  m\<lparr>ctl_Set_value := Some v\<rparr>))
            | None \<Rightarrow> (my_size, m));
          my_size = my_size + rt_unknown_fields_size rt (ctl_Set_unknown_fields m)
      in (my_size, m\<lparr>ctl_Set_cached_size := my_size\<rparr>))"

definition ctl_Set_write_to_with_cached_sizes ::
    "protobuf \<Rightarrow> ctl_Set \<Rightarrow> bytes \<Rightarrow> ProtobufError + bytes" where
  "ctl_Set_write_to_with_cached_sizes rt m os =
      and_then (case ctl_Set_key m of Some v \<Rightarrow> rt_write_string rt 1 v os | None \<Rightarrow> Inr os) (\<lambda>os.
      and_then (case ctl_Set_value m of None \<Rightarrow> Inr os | Some v \<Rightarrow>
             and_then (rt_write_tag rt 2 WireTypeLengthDelimited os) (\<lambda>os.
             and_then (rt_write_raw_varint32 rt (ctl_ConfigValue_get_cached_size v) os) (\<lambda>os.
             ctl_ConfigValue_write_to_with_cached_sizes rt v os))) (\<lambda>os.
      rt_write_unknown_fields rt (ctl_Set_unknown_fields m) os))"

definition ctl_Set_get_cached_size :: "ctl_Set \<Rightarrow> u32" where
  "ctl_Set_get_cached_size m = ctl_Set_cached_size m"

definition ctl_Set_get_unknown_fields :: "ctl_Set \<Rightarrow> UnknownFields" where
  "ctl_Set_get_unknown_fields m = ctl_Set_unknown_fields m"

definition ctl_Set_message :: "protobuf \<Rightarrow> ctl_Set Message" where
  "ctl_Set_message rt =
     \<lparr>msg_new = ctl_Set_new, msg_is_initialized = ctl_Set_is_initialized,
      msg_merge_from = ctl_Set_merge_from rt, msg_compute_size = ctl_Set_compute_size rt,
      msg_write_to_with_cached_sizes = ctl_Set_write_to_with_cached_sizes rt,
      msg_get_cached_size = ctl_Set_get_cached_size\<rparr>"

subsection \<open>Get\<close>

definition ctl_Get_is_initialized :: "ctl_Get \<Rightarrow> bool" where
  "ctl_Get_is_initialized m =
     (if ctl_Get_key m = None then False
      else True)"

definition ctl_Get_merge_field :: "protobuf \<Rightarrow> ctl_Get \<Rightarrow> bytes \<Rightarrow> (ctl_Get \<times> bytes) reading" where
  "ctl_Get_merge_field rt m input =
     run_then (Some (rt_read_tag_unpack rt input)) (\<lambda>((field_number, wire_type), input).
      if field_number = 1 then
        run_then (Some (rt_read_singular_string_into rt wire_type input (ctl_Get_key m))) (\<lambda>(v,
          input).
          Some (Inr (m\<lparr>ctl_Get_key := v\<rparr>, input)))
      else
        run_then (Some (rt_read_unknown_or_skip_group rt field_number wire_type input (ctl_Get_unknown_fields m)))
          (\<lambda>(uf, input). Some (Inr (m\<lparr>ctl_Get_unknown_fields := uf\<rparr>, input))))"

definition ctl_Get_merge_from :: "protobuf \<Rightarrow> ctl_Get \<Rightarrow> bytes \<Rightarrow> (ctl_Get \<times> bytes) reading" where
  "ctl_Get_merge_from rt m input = merge_loop (rt_eof rt) (ctl_Get_merge_field rt) m input"

definition ctl_Get_compute_size :: "protobuf \<Rightarrow> ctl_Get \<Rightarrow> u32 \<times> ctl_Get" where
  "ctl_Get_compute_size rt m =
     (let my_size = 0;
          my_size = (case ctl_Get_key m of Some v \<Rightarrow> my_size + rt_string_size rt 1 v
            | None \<Rightarrow> my_size);
          my_size = my_size + rt_unknown_fields_size rt (ctl_Get_unknown_fields m)
      in (my_size, m\<lparr>ctl_Get_cached_size := my_size\<rparr>))"

definition ctl_Get_write_to_with_cached_sizes ::
    "protobuf \<Rightarrow> ctl_Get \<Rightarrow> bytes \<Rightarrow> ProtobufError + bytes" where
  "ctl_Get_write_to_with_cached_sizes rt m os =
      and_then (case ctl_Get_key m of Some v \<Rightarrow> rt_write_string rt 1 v os | None \<Rightarrow> Inr os) (\<lambda>os.
      rt_write_unknown_fields rt (ctl_Get_unknown_fields m) os)"

definition ctl_Get_get_cached_size :: "ctl_Get \<Rightarrow> u32" where
  "ctl_Get_get_cached_size m = ctl_Get_cached_size m"

definition ctl_Get_get_unknown_fields :: "ctl_Get \<Rightarrow> UnknownFields" where
  "ctl_Get_get_unknown_fields m = ctl_Get_unknown_fields m"

definition ctl_Get_message :: "protobuf \<Rightarrow> ctl_Get Message" where
  "ctl_Get_message rt =
     \<lparr>msg_new = ctl_Get_new, msg_is_initialized = ctl_Get_is_initialized,
      msg_merge_from = ctl_Get_merge_from rt, msg_compute_size = ctl_Get_compute_size rt,
      msg_write_to_with_cached_sizes = ctl_Get_write_to_with_cached_sizes rt,
      msg_get_cached_size = ctl_Get_get_cached_size\<rparr>"

subsection \<open>Commit\<close>

definition ctl_Commit_is_initialized :: "ctl_Commit \<Rightarrow> bool" where
  "ctl_Commit_is_initialized m = True"

definition ctl_Commit_merge_field :: "protobuf \<Rightarrow> ctl_Commit \<Rightarrow> bytes \<Rightarrow> (ctl_Commit
    \<times> bytes) reading" where
  "ctl_Commit_merge_field rt m input =
     run_then (Some (rt_read_tag_unpack rt input)) (\<lambda>((field_number, wire_type), input).
      if field_number = 1 then
        if wire_type \<noteq> WireTypeVarint then Some (Inl (rt_unexpected_wire_type rt wire_type))
        else run_then (Some (read_enum (pb_CommitConfig rt) ctl_CommitConfig_enum input)) (\<lambda>(tmp,
          input).
          Some (Inr (m\<lparr>ctl_Commit_config := Some tmp\<rparr>, input)))
      else
        run_then (Some (rt_read_unknown_or_skip_group rt field_number wire_type input (ctl_Commit_unknown_fields m)))
          (\<lambda>(uf, input). Some (Inr (m\<lparr>ctl_Commit_unknown_fields := uf\<rparr>, input))))"

definition ctl_Commit_merge_from :: "protobuf \<Rightarrow> ctl_Commit \<Rightarrow> bytes \<Rightarrow> (ctl_Commit
    \<times> bytes) reading" where
  "ctl_Commit_merge_from rt m input = merge_loop (rt_eof rt) (ctl_Commit_merge_field rt) m input"

definition ctl_Commit_compute_size :: "protobuf \<Rightarrow> ctl_Commit \<Rightarrow> u32 \<times> ctl_Commit" where
  "ctl_Commit_compute_size rt m =
     (let my_size = 0;
          my_size = (case ctl_Commit_config m of Some v
            \<Rightarrow> my_size + enum_size (pb_CommitConfig rt) ctl_CommitConfig_enum 1 v
              | None \<Rightarrow> my_size);
          my_size = my_size + rt_unknown_fields_size rt (ctl_Commit_unknown_fields m)
      in (my_size, m\<lparr>ctl_Commit_cached_size := my_size\<rparr>))"

definition ctl_Commit_write_to_with_cached_sizes ::
    "protobuf \<Rightarrow> ctl_Commit \<Rightarrow> bytes \<Rightarrow> ProtobufError + bytes" where
  "ctl_Commit_write_to_with_cached_sizes rt m os =
      and_then (case ctl_Commit_config m of Some v
        \<Rightarrow> rt_write_enum rt 1 (ctl_CommitConfig_value v) os | None \<Rightarrow> Inr os) (\<lambda>os.
      rt_write_unknown_fields rt (ctl_Commit_unknown_fields m) os)"

definition ctl_Commit_get_cached_size :: "ctl_Commit \<Rightarrow> u32" where
  "ctl_Commit_get_cached_size m = ctl_Commit_cached_size m"

definition ctl_Commit_get_unknown_fields :: "ctl_Commit \<Rightarrow> UnknownFields" where
  "ctl_Commit_get_unknown_fields m = ctl_Commit_unknown_fields m"

definition ctl_Commit_message :: "protobuf \<Rightarrow> ctl_Commit Message" where
  "ctl_Commit_message rt =
     \<lparr>msg_new = ctl_Commit_new, msg_is_initialized = ctl_Commit_is_initialized,
      msg_merge_from = ctl_Commit_merge_from rt, msg_compute_size = ctl_Commit_compute_size rt,
      msg_write_to_with_cached_sizes = ctl_Commit_write_to_with_cached_sizes rt,
      msg_get_cached_size = ctl_Commit_get_cached_size\<rparr>"

subsection \<open>Drop\<close>

definition ctl_Drop_is_initialized :: "ctl_Drop \<Rightarrow> bool" where
  "ctl_Drop_is_initialized m = True"

definition ctl_Drop_merge_field :: "protobuf \<Rightarrow> ctl_Drop \<Rightarrow> bytes \<Rightarrow> (ctl_Drop
    \<times> bytes) reading" where
  "ctl_Drop_merge_field rt m input =
     run_then (Some (rt_read_tag_unpack rt input)) (\<lambda>((field_number, wire_type), input).
      run_then (Some (rt_read_unknown_or_skip_group rt field_number wire_type input (ctl_Drop_unknown_fields m)))
          (\<lambda>(uf, input). Some (Inr (m\<lparr>ctl_Drop_unknown_fields := uf\<rparr>, input))))"

definition ctl_Drop_merge_from :: "protobuf \<Rightarrow> ctl_Drop \<Rightarrow> bytes \<Rightarrow> (ctl_Drop \<times> bytes) reading" where
  "ctl_Drop_merge_from rt m input = merge_loop (rt_eof rt) (ctl_Drop_merge_field rt) m input"

definition ctl_Drop_compute_size :: "protobuf \<Rightarrow> ctl_Drop \<Rightarrow> u32 \<times> ctl_Drop" where
  "ctl_Drop_compute_size rt m =
     (let my_size = 0;
          my_size = my_size + rt_unknown_fields_size rt (ctl_Drop_unknown_fields m)
      in (my_size, m\<lparr>ctl_Drop_cached_size := my_size\<rparr>))"

definition ctl_Drop_write_to_with_cached_sizes ::
    "protobuf \<Rightarrow> ctl_Drop \<Rightarrow> bytes \<Rightarrow> ProtobufError + bytes" where
  "ctl_Drop_write_to_with_cached_sizes rt m os =
      rt_write_unknown_fields rt (ctl_Drop_unknown_fields m) os"

definition ctl_Drop_get_cached_size :: "ctl_Drop \<Rightarrow> u32" where
  "ctl_Drop_get_cached_size m = ctl_Drop_cached_size m"

definition ctl_Drop_get_unknown_fields :: "ctl_Drop \<Rightarrow> UnknownFields" where
  "ctl_Drop_get_unknown_fields m = ctl_Drop_unknown_fields m"

definition ctl_Drop_message :: "protobuf \<Rightarrow> ctl_Drop Message" where
  "ctl_Drop_message rt =
     \<lparr>msg_new = ctl_Drop_new, msg_is_initialized = ctl_Drop_is_initialized,
      msg_merge_from = ctl_Drop_merge_from rt, msg_compute_size = ctl_Drop_compute_size rt,
      msg_write_to_with_cached_sizes = ctl_Drop_write_to_with_cached_sizes rt,
      msg_get_cached_size = ctl_Drop_get_cached_size\<rparr>"

subsection \<open>FireHooks\<close>

definition ctl_FireHooks_is_initialized :: "ctl_FireHooks \<Rightarrow> bool" where
  "ctl_FireHooks_is_initialized m = True"

definition ctl_FireHooks_merge_field :: "protobuf \<Rightarrow> ctl_FireHooks \<Rightarrow> bytes \<Rightarrow> (ctl_FireHooks
    \<times> bytes) reading" where
  "ctl_FireHooks_merge_field rt m input =
     run_then (Some (rt_read_tag_unpack rt input)) (\<lambda>((field_number, wire_type), input).
      run_then (Some (rt_read_unknown_or_skip_group rt field_number wire_type input (ctl_FireHooks_unknown_fields m)))
          (\<lambda>(uf, input). Some (Inr (m\<lparr>ctl_FireHooks_unknown_fields := uf\<rparr>, input))))"

definition ctl_FireHooks_merge_from :: "protobuf \<Rightarrow> ctl_FireHooks \<Rightarrow> bytes \<Rightarrow> (ctl_FireHooks
    \<times> bytes) reading" where
  "ctl_FireHooks_merge_from rt m input =
      merge_loop (rt_eof rt) (ctl_FireHooks_merge_field rt) m input"

definition ctl_FireHooks_compute_size :: "protobuf \<Rightarrow> ctl_FireHooks \<Rightarrow> u32 \<times> ctl_FireHooks" where
  "ctl_FireHooks_compute_size rt m =
     (let my_size = 0;
          my_size = my_size + rt_unknown_fields_size rt (ctl_FireHooks_unknown_fields m)
      in (my_size, m\<lparr>ctl_FireHooks_cached_size := my_size\<rparr>))"

definition ctl_FireHooks_write_to_with_cached_sizes ::
    "protobuf \<Rightarrow> ctl_FireHooks \<Rightarrow> bytes \<Rightarrow> ProtobufError + bytes" where
  "ctl_FireHooks_write_to_with_cached_sizes rt m os =
      rt_write_unknown_fields rt (ctl_FireHooks_unknown_fields m) os"

definition ctl_FireHooks_get_cached_size :: "ctl_FireHooks \<Rightarrow> u32" where
  "ctl_FireHooks_get_cached_size m = ctl_FireHooks_cached_size m"

definition ctl_FireHooks_get_unknown_fields :: "ctl_FireHooks \<Rightarrow> UnknownFields" where
  "ctl_FireHooks_get_unknown_fields m = ctl_FireHooks_unknown_fields m"

definition ctl_FireHooks_message :: "protobuf \<Rightarrow> ctl_FireHooks Message" where
  "ctl_FireHooks_message rt =
     \<lparr>msg_new = ctl_FireHooks_new, msg_is_initialized = ctl_FireHooks_is_initialized,
      msg_merge_from = ctl_FireHooks_merge_from rt, msg_compute_size =
        ctl_FireHooks_compute_size rt,
      msg_write_to_with_cached_sizes = ctl_FireHooks_write_to_with_cached_sizes rt,
      msg_get_cached_size = ctl_FireHooks_get_cached_size\<rparr>"

subsection \<open>Rollback\<close>

definition ctl_Rollback_is_initialized :: "ctl_Rollback \<Rightarrow> bool" where
  "ctl_Rollback_is_initialized m =
     (if ctl_Rollback_id m = None then False
      else True)"

definition ctl_Rollback_merge_field :: "protobuf \<Rightarrow> ctl_Rollback \<Rightarrow> bytes \<Rightarrow> (ctl_Rollback
    \<times> bytes) reading" where
  "ctl_Rollback_merge_field rt m input =
     run_then (Some (rt_read_tag_unpack rt input)) (\<lambda>((field_number, wire_type), input).
      if field_number = 1 then
        if wire_type \<noteq> WireTypeVarint then Some (Inl (rt_unexpected_wire_type rt wire_type))
        else run_then (Some (rt_read_uint32 rt input)) (\<lambda>(tmp, input).
          Some (Inr (m\<lparr>ctl_Rollback_id := Some tmp\<rparr>, input)))
      else
        run_then (Some (rt_read_unknown_or_skip_group rt field_number wire_type input (ctl_Rollback_unknown_fields m)))
          (\<lambda>(uf, input). Some (Inr (m\<lparr>ctl_Rollback_unknown_fields := uf\<rparr>, input))))"

definition ctl_Rollback_merge_from :: "protobuf \<Rightarrow> ctl_Rollback \<Rightarrow> bytes \<Rightarrow> (ctl_Rollback
    \<times> bytes) reading" where
  "ctl_Rollback_merge_from rt m input =
      merge_loop (rt_eof rt) (ctl_Rollback_merge_field rt) m input"

definition ctl_Rollback_compute_size :: "protobuf \<Rightarrow> ctl_Rollback \<Rightarrow> u32 \<times> ctl_Rollback" where
  "ctl_Rollback_compute_size rt m =
     (let my_size = 0;
          my_size = (case ctl_Rollback_id m of Some v
            \<Rightarrow> my_size + rt_value_size_u32 rt 1 v WireTypeVarint
              | None \<Rightarrow> my_size);
          my_size = my_size + rt_unknown_fields_size rt (ctl_Rollback_unknown_fields m)
      in (my_size, m\<lparr>ctl_Rollback_cached_size := my_size\<rparr>))"

definition ctl_Rollback_write_to_with_cached_sizes ::
    "protobuf \<Rightarrow> ctl_Rollback \<Rightarrow> bytes \<Rightarrow> ProtobufError + bytes" where
  "ctl_Rollback_write_to_with_cached_sizes rt m os =
      and_then (case ctl_Rollback_id m of Some v \<Rightarrow> rt_write_uint32 rt 1 v os
        | None \<Rightarrow> Inr os) (\<lambda>os.
      rt_write_unknown_fields rt (ctl_Rollback_unknown_fields m) os)"

definition ctl_Rollback_get_cached_size :: "ctl_Rollback \<Rightarrow> u32" where
  "ctl_Rollback_get_cached_size m = ctl_Rollback_cached_size m"

definition ctl_Rollback_get_unknown_fields :: "ctl_Rollback \<Rightarrow> UnknownFields" where
  "ctl_Rollback_get_unknown_fields m = ctl_Rollback_unknown_fields m"

definition ctl_Rollback_message :: "protobuf \<Rightarrow> ctl_Rollback Message" where
  "ctl_Rollback_message rt =
     \<lparr>msg_new = ctl_Rollback_new, msg_is_initialized = ctl_Rollback_is_initialized,
      msg_merge_from = ctl_Rollback_merge_from rt, msg_compute_size =
        ctl_Rollback_compute_size rt,
      msg_write_to_with_cached_sizes = ctl_Rollback_write_to_with_cached_sizes rt,
      msg_get_cached_size = ctl_Rollback_get_cached_size\<rparr>"

subsection \<open>EraseKey\<close>

definition ctl_EraseKey_is_initialized :: "ctl_EraseKey \<Rightarrow> bool" where
  "ctl_EraseKey_is_initialized m =
     (if ctl_EraseKey_key m = None then False
      else True)"

definition ctl_EraseKey_merge_field :: "protobuf \<Rightarrow> ctl_EraseKey \<Rightarrow> bytes \<Rightarrow> (ctl_EraseKey
    \<times> bytes) reading" where
  "ctl_EraseKey_merge_field rt m input =
     run_then (Some (rt_read_tag_unpack rt input)) (\<lambda>((field_number, wire_type), input).
      if field_number = 1 then
        run_then (Some (rt_read_singular_string_into rt wire_type input (ctl_EraseKey_key m))) (\<lambda>(v, input).
          Some (Inr (m\<lparr>ctl_EraseKey_key := v\<rparr>, input)))
      else
        run_then (Some (rt_read_unknown_or_skip_group rt field_number wire_type input (ctl_EraseKey_unknown_fields m)))
          (\<lambda>(uf, input). Some (Inr (m\<lparr>ctl_EraseKey_unknown_fields := uf\<rparr>, input))))"

definition ctl_EraseKey_merge_from :: "protobuf \<Rightarrow> ctl_EraseKey \<Rightarrow> bytes \<Rightarrow> (ctl_EraseKey
    \<times> bytes) reading" where
  "ctl_EraseKey_merge_from rt m input =
      merge_loop (rt_eof rt) (ctl_EraseKey_merge_field rt) m input"

definition ctl_EraseKey_compute_size :: "protobuf \<Rightarrow> ctl_EraseKey \<Rightarrow> u32 \<times> ctl_EraseKey" where
  "ctl_EraseKey_compute_size rt m =
     (let my_size = 0;
          my_size = (case ctl_EraseKey_key m of Some v \<Rightarrow> my_size + rt_string_size rt 1 v
            | None \<Rightarrow> my_size);
          my_size = my_size + rt_unknown_fields_size rt (ctl_EraseKey_unknown_fields m)
      in (my_size, m\<lparr>ctl_EraseKey_cached_size := my_size\<rparr>))"

definition ctl_EraseKey_write_to_with_cached_sizes ::
    "protobuf \<Rightarrow> ctl_EraseKey \<Rightarrow> bytes \<Rightarrow> ProtobufError + bytes" where
  "ctl_EraseKey_write_to_with_cached_sizes rt m os =
      and_then (case ctl_EraseKey_key m of Some v \<Rightarrow> rt_write_string rt 1 v os
        | None \<Rightarrow> Inr os) (\<lambda>os.
      rt_write_unknown_fields rt (ctl_EraseKey_unknown_fields m) os)"

definition ctl_EraseKey_get_cached_size :: "ctl_EraseKey \<Rightarrow> u32" where
  "ctl_EraseKey_get_cached_size m = ctl_EraseKey_cached_size m"

definition ctl_EraseKey_get_unknown_fields :: "ctl_EraseKey \<Rightarrow> UnknownFields" where
  "ctl_EraseKey_get_unknown_fields m = ctl_EraseKey_unknown_fields m"

definition ctl_EraseKey_message :: "protobuf \<Rightarrow> ctl_EraseKey Message" where
  "ctl_EraseKey_message rt =
     \<lparr>msg_new = ctl_EraseKey_new, msg_is_initialized = ctl_EraseKey_is_initialized,
      msg_merge_from = ctl_EraseKey_merge_from rt, msg_compute_size =
        ctl_EraseKey_compute_size rt,
      msg_write_to_with_cached_sizes = ctl_EraseKey_write_to_with_cached_sizes rt,
      msg_get_cached_size = ctl_EraseKey_get_cached_size\<rparr>"

subsection \<open>Reset\<close>

definition ctl_Reset_is_initialized :: "ctl_Reset \<Rightarrow> bool" where
  "ctl_Reset_is_initialized m = True"

definition ctl_Reset_merge_field :: "protobuf \<Rightarrow> ctl_Reset \<Rightarrow> bytes \<Rightarrow> (ctl_Reset
    \<times> bytes) reading" where
  "ctl_Reset_merge_field rt m input =
     run_then (Some (rt_read_tag_unpack rt input)) (\<lambda>((field_number, wire_type), input).
      run_then (Some (rt_read_unknown_or_skip_group rt field_number wire_type input (ctl_Reset_unknown_fields m)))
          (\<lambda>(uf, input). Some (Inr (m\<lparr>ctl_Reset_unknown_fields := uf\<rparr>, input))))"

definition ctl_Reset_merge_from :: "protobuf \<Rightarrow> ctl_Reset \<Rightarrow> bytes \<Rightarrow> (ctl_Reset
    \<times> bytes) reading" where
  "ctl_Reset_merge_from rt m input = merge_loop (rt_eof rt) (ctl_Reset_merge_field rt) m input"

definition ctl_Reset_compute_size :: "protobuf \<Rightarrow> ctl_Reset \<Rightarrow> u32 \<times> ctl_Reset" where
  "ctl_Reset_compute_size rt m =
     (let my_size = 0;
          my_size = my_size + rt_unknown_fields_size rt (ctl_Reset_unknown_fields m)
      in (my_size, m\<lparr>ctl_Reset_cached_size := my_size\<rparr>))"

definition ctl_Reset_write_to_with_cached_sizes ::
    "protobuf \<Rightarrow> ctl_Reset \<Rightarrow> bytes \<Rightarrow> ProtobufError + bytes" where
  "ctl_Reset_write_to_with_cached_sizes rt m os =
      rt_write_unknown_fields rt (ctl_Reset_unknown_fields m) os"

definition ctl_Reset_get_cached_size :: "ctl_Reset \<Rightarrow> u32" where
  "ctl_Reset_get_cached_size m = ctl_Reset_cached_size m"

definition ctl_Reset_get_unknown_fields :: "ctl_Reset \<Rightarrow> UnknownFields" where
  "ctl_Reset_get_unknown_fields m = ctl_Reset_unknown_fields m"

definition ctl_Reset_message :: "protobuf \<Rightarrow> ctl_Reset Message" where
  "ctl_Reset_message rt =
     \<lparr>msg_new = ctl_Reset_new, msg_is_initialized = ctl_Reset_is_initialized,
      msg_merge_from = ctl_Reset_merge_from rt, msg_compute_size = ctl_Reset_compute_size rt,
      msg_write_to_with_cached_sizes = ctl_Reset_write_to_with_cached_sizes rt,
      msg_get_cached_size = ctl_Reset_get_cached_size\<rparr>"

subsection \<open>DumpHooks\<close>

definition ctl_DumpHooks_is_initialized :: "ctl_DumpHooks \<Rightarrow> bool" where
  "ctl_DumpHooks_is_initialized m = True"

definition ctl_DumpHooks_merge_field :: "protobuf \<Rightarrow> ctl_DumpHooks \<Rightarrow> bytes \<Rightarrow> (ctl_DumpHooks
    \<times> bytes) reading" where
  "ctl_DumpHooks_merge_field rt m input =
     run_then (Some (rt_read_tag_unpack rt input)) (\<lambda>((field_number, wire_type), input).
      run_then (Some (rt_read_unknown_or_skip_group rt field_number wire_type input (ctl_DumpHooks_unknown_fields m)))
          (\<lambda>(uf, input). Some (Inr (m\<lparr>ctl_DumpHooks_unknown_fields := uf\<rparr>, input))))"

definition ctl_DumpHooks_merge_from :: "protobuf \<Rightarrow> ctl_DumpHooks \<Rightarrow> bytes \<Rightarrow> (ctl_DumpHooks
    \<times> bytes) reading" where
  "ctl_DumpHooks_merge_from rt m input =
      merge_loop (rt_eof rt) (ctl_DumpHooks_merge_field rt) m input"

definition ctl_DumpHooks_compute_size :: "protobuf \<Rightarrow> ctl_DumpHooks \<Rightarrow> u32 \<times> ctl_DumpHooks" where
  "ctl_DumpHooks_compute_size rt m =
     (let my_size = 0;
          my_size = my_size + rt_unknown_fields_size rt (ctl_DumpHooks_unknown_fields m)
      in (my_size, m\<lparr>ctl_DumpHooks_cached_size := my_size\<rparr>))"

definition ctl_DumpHooks_write_to_with_cached_sizes ::
    "protobuf \<Rightarrow> ctl_DumpHooks \<Rightarrow> bytes \<Rightarrow> ProtobufError + bytes" where
  "ctl_DumpHooks_write_to_with_cached_sizes rt m os =
      rt_write_unknown_fields rt (ctl_DumpHooks_unknown_fields m) os"

definition ctl_DumpHooks_get_cached_size :: "ctl_DumpHooks \<Rightarrow> u32" where
  "ctl_DumpHooks_get_cached_size m = ctl_DumpHooks_cached_size m"

definition ctl_DumpHooks_get_unknown_fields :: "ctl_DumpHooks \<Rightarrow> UnknownFields" where
  "ctl_DumpHooks_get_unknown_fields m = ctl_DumpHooks_unknown_fields m"

definition ctl_DumpHooks_message :: "protobuf \<Rightarrow> ctl_DumpHooks Message" where
  "ctl_DumpHooks_message rt =
     \<lparr>msg_new = ctl_DumpHooks_new, msg_is_initialized = ctl_DumpHooks_is_initialized,
      msg_merge_from = ctl_DumpHooks_merge_from rt, msg_compute_size =
        ctl_DumpHooks_compute_size rt,
      msg_write_to_with_cached_sizes = ctl_DumpHooks_write_to_with_cached_sizes rt,
      msg_get_cached_size = ctl_DumpHooks_get_cached_size\<rparr>"

subsection \<open>TriggerHook\<close>

definition ctl_TriggerHook_is_initialized :: "ctl_TriggerHook \<Rightarrow> bool" where
  "ctl_TriggerHook_is_initialized m =
     (if ctl_TriggerHook_hook m = None then False
      else True)"

definition ctl_TriggerHook_merge_field :: "protobuf \<Rightarrow> ctl_TriggerHook \<Rightarrow> bytes \<Rightarrow> (ctl_TriggerHook
    \<times> bytes) reading" where
  "ctl_TriggerHook_merge_field rt m input =
     run_then (Some (rt_read_tag_unpack rt input)) (\<lambda>((field_number, wire_type), input).
      if field_number = 1 then
        run_then (Some (rt_read_singular_string_into rt wire_type input (ctl_TriggerHook_hook m))) (\<lambda>(v, input).
          Some (Inr (m\<lparr>ctl_TriggerHook_hook := v\<rparr>, input)))
      else
        run_then (Some (rt_read_unknown_or_skip_group rt field_number wire_type input (ctl_TriggerHook_unknown_fields m)))
          (\<lambda>(uf, input). Some (Inr (m\<lparr>ctl_TriggerHook_unknown_fields := uf\<rparr>, input))))"

definition ctl_TriggerHook_merge_from :: "protobuf \<Rightarrow> ctl_TriggerHook \<Rightarrow> bytes \<Rightarrow> (ctl_TriggerHook
    \<times> bytes) reading" where
  "ctl_TriggerHook_merge_from rt m input =
      merge_loop (rt_eof rt) (ctl_TriggerHook_merge_field rt) m input"

definition ctl_TriggerHook_compute_size :: "protobuf \<Rightarrow> ctl_TriggerHook \<Rightarrow> u32
    \<times> ctl_TriggerHook" where
  "ctl_TriggerHook_compute_size rt m =
     (let my_size = 0;
          my_size = (case ctl_TriggerHook_hook m of Some v \<Rightarrow> my_size + rt_string_size rt 1 v
            | None \<Rightarrow> my_size);
          my_size = my_size + rt_unknown_fields_size rt (ctl_TriggerHook_unknown_fields m)
      in (my_size, m\<lparr>ctl_TriggerHook_cached_size := my_size\<rparr>))"

definition ctl_TriggerHook_write_to_with_cached_sizes ::
    "protobuf \<Rightarrow> ctl_TriggerHook \<Rightarrow> bytes \<Rightarrow> ProtobufError + bytes" where
  "ctl_TriggerHook_write_to_with_cached_sizes rt m os =
      and_then (case ctl_TriggerHook_hook m of Some v \<Rightarrow> rt_write_string rt 1 v os
        | None \<Rightarrow> Inr os) (\<lambda>os.
      rt_write_unknown_fields rt (ctl_TriggerHook_unknown_fields m) os)"

definition ctl_TriggerHook_get_cached_size :: "ctl_TriggerHook \<Rightarrow> u32" where
  "ctl_TriggerHook_get_cached_size m = ctl_TriggerHook_cached_size m"

definition ctl_TriggerHook_get_unknown_fields :: "ctl_TriggerHook \<Rightarrow> UnknownFields" where
  "ctl_TriggerHook_get_unknown_fields m = ctl_TriggerHook_unknown_fields m"

definition ctl_TriggerHook_message :: "protobuf \<Rightarrow> ctl_TriggerHook Message" where
  "ctl_TriggerHook_message rt =
     \<lparr>msg_new = ctl_TriggerHook_new, msg_is_initialized = ctl_TriggerHook_is_initialized,
      msg_merge_from = ctl_TriggerHook_merge_from rt, msg_compute_size =
        ctl_TriggerHook_compute_size rt,
      msg_write_to_with_cached_sizes = ctl_TriggerHook_write_to_with_cached_sizes rt,
      msg_get_cached_size = ctl_TriggerHook_get_cached_size\<rparr>"

subsection \<open>Blame\<close>

definition ctl_Blame_is_initialized :: "ctl_Blame \<Rightarrow> bool" where
  "ctl_Blame_is_initialized m =
     (if ctl_Blame_key m = None then False
      else True)"

definition ctl_Blame_merge_field :: "protobuf \<Rightarrow> ctl_Blame \<Rightarrow> bytes \<Rightarrow> (ctl_Blame
    \<times> bytes) reading" where
  "ctl_Blame_merge_field rt m input =
     run_then (Some (rt_read_tag_unpack rt input)) (\<lambda>((field_number, wire_type), input).
      if field_number = 1 then
        run_then (Some (rt_read_singular_string_into rt wire_type input (ctl_Blame_key m))) (\<lambda>(v,
          input).
          Some (Inr (m\<lparr>ctl_Blame_key := v\<rparr>, input)))
      else
        run_then (Some (rt_read_unknown_or_skip_group rt field_number wire_type input (ctl_Blame_unknown_fields m)))
          (\<lambda>(uf, input). Some (Inr (m\<lparr>ctl_Blame_unknown_fields := uf\<rparr>, input))))"

definition ctl_Blame_merge_from :: "protobuf \<Rightarrow> ctl_Blame \<Rightarrow> bytes \<Rightarrow> (ctl_Blame
    \<times> bytes) reading" where
  "ctl_Blame_merge_from rt m input = merge_loop (rt_eof rt) (ctl_Blame_merge_field rt) m input"

definition ctl_Blame_compute_size :: "protobuf \<Rightarrow> ctl_Blame \<Rightarrow> u32 \<times> ctl_Blame" where
  "ctl_Blame_compute_size rt m =
     (let my_size = 0;
          my_size = (case ctl_Blame_key m of Some v \<Rightarrow> my_size + rt_string_size rt 1 v
            | None \<Rightarrow> my_size);
          my_size = my_size + rt_unknown_fields_size rt (ctl_Blame_unknown_fields m)
      in (my_size, m\<lparr>ctl_Blame_cached_size := my_size\<rparr>))"

definition ctl_Blame_write_to_with_cached_sizes ::
    "protobuf \<Rightarrow> ctl_Blame \<Rightarrow> bytes \<Rightarrow> ProtobufError + bytes" where
  "ctl_Blame_write_to_with_cached_sizes rt m os =
      and_then (case ctl_Blame_key m of Some v \<Rightarrow> rt_write_string rt 1 v os | None \<Rightarrow> Inr os) (\<lambda>os.
      rt_write_unknown_fields rt (ctl_Blame_unknown_fields m) os)"

definition ctl_Blame_get_cached_size :: "ctl_Blame \<Rightarrow> u32" where
  "ctl_Blame_get_cached_size m = ctl_Blame_cached_size m"

definition ctl_Blame_get_unknown_fields :: "ctl_Blame \<Rightarrow> UnknownFields" where
  "ctl_Blame_get_unknown_fields m = ctl_Blame_unknown_fields m"

definition ctl_Blame_message :: "protobuf \<Rightarrow> ctl_Blame Message" where
  "ctl_Blame_message rt =
     \<lparr>msg_new = ctl_Blame_new, msg_is_initialized = ctl_Blame_is_initialized,
      msg_merge_from = ctl_Blame_merge_from rt, msg_compute_size = ctl_Blame_compute_size rt,
      msg_write_to_with_cached_sizes = ctl_Blame_write_to_with_cached_sizes rt,
      msg_get_cached_size = ctl_Blame_get_cached_size\<rparr>"

subsection \<open>InFlight\<close>

definition ctl_InFlight_is_initialized :: "ctl_InFlight \<Rightarrow> bool" where
  "ctl_InFlight_is_initialized m = True"

definition ctl_InFlight_merge_field :: "protobuf \<Rightarrow> ctl_InFlight \<Rightarrow> bytes \<Rightarrow> (ctl_InFlight
    \<times> bytes) reading" where
  "ctl_InFlight_merge_field rt m input =
     run_then (Some (rt_read_tag_unpack rt input)) (\<lambda>((field_number, wire_type), input).
      run_then (Some (rt_read_unknown_or_skip_group rt field_number wire_type input (ctl_InFlight_unknown_fields m)))
          (\<lambda>(uf, input). Some (Inr (m\<lparr>ctl_InFlight_unknown_fields := uf\<rparr>, input))))"

definition ctl_InFlight_merge_from :: "protobuf \<Rightarrow> ctl_InFlight \<Rightarrow> bytes \<Rightarrow> (ctl_InFlight
    \<times> bytes) reading" where
  "ctl_InFlight_merge_from rt m input =
      merge_loop (rt_eof rt) (ctl_InFlight_merge_field rt) m input"

definition ctl_InFlight_compute_size :: "protobuf \<Rightarrow> ctl_InFlight \<Rightarrow> u32 \<times> ctl_InFlight" where
  "ctl_InFlight_compute_size rt m =
     (let my_size = 0;
          my_size = my_size + rt_unknown_fields_size rt (ctl_InFlight_unknown_fields m)
      in (my_size, m\<lparr>ctl_InFlight_cached_size := my_size\<rparr>))"

definition ctl_InFlight_write_to_with_cached_sizes ::
    "protobuf \<Rightarrow> ctl_InFlight \<Rightarrow> bytes \<Rightarrow> ProtobufError + bytes" where
  "ctl_InFlight_write_to_with_cached_sizes rt m os =
      rt_write_unknown_fields rt (ctl_InFlight_unknown_fields m) os"

definition ctl_InFlight_get_cached_size :: "ctl_InFlight \<Rightarrow> u32" where
  "ctl_InFlight_get_cached_size m = ctl_InFlight_cached_size m"

definition ctl_InFlight_get_unknown_fields :: "ctl_InFlight \<Rightarrow> UnknownFields" where
  "ctl_InFlight_get_unknown_fields m = ctl_InFlight_unknown_fields m"

definition ctl_InFlight_message :: "protobuf \<Rightarrow> ctl_InFlight Message" where
  "ctl_InFlight_message rt =
     \<lparr>msg_new = ctl_InFlight_new, msg_is_initialized = ctl_InFlight_is_initialized,
      msg_merge_from = ctl_InFlight_merge_from rt, msg_compute_size =
        ctl_InFlight_compute_size rt,
      msg_write_to_with_cached_sizes = ctl_InFlight_write_to_with_cached_sizes rt,
      msg_get_cached_size = ctl_InFlight_get_cached_size\<rparr>"

subsection \<open>Command\<close>

definition ctl_Command_is_initialized :: "ctl_Command \<Rightarrow> bool" where
  "ctl_Command_is_initialized m =
     (if ctl_Command_id m = None then False
      else if (case ctl_Command_payload m of Some (Command_oneof_payload_set v)
        \<Rightarrow> \<not> ctl_Set_is_initialized v | _ \<Rightarrow> False) then False
      else if (case ctl_Command_payload m of Some (Command_oneof_payload_get v)
        \<Rightarrow> \<not> ctl_Get_is_initialized v | _ \<Rightarrow> False) then False
      else if (case ctl_Command_payload m of Some (Command_oneof_payload_commit v)
        \<Rightarrow> \<not> ctl_Commit_is_initialized v | _ \<Rightarrow> False) then False
      else if (case ctl_Command_payload m of Some (Command_oneof_payload_drop v)
        \<Rightarrow> \<not> ctl_Drop_is_initialized v | _ \<Rightarrow> False) then False
      else if (case ctl_Command_payload m of Some (Command_oneof_payload_firehooks v)
        \<Rightarrow> \<not> ctl_FireHooks_is_initialized v | _ \<Rightarrow> False) then False
      else if (case ctl_Command_payload m of Some (Command_oneof_payload_erase v)
        \<Rightarrow> \<not> ctl_EraseKey_is_initialized v | _ \<Rightarrow> False) then False
      else if (case ctl_Command_payload m of Some (Command_oneof_payload_rollback v)
        \<Rightarrow> \<not> ctl_Rollback_is_initialized v | _ \<Rightarrow> False) then False
      else if (case ctl_Command_payload m of Some (Command_oneof_payload_reset v)
        \<Rightarrow> \<not> ctl_Reset_is_initialized v | _ \<Rightarrow> False) then False
      else if (case ctl_Command_payload m of Some (Command_oneof_payload_dump v)
        \<Rightarrow> \<not> ctl_DumpHooks_is_initialized v | _ \<Rightarrow> False) then False
      else if (case ctl_Command_payload m of Some (Command_oneof_payload_trigger v)
        \<Rightarrow> \<not> ctl_TriggerHook_is_initialized v | _ \<Rightarrow> False) then False
      else if (case ctl_Command_payload m of Some (Command_oneof_payload_blame v)
        \<Rightarrow> \<not> ctl_Blame_is_initialized v | _ \<Rightarrow> False) then False
      else if (case ctl_Command_payload m of Some (Command_oneof_payload_inflight v)
        \<Rightarrow> \<not> ctl_InFlight_is_initialized v | _ \<Rightarrow> False) then False
      else True)"

definition ctl_Command_merge_field :: "protobuf \<Rightarrow> ctl_Command \<Rightarrow> bytes \<Rightarrow> (ctl_Command
    \<times> bytes) reading" where
  "ctl_Command_merge_field rt m input =
     run_then (Some (rt_read_tag_unpack rt input)) (\<lambda>((field_number, wire_type), input).
      if field_number = 1 then
        if wire_type \<noteq> WireTypeLengthDelimited then Some (Inl (rt_unexpected_wire_type rt wire_type))
        else run_then (read_message (pb_Set rt) (ctl_Set_message rt) input) (\<lambda>(v, input).
          Some (Inr (m\<lparr>ctl_Command_payload := Some (Command_oneof_payload_set v)\<rparr>, input)))
      else if field_number = 2 then
        if wire_type \<noteq> WireTypeLengthDelimited then Some (Inl (rt_unexpected_wire_type rt wire_type))
        else run_then (read_message (pb_Get rt) (ctl_Get_message rt) input) (\<lambda>(v, input).
          Some (Inr (m\<lparr>ctl_Command_payload := Some (Command_oneof_payload_get v)\<rparr>, input)))
      else if field_number = 3 then
        if wire_type \<noteq> WireTypeLengthDelimited then Some (Inl (rt_unexpected_wire_type rt wire_type))
        else run_then (read_message (pb_Commit rt) (ctl_Commit_message rt) input) (\<lambda>(v, input).
          Some (Inr (m\<lparr>ctl_Command_payload := Some (Command_oneof_payload_commit v)\<rparr>, input)))
      else if field_number = 4 then
        if wire_type \<noteq> WireTypeLengthDelimited then Some (Inl (rt_unexpected_wire_type rt wire_type))
        else run_then (read_message (pb_Drop rt) (ctl_Drop_message rt) input) (\<lambda>(v, input).
          Some (Inr (m\<lparr>ctl_Command_payload := Some (Command_oneof_payload_drop v)\<rparr>, input)))
      else if field_number = 7 then
        if wire_type \<noteq> WireTypeLengthDelimited then Some (Inl (rt_unexpected_wire_type rt wire_type))
        else run_then (read_message (pb_FireHooks rt) (ctl_FireHooks_message rt) input) (\<lambda>(v,
          input).
          Some (Inr (m\<lparr>ctl_Command_payload := Some (Command_oneof_payload_firehooks v)\<rparr>, input)))
      else if field_number = 8 then
        if wire_type \<noteq> WireTypeLengthDelimited then Some (Inl (rt_unexpected_wire_type rt wire_type))
        else run_then (read_message (pb_EraseKey rt) (ctl_EraseKey_message rt) input) (\<lambda>(v,
          input).
          Some (Inr (m\<lparr>ctl_Command_payload := Some (Command_oneof_payload_erase v)\<rparr>, input)))
      else if field_number = 11 then
        if wire_type \<noteq> WireTypeLengthDelimited then Some (Inl (rt_unexpected_wire_type rt wire_type))
        else run_then (read_message (pb_Rollback rt) (ctl_Rollback_message rt) input) (\<lambda>(v,
          input).
          Some (Inr (m\<lparr>ctl_Command_payload := Some (Command_oneof_payload_rollback v)\<rparr>, input)))
      else if field_number = 12 then
        if wire_type \<noteq> WireTypeLengthDelimited then Some (Inl (rt_unexpected_wire_type rt wire_type))
        else run_then (read_message (pb_Reset rt) (ctl_Reset_message rt) input) (\<lambda>(v, input).
          Some (Inr (m\<lparr>ctl_Command_payload := Some (Command_oneof_payload_reset v)\<rparr>, input)))
      else if field_number = 13 then
        if wire_type \<noteq> WireTypeLengthDelimited then Some (Inl (rt_unexpected_wire_type rt wire_type))
        else run_then (read_message (pb_DumpHooks rt) (ctl_DumpHooks_message rt) input) (\<lambda>(v,
          input).
          Some (Inr (m\<lparr>ctl_Command_payload := Some (Command_oneof_payload_dump v)\<rparr>, input)))
      else if field_number = 14 then
        if wire_type \<noteq> WireTypeLengthDelimited then Some (Inl (rt_unexpected_wire_type rt wire_type))
        else run_then (read_message (pb_TriggerHook rt) (ctl_TriggerHook_message rt) input) (\<lambda>(v,
          input).
          Some (Inr (m\<lparr>ctl_Command_payload := Some (Command_oneof_payload_trigger v)\<rparr>, input)))
      else if field_number = 15 then
        if wire_type \<noteq> WireTypeLengthDelimited then Some (Inl (rt_unexpected_wire_type rt wire_type))
        else run_then (read_message (pb_Blame rt) (ctl_Blame_message rt) input) (\<lambda>(v, input).
          Some (Inr (m\<lparr>ctl_Command_payload := Some (Command_oneof_payload_blame v)\<rparr>, input)))
      else if field_number = 16 then
        if wire_type \<noteq> WireTypeLengthDelimited then Some (Inl (rt_unexpected_wire_type rt wire_type))
        else run_then (read_message (pb_InFlight rt) (ctl_InFlight_message rt) input) (\<lambda>(v,
          input).
          Some (Inr (m\<lparr>ctl_Command_payload := Some (Command_oneof_payload_inflight v)\<rparr>, input)))
      else if field_number = 6 then
        if wire_type \<noteq> WireTypeVarint then Some (Inl (rt_unexpected_wire_type rt wire_type))
        else run_then (Some (rt_read_uint32 rt input)) (\<lambda>(tmp, input).
          Some (Inr (m\<lparr>ctl_Command_id := Some tmp\<rparr>, input)))
      else if field_number = 10 then
        if wire_type \<noteq> WireTypeVarint then Some (Inl (rt_unexpected_wire_type rt wire_type))
        else run_then (Some (rt_read_uint32 rt input)) (\<lambda>(tmp, input).
          Some (Inr (m\<lparr>ctl_Command_xid := Some tmp\<rparr>, input)))
      else
        run_then (Some (rt_read_unknown_or_skip_group rt field_number wire_type input (ctl_Command_unknown_fields m)))
          (\<lambda>(uf, input). Some (Inr (m\<lparr>ctl_Command_unknown_fields := uf\<rparr>, input))))"

definition ctl_Command_merge_from :: "protobuf \<Rightarrow> ctl_Command \<Rightarrow> bytes \<Rightarrow> (ctl_Command
    \<times> bytes) reading" where
  "ctl_Command_merge_from rt m input =
      merge_loop (rt_eof rt) (ctl_Command_merge_field rt) m input"

definition ctl_Command_compute_size :: "protobuf \<Rightarrow> ctl_Command \<Rightarrow> u32 \<times> ctl_Command" where
  "ctl_Command_compute_size rt m =
     (let my_size = 0;
          my_size = (case ctl_Command_id m of Some v
            \<Rightarrow> my_size + rt_value_size_u32 rt 6 v WireTypeVarint
              | None \<Rightarrow> my_size);
          my_size = (case ctl_Command_xid m of Some v
            \<Rightarrow> my_size + rt_value_size_u32 rt 10 v WireTypeVarint
              | None \<Rightarrow> my_size);
          (my_size, m) = (case ctl_Command_payload m of None \<Rightarrow> (my_size, m) | Some p \<Rightarrow> (case p of
              Command_oneof_payload_set v \<Rightarrow> (let (len, v) = ctl_Set_compute_size rt v
                in (my_size + (1 + rt_compute_raw_varint32_size rt len + len),
                  m\<lparr>ctl_Command_payload := Some (Command_oneof_payload_set v)\<rparr>))
            | Command_oneof_payload_get v \<Rightarrow> (let (len, v) = ctl_Get_compute_size rt v
                in (my_size + (1 + rt_compute_raw_varint32_size rt len + len),
                  m\<lparr>ctl_Command_payload := Some (Command_oneof_payload_get v)\<rparr>))
            | Command_oneof_payload_commit v \<Rightarrow> (let (len, v) = ctl_Commit_compute_size rt v
                in (my_size + (1 + rt_compute_raw_varint32_size rt len + len),
                  m\<lparr>ctl_Command_payload := Some (Command_oneof_payload_commit v)\<rparr>))
            | Command_oneof_payload_drop v \<Rightarrow> (let (len, v) = ctl_Drop_compute_size rt v
                in (my_size + (1 + rt_compute_raw_varint32_size rt len + len),
                  m\<lparr>ctl_Command_payload := Some (Command_oneof_payload_drop v)\<rparr>))
            | Command_oneof_payload_firehooks v \<Rightarrow> (let (len, v) = ctl_FireHooks_compute_size rt v
                in (my_size + (1 + rt_compute_raw_varint32_size rt len + len),
                  m\<lparr>ctl_Command_payload := Some (Command_oneof_payload_firehooks v)\<rparr>))
            | Command_oneof_payload_erase v \<Rightarrow> (let (len, v) = ctl_EraseKey_compute_size rt v
                in (my_size + (1 + rt_compute_raw_varint32_size rt len + len),
                  m\<lparr>ctl_Command_payload := Some (Command_oneof_payload_erase v)\<rparr>))
            | Command_oneof_payload_rollback v \<Rightarrow> (let (len, v) = ctl_Rollback_compute_size rt v
                in (my_size + (1 + rt_compute_raw_varint32_size rt len + len),
                  m\<lparr>ctl_Command_payload := Some (Command_oneof_payload_rollback v)\<rparr>))
            | Command_oneof_payload_reset v \<Rightarrow> (let (len, v) = ctl_Reset_compute_size rt v
                in (my_size + (1 + rt_compute_raw_varint32_size rt len + len),
                  m\<lparr>ctl_Command_payload := Some (Command_oneof_payload_reset v)\<rparr>))
            | Command_oneof_payload_dump v \<Rightarrow> (let (len, v) = ctl_DumpHooks_compute_size rt v
                in (my_size + (1 + rt_compute_raw_varint32_size rt len + len),
                  m\<lparr>ctl_Command_payload := Some (Command_oneof_payload_dump v)\<rparr>))
            | Command_oneof_payload_trigger v \<Rightarrow> (let (len, v) = ctl_TriggerHook_compute_size rt v
                in (my_size + (1 + rt_compute_raw_varint32_size rt len + len),
                  m\<lparr>ctl_Command_payload := Some (Command_oneof_payload_trigger v)\<rparr>))
            | Command_oneof_payload_blame v \<Rightarrow> (let (len, v) = ctl_Blame_compute_size rt v
                in (my_size + (1 + rt_compute_raw_varint32_size rt len + len),
                  m\<lparr>ctl_Command_payload := Some (Command_oneof_payload_blame v)\<rparr>))
            | Command_oneof_payload_inflight v \<Rightarrow> (let (len, v) = ctl_InFlight_compute_size rt v
                in (my_size + (2 + rt_compute_raw_varint32_size rt len + len),
                  m\<lparr>ctl_Command_payload := Some (Command_oneof_payload_inflight v)\<rparr>))));
          my_size = my_size + rt_unknown_fields_size rt (ctl_Command_unknown_fields m)
      in (my_size, m\<lparr>ctl_Command_cached_size := my_size\<rparr>))"

definition ctl_Command_write_to_with_cached_sizes ::
    "protobuf \<Rightarrow> ctl_Command \<Rightarrow> bytes \<Rightarrow> ProtobufError + bytes" where
  "ctl_Command_write_to_with_cached_sizes rt m os =
      and_then (case ctl_Command_id m of Some v \<Rightarrow> rt_write_uint32 rt 6 v os | None \<Rightarrow> Inr os) (\<lambda>os.
      and_then (case ctl_Command_xid m of Some v \<Rightarrow> rt_write_uint32 rt 10 v os
        | None \<Rightarrow> Inr os) (\<lambda>os.
      and_then (case ctl_Command_payload m of None \<Rightarrow> Inr os | Some p \<Rightarrow> (case p of
             Command_oneof_payload_set v \<Rightarrow>
             and_then (rt_write_tag rt 1 WireTypeLengthDelimited os) (\<lambda>os.
             and_then (rt_write_raw_varint32 rt (ctl_Set_get_cached_size v) os) (\<lambda>os.
             ctl_Set_write_to_with_cached_sizes rt v os))
           | Command_oneof_payload_get v \<Rightarrow>
             and_then (rt_write_tag rt 2 WireTypeLengthDelimited os) (\<lambda>os.
             and_then (rt_write_raw_varint32 rt (ctl_Get_get_cached_size v) os) (\<lambda>os.
             ctl_Get_write_to_with_cached_sizes rt v os))
           | Command_oneof_payload_commit v \<Rightarrow>
             and_then (rt_write_tag rt 3 WireTypeLengthDelimited os) (\<lambda>os.
             and_then (rt_write_raw_varint32 rt (ctl_Commit_get_cached_size v) os) (\<lambda>os.
             ctl_Commit_write_to_with_cached_sizes rt v os))
           | Command_oneof_payload_drop v \<Rightarrow>
             and_then (rt_write_tag rt 4 WireTypeLengthDelimited os) (\<lambda>os.
             and_then (rt_write_raw_varint32 rt (ctl_Drop_get_cached_size v) os) (\<lambda>os.
             ctl_Drop_write_to_with_cached_sizes rt v os))
           | Command_oneof_payload_firehooks v \<Rightarrow>
             and_then (rt_write_tag rt 7 WireTypeLengthDelimited os) (\<lambda>os.
             and_then (rt_write_raw_varint32 rt (ctl_FireHooks_get_cached_size v) os) (\<lambda>os.
             ctl_FireHooks_write_to_with_cached_sizes rt v os))
           | Command_oneof_payload_erase v \<Rightarrow>
             and_then (rt_write_tag rt 8 WireTypeLengthDelimited os) (\<lambda>os.
             and_then (rt_write_raw_varint32 rt (ctl_EraseKey_get_cached_size v) os) (\<lambda>os.
             ctl_EraseKey_write_to_with_cached_sizes rt v os))
           | Command_oneof_payload_rollback v \<Rightarrow>
             and_then (rt_write_tag rt 11 WireTypeLengthDelimited os) (\<lambda>os.
             and_then (rt_write_raw_varint32 rt (ctl_Rollback_get_cached_size v) os) (\<lambda>os.
             ctl_Rollback_write_to_with_cached_sizes rt v os))
           | Command_oneof_payload_reset v \<Rightarrow>
             and_then (rt_write_tag rt 12 WireTypeLengthDelimited os) (\<lambda>os.
             and_then (rt_write_raw_varint32 rt (ctl_Reset_get_cached_size v) os) (\<lambda>os.
             ctl_Reset_write_to_with_cached_sizes rt v os))
           | Command_oneof_payload_dump v \<Rightarrow>
             and_then (rt_write_tag rt 13 WireTypeLengthDelimited os) (\<lambda>os.
             and_then (rt_write_raw_varint32 rt (ctl_DumpHooks_get_cached_size v) os) (\<lambda>os.
             ctl_DumpHooks_write_to_with_cached_sizes rt v os))
           | Command_oneof_payload_trigger v \<Rightarrow>
             and_then (rt_write_tag rt 14 WireTypeLengthDelimited os) (\<lambda>os.
             and_then (rt_write_raw_varint32 rt (ctl_TriggerHook_get_cached_size v) os) (\<lambda>os.
             ctl_TriggerHook_write_to_with_cached_sizes rt v os))
           | Command_oneof_payload_blame v \<Rightarrow>
             and_then (rt_write_tag rt 15 WireTypeLengthDelimited os) (\<lambda>os.
             and_then (rt_write_raw_varint32 rt (ctl_Blame_get_cached_size v) os) (\<lambda>os.
             ctl_Blame_write_to_with_cached_sizes rt v os))
           | Command_oneof_payload_inflight v \<Rightarrow>
             and_then (rt_write_tag rt 16 WireTypeLengthDelimited os) (\<lambda>os.
             and_then (rt_write_raw_varint32 rt (ctl_InFlight_get_cached_size v) os) (\<lambda>os.
             ctl_InFlight_write_to_with_cached_sizes rt v os)))) (\<lambda>os.
      rt_write_unknown_fields rt (ctl_Command_unknown_fields m) os)))"

definition ctl_Command_get_cached_size :: "ctl_Command \<Rightarrow> u32" where
  "ctl_Command_get_cached_size m = ctl_Command_cached_size m"

definition ctl_Command_get_unknown_fields :: "ctl_Command \<Rightarrow> UnknownFields" where
  "ctl_Command_get_unknown_fields m = ctl_Command_unknown_fields m"

definition ctl_Command_message :: "protobuf \<Rightarrow> ctl_Command Message" where
  "ctl_Command_message rt =
     \<lparr>msg_new = ctl_Command_new, msg_is_initialized = ctl_Command_is_initialized,
      msg_merge_from = ctl_Command_merge_from rt, msg_compute_size = ctl_Command_compute_size rt,
      msg_write_to_with_cached_sizes = ctl_Command_write_to_with_cached_sizes rt,
      msg_get_cached_size = ctl_Command_get_cached_size\<rparr>"

section \<open>The encodings\<close>

definition ctl_Set_wire :: "ctl_Set \<Rightarrow> bytes" where
  "ctl_Set_wire m =
     enc_opt (enc_string 1) (ctl_Set_key m)
     @ enc_opt (\<lambda>v. enc_message 2 (ctl_ConfigValue_wire v)) (ctl_Set_value m)"

definition ctl_Set_ok :: "ctl_Set \<Rightarrow> bool" where
  "ctl_Set_ok m \<longleftrightarrow> ok_opt string_ok (ctl_Set_key m) \<and> ok_opt ctl_ConfigValue_ok (ctl_Set_value m) \<and> ctl_Set_unknown_fields m = []"

definition ctl_Set_norm :: "ctl_Set \<Rightarrow> ctl_Set" where
  "ctl_Set_norm m = m\<lparr>ctl_Set_value := map_option ctl_ConfigValue_norm (ctl_Set_value m),
       ctl_Set_cached_size := 0\<rparr>"

definition ctl_Get_wire :: "ctl_Get \<Rightarrow> bytes" where
  "ctl_Get_wire m =
     enc_opt (enc_string 1) (ctl_Get_key m)"

definition ctl_Get_ok :: "ctl_Get \<Rightarrow> bool" where
  "ctl_Get_ok m \<longleftrightarrow> ok_opt string_ok (ctl_Get_key m) \<and> ctl_Get_unknown_fields m = []"

definition ctl_Get_norm :: "ctl_Get \<Rightarrow> ctl_Get" where
  "ctl_Get_norm m = m\<lparr>ctl_Get_cached_size := 0\<rparr>"

definition ctl_Commit_wire :: "ctl_Commit \<Rightarrow> bytes" where
  "ctl_Commit_wire m =
     enc_opt (\<lambda>v. enc_int32 1 (ctl_CommitConfig_value v)) (ctl_Commit_config m)"

definition ctl_Commit_ok :: "ctl_Commit \<Rightarrow> bool" where
  "ctl_Commit_ok m \<longleftrightarrow> ctl_Commit_unknown_fields m = []"

definition ctl_Commit_norm :: "ctl_Commit \<Rightarrow> ctl_Commit" where
  "ctl_Commit_norm m = m\<lparr>ctl_Commit_cached_size := 0\<rparr>"

definition ctl_Drop_wire :: "ctl_Drop \<Rightarrow> bytes" where
  "ctl_Drop_wire m =
     []"

definition ctl_Drop_ok :: "ctl_Drop \<Rightarrow> bool" where
  "ctl_Drop_ok m \<longleftrightarrow> ctl_Drop_unknown_fields m = []"

definition ctl_Drop_norm :: "ctl_Drop \<Rightarrow> ctl_Drop" where
  "ctl_Drop_norm m = m\<lparr>ctl_Drop_cached_size := 0\<rparr>"

definition ctl_FireHooks_wire :: "ctl_FireHooks \<Rightarrow> bytes" where
  "ctl_FireHooks_wire m =
     []"

definition ctl_FireHooks_ok :: "ctl_FireHooks \<Rightarrow> bool" where
  "ctl_FireHooks_ok m \<longleftrightarrow> ctl_FireHooks_unknown_fields m = []"

definition ctl_FireHooks_norm :: "ctl_FireHooks \<Rightarrow> ctl_FireHooks" where
  "ctl_FireHooks_norm m = m\<lparr>ctl_FireHooks_cached_size := 0\<rparr>"

definition ctl_Rollback_wire :: "ctl_Rollback \<Rightarrow> bytes" where
  "ctl_Rollback_wire m =
     enc_opt (enc_uint32 1) (ctl_Rollback_id m)"

definition ctl_Rollback_ok :: "ctl_Rollback \<Rightarrow> bool" where
  "ctl_Rollback_ok m \<longleftrightarrow> ctl_Rollback_unknown_fields m = []"

definition ctl_Rollback_norm :: "ctl_Rollback \<Rightarrow> ctl_Rollback" where
  "ctl_Rollback_norm m = m\<lparr>ctl_Rollback_cached_size := 0\<rparr>"

definition ctl_EraseKey_wire :: "ctl_EraseKey \<Rightarrow> bytes" where
  "ctl_EraseKey_wire m =
     enc_opt (enc_string 1) (ctl_EraseKey_key m)"

definition ctl_EraseKey_ok :: "ctl_EraseKey \<Rightarrow> bool" where
  "ctl_EraseKey_ok m \<longleftrightarrow> ok_opt string_ok (ctl_EraseKey_key m) \<and> ctl_EraseKey_unknown_fields m = []"

definition ctl_EraseKey_norm :: "ctl_EraseKey \<Rightarrow> ctl_EraseKey" where
  "ctl_EraseKey_norm m = m\<lparr>ctl_EraseKey_cached_size := 0\<rparr>"

definition ctl_Reset_wire :: "ctl_Reset \<Rightarrow> bytes" where
  "ctl_Reset_wire m =
     []"

definition ctl_Reset_ok :: "ctl_Reset \<Rightarrow> bool" where
  "ctl_Reset_ok m \<longleftrightarrow> ctl_Reset_unknown_fields m = []"

definition ctl_Reset_norm :: "ctl_Reset \<Rightarrow> ctl_Reset" where
  "ctl_Reset_norm m = m\<lparr>ctl_Reset_cached_size := 0\<rparr>"

definition ctl_DumpHooks_wire :: "ctl_DumpHooks \<Rightarrow> bytes" where
  "ctl_DumpHooks_wire m =
     []"

definition ctl_DumpHooks_ok :: "ctl_DumpHooks \<Rightarrow> bool" where
  "ctl_DumpHooks_ok m \<longleftrightarrow> ctl_DumpHooks_unknown_fields m = []"

definition ctl_DumpHooks_norm :: "ctl_DumpHooks \<Rightarrow> ctl_DumpHooks" where
  "ctl_DumpHooks_norm m = m\<lparr>ctl_DumpHooks_cached_size := 0\<rparr>"

definition ctl_TriggerHook_wire :: "ctl_TriggerHook \<Rightarrow> bytes" where
  "ctl_TriggerHook_wire m =
     enc_opt (enc_string 1) (ctl_TriggerHook_hook m)"

definition ctl_TriggerHook_ok :: "ctl_TriggerHook \<Rightarrow> bool" where
  "ctl_TriggerHook_ok m \<longleftrightarrow> ok_opt string_ok (ctl_TriggerHook_hook m) \<and> ctl_TriggerHook_unknown_fields m = []"

definition ctl_TriggerHook_norm :: "ctl_TriggerHook \<Rightarrow> ctl_TriggerHook" where
  "ctl_TriggerHook_norm m = m\<lparr>ctl_TriggerHook_cached_size := 0\<rparr>"

definition ctl_Blame_wire :: "ctl_Blame \<Rightarrow> bytes" where
  "ctl_Blame_wire m =
     enc_opt (enc_string 1) (ctl_Blame_key m)"

definition ctl_Blame_ok :: "ctl_Blame \<Rightarrow> bool" where
  "ctl_Blame_ok m \<longleftrightarrow> ok_opt string_ok (ctl_Blame_key m) \<and> ctl_Blame_unknown_fields m = []"

definition ctl_Blame_norm :: "ctl_Blame \<Rightarrow> ctl_Blame" where
  "ctl_Blame_norm m = m\<lparr>ctl_Blame_cached_size := 0\<rparr>"

definition ctl_InFlight_wire :: "ctl_InFlight \<Rightarrow> bytes" where
  "ctl_InFlight_wire m =
     []"

definition ctl_InFlight_ok :: "ctl_InFlight \<Rightarrow> bool" where
  "ctl_InFlight_ok m \<longleftrightarrow> ctl_InFlight_unknown_fields m = []"

definition ctl_InFlight_norm :: "ctl_InFlight \<Rightarrow> ctl_InFlight" where
  "ctl_InFlight_norm m = m\<lparr>ctl_InFlight_cached_size := 0\<rparr>"

primrec Command_oneof_payload_wire :: "Command_oneof_payload \<Rightarrow> bytes" where
  "Command_oneof_payload_wire (Command_oneof_payload_set v) = enc_message 1 (ctl_Set_wire v)"
| "Command_oneof_payload_wire (Command_oneof_payload_get v) = enc_message 2 (ctl_Get_wire v)"
| "Command_oneof_payload_wire (Command_oneof_payload_commit v) =
    enc_message 3 (ctl_Commit_wire v)"
| "Command_oneof_payload_wire (Command_oneof_payload_drop v) = enc_message 4 (ctl_Drop_wire v)"
| "Command_oneof_payload_wire (Command_oneof_payload_firehooks v) =
    enc_message 7 (ctl_FireHooks_wire v)"
| "Command_oneof_payload_wire (Command_oneof_payload_erase v) =
    enc_message 8 (ctl_EraseKey_wire v)"
| "Command_oneof_payload_wire (Command_oneof_payload_rollback v) =
    enc_message 11 (ctl_Rollback_wire v)"
| "Command_oneof_payload_wire (Command_oneof_payload_reset v) = enc_message 12 (ctl_Reset_wire v)"
| "Command_oneof_payload_wire (Command_oneof_payload_dump v) =
    enc_message 13 (ctl_DumpHooks_wire v)"
| "Command_oneof_payload_wire (Command_oneof_payload_trigger v) =
    enc_message 14 (ctl_TriggerHook_wire v)"
| "Command_oneof_payload_wire (Command_oneof_payload_blame v) = enc_message 15 (ctl_Blame_wire v)"
| "Command_oneof_payload_wire (Command_oneof_payload_inflight v) =
    enc_message 16 (ctl_InFlight_wire v)"

primrec Command_oneof_payload_ok :: "Command_oneof_payload \<Rightarrow> bool" where
  "Command_oneof_payload_ok (Command_oneof_payload_set v) = ctl_Set_ok v"
| "Command_oneof_payload_ok (Command_oneof_payload_get v) = ctl_Get_ok v"
| "Command_oneof_payload_ok (Command_oneof_payload_commit v) = ctl_Commit_ok v"
| "Command_oneof_payload_ok (Command_oneof_payload_drop v) = ctl_Drop_ok v"
| "Command_oneof_payload_ok (Command_oneof_payload_firehooks v) = ctl_FireHooks_ok v"
| "Command_oneof_payload_ok (Command_oneof_payload_erase v) = ctl_EraseKey_ok v"
| "Command_oneof_payload_ok (Command_oneof_payload_rollback v) = ctl_Rollback_ok v"
| "Command_oneof_payload_ok (Command_oneof_payload_reset v) = ctl_Reset_ok v"
| "Command_oneof_payload_ok (Command_oneof_payload_dump v) = ctl_DumpHooks_ok v"
| "Command_oneof_payload_ok (Command_oneof_payload_trigger v) = ctl_TriggerHook_ok v"
| "Command_oneof_payload_ok (Command_oneof_payload_blame v) = ctl_Blame_ok v"
| "Command_oneof_payload_ok (Command_oneof_payload_inflight v) = ctl_InFlight_ok v"

primrec Command_oneof_payload_norm :: "Command_oneof_payload \<Rightarrow> Command_oneof_payload" where
  "Command_oneof_payload_norm (Command_oneof_payload_set v) =
      Command_oneof_payload_set (ctl_Set_norm v)"
| "Command_oneof_payload_norm (Command_oneof_payload_get v) =
    Command_oneof_payload_get (ctl_Get_norm v)"
| "Command_oneof_payload_norm (Command_oneof_payload_commit v) =
    Command_oneof_payload_commit (ctl_Commit_norm v)"
| "Command_oneof_payload_norm (Command_oneof_payload_drop v) =
    Command_oneof_payload_drop (ctl_Drop_norm v)"
| "Command_oneof_payload_norm (Command_oneof_payload_firehooks v) =
    Command_oneof_payload_firehooks (ctl_FireHooks_norm v)"
| "Command_oneof_payload_norm (Command_oneof_payload_erase v) =
    Command_oneof_payload_erase (ctl_EraseKey_norm v)"
| "Command_oneof_payload_norm (Command_oneof_payload_rollback v) =
    Command_oneof_payload_rollback (ctl_Rollback_norm v)"
| "Command_oneof_payload_norm (Command_oneof_payload_reset v) =
    Command_oneof_payload_reset (ctl_Reset_norm v)"
| "Command_oneof_payload_norm (Command_oneof_payload_dump v) =
    Command_oneof_payload_dump (ctl_DumpHooks_norm v)"
| "Command_oneof_payload_norm (Command_oneof_payload_trigger v) =
    Command_oneof_payload_trigger (ctl_TriggerHook_norm v)"
| "Command_oneof_payload_norm (Command_oneof_payload_blame v) =
    Command_oneof_payload_blame (ctl_Blame_norm v)"
| "Command_oneof_payload_norm (Command_oneof_payload_inflight v) =
    Command_oneof_payload_inflight (ctl_InFlight_norm v)"

primrec Command_oneof_payload_init :: "Command_oneof_payload \<Rightarrow> bool" where
  "Command_oneof_payload_init (Command_oneof_payload_set v) = ctl_Set_is_initialized v"
| "Command_oneof_payload_init (Command_oneof_payload_get v) = ctl_Get_is_initialized v"
| "Command_oneof_payload_init (Command_oneof_payload_commit v) = ctl_Commit_is_initialized v"
| "Command_oneof_payload_init (Command_oneof_payload_drop v) = ctl_Drop_is_initialized v"
| "Command_oneof_payload_init (Command_oneof_payload_firehooks v) =
    ctl_FireHooks_is_initialized v"
| "Command_oneof_payload_init (Command_oneof_payload_erase v) = ctl_EraseKey_is_initialized v"
| "Command_oneof_payload_init (Command_oneof_payload_rollback v) = ctl_Rollback_is_initialized v"
| "Command_oneof_payload_init (Command_oneof_payload_reset v) = ctl_Reset_is_initialized v"
| "Command_oneof_payload_init (Command_oneof_payload_dump v) = ctl_DumpHooks_is_initialized v"
| "Command_oneof_payload_init (Command_oneof_payload_trigger v) =
    ctl_TriggerHook_is_initialized v"
| "Command_oneof_payload_init (Command_oneof_payload_blame v) = ctl_Blame_is_initialized v"
| "Command_oneof_payload_init (Command_oneof_payload_inflight v) = ctl_InFlight_is_initialized v"

definition ctl_Command_wire :: "ctl_Command \<Rightarrow> bytes" where
  "ctl_Command_wire m =
     enc_opt (enc_uint32 6) (ctl_Command_id m)
     @ enc_opt (enc_uint32 10) (ctl_Command_xid m)
     @ enc_opt Command_oneof_payload_wire (ctl_Command_payload m)"

definition ctl_Command_ok :: "ctl_Command \<Rightarrow> bool" where
  "ctl_Command_ok m \<longleftrightarrow> ok_opt Command_oneof_payload_ok (ctl_Command_payload m) \<and> ctl_Command_unknown_fields m = []"

definition ctl_Command_norm :: "ctl_Command \<Rightarrow> ctl_Command" where
  "ctl_Command_norm m =
      m\<lparr>ctl_Command_payload := map_option Command_oneof_payload_norm (ctl_Command_payload m),
       ctl_Command_cached_size := 0\<rparr>"

section \<open>The code implements the encodings\<close>

subsection \<open>Set\<close>

lemmas ctl_Set_ops =
  ctl_Set_new_def ctl_Set_is_initialized_def ctl_Set_merge_from_def ctl_Set_merge_field_def
  ctl_Set_compute_size_def ctl_Set_write_to_with_cached_sizes_def ctl_Set_get_cached_size_def

lemmas ctl_Set_spec = ctl_Set_wire_def ctl_Set_ok_def ctl_Set_norm_def

context protobuf_runtime begin

lemma ctl_Set_cached:
  "ctl_Set_get_cached_size (snd (ctl_Set_compute_size rt m)) = fst (ctl_Set_compute_size rt m)"
  by (simp add: ctl_Set_get_cached_size_def ctl_Set_compute_size_def Let_def split_beta)

lemma ctl_Set_init_norm: "ctl_Set_is_initialized (ctl_Set_norm m) = ctl_Set_is_initialized m"
  by (simp add: ctl_Set_norm_def ctl_Set_is_initialized_def ConfigValue.init_norm split: option.split)

lemma ctl_Set_norm_eqs:
  "ctl_Set_wire (ctl_Set_norm m) = ctl_Set_wire m" "ctl_Set_ok (ctl_Set_norm m) = ctl_Set_ok m"
  by (simp_all add: ctl_Set_spec ConfigValue.norm_wire ConfigValue.norm_ok enc_opt_def ok_opt_def split: option.split)

lemma ctl_Set_keeps: "ctl_Set_norm (snd (ctl_Set_compute_size rt m)) = ctl_Set_norm m"
  by (simp add: ctl_Set_norm_def ctl_Set_compute_size_def Let_def split_beta ConfigValue.keeps
      split: option.split)

lemma ctl_Set_size:
  assumes "ctl_Set_ok m" and "small (ctl_Set_wire m)"
  shows "fst (ctl_Set_compute_size rt m) = of_nat (length (ctl_Set_wire m))"
  using assms
  by (cases m) (auto simp: codec ctl_Set_ops ctl_Set_spec Let_def split_beta add.assoc split: option.splits
      dest!: small_parts)

lemma ctl_Set_write:
  assumes "ctl_Set_ok m" and "small (ctl_Set_wire m)"
  shows "ctl_Set_write_to_with_cached_sizes rt (snd (ctl_Set_compute_size rt m)) os
    = Inr (os @ ctl_Set_wire m)"
  using assms
  by (cases m) (auto simp: codec ctl_Set_ops ctl_Set_spec Let_def split_beta split: option.splits
      dest!: small_parts)

lemma ctl_Set_merge:
  assumes "ctl_Set_ok m" and "small (ctl_Set_wire m)" and "ctl_Set_is_initialized m"
  shows "ctl_Set_merge_from rt ctl_Set_new (ctl_Set_wire m) = Some (Inr (ctl_Set_norm m, []))"
  using assms
  by (cases m) (auto simp: codec ctl_Set_ops ctl_Set_spec enc_opt_def ok_opt_def enc_message_def enc_string_def
      split: option.splits if_splits dest!: small_parts)

end

sublocale protobuf_runtime \<subseteq> Set: nested_codec rt "ctl_Set_message rt" "pb_Set rt"
  ctl_Set_new ctl_Set_is_initialized "ctl_Set_merge_from rt" "ctl_Set_compute_size rt"
  "ctl_Set_write_to_with_cached_sizes rt" ctl_Set_get_cached_size ctl_Set_wire ctl_Set_ok ctl_Set_norm
  by unfold_locales
    (simp_all add: ctl_Set_message_def nested_Set ctl_Set_size ctl_Set_write ctl_Set_merge ctl_Set_cached ctl_Set_init_norm ctl_Set_norm_eqs ctl_Set_keeps)

subsection \<open>Get\<close>

lemmas ctl_Get_ops =
  ctl_Get_new_def ctl_Get_is_initialized_def ctl_Get_merge_from_def ctl_Get_merge_field_def
  ctl_Get_compute_size_def ctl_Get_write_to_with_cached_sizes_def ctl_Get_get_cached_size_def

lemmas ctl_Get_spec = ctl_Get_wire_def ctl_Get_ok_def ctl_Get_norm_def

context protobuf_runtime begin

lemma ctl_Get_cached:
  "ctl_Get_get_cached_size (snd (ctl_Get_compute_size rt m)) = fst (ctl_Get_compute_size rt m)"
  by (simp add: ctl_Get_get_cached_size_def ctl_Get_compute_size_def Let_def split_beta)

lemma ctl_Get_init_norm: "ctl_Get_is_initialized (ctl_Get_norm m) = ctl_Get_is_initialized m"
  by (simp add: ctl_Get_norm_def ctl_Get_is_initialized_def)

lemma ctl_Get_norm_eqs:
  "ctl_Get_wire (ctl_Get_norm m) = ctl_Get_wire m" "ctl_Get_ok (ctl_Get_norm m) = ctl_Get_ok m"
  by (simp_all add: ctl_Get_spec enc_opt_def ok_opt_def split: option.split)

lemma ctl_Get_keeps: "ctl_Get_norm (snd (ctl_Get_compute_size rt m)) = ctl_Get_norm m"
  by (simp add: ctl_Get_norm_def ctl_Get_compute_size_def Let_def split_beta
      split: option.split)

lemma ctl_Get_size:
  assumes "ctl_Get_ok m" and "small (ctl_Get_wire m)"
  shows "fst (ctl_Get_compute_size rt m) = of_nat (length (ctl_Get_wire m))"
  using assms
  by (cases m) (auto simp: codec ctl_Get_ops ctl_Get_spec Let_def split_beta add.assoc split: option.splits
      dest!: small_parts)

lemma ctl_Get_write:
  assumes "ctl_Get_ok m" and "small (ctl_Get_wire m)"
  shows "ctl_Get_write_to_with_cached_sizes rt (snd (ctl_Get_compute_size rt m)) os
    = Inr (os @ ctl_Get_wire m)"
  using assms
  by (cases m) (auto simp: codec ctl_Get_ops ctl_Get_spec Let_def split_beta split: option.splits
      dest!: small_parts)

lemma ctl_Get_merge:
  assumes "ctl_Get_ok m" and "small (ctl_Get_wire m)" and "ctl_Get_is_initialized m"
  shows "ctl_Get_merge_from rt ctl_Get_new (ctl_Get_wire m) = Some (Inr (ctl_Get_norm m, []))"
  using assms
  by (cases m) (auto simp: codec ctl_Get_ops ctl_Get_spec enc_opt_def ok_opt_def enc_string_def
      split: option.splits if_splits dest!: small_parts)

end

sublocale protobuf_runtime \<subseteq> Get: nested_codec rt "ctl_Get_message rt" "pb_Get rt"
  ctl_Get_new ctl_Get_is_initialized "ctl_Get_merge_from rt" "ctl_Get_compute_size rt"
  "ctl_Get_write_to_with_cached_sizes rt" ctl_Get_get_cached_size ctl_Get_wire ctl_Get_ok ctl_Get_norm
  by unfold_locales
    (simp_all add: ctl_Get_message_def nested_Get ctl_Get_size ctl_Get_write ctl_Get_merge ctl_Get_cached ctl_Get_init_norm ctl_Get_norm_eqs ctl_Get_keeps)

subsection \<open>Commit\<close>

lemmas ctl_Commit_ops =
  ctl_Commit_new_def ctl_Commit_is_initialized_def ctl_Commit_merge_from_def ctl_Commit_merge_field_def
  ctl_Commit_compute_size_def ctl_Commit_write_to_with_cached_sizes_def ctl_Commit_get_cached_size_def

lemmas ctl_Commit_spec = ctl_Commit_wire_def ctl_Commit_ok_def ctl_Commit_norm_def

context protobuf_runtime begin

lemma ctl_Commit_cached:
  "ctl_Commit_get_cached_size (snd (ctl_Commit_compute_size rt m)) =
      fst (ctl_Commit_compute_size rt m)"
  by (simp add: ctl_Commit_get_cached_size_def ctl_Commit_compute_size_def Let_def split_beta)

lemma ctl_Commit_init_norm: "ctl_Commit_is_initialized (ctl_Commit_norm m) =
    ctl_Commit_is_initialized m"
  by (simp add: ctl_Commit_norm_def ctl_Commit_is_initialized_def)

lemma ctl_Commit_norm_eqs:
  "ctl_Commit_wire (ctl_Commit_norm m) = ctl_Commit_wire m" "ctl_Commit_ok (ctl_Commit_norm m) =
      ctl_Commit_ok m"
  by (simp_all add: ctl_Commit_spec enc_opt_def ok_opt_def split: option.split)

lemma ctl_Commit_keeps: "ctl_Commit_norm (snd (ctl_Commit_compute_size rt m)) = ctl_Commit_norm m"
  by (simp add: ctl_Commit_norm_def ctl_Commit_compute_size_def Let_def split_beta
      split: option.split)

lemma ctl_Commit_size:
  assumes "ctl_Commit_ok m" and "small (ctl_Commit_wire m)"
  shows "fst (ctl_Commit_compute_size rt m) = of_nat (length (ctl_Commit_wire m))"
  using assms
  by (cases m) (auto simp: codec ctl_Commit_ops ctl_Commit_spec Let_def split_beta add.assoc split: option.splits
      dest!: small_parts)

lemma ctl_Commit_write:
  assumes "ctl_Commit_ok m" and "small (ctl_Commit_wire m)"
  shows "ctl_Commit_write_to_with_cached_sizes rt (snd (ctl_Commit_compute_size rt m)) os
    = Inr (os @ ctl_Commit_wire m)"
  using assms
  by (cases m) (auto simp: codec ctl_Commit_ops ctl_Commit_spec Let_def split_beta split: option.splits
      dest!: small_parts)

lemma ctl_Commit_merge:
  assumes "ctl_Commit_ok m" and "small (ctl_Commit_wire m)" and "ctl_Commit_is_initialized m"
  shows "ctl_Commit_merge_from rt ctl_Commit_new (ctl_Commit_wire m) =
      Some (Inr (ctl_Commit_norm m, []))"
  using assms
  by (cases m) (auto simp: codec ctl_Commit_ops ctl_Commit_spec enc_opt_def ok_opt_def enc_int32_def
      split: option.splits if_splits dest!: small_parts)

end

sublocale protobuf_runtime \<subseteq> Commit: nested_codec rt "ctl_Commit_message rt" "pb_Commit rt"
  ctl_Commit_new ctl_Commit_is_initialized "ctl_Commit_merge_from rt" "ctl_Commit_compute_size rt"
  "ctl_Commit_write_to_with_cached_sizes rt" ctl_Commit_get_cached_size ctl_Commit_wire ctl_Commit_ok ctl_Commit_norm
  by unfold_locales
    (simp_all add: ctl_Commit_message_def nested_Commit ctl_Commit_size ctl_Commit_write ctl_Commit_merge ctl_Commit_cached ctl_Commit_init_norm ctl_Commit_norm_eqs ctl_Commit_keeps)

subsection \<open>Drop\<close>

lemmas ctl_Drop_ops =
  ctl_Drop_new_def ctl_Drop_is_initialized_def ctl_Drop_merge_from_def ctl_Drop_merge_field_def
  ctl_Drop_compute_size_def ctl_Drop_write_to_with_cached_sizes_def ctl_Drop_get_cached_size_def

lemmas ctl_Drop_spec = ctl_Drop_wire_def ctl_Drop_ok_def ctl_Drop_norm_def

context protobuf_runtime begin

lemma ctl_Drop_cached:
  "ctl_Drop_get_cached_size (snd (ctl_Drop_compute_size rt m)) = fst (ctl_Drop_compute_size rt m)"
  by (simp add: ctl_Drop_get_cached_size_def ctl_Drop_compute_size_def Let_def split_beta)

lemma ctl_Drop_init_norm: "ctl_Drop_is_initialized (ctl_Drop_norm m) = ctl_Drop_is_initialized m"
  by (simp add: ctl_Drop_norm_def ctl_Drop_is_initialized_def)

lemma ctl_Drop_norm_eqs:
  "ctl_Drop_wire (ctl_Drop_norm m) = ctl_Drop_wire m" "ctl_Drop_ok (ctl_Drop_norm m) =
      ctl_Drop_ok m"
  by (simp_all add: ctl_Drop_spec enc_opt_def ok_opt_def split: option.split)

lemma ctl_Drop_keeps: "ctl_Drop_norm (snd (ctl_Drop_compute_size rt m)) = ctl_Drop_norm m"
  by (simp add: ctl_Drop_norm_def ctl_Drop_compute_size_def Let_def split_beta
      split: option.split)

lemma ctl_Drop_size:
  assumes "ctl_Drop_ok m" and "small (ctl_Drop_wire m)"
  shows "fst (ctl_Drop_compute_size rt m) = of_nat (length (ctl_Drop_wire m))"
  using assms
  by (cases m) (auto simp: codec ctl_Drop_ops ctl_Drop_spec Let_def split_beta add.assoc split: option.splits
      dest!: small_parts)

lemma ctl_Drop_write:
  assumes "ctl_Drop_ok m" and "small (ctl_Drop_wire m)"
  shows "ctl_Drop_write_to_with_cached_sizes rt (snd (ctl_Drop_compute_size rt m)) os
    = Inr (os @ ctl_Drop_wire m)"
  using assms
  by (cases m) (auto simp: codec ctl_Drop_ops ctl_Drop_spec Let_def split_beta split: option.splits
      dest!: small_parts)

lemma ctl_Drop_merge:
  assumes "ctl_Drop_ok m" and "small (ctl_Drop_wire m)" and "ctl_Drop_is_initialized m"
  shows "ctl_Drop_merge_from rt ctl_Drop_new (ctl_Drop_wire m) = Some (Inr (ctl_Drop_norm m, []))"
  using assms
  by (cases m) (auto simp: codec ctl_Drop_ops ctl_Drop_spec enc_opt_def ok_opt_def 
      split: option.splits if_splits dest!: small_parts)

end

sublocale protobuf_runtime \<subseteq> Drop: nested_codec rt "ctl_Drop_message rt" "pb_Drop rt"
  ctl_Drop_new ctl_Drop_is_initialized "ctl_Drop_merge_from rt" "ctl_Drop_compute_size rt"
  "ctl_Drop_write_to_with_cached_sizes rt" ctl_Drop_get_cached_size ctl_Drop_wire ctl_Drop_ok ctl_Drop_norm
  by unfold_locales
    (simp_all add: ctl_Drop_message_def nested_Drop ctl_Drop_size ctl_Drop_write ctl_Drop_merge ctl_Drop_cached ctl_Drop_init_norm ctl_Drop_norm_eqs ctl_Drop_keeps)

subsection \<open>FireHooks\<close>

lemmas ctl_FireHooks_ops =
  ctl_FireHooks_new_def ctl_FireHooks_is_initialized_def ctl_FireHooks_merge_from_def ctl_FireHooks_merge_field_def
  ctl_FireHooks_compute_size_def ctl_FireHooks_write_to_with_cached_sizes_def ctl_FireHooks_get_cached_size_def

lemmas ctl_FireHooks_spec = ctl_FireHooks_wire_def ctl_FireHooks_ok_def ctl_FireHooks_norm_def

context protobuf_runtime begin

lemma ctl_FireHooks_cached:
  "ctl_FireHooks_get_cached_size (snd (ctl_FireHooks_compute_size rt m)) =
      fst (ctl_FireHooks_compute_size rt m)"
  by (simp add: ctl_FireHooks_get_cached_size_def ctl_FireHooks_compute_size_def Let_def split_beta)

lemma ctl_FireHooks_init_norm: "ctl_FireHooks_is_initialized (ctl_FireHooks_norm m) =
    ctl_FireHooks_is_initialized m"
  by (simp add: ctl_FireHooks_norm_def ctl_FireHooks_is_initialized_def)

lemma ctl_FireHooks_norm_eqs:
  "ctl_FireHooks_wire (ctl_FireHooks_norm m) =
      ctl_FireHooks_wire m" "ctl_FireHooks_ok (ctl_FireHooks_norm m) = ctl_FireHooks_ok m"
  by (simp_all add: ctl_FireHooks_spec enc_opt_def ok_opt_def split: option.split)

lemma ctl_FireHooks_keeps: "ctl_FireHooks_norm (snd (ctl_FireHooks_compute_size rt m)) =
    ctl_FireHooks_norm m"
  by (simp add: ctl_FireHooks_norm_def ctl_FireHooks_compute_size_def Let_def split_beta
      split: option.split)

lemma ctl_FireHooks_size:
  assumes "ctl_FireHooks_ok m" and "small (ctl_FireHooks_wire m)"
  shows "fst (ctl_FireHooks_compute_size rt m) = of_nat (length (ctl_FireHooks_wire m))"
  using assms
  by (cases m) (auto simp: codec ctl_FireHooks_ops ctl_FireHooks_spec Let_def split_beta add.assoc split: option.splits
      dest!: small_parts)

lemma ctl_FireHooks_write:
  assumes "ctl_FireHooks_ok m" and "small (ctl_FireHooks_wire m)"
  shows "ctl_FireHooks_write_to_with_cached_sizes rt (snd (ctl_FireHooks_compute_size rt m)) os
    = Inr (os @ ctl_FireHooks_wire m)"
  using assms
  by (cases m) (auto simp: codec ctl_FireHooks_ops ctl_FireHooks_spec Let_def split_beta split: option.splits
      dest!: small_parts)

lemma ctl_FireHooks_merge:
  assumes "ctl_FireHooks_ok m" and "small (ctl_FireHooks_wire m)" and "ctl_FireHooks_is_initialized m"
  shows "ctl_FireHooks_merge_from rt ctl_FireHooks_new (ctl_FireHooks_wire m) =
      Some (Inr (ctl_FireHooks_norm m, []))"
  using assms
  by (cases m) (auto simp: codec ctl_FireHooks_ops ctl_FireHooks_spec enc_opt_def ok_opt_def 
      split: option.splits if_splits dest!: small_parts)

end

sublocale protobuf_runtime \<subseteq> FireHooks: nested_codec rt "ctl_FireHooks_message rt" "pb_FireHooks rt"
  ctl_FireHooks_new ctl_FireHooks_is_initialized "ctl_FireHooks_merge_from rt" "ctl_FireHooks_compute_size rt"
  "ctl_FireHooks_write_to_with_cached_sizes rt" ctl_FireHooks_get_cached_size ctl_FireHooks_wire ctl_FireHooks_ok ctl_FireHooks_norm
  by unfold_locales
    (simp_all add: ctl_FireHooks_message_def nested_FireHooks ctl_FireHooks_size ctl_FireHooks_write ctl_FireHooks_merge ctl_FireHooks_cached ctl_FireHooks_init_norm ctl_FireHooks_norm_eqs ctl_FireHooks_keeps)

subsection \<open>Rollback\<close>

lemmas ctl_Rollback_ops =
  ctl_Rollback_new_def ctl_Rollback_is_initialized_def ctl_Rollback_merge_from_def ctl_Rollback_merge_field_def
  ctl_Rollback_compute_size_def ctl_Rollback_write_to_with_cached_sizes_def ctl_Rollback_get_cached_size_def

lemmas ctl_Rollback_spec = ctl_Rollback_wire_def ctl_Rollback_ok_def ctl_Rollback_norm_def

context protobuf_runtime begin

lemma ctl_Rollback_cached:
  "ctl_Rollback_get_cached_size (snd (ctl_Rollback_compute_size rt m)) =
      fst (ctl_Rollback_compute_size rt m)"
  by (simp add: ctl_Rollback_get_cached_size_def ctl_Rollback_compute_size_def Let_def split_beta)

lemma ctl_Rollback_init_norm: "ctl_Rollback_is_initialized (ctl_Rollback_norm m) =
    ctl_Rollback_is_initialized m"
  by (simp add: ctl_Rollback_norm_def ctl_Rollback_is_initialized_def)

lemma ctl_Rollback_norm_eqs:
  "ctl_Rollback_wire (ctl_Rollback_norm m) =
      ctl_Rollback_wire m" "ctl_Rollback_ok (ctl_Rollback_norm m) = ctl_Rollback_ok m"
  by (simp_all add: ctl_Rollback_spec enc_opt_def ok_opt_def split: option.split)

lemma ctl_Rollback_keeps: "ctl_Rollback_norm (snd (ctl_Rollback_compute_size rt m)) =
    ctl_Rollback_norm m"
  by (simp add: ctl_Rollback_norm_def ctl_Rollback_compute_size_def Let_def split_beta
      split: option.split)

lemma ctl_Rollback_size:
  assumes "ctl_Rollback_ok m" and "small (ctl_Rollback_wire m)"
  shows "fst (ctl_Rollback_compute_size rt m) = of_nat (length (ctl_Rollback_wire m))"
  using assms
  by (cases m) (auto simp: codec ctl_Rollback_ops ctl_Rollback_spec Let_def split_beta add.assoc split: option.splits
      dest!: small_parts)

lemma ctl_Rollback_write:
  assumes "ctl_Rollback_ok m" and "small (ctl_Rollback_wire m)"
  shows "ctl_Rollback_write_to_with_cached_sizes rt (snd (ctl_Rollback_compute_size rt m)) os
    = Inr (os @ ctl_Rollback_wire m)"
  using assms
  by (cases m) (auto simp: codec ctl_Rollback_ops ctl_Rollback_spec Let_def split_beta split: option.splits
      dest!: small_parts)

lemma ctl_Rollback_merge:
  assumes "ctl_Rollback_ok m" and "small (ctl_Rollback_wire m)" and "ctl_Rollback_is_initialized m"
  shows "ctl_Rollback_merge_from rt ctl_Rollback_new (ctl_Rollback_wire m) =
      Some (Inr (ctl_Rollback_norm m, []))"
  using assms
  by (cases m) (auto simp: codec ctl_Rollback_ops ctl_Rollback_spec enc_opt_def ok_opt_def enc_uint32_def
      split: option.splits if_splits dest!: small_parts)

end

sublocale protobuf_runtime \<subseteq> Rollback: nested_codec rt "ctl_Rollback_message rt" "pb_Rollback rt"
  ctl_Rollback_new ctl_Rollback_is_initialized "ctl_Rollback_merge_from rt" "ctl_Rollback_compute_size rt"
  "ctl_Rollback_write_to_with_cached_sizes rt" ctl_Rollback_get_cached_size ctl_Rollback_wire ctl_Rollback_ok ctl_Rollback_norm
  by unfold_locales
    (simp_all add: ctl_Rollback_message_def nested_Rollback ctl_Rollback_size ctl_Rollback_write ctl_Rollback_merge ctl_Rollback_cached ctl_Rollback_init_norm ctl_Rollback_norm_eqs ctl_Rollback_keeps)

subsection \<open>EraseKey\<close>

lemmas ctl_EraseKey_ops =
  ctl_EraseKey_new_def ctl_EraseKey_is_initialized_def ctl_EraseKey_merge_from_def ctl_EraseKey_merge_field_def
  ctl_EraseKey_compute_size_def ctl_EraseKey_write_to_with_cached_sizes_def ctl_EraseKey_get_cached_size_def

lemmas ctl_EraseKey_spec = ctl_EraseKey_wire_def ctl_EraseKey_ok_def ctl_EraseKey_norm_def

context protobuf_runtime begin

lemma ctl_EraseKey_cached:
  "ctl_EraseKey_get_cached_size (snd (ctl_EraseKey_compute_size rt m)) =
      fst (ctl_EraseKey_compute_size rt m)"
  by (simp add: ctl_EraseKey_get_cached_size_def ctl_EraseKey_compute_size_def Let_def split_beta)

lemma ctl_EraseKey_init_norm: "ctl_EraseKey_is_initialized (ctl_EraseKey_norm m) =
    ctl_EraseKey_is_initialized m"
  by (simp add: ctl_EraseKey_norm_def ctl_EraseKey_is_initialized_def)

lemma ctl_EraseKey_norm_eqs:
  "ctl_EraseKey_wire (ctl_EraseKey_norm m) =
      ctl_EraseKey_wire m" "ctl_EraseKey_ok (ctl_EraseKey_norm m) = ctl_EraseKey_ok m"
  by (simp_all add: ctl_EraseKey_spec enc_opt_def ok_opt_def split: option.split)

lemma ctl_EraseKey_keeps: "ctl_EraseKey_norm (snd (ctl_EraseKey_compute_size rt m)) =
    ctl_EraseKey_norm m"
  by (simp add: ctl_EraseKey_norm_def ctl_EraseKey_compute_size_def Let_def split_beta
      split: option.split)

lemma ctl_EraseKey_size:
  assumes "ctl_EraseKey_ok m" and "small (ctl_EraseKey_wire m)"
  shows "fst (ctl_EraseKey_compute_size rt m) = of_nat (length (ctl_EraseKey_wire m))"
  using assms
  by (cases m) (auto simp: codec ctl_EraseKey_ops ctl_EraseKey_spec Let_def split_beta add.assoc split: option.splits
      dest!: small_parts)

lemma ctl_EraseKey_write:
  assumes "ctl_EraseKey_ok m" and "small (ctl_EraseKey_wire m)"
  shows "ctl_EraseKey_write_to_with_cached_sizes rt (snd (ctl_EraseKey_compute_size rt m)) os
    = Inr (os @ ctl_EraseKey_wire m)"
  using assms
  by (cases m) (auto simp: codec ctl_EraseKey_ops ctl_EraseKey_spec Let_def split_beta split: option.splits
      dest!: small_parts)

lemma ctl_EraseKey_merge:
  assumes "ctl_EraseKey_ok m" and "small (ctl_EraseKey_wire m)" and "ctl_EraseKey_is_initialized m"
  shows "ctl_EraseKey_merge_from rt ctl_EraseKey_new (ctl_EraseKey_wire m) =
      Some (Inr (ctl_EraseKey_norm m, []))"
  using assms
  by (cases m) (auto simp: codec ctl_EraseKey_ops ctl_EraseKey_spec enc_opt_def ok_opt_def enc_string_def
      split: option.splits if_splits dest!: small_parts)

end

sublocale protobuf_runtime \<subseteq> EraseKey: nested_codec rt "ctl_EraseKey_message rt" "pb_EraseKey rt"
  ctl_EraseKey_new ctl_EraseKey_is_initialized "ctl_EraseKey_merge_from rt" "ctl_EraseKey_compute_size rt"
  "ctl_EraseKey_write_to_with_cached_sizes rt" ctl_EraseKey_get_cached_size ctl_EraseKey_wire ctl_EraseKey_ok ctl_EraseKey_norm
  by unfold_locales
    (simp_all add: ctl_EraseKey_message_def nested_EraseKey ctl_EraseKey_size ctl_EraseKey_write ctl_EraseKey_merge ctl_EraseKey_cached ctl_EraseKey_init_norm ctl_EraseKey_norm_eqs ctl_EraseKey_keeps)

subsection \<open>Reset\<close>

lemmas ctl_Reset_ops =
  ctl_Reset_new_def ctl_Reset_is_initialized_def ctl_Reset_merge_from_def ctl_Reset_merge_field_def
  ctl_Reset_compute_size_def ctl_Reset_write_to_with_cached_sizes_def ctl_Reset_get_cached_size_def

lemmas ctl_Reset_spec = ctl_Reset_wire_def ctl_Reset_ok_def ctl_Reset_norm_def

context protobuf_runtime begin

lemma ctl_Reset_cached:
  "ctl_Reset_get_cached_size (snd (ctl_Reset_compute_size rt m)) =
      fst (ctl_Reset_compute_size rt m)"
  by (simp add: ctl_Reset_get_cached_size_def ctl_Reset_compute_size_def Let_def split_beta)

lemma ctl_Reset_init_norm: "ctl_Reset_is_initialized (ctl_Reset_norm m) =
    ctl_Reset_is_initialized m"
  by (simp add: ctl_Reset_norm_def ctl_Reset_is_initialized_def)

lemma ctl_Reset_norm_eqs:
  "ctl_Reset_wire (ctl_Reset_norm m) = ctl_Reset_wire m" "ctl_Reset_ok (ctl_Reset_norm m) =
      ctl_Reset_ok m"
  by (simp_all add: ctl_Reset_spec enc_opt_def ok_opt_def split: option.split)

lemma ctl_Reset_keeps: "ctl_Reset_norm (snd (ctl_Reset_compute_size rt m)) = ctl_Reset_norm m"
  by (simp add: ctl_Reset_norm_def ctl_Reset_compute_size_def Let_def split_beta
      split: option.split)

lemma ctl_Reset_size:
  assumes "ctl_Reset_ok m" and "small (ctl_Reset_wire m)"
  shows "fst (ctl_Reset_compute_size rt m) = of_nat (length (ctl_Reset_wire m))"
  using assms
  by (cases m) (auto simp: codec ctl_Reset_ops ctl_Reset_spec Let_def split_beta add.assoc split: option.splits
      dest!: small_parts)

lemma ctl_Reset_write:
  assumes "ctl_Reset_ok m" and "small (ctl_Reset_wire m)"
  shows "ctl_Reset_write_to_with_cached_sizes rt (snd (ctl_Reset_compute_size rt m)) os
    = Inr (os @ ctl_Reset_wire m)"
  using assms
  by (cases m) (auto simp: codec ctl_Reset_ops ctl_Reset_spec Let_def split_beta split: option.splits
      dest!: small_parts)

lemma ctl_Reset_merge:
  assumes "ctl_Reset_ok m" and "small (ctl_Reset_wire m)" and "ctl_Reset_is_initialized m"
  shows "ctl_Reset_merge_from rt ctl_Reset_new (ctl_Reset_wire m) =
      Some (Inr (ctl_Reset_norm m, []))"
  using assms
  by (cases m) (auto simp: codec ctl_Reset_ops ctl_Reset_spec enc_opt_def ok_opt_def 
      split: option.splits if_splits dest!: small_parts)

end

sublocale protobuf_runtime \<subseteq> Reset: nested_codec rt "ctl_Reset_message rt" "pb_Reset rt"
  ctl_Reset_new ctl_Reset_is_initialized "ctl_Reset_merge_from rt" "ctl_Reset_compute_size rt"
  "ctl_Reset_write_to_with_cached_sizes rt" ctl_Reset_get_cached_size ctl_Reset_wire ctl_Reset_ok ctl_Reset_norm
  by unfold_locales
    (simp_all add: ctl_Reset_message_def nested_Reset ctl_Reset_size ctl_Reset_write ctl_Reset_merge ctl_Reset_cached ctl_Reset_init_norm ctl_Reset_norm_eqs ctl_Reset_keeps)

subsection \<open>DumpHooks\<close>

lemmas ctl_DumpHooks_ops =
  ctl_DumpHooks_new_def ctl_DumpHooks_is_initialized_def ctl_DumpHooks_merge_from_def ctl_DumpHooks_merge_field_def
  ctl_DumpHooks_compute_size_def ctl_DumpHooks_write_to_with_cached_sizes_def ctl_DumpHooks_get_cached_size_def

lemmas ctl_DumpHooks_spec = ctl_DumpHooks_wire_def ctl_DumpHooks_ok_def ctl_DumpHooks_norm_def

context protobuf_runtime begin

lemma ctl_DumpHooks_cached:
  "ctl_DumpHooks_get_cached_size (snd (ctl_DumpHooks_compute_size rt m)) =
      fst (ctl_DumpHooks_compute_size rt m)"
  by (simp add: ctl_DumpHooks_get_cached_size_def ctl_DumpHooks_compute_size_def Let_def split_beta)

lemma ctl_DumpHooks_init_norm: "ctl_DumpHooks_is_initialized (ctl_DumpHooks_norm m) =
    ctl_DumpHooks_is_initialized m"
  by (simp add: ctl_DumpHooks_norm_def ctl_DumpHooks_is_initialized_def)

lemma ctl_DumpHooks_norm_eqs:
  "ctl_DumpHooks_wire (ctl_DumpHooks_norm m) =
      ctl_DumpHooks_wire m" "ctl_DumpHooks_ok (ctl_DumpHooks_norm m) = ctl_DumpHooks_ok m"
  by (simp_all add: ctl_DumpHooks_spec enc_opt_def ok_opt_def split: option.split)

lemma ctl_DumpHooks_keeps: "ctl_DumpHooks_norm (snd (ctl_DumpHooks_compute_size rt m)) =
    ctl_DumpHooks_norm m"
  by (simp add: ctl_DumpHooks_norm_def ctl_DumpHooks_compute_size_def Let_def split_beta
      split: option.split)

lemma ctl_DumpHooks_size:
  assumes "ctl_DumpHooks_ok m" and "small (ctl_DumpHooks_wire m)"
  shows "fst (ctl_DumpHooks_compute_size rt m) = of_nat (length (ctl_DumpHooks_wire m))"
  using assms
  by (cases m) (auto simp: codec ctl_DumpHooks_ops ctl_DumpHooks_spec Let_def split_beta add.assoc split: option.splits
      dest!: small_parts)

lemma ctl_DumpHooks_write:
  assumes "ctl_DumpHooks_ok m" and "small (ctl_DumpHooks_wire m)"
  shows "ctl_DumpHooks_write_to_with_cached_sizes rt (snd (ctl_DumpHooks_compute_size rt m)) os
    = Inr (os @ ctl_DumpHooks_wire m)"
  using assms
  by (cases m) (auto simp: codec ctl_DumpHooks_ops ctl_DumpHooks_spec Let_def split_beta split: option.splits
      dest!: small_parts)

lemma ctl_DumpHooks_merge:
  assumes "ctl_DumpHooks_ok m" and "small (ctl_DumpHooks_wire m)" and "ctl_DumpHooks_is_initialized m"
  shows "ctl_DumpHooks_merge_from rt ctl_DumpHooks_new (ctl_DumpHooks_wire m) =
      Some (Inr (ctl_DumpHooks_norm m, []))"
  using assms
  by (cases m) (auto simp: codec ctl_DumpHooks_ops ctl_DumpHooks_spec enc_opt_def ok_opt_def 
      split: option.splits if_splits dest!: small_parts)

end

sublocale protobuf_runtime \<subseteq> DumpHooks: nested_codec rt "ctl_DumpHooks_message rt" "pb_DumpHooks rt"
  ctl_DumpHooks_new ctl_DumpHooks_is_initialized "ctl_DumpHooks_merge_from rt" "ctl_DumpHooks_compute_size rt"
  "ctl_DumpHooks_write_to_with_cached_sizes rt" ctl_DumpHooks_get_cached_size ctl_DumpHooks_wire ctl_DumpHooks_ok ctl_DumpHooks_norm
  by unfold_locales
    (simp_all add: ctl_DumpHooks_message_def nested_DumpHooks ctl_DumpHooks_size ctl_DumpHooks_write ctl_DumpHooks_merge ctl_DumpHooks_cached ctl_DumpHooks_init_norm ctl_DumpHooks_norm_eqs ctl_DumpHooks_keeps)

subsection \<open>TriggerHook\<close>

lemmas ctl_TriggerHook_ops =
  ctl_TriggerHook_new_def ctl_TriggerHook_is_initialized_def ctl_TriggerHook_merge_from_def ctl_TriggerHook_merge_field_def
  ctl_TriggerHook_compute_size_def ctl_TriggerHook_write_to_with_cached_sizes_def ctl_TriggerHook_get_cached_size_def

lemmas ctl_TriggerHook_spec =
    ctl_TriggerHook_wire_def ctl_TriggerHook_ok_def ctl_TriggerHook_norm_def

context protobuf_runtime begin

lemma ctl_TriggerHook_cached:
  "ctl_TriggerHook_get_cached_size (snd (ctl_TriggerHook_compute_size rt m)) =
      fst (ctl_TriggerHook_compute_size rt m)"
  by (simp add: ctl_TriggerHook_get_cached_size_def ctl_TriggerHook_compute_size_def Let_def split_beta)

lemma ctl_TriggerHook_init_norm: "ctl_TriggerHook_is_initialized (ctl_TriggerHook_norm m) =
    ctl_TriggerHook_is_initialized m"
  by (simp add: ctl_TriggerHook_norm_def ctl_TriggerHook_is_initialized_def)

lemma ctl_TriggerHook_norm_eqs:
  "ctl_TriggerHook_wire (ctl_TriggerHook_norm m) =
      ctl_TriggerHook_wire m" "ctl_TriggerHook_ok (ctl_TriggerHook_norm m) = ctl_TriggerHook_ok m"
  by (simp_all add: ctl_TriggerHook_spec enc_opt_def ok_opt_def split: option.split)

lemma ctl_TriggerHook_keeps: "ctl_TriggerHook_norm (snd (ctl_TriggerHook_compute_size rt m)) =
    ctl_TriggerHook_norm m"
  by (simp add: ctl_TriggerHook_norm_def ctl_TriggerHook_compute_size_def Let_def split_beta
      split: option.split)

lemma ctl_TriggerHook_size:
  assumes "ctl_TriggerHook_ok m" and "small (ctl_TriggerHook_wire m)"
  shows "fst (ctl_TriggerHook_compute_size rt m) = of_nat (length (ctl_TriggerHook_wire m))"
  using assms
  by (cases m) (auto simp: codec ctl_TriggerHook_ops ctl_TriggerHook_spec Let_def split_beta add.assoc split: option.splits
      dest!: small_parts)

lemma ctl_TriggerHook_write:
  assumes "ctl_TriggerHook_ok m" and "small (ctl_TriggerHook_wire m)"
  shows "ctl_TriggerHook_write_to_with_cached_sizes rt (snd (ctl_TriggerHook_compute_size rt m)) os
    = Inr (os @ ctl_TriggerHook_wire m)"
  using assms
  by (cases m) (auto simp: codec ctl_TriggerHook_ops ctl_TriggerHook_spec Let_def split_beta split: option.splits
      dest!: small_parts)

lemma ctl_TriggerHook_merge:
  assumes "ctl_TriggerHook_ok m" and "small (ctl_TriggerHook_wire m)" and "ctl_TriggerHook_is_initialized m"
  shows "ctl_TriggerHook_merge_from rt ctl_TriggerHook_new (ctl_TriggerHook_wire m) =
      Some (Inr (ctl_TriggerHook_norm m, []))"
  using assms
  by (cases m) (auto simp: codec ctl_TriggerHook_ops ctl_TriggerHook_spec enc_opt_def ok_opt_def enc_string_def
      split: option.splits if_splits dest!: small_parts)

end

sublocale protobuf_runtime \<subseteq> TriggerHook: nested_codec rt "ctl_TriggerHook_message rt" "pb_TriggerHook rt"
  ctl_TriggerHook_new ctl_TriggerHook_is_initialized "ctl_TriggerHook_merge_from rt" "ctl_TriggerHook_compute_size rt"
  "ctl_TriggerHook_write_to_with_cached_sizes rt" ctl_TriggerHook_get_cached_size ctl_TriggerHook_wire ctl_TriggerHook_ok ctl_TriggerHook_norm
  by unfold_locales
    (simp_all add: ctl_TriggerHook_message_def nested_TriggerHook ctl_TriggerHook_size ctl_TriggerHook_write ctl_TriggerHook_merge ctl_TriggerHook_cached ctl_TriggerHook_init_norm ctl_TriggerHook_norm_eqs ctl_TriggerHook_keeps)

subsection \<open>Blame\<close>

lemmas ctl_Blame_ops =
  ctl_Blame_new_def ctl_Blame_is_initialized_def ctl_Blame_merge_from_def ctl_Blame_merge_field_def
  ctl_Blame_compute_size_def ctl_Blame_write_to_with_cached_sizes_def ctl_Blame_get_cached_size_def

lemmas ctl_Blame_spec = ctl_Blame_wire_def ctl_Blame_ok_def ctl_Blame_norm_def

context protobuf_runtime begin

lemma ctl_Blame_cached:
  "ctl_Blame_get_cached_size (snd (ctl_Blame_compute_size rt m)) =
      fst (ctl_Blame_compute_size rt m)"
  by (simp add: ctl_Blame_get_cached_size_def ctl_Blame_compute_size_def Let_def split_beta)

lemma ctl_Blame_init_norm: "ctl_Blame_is_initialized (ctl_Blame_norm m) =
    ctl_Blame_is_initialized m"
  by (simp add: ctl_Blame_norm_def ctl_Blame_is_initialized_def)

lemma ctl_Blame_norm_eqs:
  "ctl_Blame_wire (ctl_Blame_norm m) = ctl_Blame_wire m" "ctl_Blame_ok (ctl_Blame_norm m) =
      ctl_Blame_ok m"
  by (simp_all add: ctl_Blame_spec enc_opt_def ok_opt_def split: option.split)

lemma ctl_Blame_keeps: "ctl_Blame_norm (snd (ctl_Blame_compute_size rt m)) = ctl_Blame_norm m"
  by (simp add: ctl_Blame_norm_def ctl_Blame_compute_size_def Let_def split_beta
      split: option.split)

lemma ctl_Blame_size:
  assumes "ctl_Blame_ok m" and "small (ctl_Blame_wire m)"
  shows "fst (ctl_Blame_compute_size rt m) = of_nat (length (ctl_Blame_wire m))"
  using assms
  by (cases m) (auto simp: codec ctl_Blame_ops ctl_Blame_spec Let_def split_beta add.assoc split: option.splits
      dest!: small_parts)

lemma ctl_Blame_write:
  assumes "ctl_Blame_ok m" and "small (ctl_Blame_wire m)"
  shows "ctl_Blame_write_to_with_cached_sizes rt (snd (ctl_Blame_compute_size rt m)) os
    = Inr (os @ ctl_Blame_wire m)"
  using assms
  by (cases m) (auto simp: codec ctl_Blame_ops ctl_Blame_spec Let_def split_beta split: option.splits
      dest!: small_parts)

lemma ctl_Blame_merge:
  assumes "ctl_Blame_ok m" and "small (ctl_Blame_wire m)" and "ctl_Blame_is_initialized m"
  shows "ctl_Blame_merge_from rt ctl_Blame_new (ctl_Blame_wire m) =
      Some (Inr (ctl_Blame_norm m, []))"
  using assms
  by (cases m) (auto simp: codec ctl_Blame_ops ctl_Blame_spec enc_opt_def ok_opt_def enc_string_def
      split: option.splits if_splits dest!: small_parts)

end

sublocale protobuf_runtime \<subseteq> Blame: nested_codec rt "ctl_Blame_message rt" "pb_Blame rt"
  ctl_Blame_new ctl_Blame_is_initialized "ctl_Blame_merge_from rt" "ctl_Blame_compute_size rt"
  "ctl_Blame_write_to_with_cached_sizes rt" ctl_Blame_get_cached_size ctl_Blame_wire ctl_Blame_ok ctl_Blame_norm
  by unfold_locales
    (simp_all add: ctl_Blame_message_def nested_Blame ctl_Blame_size ctl_Blame_write ctl_Blame_merge ctl_Blame_cached ctl_Blame_init_norm ctl_Blame_norm_eqs ctl_Blame_keeps)

subsection \<open>InFlight\<close>

lemmas ctl_InFlight_ops =
  ctl_InFlight_new_def ctl_InFlight_is_initialized_def ctl_InFlight_merge_from_def ctl_InFlight_merge_field_def
  ctl_InFlight_compute_size_def ctl_InFlight_write_to_with_cached_sizes_def ctl_InFlight_get_cached_size_def

lemmas ctl_InFlight_spec = ctl_InFlight_wire_def ctl_InFlight_ok_def ctl_InFlight_norm_def

context protobuf_runtime begin

lemma ctl_InFlight_cached:
  "ctl_InFlight_get_cached_size (snd (ctl_InFlight_compute_size rt m)) =
      fst (ctl_InFlight_compute_size rt m)"
  by (simp add: ctl_InFlight_get_cached_size_def ctl_InFlight_compute_size_def Let_def split_beta)

lemma ctl_InFlight_init_norm: "ctl_InFlight_is_initialized (ctl_InFlight_norm m) =
    ctl_InFlight_is_initialized m"
  by (simp add: ctl_InFlight_norm_def ctl_InFlight_is_initialized_def)

lemma ctl_InFlight_norm_eqs:
  "ctl_InFlight_wire (ctl_InFlight_norm m) =
      ctl_InFlight_wire m" "ctl_InFlight_ok (ctl_InFlight_norm m) = ctl_InFlight_ok m"
  by (simp_all add: ctl_InFlight_spec enc_opt_def ok_opt_def split: option.split)

lemma ctl_InFlight_keeps: "ctl_InFlight_norm (snd (ctl_InFlight_compute_size rt m)) =
    ctl_InFlight_norm m"
  by (simp add: ctl_InFlight_norm_def ctl_InFlight_compute_size_def Let_def split_beta
      split: option.split)

lemma ctl_InFlight_size:
  assumes "ctl_InFlight_ok m" and "small (ctl_InFlight_wire m)"
  shows "fst (ctl_InFlight_compute_size rt m) = of_nat (length (ctl_InFlight_wire m))"
  using assms
  by (cases m) (auto simp: codec ctl_InFlight_ops ctl_InFlight_spec Let_def split_beta add.assoc split: option.splits
      dest!: small_parts)

lemma ctl_InFlight_write:
  assumes "ctl_InFlight_ok m" and "small (ctl_InFlight_wire m)"
  shows "ctl_InFlight_write_to_with_cached_sizes rt (snd (ctl_InFlight_compute_size rt m)) os
    = Inr (os @ ctl_InFlight_wire m)"
  using assms
  by (cases m) (auto simp: codec ctl_InFlight_ops ctl_InFlight_spec Let_def split_beta split: option.splits
      dest!: small_parts)

lemma ctl_InFlight_merge:
  assumes "ctl_InFlight_ok m" and "small (ctl_InFlight_wire m)" and "ctl_InFlight_is_initialized m"
  shows "ctl_InFlight_merge_from rt ctl_InFlight_new (ctl_InFlight_wire m) =
      Some (Inr (ctl_InFlight_norm m, []))"
  using assms
  by (cases m) (auto simp: codec ctl_InFlight_ops ctl_InFlight_spec enc_opt_def ok_opt_def 
      split: option.splits if_splits dest!: small_parts)

end

sublocale protobuf_runtime \<subseteq> InFlight: nested_codec rt "ctl_InFlight_message rt" "pb_InFlight rt"
  ctl_InFlight_new ctl_InFlight_is_initialized "ctl_InFlight_merge_from rt" "ctl_InFlight_compute_size rt"
  "ctl_InFlight_write_to_with_cached_sizes rt" ctl_InFlight_get_cached_size ctl_InFlight_wire ctl_InFlight_ok ctl_InFlight_norm
  by unfold_locales
    (simp_all add: ctl_InFlight_message_def nested_InFlight ctl_InFlight_size ctl_InFlight_write ctl_InFlight_merge ctl_InFlight_cached ctl_InFlight_init_norm ctl_InFlight_norm_eqs ctl_InFlight_keeps)

subsection \<open>Command\<close>

lemmas ctl_Command_ops =
  ctl_Command_new_def ctl_Command_is_initialized_def ctl_Command_merge_from_def ctl_Command_merge_field_def
  ctl_Command_compute_size_def ctl_Command_write_to_with_cached_sizes_def ctl_Command_get_cached_size_def

lemmas ctl_Command_spec = ctl_Command_wire_def ctl_Command_ok_def ctl_Command_norm_def

context protobuf_runtime begin

lemma ctl_Command_cached:
  "ctl_Command_get_cached_size (snd (ctl_Command_compute_size rt m)) =
      fst (ctl_Command_compute_size rt m)"
  by (simp add: ctl_Command_get_cached_size_def ctl_Command_compute_size_def Let_def split_beta)

lemma Command_oneof_payload_init_norm: "Command_oneof_payload_init (Command_oneof_payload_norm p) =
    Command_oneof_payload_init p"
  by (cases p) (simp_all add: Set.init_norm Get.init_norm Commit.init_norm Drop.init_norm FireHooks.init_norm EraseKey.init_norm Rollback.init_norm Reset.init_norm DumpHooks.init_norm TriggerHook.init_norm Blame.init_norm InFlight.init_norm)

lemma ctl_Command_is_initialized_iff:
  "ctl_Command_is_initialized m \<longleftrightarrow> ctl_Command_id m \<noteq> None \<and> ok_opt Command_oneof_payload_init (ctl_Command_payload m)"
  by (auto simp: ctl_Command_is_initialized_def ok_opt_def split: option.splits Command_oneof_payload.splits)

lemma ctl_Command_init_norm: "ctl_Command_is_initialized (ctl_Command_norm m) =
    ctl_Command_is_initialized m"
  by (auto simp: ctl_Command_is_initialized_iff ctl_Command_norm_def ok_opt_def Command_oneof_payload_init_norm split: option.splits)

text \<open>One alternative in its field: size, bytes and merge.\<close>

lemma Command_oneof_payload_merge:
  assumes "Command_oneof_payload_ok p" and "small (Command_oneof_payload_wire p)" and "Command_oneof_payload_init p"
  shows "ctl_Command_merge_field rt m (Command_oneof_payload_wire p @ r)
    = Some (Inr (m\<lparr>ctl_Command_payload := Some (Command_oneof_payload_norm p)\<rparr>, r))"
  using assms
  by (cases p) (auto simp: codec ctl_Command_merge_field_def enc_message_def dest!: small_parts)

lemma ctl_Command_merge_id:
  "ctl_Command_merge_field rt m (enc_uint32 6 v @ r) =
      Some (Inr (m\<lparr>ctl_Command_id := Some v\<rparr>, r))"
  by (simp add: codec ctl_Command_merge_field_def enc_uint32_def)

lemma ctl_Command_merge_xid:
  "ctl_Command_merge_field rt m (enc_uint32 10 v @ r) =
      Some (Inr (m\<lparr>ctl_Command_xid := Some v\<rparr>, r))"
  by (simp add: codec ctl_Command_merge_field_def enc_uint32_def)

lemma Command_oneof_payload_wire_nonempty [simp]: "Command_oneof_payload_wire p \<noteq> []"
  by (cases p) simp_all

lemma Command_oneof_payload_norm_eqs:
  "Command_oneof_payload_wire (Command_oneof_payload_norm p) =
      Command_oneof_payload_wire p" "Command_oneof_payload_ok (Command_oneof_payload_norm p) =
        Command_oneof_payload_ok p"
  by (cases p,
      simp_all add: Blame.norm_wire Commit.norm_wire Drop.norm_wire DumpHooks.norm_wire EraseKey.norm_wire FireHooks.norm_wire Get.norm_wire InFlight.norm_wire Reset.norm_wire Rollback.norm_wire Set.norm_wire TriggerHook.norm_wire Blame.norm_ok Commit.norm_ok Drop.norm_ok DumpHooks.norm_ok EraseKey.norm_ok FireHooks.norm_ok Get.norm_ok InFlight.norm_ok Reset.norm_ok Rollback.norm_ok Set.norm_ok TriggerHook.norm_ok)+

lemma ctl_Command_norm_eqs:
  "ctl_Command_wire (ctl_Command_norm m) =
      ctl_Command_wire m" "ctl_Command_ok (ctl_Command_norm m) = ctl_Command_ok m"
  by (simp_all add: ctl_Command_spec Command_oneof_payload_norm_eqs enc_opt_def ok_opt_def split: option.split)

lemma ctl_Command_keeps: "ctl_Command_norm (snd (ctl_Command_compute_size rt m)) =
    ctl_Command_norm m"
  by (simp add: ctl_Command_norm_def ctl_Command_compute_size_def Let_def split_beta Blame.keeps Commit.keeps Drop.keeps DumpHooks.keeps EraseKey.keeps FireHooks.keeps Get.keeps InFlight.keeps Reset.keeps Rollback.keeps Set.keeps TriggerHook.keeps
      split: option.split Command_oneof_payload.split)

lemma ctl_Command_size:
  assumes "ctl_Command_ok m" and "small (ctl_Command_wire m)"
  shows "fst (ctl_Command_compute_size rt m) = of_nat (length (ctl_Command_wire m))"
proof (cases "ctl_Command_payload m")
  case None
  with assms show ?thesis
    by (auto simp: codec ctl_Command_ops ctl_Command_spec Let_def split: option.splits dest!: small_parts)
next
  case (Some p)
  with assms show ?thesis
    by (cases p) (auto simp: codec ctl_Command_ops ctl_Command_spec Let_def split_beta add.assoc length_enc_bool
        split: option.splits dest!: small_parts)
qed

lemma ctl_Command_write:
  assumes "ctl_Command_ok m" and "small (ctl_Command_wire m)"
  shows "ctl_Command_write_to_with_cached_sizes rt (snd (ctl_Command_compute_size rt m)) os
    = Inr (os @ ctl_Command_wire m)"
proof (cases "ctl_Command_payload m")
  case None
  with assms show ?thesis
    by (auto simp: codec ctl_Command_ops ctl_Command_spec Let_def split_beta split: option.splits dest!: small_parts)
next
  case (Some p)
  with assms show ?thesis
    by (cases p) (auto simp: codec ctl_Command_ops ctl_Command_spec Let_def split_beta split: option.splits
        dest!: small_parts)
qed

lemma ctl_Command_merge:
  assumes "ctl_Command_ok m" and "small (ctl_Command_wire m)" and "ctl_Command_is_initialized m"
  shows "ctl_Command_merge_from rt ctl_Command_new (ctl_Command_wire m) =
      Some (Inr (ctl_Command_norm m, []))"
  using assms
  by (cases m) (auto simp: codec ctl_Command_is_initialized_iff ctl_Command_new_def ctl_Command_merge_from_def
      ctl_Command_spec enc_opt_def ok_opt_def
      Command_oneof_payload_merge Command_oneof_payload_merge [where r = "[]", simplified]
      ctl_Command_merge_id ctl_Command_merge_id [where r = "[]", simplified]
      ctl_Command_merge_xid ctl_Command_merge_xid [where r =
        "[]", simplified] split: option.splits dest!: small_parts)

end

sublocale protobuf_runtime \<subseteq> Command: entry_codec rt "ctl_Command_message rt" "pb_entry_Command rt"
  ctl_Command_new ctl_Command_is_initialized "ctl_Command_merge_from rt" "ctl_Command_compute_size rt"
  "ctl_Command_write_to_with_cached_sizes rt" ctl_Command_get_cached_size ctl_Command_wire ctl_Command_ok ctl_Command_norm
  by unfold_locales
    (simp_all add: ctl_Command_message_def entry_Command ctl_Command_size ctl_Command_write ctl_Command_merge ctl_Command_cached ctl_Command_init_norm ctl_Command_norm_eqs ctl_Command_keeps)

end
