(* ===== verification/Codec_Responses.thy ===== *)
theory Codec_Responses
  imports Codec_Values
begin

text \<open>
  \<open>impl Message\<close> for the response messages and for \<open>Response\<close>
  (\<open>clients/rust/src/sysadminctl.rs\<close>), with the encodings they implement, in the conventions of
  theory Codec_Values.
\<close>

subsection \<open>MappedField\<close>

definition ctl_MappedField_is_initialized :: "ctl_MappedField \<Rightarrow> bool" where
  "ctl_MappedField_is_initialized m =
     (if ctl_MappedField_key m = None then False
      else if (case ctl_MappedField_value m of Some v \<Rightarrow> \<not> ctl_ConfigValue_is_initialized v
        | None \<Rightarrow> False) then False
      else True)"

definition ctl_MappedField_merge_field :: "protobuf \<Rightarrow> ctl_MappedField \<Rightarrow> bytes \<Rightarrow> (ctl_MappedField
    \<times> bytes) reading" where
  "ctl_MappedField_merge_field rt m input =
     run_then (Some (rt_read_tag_unpack rt input)) (\<lambda>((field_number, wire_type), input).
      if field_number = 1 then
        run_then (Some (rt_read_singular_string_into rt wire_type input (ctl_MappedField_key m))) (\<lambda>(v, input).
          Some (Inr (m\<lparr>ctl_MappedField_key := v\<rparr>, input)))
      else if field_number = 2 then
        run_then (read_singular_message_into (pb_ConfigValue rt) (ctl_ConfigValue_message rt) wire_type input (ctl_MappedField_value m)) (\<lambda>(v, input).
          Some (Inr (m\<lparr>ctl_MappedField_value := v\<rparr>, input)))
      else
        run_then (Some (rt_read_unknown_or_skip_group rt field_number wire_type input (ctl_MappedField_unknown_fields m)))
          (\<lambda>(uf, input). Some (Inr (m\<lparr>ctl_MappedField_unknown_fields := uf\<rparr>, input))))"

definition ctl_MappedField_merge_from :: "protobuf \<Rightarrow> ctl_MappedField \<Rightarrow> bytes \<Rightarrow> (ctl_MappedField
    \<times> bytes) reading" where
  "ctl_MappedField_merge_from rt m input =
      merge_loop (rt_eof rt) (ctl_MappedField_merge_field rt) m input"

definition ctl_MappedField_compute_size :: "protobuf \<Rightarrow> ctl_MappedField \<Rightarrow> u32
    \<times> ctl_MappedField" where
  "ctl_MappedField_compute_size rt m =
     (let my_size = 0;
          my_size = (case ctl_MappedField_key m of Some v \<Rightarrow> my_size + rt_string_size rt 1 v
            | None \<Rightarrow> my_size);
          (my_size, m) = (case ctl_MappedField_value m of
              Some v \<Rightarrow> (let (len, v) = ctl_ConfigValue_compute_size rt v
                in (my_size + (1 + rt_compute_raw_varint32_size rt len + len),
                  m\<lparr>ctl_MappedField_value := Some v\<rparr>))
            | None \<Rightarrow> (my_size, m));
          my_size = my_size + rt_unknown_fields_size rt (ctl_MappedField_unknown_fields m)
      in (my_size, m\<lparr>ctl_MappedField_cached_size := my_size\<rparr>))"

definition ctl_MappedField_write_to_with_cached_sizes ::
    "protobuf \<Rightarrow> ctl_MappedField \<Rightarrow> bytes \<Rightarrow> ProtobufError + bytes" where
  "ctl_MappedField_write_to_with_cached_sizes rt m os =
      and_then (case ctl_MappedField_key m of Some v \<Rightarrow> rt_write_string rt 1 v os
        | None \<Rightarrow> Inr os) (\<lambda>os.
      and_then (case ctl_MappedField_value m of None \<Rightarrow> Inr os | Some v \<Rightarrow>
             and_then (rt_write_tag rt 2 WireTypeLengthDelimited os) (\<lambda>os.
             and_then (rt_write_raw_varint32 rt (ctl_ConfigValue_get_cached_size v) os) (\<lambda>os.
             ctl_ConfigValue_write_to_with_cached_sizes rt v os))) (\<lambda>os.
      rt_write_unknown_fields rt (ctl_MappedField_unknown_fields m) os))"

definition ctl_MappedField_get_cached_size :: "ctl_MappedField \<Rightarrow> u32" where
  "ctl_MappedField_get_cached_size m = ctl_MappedField_cached_size m"

definition ctl_MappedField_get_unknown_fields :: "ctl_MappedField \<Rightarrow> UnknownFields" where
  "ctl_MappedField_get_unknown_fields m = ctl_MappedField_unknown_fields m"

definition ctl_MappedField_message :: "protobuf \<Rightarrow> ctl_MappedField Message" where
  "ctl_MappedField_message rt =
     \<lparr>msg_new = ctl_MappedField_new, msg_is_initialized = ctl_MappedField_is_initialized,
      msg_merge_from = ctl_MappedField_merge_from rt, msg_compute_size =
        ctl_MappedField_compute_size rt,
      msg_write_to_with_cached_sizes = ctl_MappedField_write_to_with_cached_sizes rt,
      msg_get_cached_size = ctl_MappedField_get_cached_size\<rparr>"

subsection \<open>GetResponse\<close>

definition ctl_GetResponse_is_initialized :: "ctl_GetResponse \<Rightarrow> bool" where
  "ctl_GetResponse_is_initialized m =
     (if \<not> list_all ctl_MappedField_is_initialized (ctl_GetResponse_kvs m) then False
      else True)"

definition ctl_GetResponse_merge_field :: "protobuf \<Rightarrow> ctl_GetResponse \<Rightarrow> bytes \<Rightarrow> (ctl_GetResponse
    \<times> bytes) reading" where
  "ctl_GetResponse_merge_field rt m input =
     run_then (Some (rt_read_tag_unpack rt input)) (\<lambda>((field_number, wire_type), input).
      if field_number = 1 then
        run_then (read_repeated_message_into (pb_MappedField rt) (ctl_MappedField_message rt) wire_type input (ctl_GetResponse_kvs m)) (\<lambda>(v, input).
          Some (Inr (m\<lparr>ctl_GetResponse_kvs := v\<rparr>, input)))
      else
        run_then (Some (rt_read_unknown_or_skip_group rt field_number wire_type input (ctl_GetResponse_unknown_fields m)))
          (\<lambda>(uf, input). Some (Inr (m\<lparr>ctl_GetResponse_unknown_fields := uf\<rparr>, input))))"

definition ctl_GetResponse_merge_from :: "protobuf \<Rightarrow> ctl_GetResponse \<Rightarrow> bytes \<Rightarrow> (ctl_GetResponse
    \<times> bytes) reading" where
  "ctl_GetResponse_merge_from rt m input =
      merge_loop (rt_eof rt) (ctl_GetResponse_merge_field rt) m input"

definition ctl_GetResponse_compute_size :: "protobuf \<Rightarrow> ctl_GetResponse \<Rightarrow> u32
    \<times> ctl_GetResponse" where
  "ctl_GetResponse_compute_size rt m =
     (let my_size = 0;
          (my_size, vs) = size_each (ctl_MappedField_compute_size rt)
             (\<lambda>len. 1 + rt_compute_raw_varint32_size rt len + len) (ctl_GetResponse_kvs m) my_size;
          m = m\<lparr>ctl_GetResponse_kvs := vs\<rparr>;
          my_size = my_size + rt_unknown_fields_size rt (ctl_GetResponse_unknown_fields m)
      in (my_size, m\<lparr>ctl_GetResponse_cached_size := my_size\<rparr>))"

definition ctl_GetResponse_write_to_with_cached_sizes ::
    "protobuf \<Rightarrow> ctl_GetResponse \<Rightarrow> bytes \<Rightarrow> ProtobufError + bytes" where
  "ctl_GetResponse_write_to_with_cached_sizes rt m os =
      and_then (for_each (\<lambda>v os. and_then (rt_write_tag rt 1 WireTypeLengthDelimited os) (\<lambda>os.
             and_then (rt_write_raw_varint32 rt (ctl_MappedField_get_cached_size v) os) (\<lambda>os.
             ctl_MappedField_write_to_with_cached_sizes rt v os))) (ctl_GetResponse_kvs m) os) (\<lambda>os.
      rt_write_unknown_fields rt (ctl_GetResponse_unknown_fields m) os)"

definition ctl_GetResponse_get_cached_size :: "ctl_GetResponse \<Rightarrow> u32" where
  "ctl_GetResponse_get_cached_size m = ctl_GetResponse_cached_size m"

definition ctl_GetResponse_get_unknown_fields :: "ctl_GetResponse \<Rightarrow> UnknownFields" where
  "ctl_GetResponse_get_unknown_fields m = ctl_GetResponse_unknown_fields m"

definition ctl_GetResponse_message :: "protobuf \<Rightarrow> ctl_GetResponse Message" where
  "ctl_GetResponse_message rt =
     \<lparr>msg_new = ctl_GetResponse_new, msg_is_initialized = ctl_GetResponse_is_initialized,
      msg_merge_from = ctl_GetResponse_merge_from rt, msg_compute_size =
        ctl_GetResponse_compute_size rt,
      msg_write_to_with_cached_sizes = ctl_GetResponse_write_to_with_cached_sizes rt,
      msg_get_cached_size = ctl_GetResponse_get_cached_size\<rparr>"

subsection \<open>CommitResponse\<close>

definition ctl_CommitResponse_is_initialized :: "ctl_CommitResponse \<Rightarrow> bool" where
  "ctl_CommitResponse_is_initialized m =
     (if ctl_CommitResponse_commit_id m = None then False
      else True)"

definition ctl_CommitResponse_merge_field :: "protobuf \<Rightarrow> ctl_CommitResponse \<Rightarrow> bytes
    \<Rightarrow> (ctl_CommitResponse \<times> bytes) reading" where
  "ctl_CommitResponse_merge_field rt m input =
     run_then (Some (rt_read_tag_unpack rt input)) (\<lambda>((field_number, wire_type), input).
      if field_number = 1 then
        if wire_type \<noteq> WireTypeVarint then Some (Inl (rt_unexpected_wire_type rt wire_type))
        else run_then (Some (rt_read_uint32 rt input)) (\<lambda>(tmp, input).
          Some (Inr (m\<lparr>ctl_CommitResponse_commit_id := Some tmp\<rparr>, input)))
      else
        run_then (Some (rt_read_unknown_or_skip_group rt field_number wire_type input (ctl_CommitResponse_unknown_fields m)))
          (\<lambda>(uf, input). Some (Inr (m\<lparr>ctl_CommitResponse_unknown_fields := uf\<rparr>, input))))"

definition ctl_CommitResponse_merge_from :: "protobuf \<Rightarrow> ctl_CommitResponse \<Rightarrow> bytes
    \<Rightarrow> (ctl_CommitResponse \<times> bytes) reading" where
  "ctl_CommitResponse_merge_from rt m input =
      merge_loop (rt_eof rt) (ctl_CommitResponse_merge_field rt) m input"

definition ctl_CommitResponse_compute_size :: "protobuf \<Rightarrow> ctl_CommitResponse \<Rightarrow> u32
    \<times> ctl_CommitResponse" where
  "ctl_CommitResponse_compute_size rt m =
     (let my_size = 0;
          my_size = (case ctl_CommitResponse_commit_id m of Some v
            \<Rightarrow> my_size + rt_value_size_u32 rt 1 v WireTypeVarint
              | None \<Rightarrow> my_size);
          my_size = my_size + rt_unknown_fields_size rt (ctl_CommitResponse_unknown_fields m)
      in (my_size, m\<lparr>ctl_CommitResponse_cached_size := my_size\<rparr>))"

definition ctl_CommitResponse_write_to_with_cached_sizes ::
    "protobuf \<Rightarrow> ctl_CommitResponse \<Rightarrow> bytes \<Rightarrow> ProtobufError + bytes" where
  "ctl_CommitResponse_write_to_with_cached_sizes rt m os =
      and_then (case ctl_CommitResponse_commit_id m of Some v \<Rightarrow> rt_write_uint32 rt 1 v os
        | None \<Rightarrow> Inr os) (\<lambda>os.
      rt_write_unknown_fields rt (ctl_CommitResponse_unknown_fields m) os)"

definition ctl_CommitResponse_get_cached_size :: "ctl_CommitResponse \<Rightarrow> u32" where
  "ctl_CommitResponse_get_cached_size m = ctl_CommitResponse_cached_size m"

definition ctl_CommitResponse_get_unknown_fields :: "ctl_CommitResponse \<Rightarrow> UnknownFields" where
  "ctl_CommitResponse_get_unknown_fields m = ctl_CommitResponse_unknown_fields m"

definition ctl_CommitResponse_message :: "protobuf \<Rightarrow> ctl_CommitResponse Message" where
  "ctl_CommitResponse_message rt =
     \<lparr>msg_new = ctl_CommitResponse_new, msg_is_initialized = ctl_CommitResponse_is_initialized,
      msg_merge_from = ctl_CommitResponse_merge_from rt, msg_compute_size =
        ctl_CommitResponse_compute_size rt,
      msg_write_to_with_cached_sizes = ctl_CommitResponse_write_to_with_cached_sizes rt,
      msg_get_cached_size = ctl_CommitResponse_get_cached_size\<rparr>"

subsection \<open>ResetResponse\<close>

definition ctl_ResetResponse_is_initialized :: "ctl_ResetResponse \<Rightarrow> bool" where
  "ctl_ResetResponse_is_initialized m = True"

definition ctl_ResetResponse_merge_field :: "protobuf \<Rightarrow> ctl_ResetResponse \<Rightarrow> bytes
    \<Rightarrow> (ctl_ResetResponse \<times> bytes) reading" where
  "ctl_ResetResponse_merge_field rt m input =
     run_then (Some (rt_read_tag_unpack rt input)) (\<lambda>((field_number, wire_type), input).
      if field_number = 1 then
        if wire_type \<noteq> WireTypeVarint then Some (Inl (rt_unexpected_wire_type rt wire_type))
        else run_then (Some (rt_read_uint32 rt input)) (\<lambda>(tmp, input).
          Some (Inr (m\<lparr>ctl_ResetResponse_commit_id := Some tmp\<rparr>, input)))
      else
        run_then (Some (rt_read_unknown_or_skip_group rt field_number wire_type input (ctl_ResetResponse_unknown_fields m)))
          (\<lambda>(uf, input). Some (Inr (m\<lparr>ctl_ResetResponse_unknown_fields := uf\<rparr>, input))))"

definition ctl_ResetResponse_merge_from :: "protobuf \<Rightarrow> ctl_ResetResponse \<Rightarrow> bytes
    \<Rightarrow> (ctl_ResetResponse \<times> bytes) reading" where
  "ctl_ResetResponse_merge_from rt m input =
      merge_loop (rt_eof rt) (ctl_ResetResponse_merge_field rt) m input"

definition ctl_ResetResponse_compute_size :: "protobuf \<Rightarrow> ctl_ResetResponse \<Rightarrow> u32
    \<times> ctl_ResetResponse" where
  "ctl_ResetResponse_compute_size rt m =
     (let my_size = 0;
          my_size = (case ctl_ResetResponse_commit_id m of Some v
            \<Rightarrow> my_size + rt_value_size_u32 rt 1 v WireTypeVarint
              | None \<Rightarrow> my_size);
          my_size = my_size + rt_unknown_fields_size rt (ctl_ResetResponse_unknown_fields m)
      in (my_size, m\<lparr>ctl_ResetResponse_cached_size := my_size\<rparr>))"

definition ctl_ResetResponse_write_to_with_cached_sizes ::
    "protobuf \<Rightarrow> ctl_ResetResponse \<Rightarrow> bytes \<Rightarrow> ProtobufError + bytes" where
  "ctl_ResetResponse_write_to_with_cached_sizes rt m os =
      and_then (case ctl_ResetResponse_commit_id m of Some v \<Rightarrow> rt_write_uint32 rt 1 v os
        | None \<Rightarrow> Inr os) (\<lambda>os.
      rt_write_unknown_fields rt (ctl_ResetResponse_unknown_fields m) os)"

definition ctl_ResetResponse_get_cached_size :: "ctl_ResetResponse \<Rightarrow> u32" where
  "ctl_ResetResponse_get_cached_size m = ctl_ResetResponse_cached_size m"

definition ctl_ResetResponse_get_unknown_fields :: "ctl_ResetResponse \<Rightarrow> UnknownFields" where
  "ctl_ResetResponse_get_unknown_fields m = ctl_ResetResponse_unknown_fields m"

definition ctl_ResetResponse_message :: "protobuf \<Rightarrow> ctl_ResetResponse Message" where
  "ctl_ResetResponse_message rt =
     \<lparr>msg_new = ctl_ResetResponse_new, msg_is_initialized = ctl_ResetResponse_is_initialized,
      msg_merge_from = ctl_ResetResponse_merge_from rt, msg_compute_size =
        ctl_ResetResponse_compute_size rt,
      msg_write_to_with_cached_sizes = ctl_ResetResponse_write_to_with_cached_sizes rt,
      msg_get_cached_size = ctl_ResetResponse_get_cached_size\<rparr>"

subsection \<open>DumpResponse\<close>

definition ctl_DumpResponse_is_initialized :: "ctl_DumpResponse \<Rightarrow> bool" where
  "ctl_DumpResponse_is_initialized m = True"

definition ctl_DumpResponse_merge_field :: "protobuf \<Rightarrow> ctl_DumpResponse \<Rightarrow> bytes
    \<Rightarrow> (ctl_DumpResponse \<times> bytes) reading" where
  "ctl_DumpResponse_merge_field rt m input =
     run_then (Some (rt_read_tag_unpack rt input)) (\<lambda>((field_number, wire_type), input).
      if field_number = 1 then
        run_then (Some (rt_read_repeated_string_into rt wire_type input (ctl_DumpResponse_templatehooks m))) (\<lambda>(v, input).
          Some (Inr (m\<lparr>ctl_DumpResponse_templatehooks := v\<rparr>, input)))
      else if field_number = 2 then
        run_then (Some (rt_read_repeated_string_into rt wire_type input (ctl_DumpResponse_servicehooks m))) (\<lambda>(v, input).
          Some (Inr (m\<lparr>ctl_DumpResponse_servicehooks := v\<rparr>, input)))
      else
        run_then (Some (rt_read_unknown_or_skip_group rt field_number wire_type input (ctl_DumpResponse_unknown_fields m)))
          (\<lambda>(uf, input). Some (Inr (m\<lparr>ctl_DumpResponse_unknown_fields := uf\<rparr>, input))))"

definition ctl_DumpResponse_merge_from :: "protobuf \<Rightarrow> ctl_DumpResponse \<Rightarrow> bytes \<Rightarrow> (ctl_DumpResponse
    \<times> bytes) reading" where
  "ctl_DumpResponse_merge_from rt m input =
      merge_loop (rt_eof rt) (ctl_DumpResponse_merge_field rt) m input"

definition ctl_DumpResponse_compute_size :: "protobuf \<Rightarrow> ctl_DumpResponse \<Rightarrow> u32
    \<times> ctl_DumpResponse" where
  "ctl_DumpResponse_compute_size rt m =
     (let my_size = 0;
          my_size = foldl (\<lambda>my_size v. my_size + rt_string_size rt 1 v) my_size (ctl_DumpResponse_templatehooks m);
          my_size = foldl (\<lambda>my_size v. my_size + rt_string_size rt 2 v) my_size (ctl_DumpResponse_servicehooks m);
          my_size = my_size + rt_unknown_fields_size rt (ctl_DumpResponse_unknown_fields m)
      in (my_size, m\<lparr>ctl_DumpResponse_cached_size := my_size\<rparr>))"

definition ctl_DumpResponse_write_to_with_cached_sizes ::
    "protobuf \<Rightarrow> ctl_DumpResponse \<Rightarrow> bytes \<Rightarrow> ProtobufError + bytes" where
  "ctl_DumpResponse_write_to_with_cached_sizes rt m os =
      and_then (for_each (\<lambda>v os. rt_write_string rt 1 v os) (ctl_DumpResponse_templatehooks m) os) (\<lambda>os.
      and_then (for_each (\<lambda>v os. rt_write_string rt 2 v os) (ctl_DumpResponse_servicehooks m) os) (\<lambda>os.
      rt_write_unknown_fields rt (ctl_DumpResponse_unknown_fields m) os))"

definition ctl_DumpResponse_get_cached_size :: "ctl_DumpResponse \<Rightarrow> u32" where
  "ctl_DumpResponse_get_cached_size m = ctl_DumpResponse_cached_size m"

definition ctl_DumpResponse_get_unknown_fields :: "ctl_DumpResponse \<Rightarrow> UnknownFields" where
  "ctl_DumpResponse_get_unknown_fields m = ctl_DumpResponse_unknown_fields m"

definition ctl_DumpResponse_message :: "protobuf \<Rightarrow> ctl_DumpResponse Message" where
  "ctl_DumpResponse_message rt =
     \<lparr>msg_new = ctl_DumpResponse_new, msg_is_initialized = ctl_DumpResponse_is_initialized,
      msg_merge_from = ctl_DumpResponse_merge_from rt, msg_compute_size =
        ctl_DumpResponse_compute_size rt,
      msg_write_to_with_cached_sizes = ctl_DumpResponse_write_to_with_cached_sizes rt,
      msg_get_cached_size = ctl_DumpResponse_get_cached_size\<rparr>"

subsection \<open>BlameEntry\<close>

definition ctl_BlameEntry_is_initialized :: "ctl_BlameEntry \<Rightarrow> bool" where
  "ctl_BlameEntry_is_initialized m =
     (if ctl_BlameEntry_commit_id m = None then False
      else if ctl_BlameEntry_commit_time m = None then False
      else if ctl_BlameEntry_val m = None then False
      else if (case ctl_BlameEntry_val m of Some v \<Rightarrow> \<not> ctl_ConfigValue_is_initialized v
        | None \<Rightarrow> False) then False
      else True)"

definition ctl_BlameEntry_merge_field :: "protobuf \<Rightarrow> ctl_BlameEntry \<Rightarrow> bytes \<Rightarrow> (ctl_BlameEntry
    \<times> bytes) reading" where
  "ctl_BlameEntry_merge_field rt m input =
     run_then (Some (rt_read_tag_unpack rt input)) (\<lambda>((field_number, wire_type), input).
      if field_number = 1 then
        if wire_type \<noteq> WireTypeVarint then Some (Inl (rt_unexpected_wire_type rt wire_type))
        else run_then (Some (rt_read_uint32 rt input)) (\<lambda>(tmp, input).
          Some (Inr (m\<lparr>ctl_BlameEntry_commit_id := Some tmp\<rparr>, input)))
      else if field_number = 2 then
        run_then (Some (rt_read_singular_string_into rt wire_type input (ctl_BlameEntry_commit_time m))) (\<lambda>(v, input).
          Some (Inr (m\<lparr>ctl_BlameEntry_commit_time := v\<rparr>, input)))
      else if field_number = 3 then
        run_then (read_singular_message_into (pb_ConfigValue rt) (ctl_ConfigValue_message rt) wire_type input (ctl_BlameEntry_val m)) (\<lambda>(v, input).
          Some (Inr (m\<lparr>ctl_BlameEntry_val := v\<rparr>, input)))
      else
        run_then (Some (rt_read_unknown_or_skip_group rt field_number wire_type input (ctl_BlameEntry_unknown_fields m)))
          (\<lambda>(uf, input). Some (Inr (m\<lparr>ctl_BlameEntry_unknown_fields := uf\<rparr>, input))))"

definition ctl_BlameEntry_merge_from :: "protobuf \<Rightarrow> ctl_BlameEntry \<Rightarrow> bytes \<Rightarrow> (ctl_BlameEntry
    \<times> bytes) reading" where
  "ctl_BlameEntry_merge_from rt m input =
      merge_loop (rt_eof rt) (ctl_BlameEntry_merge_field rt) m input"

definition ctl_BlameEntry_compute_size :: "protobuf \<Rightarrow> ctl_BlameEntry \<Rightarrow> u32 \<times> ctl_BlameEntry" where
  "ctl_BlameEntry_compute_size rt m =
     (let my_size = 0;
          my_size = (case ctl_BlameEntry_commit_id m of Some v
            \<Rightarrow> my_size + rt_value_size_u32 rt 1 v WireTypeVarint
              | None \<Rightarrow> my_size);
          my_size = (case ctl_BlameEntry_commit_time m of Some v \<Rightarrow> my_size + rt_string_size rt 2 v
            | None \<Rightarrow> my_size);
          (my_size, m) = (case ctl_BlameEntry_val m of
              Some v \<Rightarrow> (let (len, v) = ctl_ConfigValue_compute_size rt v
                in (my_size + (1 + rt_compute_raw_varint32_size rt len + len),
                  m\<lparr>ctl_BlameEntry_val := Some v\<rparr>))
            | None \<Rightarrow> (my_size, m));
          my_size = my_size + rt_unknown_fields_size rt (ctl_BlameEntry_unknown_fields m)
      in (my_size, m\<lparr>ctl_BlameEntry_cached_size := my_size\<rparr>))"

definition ctl_BlameEntry_write_to_with_cached_sizes ::
    "protobuf \<Rightarrow> ctl_BlameEntry \<Rightarrow> bytes \<Rightarrow> ProtobufError + bytes" where
  "ctl_BlameEntry_write_to_with_cached_sizes rt m os =
      and_then (case ctl_BlameEntry_commit_id m of Some v \<Rightarrow> rt_write_uint32 rt 1 v os
        | None \<Rightarrow> Inr os) (\<lambda>os.
      and_then (case ctl_BlameEntry_commit_time m of Some v \<Rightarrow> rt_write_string rt 2 v os
        | None \<Rightarrow> Inr os) (\<lambda>os.
      and_then (case ctl_BlameEntry_val m of None \<Rightarrow> Inr os | Some v \<Rightarrow>
             and_then (rt_write_tag rt 3 WireTypeLengthDelimited os) (\<lambda>os.
             and_then (rt_write_raw_varint32 rt (ctl_ConfigValue_get_cached_size v) os) (\<lambda>os.
             ctl_ConfigValue_write_to_with_cached_sizes rt v os))) (\<lambda>os.
      rt_write_unknown_fields rt (ctl_BlameEntry_unknown_fields m) os)))"

definition ctl_BlameEntry_get_cached_size :: "ctl_BlameEntry \<Rightarrow> u32" where
  "ctl_BlameEntry_get_cached_size m = ctl_BlameEntry_cached_size m"

definition ctl_BlameEntry_get_unknown_fields :: "ctl_BlameEntry \<Rightarrow> UnknownFields" where
  "ctl_BlameEntry_get_unknown_fields m = ctl_BlameEntry_unknown_fields m"

definition ctl_BlameEntry_message :: "protobuf \<Rightarrow> ctl_BlameEntry Message" where
  "ctl_BlameEntry_message rt =
     \<lparr>msg_new = ctl_BlameEntry_new, msg_is_initialized = ctl_BlameEntry_is_initialized,
      msg_merge_from = ctl_BlameEntry_merge_from rt, msg_compute_size =
        ctl_BlameEntry_compute_size rt,
      msg_write_to_with_cached_sizes = ctl_BlameEntry_write_to_with_cached_sizes rt,
      msg_get_cached_size = ctl_BlameEntry_get_cached_size\<rparr>"

subsection \<open>BlameResponse\<close>

definition ctl_BlameResponse_is_initialized :: "ctl_BlameResponse \<Rightarrow> bool" where
  "ctl_BlameResponse_is_initialized m =
     (if ctl_BlameResponse_key m = None then False
      else if \<not> list_all ctl_BlameEntry_is_initialized (ctl_BlameResponse_entries m) then False
      else True)"

definition ctl_BlameResponse_merge_field :: "protobuf \<Rightarrow> ctl_BlameResponse \<Rightarrow> bytes
    \<Rightarrow> (ctl_BlameResponse \<times> bytes) reading" where
  "ctl_BlameResponse_merge_field rt m input =
     run_then (Some (rt_read_tag_unpack rt input)) (\<lambda>((field_number, wire_type), input).
      if field_number = 1 then
        run_then (Some (rt_read_singular_string_into rt wire_type input (ctl_BlameResponse_key m))) (\<lambda>(v, input).
          Some (Inr (m\<lparr>ctl_BlameResponse_key := v\<rparr>, input)))
      else if field_number = 2 then
        run_then (read_repeated_message_into (pb_BlameEntry rt) (ctl_BlameEntry_message rt) wire_type input (ctl_BlameResponse_entries m)) (\<lambda>(v, input).
          Some (Inr (m\<lparr>ctl_BlameResponse_entries := v\<rparr>, input)))
      else
        run_then (Some (rt_read_unknown_or_skip_group rt field_number wire_type input (ctl_BlameResponse_unknown_fields m)))
          (\<lambda>(uf, input). Some (Inr (m\<lparr>ctl_BlameResponse_unknown_fields := uf\<rparr>, input))))"

definition ctl_BlameResponse_merge_from :: "protobuf \<Rightarrow> ctl_BlameResponse \<Rightarrow> bytes
    \<Rightarrow> (ctl_BlameResponse \<times> bytes) reading" where
  "ctl_BlameResponse_merge_from rt m input =
      merge_loop (rt_eof rt) (ctl_BlameResponse_merge_field rt) m input"

definition ctl_BlameResponse_compute_size :: "protobuf \<Rightarrow> ctl_BlameResponse \<Rightarrow> u32
    \<times> ctl_BlameResponse" where
  "ctl_BlameResponse_compute_size rt m =
     (let my_size = 0;
          my_size = (case ctl_BlameResponse_key m of Some v \<Rightarrow> my_size + rt_string_size rt 1 v
            | None \<Rightarrow> my_size);
          (my_size, vs) = size_each (ctl_BlameEntry_compute_size rt)
             (\<lambda>len. 1 + rt_compute_raw_varint32_size rt len + len) (ctl_BlameResponse_entries m) my_size;
          m = m\<lparr>ctl_BlameResponse_entries := vs\<rparr>;
          my_size = my_size + rt_unknown_fields_size rt (ctl_BlameResponse_unknown_fields m)
      in (my_size, m\<lparr>ctl_BlameResponse_cached_size := my_size\<rparr>))"

definition ctl_BlameResponse_write_to_with_cached_sizes ::
    "protobuf \<Rightarrow> ctl_BlameResponse \<Rightarrow> bytes \<Rightarrow> ProtobufError + bytes" where
  "ctl_BlameResponse_write_to_with_cached_sizes rt m os =
      and_then (case ctl_BlameResponse_key m of Some v \<Rightarrow> rt_write_string rt 1 v os
        | None \<Rightarrow> Inr os) (\<lambda>os.
      and_then (for_each (\<lambda>v os. and_then (rt_write_tag rt 2 WireTypeLengthDelimited os) (\<lambda>os.
             and_then (rt_write_raw_varint32 rt (ctl_BlameEntry_get_cached_size v) os) (\<lambda>os.
             ctl_BlameEntry_write_to_with_cached_sizes rt v os))) (ctl_BlameResponse_entries m) os) (\<lambda>os.
      rt_write_unknown_fields rt (ctl_BlameResponse_unknown_fields m) os))"

definition ctl_BlameResponse_get_cached_size :: "ctl_BlameResponse \<Rightarrow> u32" where
  "ctl_BlameResponse_get_cached_size m = ctl_BlameResponse_cached_size m"

definition ctl_BlameResponse_get_unknown_fields :: "ctl_BlameResponse \<Rightarrow> UnknownFields" where
  "ctl_BlameResponse_get_unknown_fields m = ctl_BlameResponse_unknown_fields m"

definition ctl_BlameResponse_message :: "protobuf \<Rightarrow> ctl_BlameResponse Message" where
  "ctl_BlameResponse_message rt =
     \<lparr>msg_new = ctl_BlameResponse_new, msg_is_initialized = ctl_BlameResponse_is_initialized,
      msg_merge_from = ctl_BlameResponse_merge_from rt, msg_compute_size =
        ctl_BlameResponse_compute_size rt,
      msg_write_to_with_cached_sizes = ctl_BlameResponse_write_to_with_cached_sizes rt,
      msg_get_cached_size = ctl_BlameResponse_get_cached_size\<rparr>"

subsection \<open>InFlightResponse\<close>

definition ctl_InFlightResponse_is_initialized :: "ctl_InFlightResponse \<Rightarrow> bool" where
  "ctl_InFlightResponse_is_initialized m =
     (if \<not> list_all ctl_MappedField_is_initialized (ctl_InFlightResponse_kvs m) then False
      else True)"

definition ctl_InFlightResponse_merge_field :: "protobuf \<Rightarrow> ctl_InFlightResponse \<Rightarrow> bytes
    \<Rightarrow> (ctl_InFlightResponse \<times> bytes) reading" where
  "ctl_InFlightResponse_merge_field rt m input =
     run_then (Some (rt_read_tag_unpack rt input)) (\<lambda>((field_number, wire_type), input).
      if field_number = 1 then
        run_then (read_repeated_message_into (pb_MappedField rt) (ctl_MappedField_message rt) wire_type input (ctl_InFlightResponse_kvs m)) (\<lambda>(v, input).
          Some (Inr (m\<lparr>ctl_InFlightResponse_kvs := v\<rparr>, input)))
      else
        run_then (Some (rt_read_unknown_or_skip_group rt field_number wire_type input (ctl_InFlightResponse_unknown_fields m)))
          (\<lambda>(uf, input). Some (Inr (m\<lparr>ctl_InFlightResponse_unknown_fields := uf\<rparr>, input))))"

definition ctl_InFlightResponse_merge_from :: "protobuf \<Rightarrow> ctl_InFlightResponse \<Rightarrow> bytes
    \<Rightarrow> (ctl_InFlightResponse \<times> bytes) reading" where
  "ctl_InFlightResponse_merge_from rt m input =
      merge_loop (rt_eof rt) (ctl_InFlightResponse_merge_field rt) m input"

definition ctl_InFlightResponse_compute_size :: "protobuf \<Rightarrow> ctl_InFlightResponse \<Rightarrow> u32
    \<times> ctl_InFlightResponse" where
  "ctl_InFlightResponse_compute_size rt m =
     (let my_size = 0;
          (my_size, vs) = size_each (ctl_MappedField_compute_size rt)
             (\<lambda>len. 1 + rt_compute_raw_varint32_size rt len + len) (ctl_InFlightResponse_kvs m) my_size;
          m = m\<lparr>ctl_InFlightResponse_kvs := vs\<rparr>;
          my_size = my_size + rt_unknown_fields_size rt (ctl_InFlightResponse_unknown_fields m)
      in (my_size, m\<lparr>ctl_InFlightResponse_cached_size := my_size\<rparr>))"

definition ctl_InFlightResponse_write_to_with_cached_sizes ::
    "protobuf \<Rightarrow> ctl_InFlightResponse \<Rightarrow> bytes \<Rightarrow> ProtobufError + bytes" where
  "ctl_InFlightResponse_write_to_with_cached_sizes rt m os =
      and_then (for_each (\<lambda>v os. and_then (rt_write_tag rt 1 WireTypeLengthDelimited os) (\<lambda>os.
             and_then (rt_write_raw_varint32 rt (ctl_MappedField_get_cached_size v) os) (\<lambda>os.
             ctl_MappedField_write_to_with_cached_sizes rt v os))) (ctl_InFlightResponse_kvs m) os) (\<lambda>os.
      rt_write_unknown_fields rt (ctl_InFlightResponse_unknown_fields m) os)"

definition ctl_InFlightResponse_get_cached_size :: "ctl_InFlightResponse \<Rightarrow> u32" where
  "ctl_InFlightResponse_get_cached_size m = ctl_InFlightResponse_cached_size m"

definition ctl_InFlightResponse_get_unknown_fields :: "ctl_InFlightResponse \<Rightarrow> UnknownFields" where
  "ctl_InFlightResponse_get_unknown_fields m = ctl_InFlightResponse_unknown_fields m"

definition ctl_InFlightResponse_message :: "protobuf \<Rightarrow> ctl_InFlightResponse Message" where
  "ctl_InFlightResponse_message rt =
     \<lparr>msg_new = ctl_InFlightResponse_new, msg_is_initialized =
       ctl_InFlightResponse_is_initialized,
      msg_merge_from = ctl_InFlightResponse_merge_from rt, msg_compute_size =
        ctl_InFlightResponse_compute_size rt,
      msg_write_to_with_cached_sizes = ctl_InFlightResponse_write_to_with_cached_sizes rt,
      msg_get_cached_size = ctl_InFlightResponse_get_cached_size\<rparr>"

subsection \<open>Response\<close>

definition ctl_Response_is_initialized :: "ctl_Response \<Rightarrow> bool" where
  "ctl_Response_is_initialized m =
     (if ctl_Response_id m = None then False
      else if ctl_Response_status m = None then False
      else if (case ctl_Response_payload m of Some (Response_oneof_payload_get v)
        \<Rightarrow> \<not> ctl_GetResponse_is_initialized v | _ \<Rightarrow> False) then False
      else if (case ctl_Response_payload m of Some (Response_oneof_payload_commit v)
        \<Rightarrow> \<not> ctl_CommitResponse_is_initialized v | _ \<Rightarrow> False) then False
      else if (case ctl_Response_payload m of Some (Response_oneof_payload_reset v)
        \<Rightarrow> \<not> ctl_ResetResponse_is_initialized v | _ \<Rightarrow> False) then False
      else if (case ctl_Response_payload m of Some (Response_oneof_payload_dump v)
        \<Rightarrow> \<not> ctl_DumpResponse_is_initialized v | _ \<Rightarrow> False) then False
      else if (case ctl_Response_payload m of Some (Response_oneof_payload_blame v)
        \<Rightarrow> \<not> ctl_BlameResponse_is_initialized v | _ \<Rightarrow> False) then False
      else if (case ctl_Response_payload m of Some (Response_oneof_payload_inflight v)
        \<Rightarrow> \<not> ctl_InFlightResponse_is_initialized v | _ \<Rightarrow> False) then False
      else True)"

definition ctl_Response_merge_field :: "protobuf \<Rightarrow> ctl_Response \<Rightarrow> bytes \<Rightarrow> (ctl_Response
    \<times> bytes) reading" where
  "ctl_Response_merge_field rt m input =
     run_then (Some (rt_read_tag_unpack rt input)) (\<lambda>((field_number, wire_type), input).
      if field_number = 1 then
        if wire_type \<noteq> WireTypeLengthDelimited then Some (Inl (rt_unexpected_wire_type rt wire_type))
        else run_then (read_message (pb_GetResponse rt) (ctl_GetResponse_message rt) input) (\<lambda>(v,
          input).
          Some (Inr (m\<lparr>ctl_Response_payload := Some (Response_oneof_payload_get v)\<rparr>, input)))
      else if field_number = 2 then
        if wire_type \<noteq> WireTypeLengthDelimited then Some (Inl (rt_unexpected_wire_type rt wire_type))
        else run_then (read_message (pb_CommitResponse rt) (ctl_CommitResponse_message rt) input) (\<lambda>(v, input).
          Some (Inr (m\<lparr>ctl_Response_payload := Some (Response_oneof_payload_commit v)\<rparr>, input)))
      else if field_number = 3 then
        if wire_type \<noteq> WireTypeLengthDelimited then Some (Inl (rt_unexpected_wire_type rt wire_type))
        else run_then (read_message (pb_ResetResponse rt) (ctl_ResetResponse_message rt) input) (\<lambda>(v, input).
          Some (Inr (m\<lparr>ctl_Response_payload := Some (Response_oneof_payload_reset v)\<rparr>, input)))
      else if field_number = 4 then
        if wire_type \<noteq> WireTypeLengthDelimited then Some (Inl (rt_unexpected_wire_type rt wire_type))
        else run_then (read_message (pb_DumpResponse rt) (ctl_DumpResponse_message rt) input) (\<lambda>(v,
          input).
          Some (Inr (m\<lparr>ctl_Response_payload := Some (Response_oneof_payload_dump v)\<rparr>, input)))
      else if field_number = 5 then
        if wire_type \<noteq> WireTypeLengthDelimited then Some (Inl (rt_unexpected_wire_type rt wire_type))
        else run_then (read_message (pb_BlameResponse rt) (ctl_BlameResponse_message rt) input) (\<lambda>(v, input).
          Some (Inr (m\<lparr>ctl_Response_payload := Some (Response_oneof_payload_blame v)\<rparr>, input)))
      else if field_number = 8 then
        if wire_type \<noteq> WireTypeLengthDelimited then Some (Inl (rt_unexpected_wire_type rt wire_type))
        else run_then (read_message (pb_InFlightResponse rt) (ctl_InFlightResponse_message rt) input) (\<lambda>(v, input).
          Some (Inr (m\<lparr>ctl_Response_payload := Some (Response_oneof_payload_inflight v)\<rparr>, input)))
      else if field_number = 6 then
        if wire_type \<noteq> WireTypeVarint then Some (Inl (rt_unexpected_wire_type rt wire_type))
        else run_then (Some (rt_read_uint32 rt input)) (\<lambda>(tmp, input).
          Some (Inr (m\<lparr>ctl_Response_id := Some tmp\<rparr>, input)))
      else if field_number = 7 then
        if wire_type \<noteq> WireTypeVarint then Some (Inl (rt_unexpected_wire_type rt wire_type))
        else run_then (Some (read_enum (pb_StatusCode rt) ctl_StatusCode_enum input)) (\<lambda>(tmp,
          input).
          Some (Inr (m\<lparr>ctl_Response_status := Some tmp\<rparr>, input)))
      else
        run_then (Some (rt_read_unknown_or_skip_group rt field_number wire_type input (ctl_Response_unknown_fields m)))
          (\<lambda>(uf, input). Some (Inr (m\<lparr>ctl_Response_unknown_fields := uf\<rparr>, input))))"

definition ctl_Response_merge_from :: "protobuf \<Rightarrow> ctl_Response \<Rightarrow> bytes \<Rightarrow> (ctl_Response
    \<times> bytes) reading" where
  "ctl_Response_merge_from rt m input =
      merge_loop (rt_eof rt) (ctl_Response_merge_field rt) m input"

definition ctl_Response_compute_size :: "protobuf \<Rightarrow> ctl_Response \<Rightarrow> u32 \<times> ctl_Response" where
  "ctl_Response_compute_size rt m =
     (let my_size = 0;
          my_size = (case ctl_Response_id m of Some v
            \<Rightarrow> my_size + rt_value_size_u32 rt 6 v WireTypeVarint
              | None \<Rightarrow> my_size);
          my_size = (case ctl_Response_status m of Some v
            \<Rightarrow> my_size + enum_size (pb_StatusCode rt) ctl_StatusCode_enum 7 v
              | None \<Rightarrow> my_size);
          (my_size, m) = (case ctl_Response_payload m of None \<Rightarrow> (my_size, m) | Some p \<Rightarrow> (case p of
              Response_oneof_payload_get v \<Rightarrow> (let (len, v) = ctl_GetResponse_compute_size rt v
                in (my_size + (1 + rt_compute_raw_varint32_size rt len + len),
                  m\<lparr>ctl_Response_payload := Some (Response_oneof_payload_get v)\<rparr>))
            | Response_oneof_payload_commit v \<Rightarrow> (let (len, v) =
              ctl_CommitResponse_compute_size rt v
                in (my_size + (1 + rt_compute_raw_varint32_size rt len + len),
                  m\<lparr>ctl_Response_payload := Some (Response_oneof_payload_commit v)\<rparr>))
            | Response_oneof_payload_reset v \<Rightarrow> (let (len, v) = ctl_ResetResponse_compute_size rt v
                in (my_size + (1 + rt_compute_raw_varint32_size rt len + len),
                  m\<lparr>ctl_Response_payload := Some (Response_oneof_payload_reset v)\<rparr>))
            | Response_oneof_payload_dump v \<Rightarrow> (let (len, v) = ctl_DumpResponse_compute_size rt v
                in (my_size + (1 + rt_compute_raw_varint32_size rt len + len),
                  m\<lparr>ctl_Response_payload := Some (Response_oneof_payload_dump v)\<rparr>))
            | Response_oneof_payload_blame v \<Rightarrow> (let (len, v) = ctl_BlameResponse_compute_size rt v
                in (my_size + (1 + rt_compute_raw_varint32_size rt len + len),
                  m\<lparr>ctl_Response_payload := Some (Response_oneof_payload_blame v)\<rparr>))
            | Response_oneof_payload_inflight v \<Rightarrow> (let (len, v) =
              ctl_InFlightResponse_compute_size rt v
                in (my_size + (1 + rt_compute_raw_varint32_size rt len + len),
                  m\<lparr>ctl_Response_payload := Some (Response_oneof_payload_inflight v)\<rparr>))));
          my_size = my_size + rt_unknown_fields_size rt (ctl_Response_unknown_fields m)
      in (my_size, m\<lparr>ctl_Response_cached_size := my_size\<rparr>))"

definition ctl_Response_write_to_with_cached_sizes ::
    "protobuf \<Rightarrow> ctl_Response \<Rightarrow> bytes \<Rightarrow> ProtobufError + bytes" where
  "ctl_Response_write_to_with_cached_sizes rt m os =
      and_then (case ctl_Response_id m of Some v \<Rightarrow> rt_write_uint32 rt 6 v os
        | None \<Rightarrow> Inr os) (\<lambda>os.
      and_then (case ctl_Response_status m of Some v
        \<Rightarrow> rt_write_enum rt 7 (ctl_StatusCode_value v) os | None \<Rightarrow> Inr os) (\<lambda>os.
      and_then (case ctl_Response_payload m of None \<Rightarrow> Inr os | Some p \<Rightarrow> (case p of
             Response_oneof_payload_get v \<Rightarrow>
             and_then (rt_write_tag rt 1 WireTypeLengthDelimited os) (\<lambda>os.
             and_then (rt_write_raw_varint32 rt (ctl_GetResponse_get_cached_size v) os) (\<lambda>os.
             ctl_GetResponse_write_to_with_cached_sizes rt v os))
           | Response_oneof_payload_commit v \<Rightarrow>
             and_then (rt_write_tag rt 2 WireTypeLengthDelimited os) (\<lambda>os.
             and_then (rt_write_raw_varint32 rt (ctl_CommitResponse_get_cached_size v) os) (\<lambda>os.
             ctl_CommitResponse_write_to_with_cached_sizes rt v os))
           | Response_oneof_payload_reset v \<Rightarrow>
             and_then (rt_write_tag rt 3 WireTypeLengthDelimited os) (\<lambda>os.
             and_then (rt_write_raw_varint32 rt (ctl_ResetResponse_get_cached_size v) os) (\<lambda>os.
             ctl_ResetResponse_write_to_with_cached_sizes rt v os))
           | Response_oneof_payload_dump v \<Rightarrow>
             and_then (rt_write_tag rt 4 WireTypeLengthDelimited os) (\<lambda>os.
             and_then (rt_write_raw_varint32 rt (ctl_DumpResponse_get_cached_size v) os) (\<lambda>os.
             ctl_DumpResponse_write_to_with_cached_sizes rt v os))
           | Response_oneof_payload_blame v \<Rightarrow>
             and_then (rt_write_tag rt 5 WireTypeLengthDelimited os) (\<lambda>os.
             and_then (rt_write_raw_varint32 rt (ctl_BlameResponse_get_cached_size v) os) (\<lambda>os.
             ctl_BlameResponse_write_to_with_cached_sizes rt v os))
           | Response_oneof_payload_inflight v \<Rightarrow>
             and_then (rt_write_tag rt 8 WireTypeLengthDelimited os) (\<lambda>os.
             and_then (rt_write_raw_varint32 rt (ctl_InFlightResponse_get_cached_size v) os) (\<lambda>os.
             ctl_InFlightResponse_write_to_with_cached_sizes rt v os)))) (\<lambda>os.
      rt_write_unknown_fields rt (ctl_Response_unknown_fields m) os)))"

definition ctl_Response_get_cached_size :: "ctl_Response \<Rightarrow> u32" where
  "ctl_Response_get_cached_size m = ctl_Response_cached_size m"

definition ctl_Response_get_unknown_fields :: "ctl_Response \<Rightarrow> UnknownFields" where
  "ctl_Response_get_unknown_fields m = ctl_Response_unknown_fields m"

definition ctl_Response_message :: "protobuf \<Rightarrow> ctl_Response Message" where
  "ctl_Response_message rt =
     \<lparr>msg_new = ctl_Response_new, msg_is_initialized = ctl_Response_is_initialized,
      msg_merge_from = ctl_Response_merge_from rt, msg_compute_size =
        ctl_Response_compute_size rt,
      msg_write_to_with_cached_sizes = ctl_Response_write_to_with_cached_sizes rt,
      msg_get_cached_size = ctl_Response_get_cached_size\<rparr>"

section \<open>The encodings\<close>

definition ctl_MappedField_wire :: "ctl_MappedField \<Rightarrow> bytes" where
  "ctl_MappedField_wire m =
     enc_opt (enc_string 1) (ctl_MappedField_key m)
     @ enc_opt (\<lambda>v. enc_message 2 (ctl_ConfigValue_wire v)) (ctl_MappedField_value m)"

definition ctl_MappedField_ok :: "ctl_MappedField \<Rightarrow> bool" where
  "ctl_MappedField_ok m \<longleftrightarrow> ok_opt string_ok (ctl_MappedField_key m) \<and> ok_opt ctl_ConfigValue_ok (ctl_MappedField_value m) \<and> ctl_MappedField_unknown_fields m = []"

definition ctl_MappedField_norm :: "ctl_MappedField \<Rightarrow> ctl_MappedField" where
  "ctl_MappedField_norm m =
      m\<lparr>ctl_MappedField_value := map_option ctl_ConfigValue_norm (ctl_MappedField_value m),
       ctl_MappedField_cached_size := 0\<rparr>"

definition ctl_GetResponse_wire :: "ctl_GetResponse \<Rightarrow> bytes" where
  "ctl_GetResponse_wire m =
     concat (map (\<lambda>v. enc_message 1 (ctl_MappedField_wire v)) (ctl_GetResponse_kvs m))"

definition ctl_GetResponse_ok :: "ctl_GetResponse \<Rightarrow> bool" where
  "ctl_GetResponse_ok m \<longleftrightarrow> list_all ctl_MappedField_ok (ctl_GetResponse_kvs m) \<and> ctl_GetResponse_unknown_fields m = []"

definition ctl_GetResponse_norm :: "ctl_GetResponse \<Rightarrow> ctl_GetResponse" where
  "ctl_GetResponse_norm m =
      m\<lparr>ctl_GetResponse_kvs := map ctl_MappedField_norm (ctl_GetResponse_kvs m),
       ctl_GetResponse_cached_size := 0\<rparr>"

definition ctl_CommitResponse_wire :: "ctl_CommitResponse \<Rightarrow> bytes" where
  "ctl_CommitResponse_wire m =
     enc_opt (enc_uint32 1) (ctl_CommitResponse_commit_id m)"

definition ctl_CommitResponse_ok :: "ctl_CommitResponse \<Rightarrow> bool" where
  "ctl_CommitResponse_ok m \<longleftrightarrow> ctl_CommitResponse_unknown_fields m = []"

definition ctl_CommitResponse_norm :: "ctl_CommitResponse \<Rightarrow> ctl_CommitResponse" where
  "ctl_CommitResponse_norm m = m\<lparr>ctl_CommitResponse_cached_size := 0\<rparr>"

definition ctl_ResetResponse_wire :: "ctl_ResetResponse \<Rightarrow> bytes" where
  "ctl_ResetResponse_wire m =
     enc_opt (enc_uint32 1) (ctl_ResetResponse_commit_id m)"

definition ctl_ResetResponse_ok :: "ctl_ResetResponse \<Rightarrow> bool" where
  "ctl_ResetResponse_ok m \<longleftrightarrow> ctl_ResetResponse_unknown_fields m = []"

definition ctl_ResetResponse_norm :: "ctl_ResetResponse \<Rightarrow> ctl_ResetResponse" where
  "ctl_ResetResponse_norm m = m\<lparr>ctl_ResetResponse_cached_size := 0\<rparr>"

definition ctl_DumpResponse_wire :: "ctl_DumpResponse \<Rightarrow> bytes" where
  "ctl_DumpResponse_wire m =
     concat (map (enc_string 1) (ctl_DumpResponse_templatehooks m))
     @ concat (map (enc_string 2) (ctl_DumpResponse_servicehooks m))"

definition ctl_DumpResponse_ok :: "ctl_DumpResponse \<Rightarrow> bool" where
  "ctl_DumpResponse_ok m \<longleftrightarrow> list_all string_ok (ctl_DumpResponse_templatehooks m) \<and> list_all string_ok (ctl_DumpResponse_servicehooks m) \<and> ctl_DumpResponse_unknown_fields m = []"

definition ctl_DumpResponse_norm :: "ctl_DumpResponse \<Rightarrow> ctl_DumpResponse" where
  "ctl_DumpResponse_norm m = m\<lparr>ctl_DumpResponse_cached_size := 0\<rparr>"

definition ctl_BlameEntry_wire :: "ctl_BlameEntry \<Rightarrow> bytes" where
  "ctl_BlameEntry_wire m =
     enc_opt (enc_uint32 1) (ctl_BlameEntry_commit_id m)
     @ enc_opt (enc_string 2) (ctl_BlameEntry_commit_time m)
     @ enc_opt (\<lambda>v. enc_message 3 (ctl_ConfigValue_wire v)) (ctl_BlameEntry_val m)"

definition ctl_BlameEntry_ok :: "ctl_BlameEntry \<Rightarrow> bool" where
  "ctl_BlameEntry_ok m \<longleftrightarrow> ok_opt string_ok (ctl_BlameEntry_commit_time m) \<and> ok_opt ctl_ConfigValue_ok (ctl_BlameEntry_val m) \<and> ctl_BlameEntry_unknown_fields m = []"

definition ctl_BlameEntry_norm :: "ctl_BlameEntry \<Rightarrow> ctl_BlameEntry" where
  "ctl_BlameEntry_norm m =
      m\<lparr>ctl_BlameEntry_val := map_option ctl_ConfigValue_norm (ctl_BlameEntry_val m),
       ctl_BlameEntry_cached_size := 0\<rparr>"

definition ctl_BlameResponse_wire :: "ctl_BlameResponse \<Rightarrow> bytes" where
  "ctl_BlameResponse_wire m =
     enc_opt (enc_string 1) (ctl_BlameResponse_key m)
     @ concat (map (\<lambda>v. enc_message 2 (ctl_BlameEntry_wire v)) (ctl_BlameResponse_entries m))"

definition ctl_BlameResponse_ok :: "ctl_BlameResponse \<Rightarrow> bool" where
  "ctl_BlameResponse_ok m \<longleftrightarrow> ok_opt string_ok (ctl_BlameResponse_key m) \<and> list_all ctl_BlameEntry_ok (ctl_BlameResponse_entries m) \<and> ctl_BlameResponse_unknown_fields m = []"

definition ctl_BlameResponse_norm :: "ctl_BlameResponse \<Rightarrow> ctl_BlameResponse" where
  "ctl_BlameResponse_norm m =
      m\<lparr>ctl_BlameResponse_entries := map ctl_BlameEntry_norm (ctl_BlameResponse_entries m),
       ctl_BlameResponse_cached_size := 0\<rparr>"

definition ctl_InFlightResponse_wire :: "ctl_InFlightResponse \<Rightarrow> bytes" where
  "ctl_InFlightResponse_wire m =
     concat (map (\<lambda>v. enc_message 1 (ctl_MappedField_wire v)) (ctl_InFlightResponse_kvs m))"

definition ctl_InFlightResponse_ok :: "ctl_InFlightResponse \<Rightarrow> bool" where
  "ctl_InFlightResponse_ok m \<longleftrightarrow> list_all ctl_MappedField_ok (ctl_InFlightResponse_kvs m) \<and> ctl_InFlightResponse_unknown_fields m = []"

definition ctl_InFlightResponse_norm :: "ctl_InFlightResponse \<Rightarrow> ctl_InFlightResponse" where
  "ctl_InFlightResponse_norm m =
      m\<lparr>ctl_InFlightResponse_kvs := map ctl_MappedField_norm (ctl_InFlightResponse_kvs m),
       ctl_InFlightResponse_cached_size := 0\<rparr>"

primrec Response_oneof_payload_wire :: "Response_oneof_payload \<Rightarrow> bytes" where
  "Response_oneof_payload_wire (Response_oneof_payload_get v) =
      enc_message 1 (ctl_GetResponse_wire v)"
| "Response_oneof_payload_wire (Response_oneof_payload_commit v) =
    enc_message 2 (ctl_CommitResponse_wire v)"
| "Response_oneof_payload_wire (Response_oneof_payload_reset v) =
    enc_message 3 (ctl_ResetResponse_wire v)"
| "Response_oneof_payload_wire (Response_oneof_payload_dump v) =
    enc_message 4 (ctl_DumpResponse_wire v)"
| "Response_oneof_payload_wire (Response_oneof_payload_blame v) =
    enc_message 5 (ctl_BlameResponse_wire v)"
| "Response_oneof_payload_wire (Response_oneof_payload_inflight v) =
    enc_message 8 (ctl_InFlightResponse_wire v)"

primrec Response_oneof_payload_ok :: "Response_oneof_payload \<Rightarrow> bool" where
  "Response_oneof_payload_ok (Response_oneof_payload_get v) = ctl_GetResponse_ok v"
| "Response_oneof_payload_ok (Response_oneof_payload_commit v) = ctl_CommitResponse_ok v"
| "Response_oneof_payload_ok (Response_oneof_payload_reset v) = ctl_ResetResponse_ok v"
| "Response_oneof_payload_ok (Response_oneof_payload_dump v) = ctl_DumpResponse_ok v"
| "Response_oneof_payload_ok (Response_oneof_payload_blame v) = ctl_BlameResponse_ok v"
| "Response_oneof_payload_ok (Response_oneof_payload_inflight v) = ctl_InFlightResponse_ok v"

primrec Response_oneof_payload_norm :: "Response_oneof_payload \<Rightarrow> Response_oneof_payload" where
  "Response_oneof_payload_norm (Response_oneof_payload_get v) =
      Response_oneof_payload_get (ctl_GetResponse_norm v)"
| "Response_oneof_payload_norm (Response_oneof_payload_commit v) =
    Response_oneof_payload_commit (ctl_CommitResponse_norm v)"
| "Response_oneof_payload_norm (Response_oneof_payload_reset v) =
    Response_oneof_payload_reset (ctl_ResetResponse_norm v)"
| "Response_oneof_payload_norm (Response_oneof_payload_dump v) =
    Response_oneof_payload_dump (ctl_DumpResponse_norm v)"
| "Response_oneof_payload_norm (Response_oneof_payload_blame v) =
    Response_oneof_payload_blame (ctl_BlameResponse_norm v)"
| "Response_oneof_payload_norm (Response_oneof_payload_inflight v) =
    Response_oneof_payload_inflight (ctl_InFlightResponse_norm v)"

primrec Response_oneof_payload_init :: "Response_oneof_payload \<Rightarrow> bool" where
  "Response_oneof_payload_init (Response_oneof_payload_get v) = ctl_GetResponse_is_initialized v"
| "Response_oneof_payload_init (Response_oneof_payload_commit v) =
    ctl_CommitResponse_is_initialized v"
| "Response_oneof_payload_init (Response_oneof_payload_reset v) =
    ctl_ResetResponse_is_initialized v"
| "Response_oneof_payload_init (Response_oneof_payload_dump v) =
    ctl_DumpResponse_is_initialized v"
| "Response_oneof_payload_init (Response_oneof_payload_blame v) =
    ctl_BlameResponse_is_initialized v"
| "Response_oneof_payload_init (Response_oneof_payload_inflight v) =
    ctl_InFlightResponse_is_initialized v"

definition ctl_Response_wire :: "ctl_Response \<Rightarrow> bytes" where
  "ctl_Response_wire m =
     enc_opt (enc_uint32 6) (ctl_Response_id m)
     @ enc_opt (\<lambda>v. enc_int32 7 (ctl_StatusCode_value v)) (ctl_Response_status m)
     @ enc_opt Response_oneof_payload_wire (ctl_Response_payload m)"

definition ctl_Response_ok :: "ctl_Response \<Rightarrow> bool" where
  "ctl_Response_ok m \<longleftrightarrow> ok_opt Response_oneof_payload_ok (ctl_Response_payload m) \<and> ctl_Response_unknown_fields m = []"

definition ctl_Response_norm :: "ctl_Response \<Rightarrow> ctl_Response" where
  "ctl_Response_norm m =
      m\<lparr>ctl_Response_payload := map_option Response_oneof_payload_norm (ctl_Response_payload m),
       ctl_Response_cached_size := 0\<rparr>"

section \<open>The code implements the encodings\<close>

subsection \<open>MappedField\<close>

lemmas ctl_MappedField_ops =
  ctl_MappedField_new_def ctl_MappedField_is_initialized_def ctl_MappedField_merge_from_def ctl_MappedField_merge_field_def
  ctl_MappedField_compute_size_def ctl_MappedField_write_to_with_cached_sizes_def ctl_MappedField_get_cached_size_def

lemmas ctl_MappedField_spec =
    ctl_MappedField_wire_def ctl_MappedField_ok_def ctl_MappedField_norm_def

context protobuf_runtime begin

lemma ctl_MappedField_cached:
  "ctl_MappedField_get_cached_size (snd (ctl_MappedField_compute_size rt m)) =
      fst (ctl_MappedField_compute_size rt m)"
  by (simp add: ctl_MappedField_get_cached_size_def ctl_MappedField_compute_size_def Let_def split_beta)

lemma ctl_MappedField_init_norm: "ctl_MappedField_is_initialized (ctl_MappedField_norm m) =
    ctl_MappedField_is_initialized m"
  by (simp add: ctl_MappedField_norm_def ctl_MappedField_is_initialized_def ConfigValue.init_norm split: option.split)

lemma ctl_MappedField_norm_eqs:
  "ctl_MappedField_wire (ctl_MappedField_norm m) =
      ctl_MappedField_wire m" "ctl_MappedField_ok (ctl_MappedField_norm m) = ctl_MappedField_ok m"
  by (simp_all add: ctl_MappedField_spec ConfigValue.norm_wire ConfigValue.norm_ok enc_opt_def ok_opt_def split: option.split)

lemma ctl_MappedField_keeps: "ctl_MappedField_norm (snd (ctl_MappedField_compute_size rt m)) =
    ctl_MappedField_norm m"
  by (simp add: ctl_MappedField_norm_def ctl_MappedField_compute_size_def Let_def split_beta ConfigValue.keeps
      split: option.split)

lemma ctl_MappedField_size:
  assumes "ctl_MappedField_ok m" and "small (ctl_MappedField_wire m)"
  shows "fst (ctl_MappedField_compute_size rt m) = of_nat (length (ctl_MappedField_wire m))"
  using assms
  by (cases m) (auto simp: codec ctl_MappedField_ops ctl_MappedField_spec Let_def split_beta add.assoc split: option.splits
      dest!: small_parts)

lemma ctl_MappedField_write:
  assumes "ctl_MappedField_ok m" and "small (ctl_MappedField_wire m)"
  shows "ctl_MappedField_write_to_with_cached_sizes rt (snd (ctl_MappedField_compute_size rt m)) os
    = Inr (os @ ctl_MappedField_wire m)"
  using assms
  by (cases m) (auto simp: codec ctl_MappedField_ops ctl_MappedField_spec Let_def split_beta split: option.splits
      dest!: small_parts)

lemma ctl_MappedField_merge:
  assumes "ctl_MappedField_ok m" and "small (ctl_MappedField_wire m)" and "ctl_MappedField_is_initialized m"
  shows "ctl_MappedField_merge_from rt ctl_MappedField_new (ctl_MappedField_wire m) =
      Some (Inr (ctl_MappedField_norm m, []))"
  using assms
  by (cases m) (auto simp: codec ctl_MappedField_ops ctl_MappedField_spec enc_opt_def ok_opt_def enc_message_def enc_string_def
      split: option.splits if_splits dest!: small_parts)

end

sublocale protobuf_runtime \<subseteq> MappedField: nested_codec rt "ctl_MappedField_message rt" "pb_MappedField rt"
  ctl_MappedField_new ctl_MappedField_is_initialized "ctl_MappedField_merge_from rt" "ctl_MappedField_compute_size rt"
  "ctl_MappedField_write_to_with_cached_sizes rt" ctl_MappedField_get_cached_size ctl_MappedField_wire ctl_MappedField_ok ctl_MappedField_norm
  by unfold_locales
    (simp_all add: ctl_MappedField_message_def nested_MappedField ctl_MappedField_size ctl_MappedField_write ctl_MappedField_merge ctl_MappedField_cached ctl_MappedField_init_norm ctl_MappedField_norm_eqs ctl_MappedField_keeps)

subsection \<open>GetResponse\<close>

lemmas ctl_GetResponse_ops =
  ctl_GetResponse_new_def ctl_GetResponse_is_initialized_def ctl_GetResponse_merge_from_def ctl_GetResponse_merge_field_def
  ctl_GetResponse_compute_size_def ctl_GetResponse_write_to_with_cached_sizes_def ctl_GetResponse_get_cached_size_def

lemmas ctl_GetResponse_spec =
    ctl_GetResponse_wire_def ctl_GetResponse_ok_def ctl_GetResponse_norm_def

context protobuf_runtime begin

lemma ctl_GetResponse_cached:
  "ctl_GetResponse_get_cached_size (snd (ctl_GetResponse_compute_size rt m)) =
      fst (ctl_GetResponse_compute_size rt m)"
  by (simp add: ctl_GetResponse_get_cached_size_def ctl_GetResponse_compute_size_def Let_def split_beta)

lemma ctl_GetResponse_merge_kvs:
  assumes "list_all ctl_MappedField_ok xs" and "list_all ctl_MappedField_is_initialized xs"
    and "\<forall>v\<in>set xs. small (enc_message 1 (ctl_MappedField_wire v))"
  shows "merge_loop (rt_eof rt) (ctl_GetResponse_merge_field rt) m (concat (map (\<lambda>v. enc_message 1 (ctl_MappedField_wire v)) xs) @ r)
    = merge_loop (rt_eof rt) (ctl_GetResponse_merge_field rt) (m\<lparr>ctl_GetResponse_kvs := ctl_GetResponse_kvs m @ map ctl_MappedField_norm xs\<rparr>) r"
proof -
  have "merge_loop (rt_eof rt) (ctl_GetResponse_merge_field rt) (m\<lparr>ctl_GetResponse_kvs := ctl_GetResponse_kvs m\<rparr>) (concat (map (\<lambda>v. enc_message 1 (ctl_MappedField_wire v)) xs) @ r)
    = merge_loop (rt_eof rt) (ctl_GetResponse_merge_field rt) (m\<lparr>ctl_GetResponse_kvs := ctl_GetResponse_kvs m @ map ctl_MappedField_norm xs\<rparr>) r"
    using assms by (intro merge_loop_list [OF eof, where put = "\<lambda>l. m\<lparr>ctl_GetResponse_kvs := l\<rparr>"])
      (auto simp: codec ctl_GetResponse_merge_field_def enc_message_def list_all_iff dest!: small_parts)
  then show ?thesis by simp
qed

lemma ctl_GetResponse_init_norm: "ctl_GetResponse_is_initialized (ctl_GetResponse_norm m) =
    ctl_GetResponse_is_initialized m"
  by (simp add: ctl_GetResponse_norm_def ctl_GetResponse_is_initialized_def list_all_iff MappedField.init_norm)

lemma ctl_GetResponse_norm_eqs:
  "ctl_GetResponse_wire (ctl_GetResponse_norm m) =
      ctl_GetResponse_wire m" "ctl_GetResponse_ok (ctl_GetResponse_norm m) = ctl_GetResponse_ok m"
  by (simp_all add: ctl_GetResponse_spec MappedField.norm_wire MappedField.norm_ok comp_def list_all_iff enc_opt_def ok_opt_def split: option.split)

lemma ctl_GetResponse_keeps: "ctl_GetResponse_norm (snd (ctl_GetResponse_compute_size rt m)) =
    ctl_GetResponse_norm m"
  by (simp add: ctl_GetResponse_norm_def ctl_GetResponse_compute_size_def Let_def split_beta size_each_snd comp_def MappedField.keeps
      split: option.split)

lemma ctl_GetResponse_size:
  assumes "ctl_GetResponse_ok m" and "small (ctl_GetResponse_wire m)"
  shows "fst (ctl_GetResponse_compute_size rt m) = of_nat (length (ctl_GetResponse_wire m))"
  using assms
  by (cases m) (auto simp: codec ctl_GetResponse_ops ctl_GetResponse_spec Let_def split_beta add.assoc size_each_snd
      split: option.splits dest!: small_parts)

lemma ctl_GetResponse_write:
  assumes "ctl_GetResponse_ok m" and "small (ctl_GetResponse_wire m)"
  shows "ctl_GetResponse_write_to_with_cached_sizes rt (snd (ctl_GetResponse_compute_size rt m)) os
    = Inr (os @ ctl_GetResponse_wire m)"
  using assms
  by (cases m) (auto simp: codec ctl_GetResponse_ops ctl_GetResponse_spec Let_def split_beta size_each_snd split: option.splits
      dest!: small_parts)

lemma ctl_GetResponse_merge:
  assumes "ctl_GetResponse_ok m" and "small (ctl_GetResponse_wire m)" and "ctl_GetResponse_is_initialized m"
  shows "ctl_GetResponse_merge_from rt ctl_GetResponse_new (ctl_GetResponse_wire m) =
      Some (Inr (ctl_GetResponse_norm m, []))"
  using assms
  by (cases m) (auto simp: codec ctl_GetResponse_ops ctl_GetResponse_spec enc_opt_def ok_opt_def 
      ctl_GetResponse_merge_kvs
      ctl_GetResponse_merge_kvs [where r = "[]", simplified]
      split: option.splits if_splits dest!: small_parts)

end

sublocale protobuf_runtime \<subseteq> GetResponse: nested_codec rt "ctl_GetResponse_message rt" "pb_GetResponse rt"
  ctl_GetResponse_new ctl_GetResponse_is_initialized "ctl_GetResponse_merge_from rt" "ctl_GetResponse_compute_size rt"
  "ctl_GetResponse_write_to_with_cached_sizes rt" ctl_GetResponse_get_cached_size ctl_GetResponse_wire ctl_GetResponse_ok ctl_GetResponse_norm
  by unfold_locales
    (simp_all add: ctl_GetResponse_message_def nested_GetResponse ctl_GetResponse_size ctl_GetResponse_write ctl_GetResponse_merge ctl_GetResponse_cached ctl_GetResponse_init_norm ctl_GetResponse_norm_eqs ctl_GetResponse_keeps)

subsection \<open>CommitResponse\<close>

lemmas ctl_CommitResponse_ops =
  ctl_CommitResponse_new_def ctl_CommitResponse_is_initialized_def ctl_CommitResponse_merge_from_def ctl_CommitResponse_merge_field_def
  ctl_CommitResponse_compute_size_def ctl_CommitResponse_write_to_with_cached_sizes_def ctl_CommitResponse_get_cached_size_def

lemmas ctl_CommitResponse_spec =
    ctl_CommitResponse_wire_def ctl_CommitResponse_ok_def ctl_CommitResponse_norm_def

context protobuf_runtime begin

lemma ctl_CommitResponse_cached:
  "ctl_CommitResponse_get_cached_size (snd (ctl_CommitResponse_compute_size rt m)) =
      fst (ctl_CommitResponse_compute_size rt m)"
  by (simp add: ctl_CommitResponse_get_cached_size_def ctl_CommitResponse_compute_size_def Let_def split_beta)

lemma ctl_CommitResponse_init_norm: "ctl_CommitResponse_is_initialized (ctl_CommitResponse_norm m) =
    ctl_CommitResponse_is_initialized m"
  by (simp add: ctl_CommitResponse_norm_def ctl_CommitResponse_is_initialized_def)

lemma ctl_CommitResponse_norm_eqs:
  "ctl_CommitResponse_wire (ctl_CommitResponse_norm m) =
      ctl_CommitResponse_wire m" "ctl_CommitResponse_ok (ctl_CommitResponse_norm m) =
        ctl_CommitResponse_ok m"
  by (simp_all add: ctl_CommitResponse_spec enc_opt_def ok_opt_def split: option.split)

lemma ctl_CommitResponse_keeps: "ctl_CommitResponse_norm (snd (ctl_CommitResponse_compute_size rt m)) = ctl_CommitResponse_norm m"
  by (simp add: ctl_CommitResponse_norm_def ctl_CommitResponse_compute_size_def Let_def split_beta
      split: option.split)

lemma ctl_CommitResponse_size:
  assumes "ctl_CommitResponse_ok m" and "small (ctl_CommitResponse_wire m)"
  shows "fst (ctl_CommitResponse_compute_size rt m) = of_nat (length (ctl_CommitResponse_wire m))"
  using assms
  by (cases m) (auto simp: codec ctl_CommitResponse_ops ctl_CommitResponse_spec Let_def split_beta add.assoc split: option.splits
      dest!: small_parts)

lemma ctl_CommitResponse_write:
  assumes "ctl_CommitResponse_ok m" and "small (ctl_CommitResponse_wire m)"
  shows "ctl_CommitResponse_write_to_with_cached_sizes rt (snd (ctl_CommitResponse_compute_size rt m)) os
    = Inr (os @ ctl_CommitResponse_wire m)"
  using assms
  by (cases m) (auto simp: codec ctl_CommitResponse_ops ctl_CommitResponse_spec Let_def split_beta split: option.splits
      dest!: small_parts)

lemma ctl_CommitResponse_merge:
  assumes "ctl_CommitResponse_ok m" and "small (ctl_CommitResponse_wire m)" and "ctl_CommitResponse_is_initialized m"
  shows "ctl_CommitResponse_merge_from rt ctl_CommitResponse_new (ctl_CommitResponse_wire m) =
      Some (Inr (ctl_CommitResponse_norm m, []))"
  using assms
  by (cases m) (auto simp: codec ctl_CommitResponse_ops ctl_CommitResponse_spec enc_opt_def ok_opt_def enc_uint32_def
      split: option.splits if_splits dest!: small_parts)

end

sublocale protobuf_runtime \<subseteq> CommitResponse: nested_codec rt "ctl_CommitResponse_message rt" "pb_CommitResponse rt"
  ctl_CommitResponse_new ctl_CommitResponse_is_initialized "ctl_CommitResponse_merge_from rt" "ctl_CommitResponse_compute_size rt"
  "ctl_CommitResponse_write_to_with_cached_sizes rt" ctl_CommitResponse_get_cached_size ctl_CommitResponse_wire ctl_CommitResponse_ok ctl_CommitResponse_norm
  by unfold_locales
    (simp_all add: ctl_CommitResponse_message_def nested_CommitResponse ctl_CommitResponse_size ctl_CommitResponse_write ctl_CommitResponse_merge ctl_CommitResponse_cached ctl_CommitResponse_init_norm ctl_CommitResponse_norm_eqs ctl_CommitResponse_keeps)

subsection \<open>ResetResponse\<close>

lemmas ctl_ResetResponse_ops =
  ctl_ResetResponse_new_def ctl_ResetResponse_is_initialized_def ctl_ResetResponse_merge_from_def ctl_ResetResponse_merge_field_def
  ctl_ResetResponse_compute_size_def ctl_ResetResponse_write_to_with_cached_sizes_def ctl_ResetResponse_get_cached_size_def

lemmas ctl_ResetResponse_spec =
    ctl_ResetResponse_wire_def ctl_ResetResponse_ok_def ctl_ResetResponse_norm_def

context protobuf_runtime begin

lemma ctl_ResetResponse_cached:
  "ctl_ResetResponse_get_cached_size (snd (ctl_ResetResponse_compute_size rt m)) =
      fst (ctl_ResetResponse_compute_size rt m)"
  by (simp add: ctl_ResetResponse_get_cached_size_def ctl_ResetResponse_compute_size_def Let_def split_beta)

lemma ctl_ResetResponse_init_norm: "ctl_ResetResponse_is_initialized (ctl_ResetResponse_norm m) =
    ctl_ResetResponse_is_initialized m"
  by (simp add: ctl_ResetResponse_norm_def ctl_ResetResponse_is_initialized_def)

lemma ctl_ResetResponse_norm_eqs:
  "ctl_ResetResponse_wire (ctl_ResetResponse_norm m) =
      ctl_ResetResponse_wire m" "ctl_ResetResponse_ok (ctl_ResetResponse_norm m) =
        ctl_ResetResponse_ok m"
  by (simp_all add: ctl_ResetResponse_spec enc_opt_def ok_opt_def split: option.split)

lemma ctl_ResetResponse_keeps: "ctl_ResetResponse_norm (snd (ctl_ResetResponse_compute_size rt m)) =
    ctl_ResetResponse_norm m"
  by (simp add: ctl_ResetResponse_norm_def ctl_ResetResponse_compute_size_def Let_def split_beta
      split: option.split)

lemma ctl_ResetResponse_size:
  assumes "ctl_ResetResponse_ok m" and "small (ctl_ResetResponse_wire m)"
  shows "fst (ctl_ResetResponse_compute_size rt m) = of_nat (length (ctl_ResetResponse_wire m))"
  using assms
  by (cases m) (auto simp: codec ctl_ResetResponse_ops ctl_ResetResponse_spec Let_def split_beta add.assoc split: option.splits
      dest!: small_parts)

lemma ctl_ResetResponse_write:
  assumes "ctl_ResetResponse_ok m" and "small (ctl_ResetResponse_wire m)"
  shows "ctl_ResetResponse_write_to_with_cached_sizes rt (snd (ctl_ResetResponse_compute_size rt m)) os
    = Inr (os @ ctl_ResetResponse_wire m)"
  using assms
  by (cases m) (auto simp: codec ctl_ResetResponse_ops ctl_ResetResponse_spec Let_def split_beta split: option.splits
      dest!: small_parts)

lemma ctl_ResetResponse_merge:
  assumes "ctl_ResetResponse_ok m" and "small (ctl_ResetResponse_wire m)" and "ctl_ResetResponse_is_initialized m"
  shows "ctl_ResetResponse_merge_from rt ctl_ResetResponse_new (ctl_ResetResponse_wire m) =
      Some (Inr (ctl_ResetResponse_norm m, []))"
  using assms
  by (cases m) (auto simp: codec ctl_ResetResponse_ops ctl_ResetResponse_spec enc_opt_def ok_opt_def enc_uint32_def
      split: option.splits if_splits dest!: small_parts)

end

sublocale protobuf_runtime \<subseteq> ResetResponse: nested_codec rt "ctl_ResetResponse_message rt" "pb_ResetResponse rt"
  ctl_ResetResponse_new ctl_ResetResponse_is_initialized "ctl_ResetResponse_merge_from rt" "ctl_ResetResponse_compute_size rt"
  "ctl_ResetResponse_write_to_with_cached_sizes rt" ctl_ResetResponse_get_cached_size ctl_ResetResponse_wire ctl_ResetResponse_ok ctl_ResetResponse_norm
  by unfold_locales
    (simp_all add: ctl_ResetResponse_message_def nested_ResetResponse ctl_ResetResponse_size ctl_ResetResponse_write ctl_ResetResponse_merge ctl_ResetResponse_cached ctl_ResetResponse_init_norm ctl_ResetResponse_norm_eqs ctl_ResetResponse_keeps)

subsection \<open>DumpResponse\<close>

lemmas ctl_DumpResponse_ops =
  ctl_DumpResponse_new_def ctl_DumpResponse_is_initialized_def ctl_DumpResponse_merge_from_def ctl_DumpResponse_merge_field_def
  ctl_DumpResponse_compute_size_def ctl_DumpResponse_write_to_with_cached_sizes_def ctl_DumpResponse_get_cached_size_def

lemmas ctl_DumpResponse_spec =
    ctl_DumpResponse_wire_def ctl_DumpResponse_ok_def ctl_DumpResponse_norm_def

context protobuf_runtime begin

lemma ctl_DumpResponse_cached:
  "ctl_DumpResponse_get_cached_size (snd (ctl_DumpResponse_compute_size rt m)) =
      fst (ctl_DumpResponse_compute_size rt m)"
  by (simp add: ctl_DumpResponse_get_cached_size_def ctl_DumpResponse_compute_size_def Let_def split_beta)

lemma ctl_DumpResponse_merge_templatehooks:
  assumes "list_all string_ok xs" and "\<forall>s\<in>set xs. small (enc_string 1 s)"
  shows "merge_loop (rt_eof rt) (ctl_DumpResponse_merge_field rt) m (concat (map (enc_string 1) xs) @ r)
    = merge_loop (rt_eof rt) (ctl_DumpResponse_merge_field rt) (m\<lparr>ctl_DumpResponse_templatehooks := ctl_DumpResponse_templatehooks m @ xs\<rparr>) r"
proof -
  have "merge_loop (rt_eof rt) (ctl_DumpResponse_merge_field rt) (m\<lparr>ctl_DumpResponse_templatehooks := ctl_DumpResponse_templatehooks m\<rparr>) (concat (map (enc_string 1) xs) @ r)
    = merge_loop (rt_eof rt) (ctl_DumpResponse_merge_field rt) (m\<lparr>ctl_DumpResponse_templatehooks := ctl_DumpResponse_templatehooks m @ map id xs\<rparr>) r"
    using assms by (intro merge_loop_list [OF eof,
        where put = "\<lambda>l. m\<lparr>ctl_DumpResponse_templatehooks := l\<rparr>"])
      (auto simp: codec ctl_DumpResponse_merge_field_def enc_string_def list_all_iff dest!: small_parts)
  then show ?thesis by simp
qed

lemma ctl_DumpResponse_merge_servicehooks:
  assumes "list_all string_ok xs" and "\<forall>s\<in>set xs. small (enc_string 2 s)"
  shows "merge_loop (rt_eof rt) (ctl_DumpResponse_merge_field rt) m (concat (map (enc_string 2) xs) @ r)
    = merge_loop (rt_eof rt) (ctl_DumpResponse_merge_field rt) (m\<lparr>ctl_DumpResponse_servicehooks := ctl_DumpResponse_servicehooks m @ xs\<rparr>) r"
proof -
  have "merge_loop (rt_eof rt) (ctl_DumpResponse_merge_field rt) (m\<lparr>ctl_DumpResponse_servicehooks := ctl_DumpResponse_servicehooks m\<rparr>) (concat (map (enc_string 2) xs) @ r)
    = merge_loop (rt_eof rt) (ctl_DumpResponse_merge_field rt) (m\<lparr>ctl_DumpResponse_servicehooks := ctl_DumpResponse_servicehooks m @ map id xs\<rparr>) r"
    using assms by (intro merge_loop_list [OF eof,
        where put = "\<lambda>l. m\<lparr>ctl_DumpResponse_servicehooks := l\<rparr>"])
      (auto simp: codec ctl_DumpResponse_merge_field_def enc_string_def list_all_iff dest!: small_parts)
  then show ?thesis by simp
qed

lemma ctl_DumpResponse_init_norm: "ctl_DumpResponse_is_initialized (ctl_DumpResponse_norm m) =
    ctl_DumpResponse_is_initialized m"
  by (simp add: ctl_DumpResponse_norm_def ctl_DumpResponse_is_initialized_def)

lemma ctl_DumpResponse_norm_eqs:
  "ctl_DumpResponse_wire (ctl_DumpResponse_norm m) =
      ctl_DumpResponse_wire m" "ctl_DumpResponse_ok (ctl_DumpResponse_norm m) =
        ctl_DumpResponse_ok m"
  by (simp_all add: ctl_DumpResponse_spec enc_opt_def ok_opt_def split: option.split)

lemma ctl_DumpResponse_keeps: "ctl_DumpResponse_norm (snd (ctl_DumpResponse_compute_size rt m)) =
    ctl_DumpResponse_norm m"
  by (simp add: ctl_DumpResponse_norm_def ctl_DumpResponse_compute_size_def Let_def split_beta
      split: option.split)

lemma ctl_DumpResponse_size:
  assumes "ctl_DumpResponse_ok m" and "small (ctl_DumpResponse_wire m)"
  shows "fst (ctl_DumpResponse_compute_size rt m) = of_nat (length (ctl_DumpResponse_wire m))"
  using assms
  by (cases m) (auto simp: codec ctl_DumpResponse_ops ctl_DumpResponse_spec Let_def split_beta add.assoc
      split: option.splits dest!: small_parts)

lemma ctl_DumpResponse_write:
  assumes "ctl_DumpResponse_ok m" and "small (ctl_DumpResponse_wire m)"
  shows "ctl_DumpResponse_write_to_with_cached_sizes rt (snd (ctl_DumpResponse_compute_size rt m)) os
    = Inr (os @ ctl_DumpResponse_wire m)"
  using assms
  by (cases m) (auto simp: codec ctl_DumpResponse_ops ctl_DumpResponse_spec Let_def split_beta split: option.splits
      dest!: small_parts)

lemma ctl_DumpResponse_merge:
  assumes "ctl_DumpResponse_ok m" and "small (ctl_DumpResponse_wire m)" and "ctl_DumpResponse_is_initialized m"
  shows "ctl_DumpResponse_merge_from rt ctl_DumpResponse_new (ctl_DumpResponse_wire m) =
      Some (Inr (ctl_DumpResponse_norm m, []))"
  using assms
  by (cases m) (auto simp: codec ctl_DumpResponse_ops ctl_DumpResponse_spec enc_opt_def ok_opt_def 
      ctl_DumpResponse_merge_templatehooks ctl_DumpResponse_merge_servicehooks
      ctl_DumpResponse_merge_templatehooks [where r =
        "[]", simplified] ctl_DumpResponse_merge_servicehooks [where r = "[]", simplified]
      split: option.splits if_splits dest!: small_parts)

end

sublocale protobuf_runtime \<subseteq> DumpResponse: nested_codec rt "ctl_DumpResponse_message rt" "pb_DumpResponse rt"
  ctl_DumpResponse_new ctl_DumpResponse_is_initialized "ctl_DumpResponse_merge_from rt" "ctl_DumpResponse_compute_size rt"
  "ctl_DumpResponse_write_to_with_cached_sizes rt" ctl_DumpResponse_get_cached_size ctl_DumpResponse_wire ctl_DumpResponse_ok ctl_DumpResponse_norm
  by unfold_locales
    (simp_all add: ctl_DumpResponse_message_def nested_DumpResponse ctl_DumpResponse_size ctl_DumpResponse_write ctl_DumpResponse_merge ctl_DumpResponse_cached ctl_DumpResponse_init_norm ctl_DumpResponse_norm_eqs ctl_DumpResponse_keeps)

subsection \<open>BlameEntry\<close>

lemmas ctl_BlameEntry_ops =
  ctl_BlameEntry_new_def ctl_BlameEntry_is_initialized_def ctl_BlameEntry_merge_from_def ctl_BlameEntry_merge_field_def
  ctl_BlameEntry_compute_size_def ctl_BlameEntry_write_to_with_cached_sizes_def ctl_BlameEntry_get_cached_size_def

lemmas ctl_BlameEntry_spec = ctl_BlameEntry_wire_def ctl_BlameEntry_ok_def ctl_BlameEntry_norm_def

context protobuf_runtime begin

lemma ctl_BlameEntry_cached:
  "ctl_BlameEntry_get_cached_size (snd (ctl_BlameEntry_compute_size rt m)) =
      fst (ctl_BlameEntry_compute_size rt m)"
  by (simp add: ctl_BlameEntry_get_cached_size_def ctl_BlameEntry_compute_size_def Let_def split_beta)

lemma ctl_BlameEntry_init_norm: "ctl_BlameEntry_is_initialized (ctl_BlameEntry_norm m) =
    ctl_BlameEntry_is_initialized m"
  by (simp add: ctl_BlameEntry_norm_def ctl_BlameEntry_is_initialized_def ConfigValue.init_norm split: option.split)

lemma ctl_BlameEntry_norm_eqs:
  "ctl_BlameEntry_wire (ctl_BlameEntry_norm m) =
      ctl_BlameEntry_wire m" "ctl_BlameEntry_ok (ctl_BlameEntry_norm m) = ctl_BlameEntry_ok m"
  by (simp_all add: ctl_BlameEntry_spec ConfigValue.norm_wire ConfigValue.norm_ok enc_opt_def ok_opt_def split: option.split)

lemma ctl_BlameEntry_keeps: "ctl_BlameEntry_norm (snd (ctl_BlameEntry_compute_size rt m)) =
    ctl_BlameEntry_norm m"
  by (simp add: ctl_BlameEntry_norm_def ctl_BlameEntry_compute_size_def Let_def split_beta ConfigValue.keeps
      split: option.split)

lemma ctl_BlameEntry_size:
  assumes "ctl_BlameEntry_ok m" and "small (ctl_BlameEntry_wire m)"
  shows "fst (ctl_BlameEntry_compute_size rt m) = of_nat (length (ctl_BlameEntry_wire m))"
  using assms
  by (cases m) (auto simp: codec ctl_BlameEntry_ops ctl_BlameEntry_spec Let_def split_beta add.assoc split: option.splits
      dest!: small_parts)

lemma ctl_BlameEntry_write:
  assumes "ctl_BlameEntry_ok m" and "small (ctl_BlameEntry_wire m)"
  shows "ctl_BlameEntry_write_to_with_cached_sizes rt (snd (ctl_BlameEntry_compute_size rt m)) os
    = Inr (os @ ctl_BlameEntry_wire m)"
  using assms
  by (cases m) (auto simp: codec ctl_BlameEntry_ops ctl_BlameEntry_spec Let_def split_beta split: option.splits
      dest!: small_parts)

lemma ctl_BlameEntry_merge:
  assumes "ctl_BlameEntry_ok m" and "small (ctl_BlameEntry_wire m)" and "ctl_BlameEntry_is_initialized m"
  shows "ctl_BlameEntry_merge_from rt ctl_BlameEntry_new (ctl_BlameEntry_wire m) =
      Some (Inr (ctl_BlameEntry_norm m, []))"
  using assms
  by (cases m) (auto simp: codec ctl_BlameEntry_ops ctl_BlameEntry_spec enc_opt_def ok_opt_def enc_message_def enc_string_def enc_uint32_def
      split: option.splits if_splits dest!: small_parts)

end

sublocale protobuf_runtime \<subseteq> BlameEntry: nested_codec rt "ctl_BlameEntry_message rt" "pb_BlameEntry rt"
  ctl_BlameEntry_new ctl_BlameEntry_is_initialized "ctl_BlameEntry_merge_from rt" "ctl_BlameEntry_compute_size rt"
  "ctl_BlameEntry_write_to_with_cached_sizes rt" ctl_BlameEntry_get_cached_size ctl_BlameEntry_wire ctl_BlameEntry_ok ctl_BlameEntry_norm
  by unfold_locales
    (simp_all add: ctl_BlameEntry_message_def nested_BlameEntry ctl_BlameEntry_size ctl_BlameEntry_write ctl_BlameEntry_merge ctl_BlameEntry_cached ctl_BlameEntry_init_norm ctl_BlameEntry_norm_eqs ctl_BlameEntry_keeps)

subsection \<open>BlameResponse\<close>

lemmas ctl_BlameResponse_ops =
  ctl_BlameResponse_new_def ctl_BlameResponse_is_initialized_def ctl_BlameResponse_merge_from_def ctl_BlameResponse_merge_field_def
  ctl_BlameResponse_compute_size_def ctl_BlameResponse_write_to_with_cached_sizes_def ctl_BlameResponse_get_cached_size_def

lemmas ctl_BlameResponse_spec =
    ctl_BlameResponse_wire_def ctl_BlameResponse_ok_def ctl_BlameResponse_norm_def

context protobuf_runtime begin

lemma ctl_BlameResponse_cached:
  "ctl_BlameResponse_get_cached_size (snd (ctl_BlameResponse_compute_size rt m)) =
      fst (ctl_BlameResponse_compute_size rt m)"
  by (simp add: ctl_BlameResponse_get_cached_size_def ctl_BlameResponse_compute_size_def Let_def split_beta)

lemma ctl_BlameResponse_merge_entries:
  assumes "list_all ctl_BlameEntry_ok xs" and "list_all ctl_BlameEntry_is_initialized xs"
    and "\<forall>v\<in>set xs. small (enc_message 2 (ctl_BlameEntry_wire v))"
  shows "merge_loop (rt_eof rt) (ctl_BlameResponse_merge_field rt) m (concat (map (\<lambda>v. enc_message 2 (ctl_BlameEntry_wire v)) xs) @ r)
    = merge_loop (rt_eof rt) (ctl_BlameResponse_merge_field rt) (m\<lparr>ctl_BlameResponse_entries := ctl_BlameResponse_entries m @ map ctl_BlameEntry_norm xs\<rparr>) r"
proof -
  have "merge_loop (rt_eof rt) (ctl_BlameResponse_merge_field rt) (m\<lparr>ctl_BlameResponse_entries := ctl_BlameResponse_entries m\<rparr>) (concat (map (\<lambda>v. enc_message 2 (ctl_BlameEntry_wire v)) xs) @ r)
    = merge_loop (rt_eof rt) (ctl_BlameResponse_merge_field rt) (m\<lparr>ctl_BlameResponse_entries := ctl_BlameResponse_entries m @ map ctl_BlameEntry_norm xs\<rparr>) r"
    using assms by (intro merge_loop_list [OF eof,
        where put = "\<lambda>l. m\<lparr>ctl_BlameResponse_entries := l\<rparr>"])
      (auto simp: codec ctl_BlameResponse_merge_field_def enc_message_def list_all_iff dest!: small_parts)
  then show ?thesis by simp
qed

lemma ctl_BlameResponse_init_norm: "ctl_BlameResponse_is_initialized (ctl_BlameResponse_norm m) =
    ctl_BlameResponse_is_initialized m"
  by (simp add: ctl_BlameResponse_norm_def ctl_BlameResponse_is_initialized_def list_all_iff BlameEntry.init_norm)

lemma ctl_BlameResponse_norm_eqs:
  "ctl_BlameResponse_wire (ctl_BlameResponse_norm m) =
      ctl_BlameResponse_wire m" "ctl_BlameResponse_ok (ctl_BlameResponse_norm m) =
        ctl_BlameResponse_ok m"
  by (simp_all add: ctl_BlameResponse_spec BlameEntry.norm_wire BlameEntry.norm_ok comp_def list_all_iff enc_opt_def ok_opt_def split: option.split)

lemma ctl_BlameResponse_keeps: "ctl_BlameResponse_norm (snd (ctl_BlameResponse_compute_size rt m)) =
    ctl_BlameResponse_norm m"
  by (simp add: ctl_BlameResponse_norm_def ctl_BlameResponse_compute_size_def Let_def split_beta size_each_snd comp_def BlameEntry.keeps
      split: option.split)

lemma ctl_BlameResponse_size:
  assumes "ctl_BlameResponse_ok m" and "small (ctl_BlameResponse_wire m)"
  shows "fst (ctl_BlameResponse_compute_size rt m) = of_nat (length (ctl_BlameResponse_wire m))"
  using assms
  by (cases m) (auto simp: codec ctl_BlameResponse_ops ctl_BlameResponse_spec Let_def split_beta add.assoc size_each_snd
      split: option.splits dest!: small_parts)

lemma ctl_BlameResponse_write:
  assumes "ctl_BlameResponse_ok m" and "small (ctl_BlameResponse_wire m)"
  shows "ctl_BlameResponse_write_to_with_cached_sizes rt (snd (ctl_BlameResponse_compute_size rt m)) os
    = Inr (os @ ctl_BlameResponse_wire m)"
  using assms
  by (cases m) (auto simp: codec ctl_BlameResponse_ops ctl_BlameResponse_spec Let_def split_beta size_each_snd split: option.splits
      dest!: small_parts)

lemma ctl_BlameResponse_merge:
  assumes "ctl_BlameResponse_ok m" and "small (ctl_BlameResponse_wire m)" and "ctl_BlameResponse_is_initialized m"
  shows "ctl_BlameResponse_merge_from rt ctl_BlameResponse_new (ctl_BlameResponse_wire m) =
      Some (Inr (ctl_BlameResponse_norm m, []))"
  using assms
  by (cases m) (auto simp: codec ctl_BlameResponse_ops ctl_BlameResponse_spec enc_opt_def ok_opt_def enc_string_def
      ctl_BlameResponse_merge_entries
      ctl_BlameResponse_merge_entries [where r = "[]", simplified]
      split: option.splits if_splits dest!: small_parts)

end

sublocale protobuf_runtime \<subseteq> BlameResponse: nested_codec rt "ctl_BlameResponse_message rt" "pb_BlameResponse rt"
  ctl_BlameResponse_new ctl_BlameResponse_is_initialized "ctl_BlameResponse_merge_from rt" "ctl_BlameResponse_compute_size rt"
  "ctl_BlameResponse_write_to_with_cached_sizes rt" ctl_BlameResponse_get_cached_size ctl_BlameResponse_wire ctl_BlameResponse_ok ctl_BlameResponse_norm
  by unfold_locales
    (simp_all add: ctl_BlameResponse_message_def nested_BlameResponse ctl_BlameResponse_size ctl_BlameResponse_write ctl_BlameResponse_merge ctl_BlameResponse_cached ctl_BlameResponse_init_norm ctl_BlameResponse_norm_eqs ctl_BlameResponse_keeps)

subsection \<open>InFlightResponse\<close>

lemmas ctl_InFlightResponse_ops =
  ctl_InFlightResponse_new_def ctl_InFlightResponse_is_initialized_def ctl_InFlightResponse_merge_from_def ctl_InFlightResponse_merge_field_def
  ctl_InFlightResponse_compute_size_def ctl_InFlightResponse_write_to_with_cached_sizes_def ctl_InFlightResponse_get_cached_size_def

lemmas ctl_InFlightResponse_spec =
    ctl_InFlightResponse_wire_def ctl_InFlightResponse_ok_def ctl_InFlightResponse_norm_def

context protobuf_runtime begin

lemma ctl_InFlightResponse_cached:
  "ctl_InFlightResponse_get_cached_size (snd (ctl_InFlightResponse_compute_size rt m)) =
      fst (ctl_InFlightResponse_compute_size rt m)"
  by (simp add: ctl_InFlightResponse_get_cached_size_def ctl_InFlightResponse_compute_size_def Let_def split_beta)

lemma ctl_InFlightResponse_merge_kvs:
  assumes "list_all ctl_MappedField_ok xs" and "list_all ctl_MappedField_is_initialized xs"
    and "\<forall>v\<in>set xs. small (enc_message 1 (ctl_MappedField_wire v))"
  shows "merge_loop (rt_eof rt) (ctl_InFlightResponse_merge_field rt) m (concat (map (\<lambda>v. enc_message 1 (ctl_MappedField_wire v)) xs) @ r)
    = merge_loop (rt_eof rt) (ctl_InFlightResponse_merge_field rt) (m\<lparr>ctl_InFlightResponse_kvs := ctl_InFlightResponse_kvs m @ map ctl_MappedField_norm xs\<rparr>) r"
proof -
  have "merge_loop (rt_eof rt) (ctl_InFlightResponse_merge_field rt) (m\<lparr>ctl_InFlightResponse_kvs := ctl_InFlightResponse_kvs m\<rparr>) (concat (map (\<lambda>v. enc_message 1 (ctl_MappedField_wire v)) xs) @ r)
    = merge_loop (rt_eof rt) (ctl_InFlightResponse_merge_field rt) (m\<lparr>ctl_InFlightResponse_kvs := ctl_InFlightResponse_kvs m @ map ctl_MappedField_norm xs\<rparr>) r"
    using assms by (intro merge_loop_list [OF eof,
        where put = "\<lambda>l. m\<lparr>ctl_InFlightResponse_kvs := l\<rparr>"])
      (auto simp: codec ctl_InFlightResponse_merge_field_def enc_message_def list_all_iff dest!: small_parts)
  then show ?thesis by simp
qed

lemma ctl_InFlightResponse_init_norm: "ctl_InFlightResponse_is_initialized (ctl_InFlightResponse_norm m) = ctl_InFlightResponse_is_initialized m"
  by (simp add: ctl_InFlightResponse_norm_def ctl_InFlightResponse_is_initialized_def list_all_iff MappedField.init_norm)

lemma ctl_InFlightResponse_norm_eqs:
  "ctl_InFlightResponse_wire (ctl_InFlightResponse_norm m) =
      ctl_InFlightResponse_wire m" "ctl_InFlightResponse_ok (ctl_InFlightResponse_norm m) =
        ctl_InFlightResponse_ok m"
  by (simp_all add: ctl_InFlightResponse_spec MappedField.norm_wire MappedField.norm_ok comp_def list_all_iff enc_opt_def ok_opt_def split: option.split)

lemma ctl_InFlightResponse_keeps: "ctl_InFlightResponse_norm (snd (ctl_InFlightResponse_compute_size rt m)) = ctl_InFlightResponse_norm m"
  by (simp add: ctl_InFlightResponse_norm_def ctl_InFlightResponse_compute_size_def Let_def split_beta size_each_snd comp_def MappedField.keeps
      split: option.split)

lemma ctl_InFlightResponse_size:
  assumes "ctl_InFlightResponse_ok m" and "small (ctl_InFlightResponse_wire m)"
  shows "fst (ctl_InFlightResponse_compute_size rt m) =
      of_nat (length (ctl_InFlightResponse_wire m))"
  using assms
  by (cases m) (auto simp: codec ctl_InFlightResponse_ops ctl_InFlightResponse_spec Let_def split_beta add.assoc size_each_snd
      split: option.splits dest!: small_parts)

lemma ctl_InFlightResponse_write:
  assumes "ctl_InFlightResponse_ok m" and "small (ctl_InFlightResponse_wire m)"
  shows "ctl_InFlightResponse_write_to_with_cached_sizes rt (snd (ctl_InFlightResponse_compute_size rt m)) os
    = Inr (os @ ctl_InFlightResponse_wire m)"
  using assms
  by (cases m) (auto simp: codec ctl_InFlightResponse_ops ctl_InFlightResponse_spec Let_def split_beta size_each_snd split: option.splits
      dest!: small_parts)

lemma ctl_InFlightResponse_merge:
  assumes "ctl_InFlightResponse_ok m" and "small (ctl_InFlightResponse_wire m)" and "ctl_InFlightResponse_is_initialized m"
  shows "ctl_InFlightResponse_merge_from rt ctl_InFlightResponse_new (ctl_InFlightResponse_wire m) =
      Some (Inr (ctl_InFlightResponse_norm m, []))"
  using assms
  by (cases m) (auto simp: codec ctl_InFlightResponse_ops ctl_InFlightResponse_spec enc_opt_def ok_opt_def 
      ctl_InFlightResponse_merge_kvs
      ctl_InFlightResponse_merge_kvs [where r = "[]", simplified]
      split: option.splits if_splits dest!: small_parts)

end

sublocale protobuf_runtime \<subseteq> InFlightResponse: nested_codec rt "ctl_InFlightResponse_message rt" "pb_InFlightResponse rt"
  ctl_InFlightResponse_new ctl_InFlightResponse_is_initialized "ctl_InFlightResponse_merge_from rt" "ctl_InFlightResponse_compute_size rt"
  "ctl_InFlightResponse_write_to_with_cached_sizes rt" ctl_InFlightResponse_get_cached_size ctl_InFlightResponse_wire ctl_InFlightResponse_ok ctl_InFlightResponse_norm
  by unfold_locales
    (simp_all add: ctl_InFlightResponse_message_def nested_InFlightResponse ctl_InFlightResponse_size ctl_InFlightResponse_write ctl_InFlightResponse_merge ctl_InFlightResponse_cached ctl_InFlightResponse_init_norm ctl_InFlightResponse_norm_eqs ctl_InFlightResponse_keeps)

subsection \<open>Response\<close>

lemmas ctl_Response_ops =
  ctl_Response_new_def ctl_Response_is_initialized_def ctl_Response_merge_from_def ctl_Response_merge_field_def
  ctl_Response_compute_size_def ctl_Response_write_to_with_cached_sizes_def ctl_Response_get_cached_size_def

lemmas ctl_Response_spec = ctl_Response_wire_def ctl_Response_ok_def ctl_Response_norm_def

context protobuf_runtime begin

lemma ctl_Response_cached:
  "ctl_Response_get_cached_size (snd (ctl_Response_compute_size rt m)) =
      fst (ctl_Response_compute_size rt m)"
  by (simp add: ctl_Response_get_cached_size_def ctl_Response_compute_size_def Let_def split_beta)

lemma Response_oneof_payload_init_norm: "Response_oneof_payload_init (Response_oneof_payload_norm p) = Response_oneof_payload_init p"
  by (cases p) (simp_all add: GetResponse.init_norm CommitResponse.init_norm ResetResponse.init_norm DumpResponse.init_norm BlameResponse.init_norm InFlightResponse.init_norm)

lemma ctl_Response_is_initialized_iff:
  "ctl_Response_is_initialized m \<longleftrightarrow> ctl_Response_id m \<noteq> None \<and> ctl_Response_status m \<noteq> None \<and> ok_opt Response_oneof_payload_init (ctl_Response_payload m)"
  by (auto simp: ctl_Response_is_initialized_def ok_opt_def split: option.splits Response_oneof_payload.splits)

lemma ctl_Response_init_norm: "ctl_Response_is_initialized (ctl_Response_norm m) =
    ctl_Response_is_initialized m"
  by (auto simp: ctl_Response_is_initialized_iff ctl_Response_norm_def ok_opt_def Response_oneof_payload_init_norm split: option.splits)

text \<open>One alternative in its field: size, bytes and merge.\<close>

lemma Response_oneof_payload_merge:
  assumes "Response_oneof_payload_ok p" and "small (Response_oneof_payload_wire p)" and "Response_oneof_payload_init p"
  shows "ctl_Response_merge_field rt m (Response_oneof_payload_wire p @ r)
    = Some (Inr (m\<lparr>ctl_Response_payload := Some (Response_oneof_payload_norm p)\<rparr>, r))"
  using assms
  by (cases p) (auto simp: codec ctl_Response_merge_field_def enc_message_def dest!: small_parts)

lemma ctl_Response_merge_id:
  "ctl_Response_merge_field rt m (enc_uint32 6 v @ r) =
      Some (Inr (m\<lparr>ctl_Response_id := Some v\<rparr>, r))"
  by (simp add: codec ctl_Response_merge_field_def enc_uint32_def)

lemma ctl_Response_merge_status:
  "ctl_Response_merge_field rt m (enc_int32 7 (ctl_StatusCode_value v) @ r) =
      Some (Inr (m\<lparr>ctl_Response_status := Some v\<rparr>, r))"
  by (simp add: codec ctl_Response_merge_field_def enc_int32_def)

lemma Response_oneof_payload_wire_nonempty [simp]: "Response_oneof_payload_wire p \<noteq> []"
  by (cases p) simp_all

lemma Response_oneof_payload_norm_eqs:
  "Response_oneof_payload_wire (Response_oneof_payload_norm p) =
      Response_oneof_payload_wire p" "Response_oneof_payload_ok (Response_oneof_payload_norm p) =
        Response_oneof_payload_ok p"
  by (cases p,
      simp_all add: BlameResponse.norm_wire CommitResponse.norm_wire DumpResponse.norm_wire GetResponse.norm_wire InFlightResponse.norm_wire ResetResponse.norm_wire BlameResponse.norm_ok CommitResponse.norm_ok DumpResponse.norm_ok GetResponse.norm_ok InFlightResponse.norm_ok ResetResponse.norm_ok)+

lemma ctl_Response_norm_eqs:
  "ctl_Response_wire (ctl_Response_norm m) =
      ctl_Response_wire m" "ctl_Response_ok (ctl_Response_norm m) = ctl_Response_ok m"
  by (simp_all add: ctl_Response_spec Response_oneof_payload_norm_eqs enc_opt_def ok_opt_def split: option.split)

lemma ctl_Response_keeps: "ctl_Response_norm (snd (ctl_Response_compute_size rt m)) =
    ctl_Response_norm m"
  by (simp add: ctl_Response_norm_def ctl_Response_compute_size_def Let_def split_beta BlameResponse.keeps CommitResponse.keeps DumpResponse.keeps GetResponse.keeps InFlightResponse.keeps ResetResponse.keeps
      split: option.split Response_oneof_payload.split)

lemma ctl_Response_size:
  assumes "ctl_Response_ok m" and "small (ctl_Response_wire m)"
  shows "fst (ctl_Response_compute_size rt m) = of_nat (length (ctl_Response_wire m))"
proof (cases "ctl_Response_payload m")
  case None
  with assms show ?thesis
    by (auto simp: codec ctl_Response_ops ctl_Response_spec Let_def split: option.splits dest!: small_parts)
next
  case (Some p)
  with assms show ?thesis
    by (cases p) (auto simp: codec ctl_Response_ops ctl_Response_spec Let_def split_beta add.assoc length_enc_bool
        split: option.splits dest!: small_parts)
qed

lemma ctl_Response_write:
  assumes "ctl_Response_ok m" and "small (ctl_Response_wire m)"
  shows "ctl_Response_write_to_with_cached_sizes rt (snd (ctl_Response_compute_size rt m)) os
    = Inr (os @ ctl_Response_wire m)"
proof (cases "ctl_Response_payload m")
  case None
  with assms show ?thesis
    by (auto simp: codec ctl_Response_ops ctl_Response_spec Let_def split_beta split: option.splits dest!: small_parts)
next
  case (Some p)
  with assms show ?thesis
    by (cases p) (auto simp: codec ctl_Response_ops ctl_Response_spec Let_def split_beta split: option.splits
        dest!: small_parts)
qed

lemma ctl_Response_merge:
  assumes "ctl_Response_ok m" and "small (ctl_Response_wire m)" and "ctl_Response_is_initialized m"
  shows "ctl_Response_merge_from rt ctl_Response_new (ctl_Response_wire m) =
      Some (Inr (ctl_Response_norm m, []))"
  using assms
  by (cases m) (auto simp: codec ctl_Response_is_initialized_iff ctl_Response_new_def ctl_Response_merge_from_def
      ctl_Response_spec enc_opt_def ok_opt_def
      Response_oneof_payload_merge Response_oneof_payload_merge [where r = "[]", simplified]
      ctl_Response_merge_id ctl_Response_merge_id [where r = "[]", simplified]
      ctl_Response_merge_status ctl_Response_merge_status [where r =
        "[]", simplified] split: option.splits dest!: small_parts)

end

sublocale protobuf_runtime \<subseteq> Response: entry_codec rt "ctl_Response_message rt" "pb_entry_Response rt"
  ctl_Response_new ctl_Response_is_initialized "ctl_Response_merge_from rt" "ctl_Response_compute_size rt"
  "ctl_Response_write_to_with_cached_sizes rt" ctl_Response_get_cached_size ctl_Response_wire ctl_Response_ok ctl_Response_norm
  by unfold_locales
    (simp_all add: ctl_Response_message_def entry_Response ctl_Response_size ctl_Response_write ctl_Response_merge ctl_Response_cached ctl_Response_init_norm ctl_Response_norm_eqs ctl_Response_keeps)

end
