(* ===== verification/Reference_Runtime.thy ===== *)
theory Reference_Runtime
  imports Codec_Commands Codec_Responses
begin

text \<open>
  An executable protobuf runtime, written from the format's specification, that satisfies the
  assumptions of theory Bindings: the parameter of the model can be instantiated, and every
  statement about an arbitrary runtime can be evaluated on this one.  Groups, which the format
  has deprecated, are refused.
\<close>

section \<open>Decoding\<close>

fun get_varint :: "bytes \<Rightarrow> (nat \<times> bytes) option" where
  "get_varint [] = None"
| "get_varint (b # bs) =
     (if unat b < 128 then Some (unat b, bs)
      else (case get_varint bs of
              None \<Rightarrow> None
            | Some (n, r) \<Rightarrow> Some (unat b - 128 + 128 * n, r)))"

lemma get_varint_varint [simp]: "get_varint (varint n @ r) = Some (n, r)"
proof (induction n rule: varint.induct)
  case (1 n)
  show ?case
  proof (cases "n < 128")
    case True
    then show ?thesis by (simp add: varint_small unat_of_nat)
  next
    case False
    have "unat (of_nat (128 + n mod 128) :: u8) = 128 + n mod 128"
      by (simp only: unat_of_nat) simp
    then show ?thesis
      using False 1 by (simp add: varint.simps [of n])
  qed
qed

lemma get_varint_shorter: "get_varint bs = Some (n, r) \<Longrightarrow> length r < length bs"
  by (induction bs arbitrary: n) (auto split: if_splits option.splits)

definition eof_error :: ProtobufError where
  "eof_error = WireError ''unexpected end of input''"

definition read_varint :: "bytes \<Rightarrow> ProtobufError + nat \<times> bytes" where
  "read_varint bs =
     (case get_varint bs of
        None \<Rightarrow> Inl eof_error
      | Some (n, r) \<Rightarrow> if n < 2 ^ 64 then Inr (n, r) else Inl (WireError ''varint too long''))"

lemma read_varint_varint [simp]: "n < 2 ^ 64 \<Longrightarrow> read_varint (varint n @ r) = Inr (n, r)"
  by (simp add: read_varint_def)

definition read_delimited :: "bytes \<Rightarrow> ProtobufError + bytes \<times> bytes" where
  "read_delimited bs =
     and_then (read_varint bs) (\<lambda>(n, r).
       if length r < n then Inl eof_error else Inr (take n r, drop n r))"

lemma read_delimited_delimited [simp]:
  "small p \<Longrightarrow> read_delimited (delimited p @ r) = Inr (p, r)"
  by (simp add: read_delimited_def delimited_def small_def)

definition wire_type_of :: "nat \<Rightarrow> WireType option" where
  "wire_type_of n =
     (if n = 0 then Some WireTypeVarint
      else if n = 1 then Some WireTypeFixed64
      else if n = 2 then Some WireTypeLengthDelimited
      else if n = 3 then Some WireTypeStartGroup
      else if n = 4 then Some WireTypeEndGroup
      else if n = 5 then Some WireTypeFixed32
      else None)"

lemma wire_type_of_code [simp]: "wire_type_of (wire_type_code w) = Some w"
  by (cases w) (simp_all add: wire_type_of_def)

definition ref_read_tag :: "bytes \<Rightarrow> ProtobufError + (u32 \<times> WireType) \<times> bytes" where
  "ref_read_tag bs =
     and_then (read_varint bs) (\<lambda>(n, r).
       case wire_type_of (n mod 8) of
         Some w \<Rightarrow>
           if 1 \<le> n div 8 \<and> n div 8 < 2 ^ 29 then Inr ((of_nat (n div 8), w), r)
           else Inl (WireError ''incorrect tag'')
       | None \<Rightarrow> Inl (WireError ''incorrect tag''))"

lemma ref_read_tag_wire_tag:
  assumes "field_number_ok f"
  shows "ref_read_tag (wire_tag f w @ r) = Inr ((f, w), r)"
proof -
  have w: "wire_type_code w < 8" by (cases w) simp_all
  from assms have f: "1 \<le> unat f" "unat f < 2 ^ 29"
    by (simp_all add: field_number_ok_def)
  have "read_varint (wire_tag f w @ r) = Inr (unat f * 8 + wire_type_code w, r)"
    using w f by (simp add: wire_tag_def)
  moreover have "(unat f * 8 + wire_type_code w) div 8 = unat f"
    and "(unat f * 8 + wire_type_code w) mod 8 = wire_type_code w"
    using w by simp_all
  ultimately show ?thesis
    using f by (simp add: ref_read_tag_def)
qed

definition ref_read_int32 :: "bytes \<Rightarrow> ProtobufError + i32 \<times> bytes" where
  "ref_read_int32 bs = and_then (read_varint bs) (\<lambda>(n, r). Inr (of_nat n, r))"

lemma int32_of_varint: "(of_nat (unat (scast v :: 64 word)) :: i32) = v"
proof -
  have "(ucast (scast v :: 64 word) :: i32) = v"
    by (rule bit_word_eqI) (auto simp: bit_simps)
  then show ?thesis by simp
qed

lemma ref_read_int32_varint: "ref_read_int32 (int32_varint v @ r) = Inr (v, r)"
proof -
  have "unat (scast v :: 64 word) < 2 ^ 64"
    by (rule order_less_le_trans [OF unsigned_less]) simp
  then show ?thesis
    using int32_of_varint [of v] by (simp add: ref_read_int32_def int32_varint_def)
qed

definition ref_read_uint32 :: "bytes \<Rightarrow> ProtobufError + u32 \<times> bytes" where
  "ref_read_uint32 bs = and_then (read_varint bs) (\<lambda>(n, r). Inr (of_nat n, r))"

lemma ref_read_uint32_varint: "ref_read_uint32 (varint (unat v) @ r) = Inr (v, r)"
proof -
  have "unat v < 2 ^ 64"
    by (rule order_less_le_trans [OF unsigned_less]) simp
  then show ?thesis by (simp add: ref_read_uint32_def)
qed

definition ref_read_bool :: "bytes \<Rightarrow> ProtobufError + bool \<times> bytes" where
  "ref_read_bool bs = and_then (read_varint bs) (\<lambda>(n, r). Inr (n \<noteq> 0, r))"

lemma ref_read_bool_varint: "ref_read_bool (bool_varint b @ r) = Inr (b, r)"
  by (simp add: ref_read_bool_def bool_varint_def)

definition ref_read_string :: "bytes \<Rightarrow> ProtobufError + string \<times> bytes" where
  "ref_read_string bs =
     and_then (read_delimited bs) (\<lambda>(p, r).
       if utf8_valid p then Inr (bytes_string p, r) else Inl Utf8Error)"

lemma ref_read_string_string:
  "string_ok s \<Longrightarrow> small s \<Longrightarrow> ref_read_string (delimited (string_bytes s) @ r) = Inr (s, r)"
  by (simp add: ref_read_string_def string_ok_def)

text \<open>A packed field: values until the payload ends.\<close>

function ref_read_all :: "(bytes \<Rightarrow> ProtobufError + 'a \<times> bytes) \<Rightarrow> bytes \<Rightarrow> ProtobufError + 'a list" where
  "ref_read_all f bs =
     (if bs = [] then Inr []
      else and_then (f bs) (\<lambda>(v, r).
        if length r < length bs then and_then (ref_read_all f r) (\<lambda>vs. Inr (v # vs))
        else Inl eof_error))"
  by pat_completeness auto
termination
  by (relation "measure (\<lambda>(f, bs). length bs)") simp_all

declare ref_read_all.simps [simp del]

lemma ref_read_all_concat:
  assumes "\<And>v r. v \<in> set vs \<Longrightarrow> f (enc v @ r) = Inr (v, r)"
    and "\<And>v. v \<in> set vs \<Longrightarrow> enc v \<noteq> []"
  shows "ref_read_all f (concat (map enc vs)) = Inr vs"
  using assms
proof (induction vs)
  case Nil
  show ?case by (simp add: ref_read_all.simps)
next
  case (Cons v vs)
  then show ?case
    by (simp add: ref_read_all.simps [of f "enc v @ concat (map enc vs)"])
qed

definition ref_unexpected_wire_type :: "WireType \<Rightarrow> ProtobufError" where
  "ref_unexpected_wire_type w = WireError ''unexpected wire type''"

definition ref_read_repeated ::
  "(bytes \<Rightarrow> ProtobufError + 'a \<times> bytes) \<Rightarrow> WireType \<Rightarrow> bytes \<Rightarrow> 'a list
     \<Rightarrow> ProtobufError + 'a list \<times> bytes" where
  "ref_read_repeated f w bs l =
     (if w = WireTypeVarint then and_then (f bs) (\<lambda>(v, r). Inr (l @ [v], r))
      else if w = WireTypeLengthDelimited then
        and_then (read_delimited bs) (\<lambda>(p, r).
          and_then (ref_read_all f p) (\<lambda>vs. Inr (l @ vs, r)))
      else Inl (ref_unexpected_wire_type w))"

definition ref_read_repeated_string ::
  "WireType \<Rightarrow> bytes \<Rightarrow> string list \<Rightarrow> ProtobufError + string list \<times> bytes" where
  "ref_read_repeated_string w bs l =
     (if w = WireTypeLengthDelimited then
        and_then (ref_read_string bs) (\<lambda>(s, r). Inr (l @ [s], r))
      else Inl (ref_unexpected_wire_type w))"

definition ref_read_singular_string ::
  "WireType \<Rightarrow> bytes \<Rightarrow> string option \<Rightarrow> ProtobufError + string option \<times> bytes" where
  "ref_read_singular_string w bs x =
     (if w = WireTypeLengthDelimited then
        and_then (ref_read_string bs) (\<lambda>(s, r). Inr (Some s, r))
      else Inl (ref_unexpected_wire_type w))"

text \<open>Fixed-width values are little-endian.\<close>

definition le_value :: "bytes \<Rightarrow> nat" where
  "le_value bs = foldr (\<lambda>b n. unat b + 256 * n) bs 0"

definition read_fixed :: "nat \<Rightarrow> bytes \<Rightarrow> ProtobufError + nat \<times> bytes" where
  "read_fixed n bs =
     (if length bs < n then Inl eof_error else Inr (le_value (take n bs), drop n bs))"

definition ref_read_unknown ::
  "u32 \<Rightarrow> WireType \<Rightarrow> bytes \<Rightarrow> UnknownFields \<Rightarrow> ProtobufError + UnknownFields \<times> bytes" where
  "ref_read_unknown f w bs uf =
     (case w of
        WireTypeVarint \<Rightarrow>
          and_then (read_varint bs) (\<lambda>(n, r). Inr (uf @ [(f, UnknownVarint (of_nat n))], r))
      | WireTypeFixed64 \<Rightarrow>
          and_then (read_fixed 8 bs) (\<lambda>(n, r). Inr (uf @ [(f, UnknownFixed64 (of_nat n))], r))
      | WireTypeFixed32 \<Rightarrow>
          and_then (read_fixed 4 bs) (\<lambda>(n, r). Inr (uf @ [(f, UnknownFixed32 (of_nat n))], r))
      | WireTypeLengthDelimited \<Rightarrow>
          and_then (read_delimited bs) (\<lambda>(p, r). Inr (uf @ [(f, UnknownLengthDelimited p)], r))
      | _ \<Rightarrow> Inl (ref_unexpected_wire_type w))"

section \<open>Encoding\<close>

definition le_bytes :: "nat \<Rightarrow> nat \<Rightarrow> bytes" where
  "le_bytes n v = map (\<lambda>i. of_nat (v div 256 ^ i)) [0..<n]"

fun enc_unknown :: "u32 \<times> UnknownValue \<Rightarrow> bytes" where
  "enc_unknown (f, UnknownVarint v) = wire_tag f WireTypeVarint @ varint (unat v)"
| "enc_unknown (f, UnknownFixed64 v) = wire_tag f WireTypeFixed64 @ le_bytes 8 (unat v)"
| "enc_unknown (f, UnknownFixed32 v) = wire_tag f WireTypeFixed32 @ le_bytes 4 (unat v)"
| "enc_unknown (f, UnknownLengthDelimited p) =
     wire_tag f WireTypeLengthDelimited @ delimited p"

definition enc_unknowns :: "UnknownFields \<Rightarrow> bytes" where
  "enc_unknowns uf = concat (map enc_unknown uf)"

section \<open>The generic operations\<close>

definition ref_enum :: "'e enum_rt" where
  "ref_enum =
     \<lparr>read_enum = (\<lambda>D bs. and_then (ref_read_int32 bs) (\<lambda>(v, r).
        case enum_from_i32 D v of
          Some e \<Rightarrow> Inr (e, r)
        | None \<Rightarrow> Inl (WireError ''invalid enum value''))),
      enum_size = (\<lambda>D f e. of_nat (length (enc_int32 f (enum_value D e))))\<rparr>"

lemma ref_enum_ok: "enum_ok ref_enum"
  by (simp add: enum_ok_def ref_enum_def ref_read_int32_varint)

definition ref_merge_payload :: "'m Message \<Rightarrow> bytes \<Rightarrow> ('m \<times> bytes) reading" where
  "ref_merge_payload M bs =
     run_then (Some (read_delimited bs)) (\<lambda>(p, r).
       run_then (msg_merge_from M (msg_new M) p) (\<lambda>(m, rest). Some (Inr (m, r))))"

definition ref_nested :: "'m nested_rt" where
  "ref_nested =
     \<lparr>read_message = (\<lambda>M bs. run_then (ref_merge_payload M bs) (\<lambda>(m, r).
        if msg_is_initialized M m then Some (Inr (m, r))
        else Some (Inl (MessageNotInitialized ''nested message'')))),
      read_singular_message_into = (\<lambda>M w bs x.
        if w = WireTypeLengthDelimited then
          run_then (ref_merge_payload M bs) (\<lambda>(m, r). Some (Inr (Some m, r)))
        else Some (Inl (ref_unexpected_wire_type w))),
      read_repeated_message_into = (\<lambda>M w bs ms.
        if w = WireTypeLengthDelimited then
          run_then (ref_merge_payload M bs) (\<lambda>(m, r). Some (Inr (ms @ [m], r)))
        else Some (Inl (ref_unexpected_wire_type w)))\<rparr>"

lemma ref_nested_ok: "nested_ok ref_nested"
  by (simp add: nested_ok_def ref_nested_def ref_merge_payload_def)

definition ref_entry :: "'m entry_rt" where
  "ref_entry =
     \<lparr>parse_from_bytes = (\<lambda>M bs. run_then (msg_merge_from M (msg_new M) bs) (\<lambda>(m, rest).
        if msg_is_initialized M m then Some (Inr m)
        else Some (Inl (MessageNotInitialized ''message'')))),
      write_to_bytes = (\<lambda>M m.
        if msg_is_initialized M m then
          msg_write_to_with_cached_sizes M (snd (msg_compute_size M m)) []
        else Inl (MessageNotInitialized ''message''))\<rparr>"

lemma ref_entry_ok: "entry_ok ref_entry"
  by (auto simp: entry_ok_def ref_entry_def)

definition ref_runtime :: protobuf where
  "ref_runtime =
     \<lparr>rt_eof = (\<lambda>bs. Inr (bs = [], bs)),
      rt_read_tag_unpack = ref_read_tag,
      rt_read_int32 = ref_read_int32,
      rt_read_uint32 = ref_read_uint32,
      rt_read_bool = ref_read_bool,
      rt_read_string = ref_read_string,
      rt_read_repeated_int32_into = ref_read_repeated ref_read_int32,
      rt_read_repeated_bool_into = ref_read_repeated ref_read_bool,
      rt_read_repeated_string_into = ref_read_repeated_string,
      rt_read_singular_string_into = ref_read_singular_string,
      rt_read_unknown_or_skip_group = ref_read_unknown,
      rt_unexpected_wire_type = ref_unexpected_wire_type,
      rt_write_int32 = (\<lambda>f v os. Inr (os @ enc_int32 f v)),
      rt_write_uint32 = (\<lambda>f v os. Inr (os @ enc_uint32 f v)),
      rt_write_bool = (\<lambda>f b os. Inr (os @ enc_bool f b)),
      rt_write_string = (\<lambda>f s os. Inr (os @ enc_string f s)),
      rt_write_enum = (\<lambda>f v os. Inr (os @ enc_int32 f v)),
      rt_write_tag = (\<lambda>f w os. Inr (os @ wire_tag f w)),
      rt_write_raw_varint32 = (\<lambda>v os. Inr (os @ varint (unat v))),
      rt_write_unknown_fields = (\<lambda>uf os. Inr (os @ enc_unknowns uf)),
      rt_value_size_i32 = (\<lambda>f v w. of_nat (length (enc_int32 f v))),
      rt_value_size_u32 = (\<lambda>f v w. of_nat (length (enc_uint32 f v))),
      rt_string_size = (\<lambda>f s. of_nat (length (enc_string f s))),
      rt_compute_raw_varint32_size = (\<lambda>v. of_nat (length (varint (unat v)))),
      rt_unknown_fields_size = (\<lambda>uf. of_nat (length (enc_unknowns uf))),
      pb_CommitConfig = ref_enum, pb_StatusCode = ref_enum,
      pb_Int32List = ref_nested, pb_BoolList = ref_nested, pb_StringList = ref_nested,
      pb_ConfigValue = ref_nested, pb_Set = ref_nested, pb_Get = ref_nested,
      pb_Commit = ref_nested, pb_Drop = ref_nested, pb_FireHooks = ref_nested,
      pb_EraseKey = ref_nested, pb_Rollback = ref_nested, pb_Reset = ref_nested,
      pb_DumpHooks = ref_nested, pb_TriggerHook = ref_nested, pb_Blame = ref_nested,
      pb_InFlight = ref_nested, pb_MappedField = ref_nested, pb_GetResponse = ref_nested,
      pb_CommitResponse = ref_nested, pb_ResetResponse = ref_nested,
      pb_DumpResponse = ref_nested, pb_BlameEntry = ref_nested, pb_BlameResponse = ref_nested,
      pb_InFlightResponse = ref_nested,
      pb_entry_Command = ref_entry, pb_entry_Response = ref_entry\<rparr>"

section \<open>It satisfies the assumptions\<close>

lemma bool_varint_nonempty: "bool_varint b \<noteq> []" and int32_varint_nonempty: "int32_varint v \<noteq> []"
  by (simp_all add: bool_varint_def int32_varint_def)

lemmas ref_reads =
  ref_read_tag_wire_tag ref_read_int32_varint ref_read_uint32_varint ref_read_bool_varint
  ref_read_string_string
  ref_read_all_concat [where f = ref_read_int32 and enc = int32_varint,
    OF ref_read_int32_varint int32_varint_nonempty]
  ref_read_all_concat [where f = ref_read_bool and enc = bool_varint,
    OF ref_read_bool_varint bool_varint_nonempty]

lemma ref_scalar_runtime: "scalar_runtime ref_runtime"
  by unfold_locales
    (simp_all add: ref_runtime_def eof_on_bytes_def ref_reads ref_read_repeated_def
      ref_read_repeated_string_def ref_read_singular_string_def ref_read_unknown_def
      enc_unknowns_def)

interpretation ref: protobuf_runtime ref_runtime
  by (rule protobuf_runtime.intro [OF ref_scalar_runtime], unfold_locales)
    (simp_all add: ref_runtime_def ref_enum_ok ref_nested_ok ref_entry_ok)

end
