(* ===== verification/Progress.thy ===== *)
theory Progress
  imports Codec_Commands Codec_Responses
begin

text \<open>
  Reading ends.  Every field of every message consumes at least its tag, so the loop of
  \<open>merge_from\<close> returns on every input, valid or not, provided the runtime's reads never give
  bytes back and return on a nested message whose own \<open>merge_from\<close> returns.
\<close>

section \<open>Reads that leave at most \<open>n\<close> bytes\<close>

named_theorems progress \<open>reads and what they leave\<close>

definition consumes :: "nat \<Rightarrow> ('x \<times> bytes) reading \<Rightarrow> bool" where
  "consumes n r \<longleftrightarrow> r \<noteq> None \<and> (\<forall>x rest. r = Some (Inr (x, rest)) \<longrightarrow> length rest \<le> n)"

lemma consumes_simps [simp]:
  "consumes n (Some (Inl e))"
  "consumes n (Some (Inr (x, rest))) \<longleftrightarrow> length rest \<le> n"
  by (simp_all add: consumes_def)

lemma consumes_then [progress]:
  assumes "consumes n r" and "\<And>x rest. length rest \<le> n \<Longrightarrow> consumes n (k (x, rest))"
  shows "consumes n (run_then r k)"
  using assms by (auto simp: consumes_def run_then_def split: option.splits sum.splits)

lemma consumes_if [progress]:
  "(c \<Longrightarrow> consumes n a) \<Longrightarrow> (\<not> c \<Longrightarrow> consumes n b) \<Longrightarrow> consumes n (if c then a else b)"
  by simp

lemma merge_loop_consumes:
  assumes "eof_on_bytes eof" and "\<And>m b. b \<noteq> [] \<Longrightarrow> consumes (length b - 1) (field m b)"
  shows "merge_loop eof field m b \<noteq> None"
proof (rule merge_loop_returns [OF assms(1)])
  fix m m' and b rest :: bytes
  assume b: "b \<noteq> []"
  then show "field m b \<noteq> None"
    using assms(2) [OF b] by (simp add: consumes_def)
  assume "field m b = Some (Inr (m', rest))"
  with assms(2) [OF b, of m] have "length rest \<le> length b - 1"
    by (simp add: consumes_def)
  with b show "length rest < length b" by (cases b) simp_all
qed

section \<open>The contract of the reads\<close>

definition nested_returns :: "'m nested_rt \<Rightarrow> bool" where
  "nested_returns N \<longleftrightarrow> (\<forall>M b n. (\<forall>p. msg_merge_from M (msg_new M) p \<noteq> None) \<longrightarrow> length b \<le> n \<longrightarrow>
     consumes n (read_message N M b)
     \<and> (\<forall>w x. consumes n (read_singular_message_into N M w b x))
     \<and> (\<forall>w ms. consumes n (read_repeated_message_into N M w b ms)))"

lemma nested_consumes:
  assumes "nested_returns N" and "\<And>p. msg_merge_from M (msg_new M) p \<noteq> None" and "length b \<le> n"
  shows "consumes n (read_message N M b)" and "consumes n (read_singular_message_into N M w b x)"
    and "consumes n (read_repeated_message_into N M w b ms)"
  using assms unfolding nested_returns_def by blast+

locale returning_runtime = protobuf_runtime +
  assumes tag_consumes: "b \<noteq> [] \<Longrightarrow> consumes (length b - 1) (Some (rt_read_tag_unpack rt b))"
    and int32_consumes [progress]: "length b \<le> n \<Longrightarrow> consumes n (Some (rt_read_int32 rt b))"
    and uint32_consumes [progress]: "length b \<le> n \<Longrightarrow> consumes n (Some (rt_read_uint32 rt b))"
    and bool_consumes [progress]: "length b \<le> n \<Longrightarrow> consumes n (Some (rt_read_bool rt b))"
    and string_consumes [progress]: "length b \<le> n \<Longrightarrow> consumes n (Some (rt_read_string rt b))"
    and int32s_consume [progress]:
      "length b \<le> n \<Longrightarrow> consumes n (Some (rt_read_repeated_int32_into rt w b vs))"
    and bools_consume [progress]:
      "length b \<le> n \<Longrightarrow> consumes n (Some (rt_read_repeated_bool_into rt w b bs))"
    and strings_consume [progress]:
      "length b \<le> n \<Longrightarrow> consumes n (Some (rt_read_repeated_string_into rt w b ss))"
    and singular_consumes [progress]:
      "length b \<le> n \<Longrightarrow> consumes n (Some (rt_read_singular_string_into rt w b s))"
    and unknown_consumes [progress]:
      "length b \<le> n \<Longrightarrow> consumes n (Some (rt_read_unknown_or_skip_group rt f w b uf))"
    and CommitConfig_consumes [progress]:
      "length b \<le> n \<Longrightarrow> consumes n (Some (read_enum (pb_CommitConfig rt) C b))"
    and StatusCode_consumes [progress]:
      "length b \<le> n \<Longrightarrow> consumes n (Some (read_enum (pb_StatusCode rt) S b))"
    and Int32List_reads: "nested_returns (pb_Int32List rt)"
    and BoolList_reads: "nested_returns (pb_BoolList rt)"
    and StringList_reads: "nested_returns (pb_StringList rt)"
    and ConfigValue_reads: "nested_returns (pb_ConfigValue rt)"
    and Set_reads: "nested_returns (pb_Set rt)"
    and Get_reads: "nested_returns (pb_Get rt)"
    and Commit_reads: "nested_returns (pb_Commit rt)"
    and Drop_reads: "nested_returns (pb_Drop rt)"
    and FireHooks_reads: "nested_returns (pb_FireHooks rt)"
    and EraseKey_reads: "nested_returns (pb_EraseKey rt)"
    and Rollback_reads: "nested_returns (pb_Rollback rt)"
    and Reset_reads: "nested_returns (pb_Reset rt)"
    and DumpHooks_reads: "nested_returns (pb_DumpHooks rt)"
    and TriggerHook_reads: "nested_returns (pb_TriggerHook rt)"
    and Blame_reads: "nested_returns (pb_Blame rt)"
    and InFlight_reads: "nested_returns (pb_InFlight rt)"
    and MappedField_reads: "nested_returns (pb_MappedField rt)"
    and GetResponse_reads: "nested_returns (pb_GetResponse rt)"
    and CommitResponse_reads: "nested_returns (pb_CommitResponse rt)"
    and ResetResponse_reads: "nested_returns (pb_ResetResponse rt)"
    and DumpResponse_reads: "nested_returns (pb_DumpResponse rt)"
    and BlameEntry_reads: "nested_returns (pb_BlameEntry rt)"
    and BlameResponse_reads: "nested_returns (pb_BlameResponse rt)"
    and InFlightResponse_reads: "nested_returns (pb_InFlightResponse rt)"
    and Command_parses: "\<forall>p. ctl_Command_merge_from rt ctl_Command_new p \<noteq> None \<Longrightarrow>
      parse_from_bytes (pb_entry_Command rt) (ctl_Command_message rt) b \<noteq> None"
    and Response_parses: "\<forall>p. ctl_Response_merge_from rt ctl_Response_new p \<noteq> None \<Longrightarrow>
      parse_from_bytes (pb_entry_Response rt) (ctl_Response_message rt) b \<noteq> None"
begin

lemmas tag_read [progress] = tag_consumes [unfolded One_nat_def]

section \<open>Every message is read to an end\<close>

lemma ctl_Int32List_returns: "ctl_Int32List_merge_from rt m b \<noteq> None"
  unfolding ctl_Int32List_merge_from_def
  by (rule merge_loop_consumes [OF eof]) (auto simp: ctl_Int32List_merge_field_def intro!: progress)

lemmas Int32List_consumes [progress] =
  nested_consumes [OF Int32List_reads, where M = "ctl_Int32List_message rt", unfolded Int32List.sel, OF ctl_Int32List_returns]

lemma ctl_BoolList_returns: "ctl_BoolList_merge_from rt m b \<noteq> None"
  unfolding ctl_BoolList_merge_from_def
  by (rule merge_loop_consumes [OF eof]) (auto simp: ctl_BoolList_merge_field_def intro!: progress)

lemmas BoolList_consumes [progress] =
  nested_consumes [OF BoolList_reads, where M = "ctl_BoolList_message rt", unfolded BoolList.sel, OF ctl_BoolList_returns]

lemma ctl_StringList_returns: "ctl_StringList_merge_from rt m b \<noteq> None"
  unfolding ctl_StringList_merge_from_def
  by (rule merge_loop_consumes [OF eof]) (auto simp: ctl_StringList_merge_field_def intro!: progress)

lemmas StringList_consumes [progress] =
  nested_consumes [OF StringList_reads, where M = "ctl_StringList_message rt", unfolded StringList.sel, OF ctl_StringList_returns]

lemma ctl_ConfigValue_returns: "ctl_ConfigValue_merge_from rt m b \<noteq> None"
  unfolding ctl_ConfigValue_merge_from_def
  by (rule merge_loop_consumes [OF eof]) (auto simp: ctl_ConfigValue_merge_field_def intro!: progress)

lemmas ConfigValue_consumes [progress] =
  nested_consumes [OF ConfigValue_reads, where M = "ctl_ConfigValue_message rt", unfolded ConfigValue.sel, OF ctl_ConfigValue_returns]

lemma ctl_Set_returns: "ctl_Set_merge_from rt m b \<noteq> None"
  unfolding ctl_Set_merge_from_def
  by (rule merge_loop_consumes [OF eof]) (auto simp: ctl_Set_merge_field_def intro!: progress)

lemmas Set_consumes [progress] =
  nested_consumes [OF Set_reads, where M = "ctl_Set_message rt", unfolded Set.sel, OF ctl_Set_returns]

lemma ctl_Get_returns: "ctl_Get_merge_from rt m b \<noteq> None"
  unfolding ctl_Get_merge_from_def
  by (rule merge_loop_consumes [OF eof]) (auto simp: ctl_Get_merge_field_def intro!: progress)

lemmas Get_consumes [progress] =
  nested_consumes [OF Get_reads, where M = "ctl_Get_message rt", unfolded Get.sel, OF ctl_Get_returns]

lemma ctl_Commit_returns: "ctl_Commit_merge_from rt m b \<noteq> None"
  unfolding ctl_Commit_merge_from_def
  by (rule merge_loop_consumes [OF eof]) (auto simp: ctl_Commit_merge_field_def intro!: progress)

lemmas Commit_consumes [progress] =
  nested_consumes [OF Commit_reads, where M = "ctl_Commit_message rt", unfolded Commit.sel, OF ctl_Commit_returns]

lemma ctl_Drop_returns: "ctl_Drop_merge_from rt m b \<noteq> None"
  unfolding ctl_Drop_merge_from_def
  by (rule merge_loop_consumes [OF eof]) (auto simp: ctl_Drop_merge_field_def intro!: progress)

lemmas Drop_consumes [progress] =
  nested_consumes [OF Drop_reads, where M = "ctl_Drop_message rt", unfolded Drop.sel, OF ctl_Drop_returns]

lemma ctl_FireHooks_returns: "ctl_FireHooks_merge_from rt m b \<noteq> None"
  unfolding ctl_FireHooks_merge_from_def
  by (rule merge_loop_consumes [OF eof]) (auto simp: ctl_FireHooks_merge_field_def intro!: progress)

lemmas FireHooks_consumes [progress] =
  nested_consumes [OF FireHooks_reads, where M = "ctl_FireHooks_message rt", unfolded FireHooks.sel, OF ctl_FireHooks_returns]

lemma ctl_EraseKey_returns: "ctl_EraseKey_merge_from rt m b \<noteq> None"
  unfolding ctl_EraseKey_merge_from_def
  by (rule merge_loop_consumes [OF eof]) (auto simp: ctl_EraseKey_merge_field_def intro!: progress)

lemmas EraseKey_consumes [progress] =
  nested_consumes [OF EraseKey_reads, where M = "ctl_EraseKey_message rt", unfolded EraseKey.sel, OF ctl_EraseKey_returns]

lemma ctl_Rollback_returns: "ctl_Rollback_merge_from rt m b \<noteq> None"
  unfolding ctl_Rollback_merge_from_def
  by (rule merge_loop_consumes [OF eof]) (auto simp: ctl_Rollback_merge_field_def intro!: progress)

lemmas Rollback_consumes [progress] =
  nested_consumes [OF Rollback_reads, where M = "ctl_Rollback_message rt", unfolded Rollback.sel, OF ctl_Rollback_returns]

lemma ctl_Reset_returns: "ctl_Reset_merge_from rt m b \<noteq> None"
  unfolding ctl_Reset_merge_from_def
  by (rule merge_loop_consumes [OF eof]) (auto simp: ctl_Reset_merge_field_def intro!: progress)

lemmas Reset_consumes [progress] =
  nested_consumes [OF Reset_reads, where M = "ctl_Reset_message rt", unfolded Reset.sel, OF ctl_Reset_returns]

lemma ctl_DumpHooks_returns: "ctl_DumpHooks_merge_from rt m b \<noteq> None"
  unfolding ctl_DumpHooks_merge_from_def
  by (rule merge_loop_consumes [OF eof]) (auto simp: ctl_DumpHooks_merge_field_def intro!: progress)

lemmas DumpHooks_consumes [progress] =
  nested_consumes [OF DumpHooks_reads, where M = "ctl_DumpHooks_message rt", unfolded DumpHooks.sel, OF ctl_DumpHooks_returns]

lemma ctl_TriggerHook_returns: "ctl_TriggerHook_merge_from rt m b \<noteq> None"
  unfolding ctl_TriggerHook_merge_from_def
  by (rule merge_loop_consumes [OF eof]) (auto simp: ctl_TriggerHook_merge_field_def intro!: progress)

lemmas TriggerHook_consumes [progress] =
  nested_consumes [OF TriggerHook_reads, where M = "ctl_TriggerHook_message rt", unfolded TriggerHook.sel, OF ctl_TriggerHook_returns]

lemma ctl_Blame_returns: "ctl_Blame_merge_from rt m b \<noteq> None"
  unfolding ctl_Blame_merge_from_def
  by (rule merge_loop_consumes [OF eof]) (auto simp: ctl_Blame_merge_field_def intro!: progress)

lemmas Blame_consumes [progress] =
  nested_consumes [OF Blame_reads, where M = "ctl_Blame_message rt", unfolded Blame.sel, OF ctl_Blame_returns]

lemma ctl_InFlight_returns: "ctl_InFlight_merge_from rt m b \<noteq> None"
  unfolding ctl_InFlight_merge_from_def
  by (rule merge_loop_consumes [OF eof]) (auto simp: ctl_InFlight_merge_field_def intro!: progress)

lemmas InFlight_consumes [progress] =
  nested_consumes [OF InFlight_reads, where M = "ctl_InFlight_message rt", unfolded InFlight.sel, OF ctl_InFlight_returns]

lemma ctl_MappedField_returns: "ctl_MappedField_merge_from rt m b \<noteq> None"
  unfolding ctl_MappedField_merge_from_def
  by (rule merge_loop_consumes [OF eof]) (auto simp: ctl_MappedField_merge_field_def intro!: progress)

lemmas MappedField_consumes [progress] =
  nested_consumes [OF MappedField_reads, where M = "ctl_MappedField_message rt", unfolded MappedField.sel, OF ctl_MappedField_returns]

lemma ctl_GetResponse_returns: "ctl_GetResponse_merge_from rt m b \<noteq> None"
  unfolding ctl_GetResponse_merge_from_def
  by (rule merge_loop_consumes [OF eof]) (auto simp: ctl_GetResponse_merge_field_def intro!: progress)

lemmas GetResponse_consumes [progress] =
  nested_consumes [OF GetResponse_reads, where M = "ctl_GetResponse_message rt", unfolded GetResponse.sel, OF ctl_GetResponse_returns]

lemma ctl_CommitResponse_returns: "ctl_CommitResponse_merge_from rt m b \<noteq> None"
  unfolding ctl_CommitResponse_merge_from_def
  by (rule merge_loop_consumes [OF eof]) (auto simp: ctl_CommitResponse_merge_field_def intro!: progress)

lemmas CommitResponse_consumes [progress] =
  nested_consumes [OF CommitResponse_reads, where M = "ctl_CommitResponse_message rt", unfolded CommitResponse.sel, OF ctl_CommitResponse_returns]

lemma ctl_ResetResponse_returns: "ctl_ResetResponse_merge_from rt m b \<noteq> None"
  unfolding ctl_ResetResponse_merge_from_def
  by (rule merge_loop_consumes [OF eof]) (auto simp: ctl_ResetResponse_merge_field_def intro!: progress)

lemmas ResetResponse_consumes [progress] =
  nested_consumes [OF ResetResponse_reads, where M = "ctl_ResetResponse_message rt", unfolded ResetResponse.sel, OF ctl_ResetResponse_returns]

lemma ctl_DumpResponse_returns: "ctl_DumpResponse_merge_from rt m b \<noteq> None"
  unfolding ctl_DumpResponse_merge_from_def
  by (rule merge_loop_consumes [OF eof]) (auto simp: ctl_DumpResponse_merge_field_def intro!: progress)

lemmas DumpResponse_consumes [progress] =
  nested_consumes [OF DumpResponse_reads, where M = "ctl_DumpResponse_message rt", unfolded DumpResponse.sel, OF ctl_DumpResponse_returns]

lemma ctl_BlameEntry_returns: "ctl_BlameEntry_merge_from rt m b \<noteq> None"
  unfolding ctl_BlameEntry_merge_from_def
  by (rule merge_loop_consumes [OF eof]) (auto simp: ctl_BlameEntry_merge_field_def intro!: progress)

lemmas BlameEntry_consumes [progress] =
  nested_consumes [OF BlameEntry_reads, where M = "ctl_BlameEntry_message rt", unfolded BlameEntry.sel, OF ctl_BlameEntry_returns]

lemma ctl_BlameResponse_returns: "ctl_BlameResponse_merge_from rt m b \<noteq> None"
  unfolding ctl_BlameResponse_merge_from_def
  by (rule merge_loop_consumes [OF eof]) (auto simp: ctl_BlameResponse_merge_field_def intro!: progress)

lemmas BlameResponse_consumes [progress] =
  nested_consumes [OF BlameResponse_reads, where M = "ctl_BlameResponse_message rt", unfolded BlameResponse.sel, OF ctl_BlameResponse_returns]

lemma ctl_InFlightResponse_returns: "ctl_InFlightResponse_merge_from rt m b \<noteq> None"
  unfolding ctl_InFlightResponse_merge_from_def
  by (rule merge_loop_consumes [OF eof]) (auto simp: ctl_InFlightResponse_merge_field_def intro!: progress)

lemmas InFlightResponse_consumes [progress] =
  nested_consumes [OF InFlightResponse_reads, where M = "ctl_InFlightResponse_message rt", unfolded InFlightResponse.sel, OF ctl_InFlightResponse_returns]

lemma ctl_Command_returns: "ctl_Command_merge_from rt m b \<noteq> None"
  unfolding ctl_Command_merge_from_def
  by (rule merge_loop_consumes [OF eof]) (auto simp: ctl_Command_merge_field_def intro!: progress)

lemma ctl_Response_returns: "ctl_Response_merge_from rt m b \<noteq> None"
  unfolding ctl_Response_merge_from_def
  by (rule merge_loop_consumes [OF eof]) (auto simp: ctl_Response_merge_field_def intro!: progress)

lemma parse_Command_returns:
  "parse_from_bytes (pb_entry_Command rt) (ctl_Command_message rt) b \<noteq> None"
  by (rule Command_parses) (simp add: ctl_Command_returns)

lemma parse_Response_returns:
  "parse_from_bytes (pb_entry_Response rt) (ctl_Response_message rt) b \<noteq> None"
  by (rule Response_parses) (simp add: ctl_Response_returns)

end

end
