(* ===== verification/Client_Types.thy ===== *)
theory Client_Types
  imports Codec_Commands Codec_Responses
begin

text \<open>
  The data the client library offers to its callers (\<open>clients/rust/src/lib.rs\<close>): values, status
  codes, commit options, command structs and response structs, and their conversions from and to
  the protobuf messages.  A conversion of the code that can panic returns \<open>panic + _\<close>.
\<close>

section \<open>Status codes and commit options\<close>

datatype StatusCode =
    SUCCESS
  | UNKNOWN_ERROR
  | TYPE_MISMATCH
  | COMMAND_TRANSLATION_ERROR
  | KEY_NOT_FOUND
  | EXTERNAL_PROCESS_ERROR
  | INVALID_KEY
  | FAILED_ROLLBACK
  | LOCKED_QUEUE
  | HOOK_NOT_FOUND
  | SUCCESS_KEY_CREATED
  | MESSAGE_SIZE_ERROR

primrec ctl_StatusCode_from :: "StatusCode \<Rightarrow> ctl_StatusCode" where
  "ctl_StatusCode_from SUCCESS = ctl_SUCCESS"
| "ctl_StatusCode_from UNKNOWN_ERROR = ctl_UNKNOWN_ERROR"
| "ctl_StatusCode_from TYPE_MISMATCH = ctl_TYPE_MISMATCH"
| "ctl_StatusCode_from COMMAND_TRANSLATION_ERROR = ctl_COMMAND_TRANSLATION_ERROR"
| "ctl_StatusCode_from KEY_NOT_FOUND = ctl_KEY_NOT_FOUND"
| "ctl_StatusCode_from EXTERNAL_PROCESS_ERROR = ctl_EXTERNAL_PROCESS_ERROR"
| "ctl_StatusCode_from INVALID_KEY = ctl_INVALID_KEY"
| "ctl_StatusCode_from FAILED_ROLLBACK = ctl_FAILED_ROLLBACK"
| "ctl_StatusCode_from LOCKED_QUEUE = ctl_LOCKED_QUEUE"
| "ctl_StatusCode_from HOOK_NOT_FOUND = ctl_HOOK_NOT_FOUND"
| "ctl_StatusCode_from SUCCESS_KEY_CREATED = ctl_SUCCESS_KEY_CREATED"
| "ctl_StatusCode_from MESSAGE_SIZE_ERROR = ctl_MESSAGE_SIZE_ERROR"

primrec StatusCode_from :: "ctl_StatusCode \<Rightarrow> StatusCode" where
  "StatusCode_from ctl_SUCCESS = SUCCESS"
| "StatusCode_from ctl_UNKNOWN_ERROR = UNKNOWN_ERROR"
| "StatusCode_from ctl_TYPE_MISMATCH = TYPE_MISMATCH"
| "StatusCode_from ctl_COMMAND_TRANSLATION_ERROR = COMMAND_TRANSLATION_ERROR"
| "StatusCode_from ctl_KEY_NOT_FOUND = KEY_NOT_FOUND"
| "StatusCode_from ctl_EXTERNAL_PROCESS_ERROR = EXTERNAL_PROCESS_ERROR"
| "StatusCode_from ctl_INVALID_KEY = INVALID_KEY"
| "StatusCode_from ctl_FAILED_ROLLBACK = FAILED_ROLLBACK"
| "StatusCode_from ctl_LOCKED_QUEUE = LOCKED_QUEUE"
| "StatusCode_from ctl_HOOK_NOT_FOUND = HOOK_NOT_FOUND"
| "StatusCode_from ctl_SUCCESS_KEY_CREATED = SUCCESS_KEY_CREATED"
| "StatusCode_from ctl_MESSAGE_SIZE_ERROR = MESSAGE_SIZE_ERROR"

datatype CommitConfig = DEFAULT | TEMPLATE_ONLY | NO_HOOKS

definition CommitConfig_default :: CommitConfig where
  "CommitConfig_default = DEFAULT"

primrec ctl_CommitConfig_from :: "CommitConfig \<Rightarrow> ctl_CommitConfig" where
  "ctl_CommitConfig_from DEFAULT = ctl_DEFAULT"
| "ctl_CommitConfig_from TEMPLATE_ONLY = ctl_TEMPLATE_ONLY"
| "ctl_CommitConfig_from NO_HOOKS = ctl_NO_HOOKS"

lemma StatusCode_from_ctl [simp]: "StatusCode_from (ctl_StatusCode_from c) = c"
  by (cases c) simp_all

lemma ctl_StatusCode_from_lib [simp]: "ctl_StatusCode_from (StatusCode_from c) = c"
  by (cases c) simp_all

section \<open>Values\<close>

datatype SysadminValue =
    Int32 i32
  | Strval string
  | Bool bool
  | Int32List "i32 list"
  | BoolList "bool list"
  | StrvalList "string list"

text \<open>\<open>impl From<_> for SysadminValue\<close>, one per Rust type a value is made from.\<close>

definition SysadminValue_from_i32 :: "i32 \<Rightarrow> SysadminValue" where
  "SysadminValue_from_i32 v = Int32 v"

definition SysadminValue_from_String :: "string \<Rightarrow> SysadminValue" where
  "SysadminValue_from_String v = Strval v"

definition SysadminValue_from_str :: "string \<Rightarrow> SysadminValue" where
  "SysadminValue_from_str v = Strval v"

definition SysadminValue_from_bool :: "bool \<Rightarrow> SysadminValue" where
  "SysadminValue_from_bool v = Bool v"

definition SysadminValue_from_Vec_i32 :: "i32 list \<Rightarrow> SysadminValue" where
  "SysadminValue_from_Vec_i32 v = Int32List v"

definition SysadminValue_from_Vec_bool :: "bool list \<Rightarrow> SysadminValue" where
  "SysadminValue_from_Vec_bool v = BoolList v"

definition SysadminValue_from_Vec_String :: "string list \<Rightarrow> SysadminValue" where
  "SysadminValue_from_Vec_String v = StrvalList v"

definition ctl_ConfigValue_from :: "SysadminValue \<Rightarrow> ctl_ConfigValue" where
  "ctl_ConfigValue_from v =
     (let cv = ctl_ConfigValue_new
      in case v of
           Int32 x \<Rightarrow> ctl_ConfigValue_set_int32val cv x
         | Strval x \<Rightarrow> ctl_ConfigValue_set_strval cv x
         | Bool x \<Rightarrow> ctl_ConfigValue_set_boolval cv x
         | Int32List x \<Rightarrow>
             (let list = ctl_Int32List_set_list ctl_Int32List_new x
              in ctl_ConfigValue_set_int32list cv list)
         | BoolList x \<Rightarrow>
             (let list = ctl_BoolList_set_list ctl_BoolList_new x
              in ctl_ConfigValue_set_boollist cv list)
         | StrvalList x \<Rightarrow>
             (let list = ctl_StringList_set_list ctl_StringList_new x
              in ctl_ConfigValue_set_stringlist cv list))"

definition SysadminValue_from :: "ctl_ConfigValue \<Rightarrow> panic + SysadminValue" where
  "SysadminValue_from v =
     (if ctl_ConfigValue_has_int32val v then Inr (Int32 (ctl_ConfigValue_get_int32val v))
      else if ctl_ConfigValue_has_strval v then
        and_then (ctl_ConfigValue_take_strval v) (\<lambda>(s, v). Inr (Strval s))
      else if ctl_ConfigValue_has_boolval v then Inr (Bool (ctl_ConfigValue_get_boolval v))
      else if ctl_ConfigValue_has_int32list v then
        and_then (ctl_ConfigValue_take_int32list v) (\<lambda>(list, v).
          Inr (Int32List (fst (ctl_Int32List_take_list list))))
      else if ctl_ConfigValue_has_boollist v then
        and_then (ctl_ConfigValue_take_boollist v) (\<lambda>(list, v).
          Inr (BoolList (fst (ctl_BoolList_take_list list))))
      else if ctl_ConfigValue_has_stringlist v then
        and_then (ctl_ConfigValue_take_stringlist v) (\<lambda>(list, v).
          Inr (StrvalList (fst (ctl_StringList_take_list list))))
      else Inl (Panicked ''Error converting to SysadminValue from sysadminctl::ConfigValue:''))"

section \<open>Responses\<close>

record kvs =
  kvs_key :: string
  kvs_value :: "SysadminValue option"

definition kvs_from :: "ctl_MappedField \<Rightarrow> panic + kvs" where
  "kvs_from m =
     and_then
       (if ctl_MappedField_has_value m then
          (let (cv, m) = ctl_MappedField_take_value m
           in and_then (SysadminValue_from cv) (\<lambda>v. Inr (Some v, m)))
        else Inr (None, m))
       (\<lambda>(value, m). Inr \<lparr>kvs_key = fst (ctl_MappedField_take_key m), kvs_value = value\<rparr>)"

record GetResponse =
  GetResponse_id :: u32
  GetResponse_status :: StatusCode
  GetResponse_kvs :: "kvs list"

definition GetResponse_from :: "ctl_Response \<Rightarrow> panic + GetResponse" where
  "GetResponse_from r =
     and_then (ctl_Response_take_get r) (\<lambda>(get_resp, r).
     and_then (map_result kvs_from (fst (ctl_GetResponse_take_kvs get_resp))) (\<lambda>kvs_vec.
       Inr \<lparr>GetResponse_id = ctl_Response_get_id r,
            GetResponse_status = StatusCode_from (ctl_Response_get_status r),
            GetResponse_kvs = kvs_vec\<rparr>))"

record CommitResponse =
  CommitResponse_id :: u32
  CommitResponse_status :: StatusCode
  CommitResponse_commit_id :: "u32 option"

definition CommitResponse_from :: "ctl_Response \<Rightarrow> CommitResponse" where
  "CommitResponse_from response =
     (let commit_resp = ctl_Response_get_commit response;
          cid = (if ctl_CommitResponse_has_commit_id commit_resp
                 then Some (ctl_CommitResponse_get_commit_id commit_resp) else None)
      in \<lparr>CommitResponse_id = ctl_Response_get_id response,
          CommitResponse_status = StatusCode_from (ctl_Response_get_status response),
          CommitResponse_commit_id = cid\<rparr>)"

record ResetResponse =
  ResetResponse_id :: u32
  ResetResponse_status :: StatusCode
  ResetResponse_commit_id :: u32

definition ResetResponse_from :: "ctl_Response \<Rightarrow> panic + ResetResponse" where
  "ResetResponse_from r =
     and_then (ctl_Response_take_reset r) (\<lambda>(reset_response, r).
       Inr \<lparr>ResetResponse_id = ctl_Response_get_id r,
            ResetResponse_status = StatusCode_from (ctl_Response_get_status r),
            ResetResponse_commit_id = ctl_ResetResponse_get_commit_id reset_response\<rparr>)"

record DumpResponse =
  DumpResponse_id :: u32
  DumpResponse_status :: StatusCode
  DumpResponse_templatehooks :: "string list"
  DumpResponse_servicehooks :: "string list"

definition DumpResponse_from :: "ctl_Response \<Rightarrow> panic + DumpResponse" where
  "DumpResponse_from r =
     and_then (ctl_Response_take_dump r) (\<lambda>(dump_response, r).
       let (tmpl_vec, dump_response) = ctl_DumpResponse_take_templatehooks dump_response;
           (serv_vec, dump_response) = ctl_DumpResponse_take_servicehooks dump_response
       in Inr \<lparr>DumpResponse_id = ctl_Response_get_id r,
               DumpResponse_status = StatusCode_from (ctl_Response_get_status r),
               DumpResponse_templatehooks = tmpl_vec,
               DumpResponse_servicehooks = serv_vec\<rparr>)"

record BlameEntry =
  BlameEntry_commit_id :: u32
  BlameEntry_commit_time :: string
  BlameEntry_val :: SysadminValue

definition BlameEntry_from :: "ctl_BlameEntry \<Rightarrow> panic + BlameEntry" where
  "BlameEntry_from r =
     (let commit_id = ctl_BlameEntry_get_commit_id r;
          (commit_time, r) = ctl_BlameEntry_take_commit_time r;
          (cv, r) = ctl_BlameEntry_take_val r
      in and_then (SysadminValue_from cv) (\<lambda>v.
           Inr \<lparr>BlameEntry_commit_id = commit_id, BlameEntry_commit_time = commit_time,
                BlameEntry_val = v\<rparr>))"

record BlameResponse =
  BlameResponse_id :: u32
  BlameResponse_status :: StatusCode
  BlameResponse_entries :: "BlameEntry list"

definition BlameResponse_from :: "ctl_Response \<Rightarrow> panic + BlameResponse" where
  "BlameResponse_from r =
     and_then (ctl_Response_take_blame r) (\<lambda>(blame_response, r).
     and_then (map_result BlameEntry_from (fst (ctl_BlameResponse_take_entries blame_response)))
       (\<lambda>entries_vec.
         Inr \<lparr>BlameResponse_id = ctl_Response_get_id r,
              BlameResponse_status = StatusCode_from (ctl_Response_get_status r),
              BlameResponse_entries = entries_vec\<rparr>))"

record InFlightResponse =
  InFlightResponse_id :: u32
  InFlightResponse_status :: StatusCode
  InFlightResponse_kvs :: "kvs list"

text \<open>The code takes the \<open>get\<close> payload here, not the \<open>inflight\<close> payload.\<close>

definition InFlightResponse_from :: "ctl_Response \<Rightarrow> panic + InFlightResponse" where
  "InFlightResponse_from r =
     and_then (ctl_Response_take_get r) (\<lambda>(get_resp, r).
     and_then (map_result kvs_from (fst (ctl_GetResponse_take_kvs get_resp))) (\<lambda>kvs_vec.
       Inr \<lparr>InFlightResponse_id = ctl_Response_get_id r,
            InFlightResponse_status = StatusCode_from (ctl_Response_get_status r),
            InFlightResponse_kvs = kvs_vec\<rparr>))"

record GenericResponse =
  GenericResponse_id :: u32
  GenericResponse_status :: StatusCode

definition GenericResponse_from :: "ctl_Response \<Rightarrow> GenericResponse" where
  "GenericResponse_from r =
     \<lparr>GenericResponse_id = ctl_Response_get_id r,
      GenericResponse_status = StatusCode_from (ctl_Response_get_status r)\<rparr>"

section \<open>Commands\<close>

record Set =
  Set_key :: string
  Set_value :: SysadminValue

definition Set_new :: "string \<Rightarrow> SysadminValue \<Rightarrow> Set" where
  "Set_new k v = \<lparr>Set_key = k, Set_value = v\<rparr>"

definition Set_into_buf :: "Set \<Rightarrow> ctl_Set" where
  "Set_into_buf self =
     (let set = ctl_Set_new;
          set = ctl_Set_set_key set (Set_key self);
          cv = ctl_ConfigValue_from (Set_value self)
      in ctl_Set_set_value set cv)"

record Commit =
  Commit_config :: CommitConfig

definition Commit_new :: "CommitConfig \<Rightarrow> Commit" where
  "Commit_new config = \<lparr>Commit_config = config\<rparr>"

definition Commit_default :: Commit where
  "Commit_default = Commit_new CommitConfig_default"

definition Commit_into_buf :: "Commit \<Rightarrow> ctl_Commit" where
  "Commit_into_buf self =
     (let commit = ctl_Commit_new;
          commitconfig = ctl_CommitConfig_from (Commit_config self)
      in ctl_Commit_set_config commit commitconfig)"

text \<open>\<open>no_arg_command!\<close>: five commands without fields.\<close>

datatype Drop = Drop
datatype FireHooks = FireHooks
datatype Reset = Reset
datatype DumpHooks = DumpHooks
datatype InFlight = InFlight

definition Drop_new :: Drop where "Drop_new = Drop"
definition FireHooks_new :: FireHooks where "FireHooks_new = FireHooks"
definition Reset_new :: Reset where "Reset_new = Reset"
definition DumpHooks_new :: DumpHooks where "DumpHooks_new = DumpHooks"
definition InFlight_new :: InFlight where "InFlight_new = InFlight"

definition Drop_default :: Drop where "Drop_default = Drop_new"
definition FireHooks_default :: FireHooks where "FireHooks_default = FireHooks_new"
definition Reset_default :: Reset where "Reset_default = Reset_new"
definition DumpHooks_default :: DumpHooks where "DumpHooks_default = DumpHooks_new"
definition InFlight_default :: InFlight where "InFlight_default = InFlight_new"

definition Drop_into_buf :: "Drop \<Rightarrow> ctl_Drop" where
  "Drop_into_buf self = ctl_Drop_new"

definition FireHooks_into_buf :: "FireHooks \<Rightarrow> ctl_FireHooks" where
  "FireHooks_into_buf self = ctl_FireHooks_new"

definition Reset_into_buf :: "Reset \<Rightarrow> ctl_Reset" where
  "Reset_into_buf self = ctl_Reset_new"

definition DumpHooks_into_buf :: "DumpHooks \<Rightarrow> ctl_DumpHooks" where
  "DumpHooks_into_buf self = ctl_DumpHooks_new"

definition InFlight_into_buf :: "InFlight \<Rightarrow> ctl_InFlight" where
  "InFlight_into_buf self = ctl_InFlight_new"

text \<open>\<open>single_arg_command!\<close>: five commands with one field.\<close>

record EraseKey =
  EraseKey_key :: string

record TriggerHook =
  TriggerHook_hook :: string

record Blame =
  Blame_key :: string

record Get =
  Get_key :: string

record Rollback =
  Rollback_id :: u32

definition EraseKey_new :: "string \<Rightarrow> EraseKey" where
  "EraseKey_new s = \<lparr>EraseKey_key = s\<rparr>"

definition TriggerHook_new :: "string \<Rightarrow> TriggerHook" where
  "TriggerHook_new s = \<lparr>TriggerHook_hook = s\<rparr>"

definition Blame_new :: "string \<Rightarrow> Blame" where
  "Blame_new s = \<lparr>Blame_key = s\<rparr>"

definition Get_new :: "string \<Rightarrow> Get" where
  "Get_new s = \<lparr>Get_key = s\<rparr>"

definition Rollback_new :: "u32 \<Rightarrow> Rollback" where
  "Rollback_new s = \<lparr>Rollback_id = s\<rparr>"

definition EraseKey_into_buf :: "EraseKey \<Rightarrow> ctl_EraseKey" where
  "EraseKey_into_buf self = ctl_EraseKey_set_key ctl_EraseKey_new (EraseKey_key self)"

definition TriggerHook_into_buf :: "TriggerHook \<Rightarrow> ctl_TriggerHook" where
  "TriggerHook_into_buf self = ctl_TriggerHook_set_hook ctl_TriggerHook_new (TriggerHook_hook self)"

definition Blame_into_buf :: "Blame \<Rightarrow> ctl_Blame" where
  "Blame_into_buf self = ctl_Blame_set_key ctl_Blame_new (Blame_key self)"

definition Get_into_buf :: "Get \<Rightarrow> ctl_Get" where
  "Get_into_buf self = ctl_Get_set_key ctl_Get_new (Get_key self)"

definition Rollback_into_buf :: "Rollback \<Rightarrow> ctl_Rollback" where
  "Rollback_into_buf self = ctl_Rollback_set_id ctl_Rollback_new (Rollback_id self)"

text \<open>\<open>impl Payload\<close>: how each command message becomes the payload of a \<open>Command\<close>.\<close>

definition Set_set_payload :: "ctl_Set \<Rightarrow> ctl_Command \<Rightarrow> ctl_Command" where
  "Set_set_payload self command = ctl_Command_set_set command self"

definition Get_set_payload :: "ctl_Get \<Rightarrow> ctl_Command \<Rightarrow> ctl_Command" where
  "Get_set_payload self command = ctl_Command_set_get command self"

definition Commit_set_payload :: "ctl_Commit \<Rightarrow> ctl_Command \<Rightarrow> ctl_Command" where
  "Commit_set_payload self command = ctl_Command_set_commit command self"

definition Drop_set_payload :: "ctl_Drop \<Rightarrow> ctl_Command \<Rightarrow> ctl_Command" where
  "Drop_set_payload self command = ctl_Command_set_drop command self"

definition FireHooks_set_payload :: "ctl_FireHooks \<Rightarrow> ctl_Command \<Rightarrow> ctl_Command" where
  "FireHooks_set_payload self command = ctl_Command_set_firehooks command self"

definition EraseKey_set_payload :: "ctl_EraseKey \<Rightarrow> ctl_Command \<Rightarrow> ctl_Command" where
  "EraseKey_set_payload self command = ctl_Command_set_erase command self"

definition Rollback_set_payload :: "ctl_Rollback \<Rightarrow> ctl_Command \<Rightarrow> ctl_Command" where
  "Rollback_set_payload self command = ctl_Command_set_rollback command self"

definition Reset_set_payload :: "ctl_Reset \<Rightarrow> ctl_Command \<Rightarrow> ctl_Command" where
  "Reset_set_payload self command = ctl_Command_set_reset command self"

definition DumpHooks_set_payload :: "ctl_DumpHooks \<Rightarrow> ctl_Command \<Rightarrow> ctl_Command" where
  "DumpHooks_set_payload self command = ctl_Command_set_dump command self"

definition TriggerHook_set_payload :: "ctl_TriggerHook \<Rightarrow> ctl_Command \<Rightarrow> ctl_Command" where
  "TriggerHook_set_payload self command = ctl_Command_set_trigger command self"

definition Blame_set_payload :: "ctl_Blame \<Rightarrow> ctl_Command \<Rightarrow> ctl_Command" where
  "Blame_set_payload self command = ctl_Command_set_blame command self"

definition InFlight_set_payload :: "ctl_InFlight \<Rightarrow> ctl_Command \<Rightarrow> ctl_Command" where
  "InFlight_set_payload self command = ctl_Command_set_inflight command self"

end
