(* ===== verification/Client.thy ===== *)
theory Client
  imports Client_Types
begin

text \<open>
  The client itself (\<open>SysadminClient\<close> and the \<open>send_command\<close> methods of
  \<open>clients/rust/src/lib.rs\<close>, the errors of \<open>clients/rust/src/errors.rs\<close>).

  The operations of \<open>TcpStream\<close>, of \<open>CodedInputStream\<close> and of \<open>byteorder\<close> are a parameter,
  the record \<open>net\<close>: each takes the state \<open>'w\<close> of the outside world and returns the changed one, so
  that the order of the calls is part of the model.  A socket is a handle of type \<open>'h\<close>, an address
  of type \<open>'a\<close>, an input stream with its buffer of type \<open>'c\<close>.

  An operation that can panic returns \<open>fault + _\<close>; one that parses a response returns an option,
  with \<open>None\<close> for a parse that does not return.
\<close>

section \<open>Errors\<close>

datatype SysadminErrorKind = SysadminConnectionError string

primrec SysadminErrorKind_to_string :: "SysadminErrorKind \<Rightarrow> string" where
  "SysadminErrorKind_to_string (SysadminConnectionError s) = ''Sysadmin Connection Error: '' @ s"

text \<open>
  \<open>std::io::Error\<close>, of which the code uses the text it displays; the causes that \<open>?\<close> turns into a
  \<open>failure::Error\<close>; and that error, which is the crate's own kind, a cause, or a cause under the
  message given to \<open>context\<close>.
\<close>

datatype io_error = io_Error string

primrec io_Error_to_string :: "io_error \<Rightarrow> string" where
  "io_Error_to_string (io_Error s) = s"

datatype cause = IoCause io_error | ProtobufCause ProtobufError

datatype SysadminError =
    ErrorKind SysadminErrorKind
  | Cause cause
  | Context string cause

datatype fault = Panic panic | Error SysadminError

section \<open>Time\<close>

record Duration =
  duration_secs :: "64 word"
  duration_nanos :: u32

definition Duration_from_secs :: "64 word \<Rightarrow> Duration" where
  "Duration_from_secs s = \<lparr>duration_secs = s, duration_nanos = 0\<rparr>"

definition DEFAULT_COMMAND_TIMEOUT :: "64 word" where
  "DEFAULT_COMMAND_TIMEOUT = 10"

section \<open>The network\<close>

record ('a, 'h, 'c, 'w) net =
  net_connect :: "'a \<Rightarrow> 'w \<Rightarrow> (io_error + 'h) \<times> 'w"
  net_set_write_timeout :: "'h \<Rightarrow> Duration option \<Rightarrow> 'w \<Rightarrow> (io_error + unit) \<times> 'w"
  net_set_read_timeout :: "'h \<Rightarrow> Duration option \<Rightarrow> 'w \<Rightarrow> (io_error + unit) \<times> 'w"
  net_write_all :: "'h \<Rightarrow> bytes \<Rightarrow> 'w \<Rightarrow> (io_error + unit) \<times> 'w"
  net_flush :: "'h \<Rightarrow> 'w \<Rightarrow> (io_error + unit) \<times> 'w"
  net_peek :: "'h \<Rightarrow> nat \<Rightarrow> 'w \<Rightarrow> (io_error + nat) \<times> 'w"
  cis_new :: "'h \<Rightarrow> 'c"
  cis_read_raw_little_endian32 :: "'c \<Rightarrow> 'w \<Rightarrow> (ProtobufError + u32) \<times> 'c \<times> 'w"
  cis_read_raw_bytes :: "'c \<Rightarrow> u32 \<Rightarrow> 'w \<Rightarrow> (ProtobufError + bytes) \<times> 'c \<times> 'w"
  write_u32_LittleEndian :: "u32 \<Rightarrow> bytes \<Rightarrow> io_error + bytes"

text \<open>A call whose error returns from the function at once, as the error \<open>f\<close> makes of it.\<close>

definition try_io ::
  "('e + 'b) \<times> 's \<Rightarrow> ('e \<Rightarrow> 'f) \<Rightarrow> ('b \<Rightarrow> 's \<Rightarrow> ('f + 'd) \<times> 's) \<Rightarrow> ('f + 'd) \<times> 's" where
  "try_io r f k = (case r of (Inl e, s) \<Rightarrow> (Inl (f e), s) | (Inr b, s) \<Rightarrow> k b s)"

lemma try_io_simps [simp, seq_simps]:
  "try_io (Inl e, s) f k = (Inl (f e), s)"
  "try_io (Inr b, s) f k = k b s"
  by (simp_all add: try_io_def)

section \<open>The client\<close>

record 'h SysadminClient =
  client_timeout :: Duration
  client_xid :: u32
  client_id :: u32
  client_stream :: "'h option"

definition SysadminClient_new :: "Duration \<Rightarrow> u32 \<Rightarrow> u32 \<Rightarrow> 'h SysadminClient" where
  "SysadminClient_new timeout xid id' =
     \<lparr>client_timeout = timeout, client_xid = xid, client_id = id', client_stream = None\<rparr>"

definition SysadminClient_default :: "'h SysadminClient" where
  "SysadminClient_default = SysadminClient_new (Duration_from_secs DEFAULT_COMMAND_TIMEOUT) 1 1"

definition connect ::
  "('a, 'h, 'c, 'w) net \<Rightarrow> 'h SysadminClient \<Rightarrow> 'a \<Rightarrow> 'w
     \<Rightarrow> (SysadminError + unit) \<times> 'h SysadminClient \<times> 'w" where
  "connect net self address w =
     (let (r, w) =
        try_io (net_connect net address w)
          (\<lambda>e. Context ''failed to connect to sysadmin'' (IoCause e)) (\<lambda>stream w.
        try_io (net_set_write_timeout net stream (Some (client_timeout self)) w)
          (\<lambda>e. Context ''error setting write timeout'' (IoCause e)) (\<lambda>_ w.
        try_io (net_set_read_timeout net stream (Some (client_timeout self)) w)
          (\<lambda>e. Context ''error setting read timeout'' (IoCause e)) (\<lambda>_ w.
        (Inr stream, w))))
      in case r of
           Inl e \<Rightarrow> (Inl e, self, w)
         | Inr stream \<Rightarrow> (Inr (), self\<lparr>client_stream := Some stream\<rparr>, w))"

definition set_timeout ::
  "('a, 'h, 'c, 'w) net \<Rightarrow> 'h SysadminClient \<Rightarrow> Duration \<Rightarrow> 'w
     \<Rightarrow> (SysadminError + unit) \<times> 'h SysadminClient \<times> 'w" where
  "set_timeout net self timeout w =
     (case client_stream self of
        None \<Rightarrow>
          (Inl (ErrorKind (SysadminConnectionError
             ''Command issued before connection was initialized'')), self, w)
      | Some stream \<Rightarrow>
          (let self = self\<lparr>client_timeout := timeout\<rparr>;
               (r, w) =
                 try_io (net_set_write_timeout net stream (Some (client_timeout self)) w)
                   (\<lambda>e. Context ''Error setting write timeout'' (IoCause e)) (\<lambda>_ w.
                 try_io (net_set_read_timeout net stream (Some (client_timeout self)) w)
                   (\<lambda>e. Context ''Error setting read timeout'' (IoCause e)) (\<lambda>_ w.
                 (Inr (), w)))
           in (r, self, w)))"

definition reset_timeout_to_default ::
  "('a, 'h, 'c, 'w) net \<Rightarrow> 'h SysadminClient \<Rightarrow> 'w
     \<Rightarrow> (SysadminError + unit) \<times> 'h SysadminClient \<times> 'w" where
  "reset_timeout_to_default net self w =
     set_timeout net self (Duration_from_secs DEFAULT_COMMAND_TIMEOUT) w"

definition make_command :: "'h SysadminClient \<Rightarrow> ctl_Command" where
  "make_command self =
     (let cmd = ctl_Command_new;
          cmd = ctl_Command_set_xid cmd (client_xid self);
          cmd = ctl_Command_set_id cmd (client_id self)
      in cmd)"

definition set_xid :: "'h SysadminClient \<Rightarrow> u32 \<Rightarrow> 'h SysadminClient" where
  "set_xid self xid = self\<lparr>client_xid := xid\<rparr>"

definition set_id :: "'h SysadminClient \<Rightarrow> u32 \<Rightarrow> 'h SysadminClient" where
  "set_id self id' = self\<lparr>client_id := id'\<rparr>"

definition get_xid :: "'h SysadminClient \<Rightarrow> u32" where
  "get_xid self = client_xid self"

definition get_id :: "'h SysadminClient \<Rightarrow> u32" where
  "get_id self = client_id self"

section \<open>Sending a command\<close>

text \<open>
  \<open>send\<close> takes \<open>&mut self\<close> only to borrow the stream, so it returns no client.  Its first part
  serializes the command and writes the frame, its second part receives the frame of the reply.
\<close>

definition send_frame ::
  "protobuf \<Rightarrow> ('a, 'h, 'c, 'w) net \<Rightarrow> 'h \<Rightarrow> ctl_Command \<Rightarrow> 'w \<Rightarrow> (fault + unit) \<times> 'w" where
  "send_frame rt net stream command w =
     (if \<not> ctl_Command_is_initialized command then
        (Inl (Panic (Panicked ''assertion failed: command.is_initialized()'')), w)
      else
        let (size, command) = ctl_Command_compute_size rt command
        in try_io (write_to_bytes (pb_entry_Command rt) (ctl_Command_message rt) command, w)
             (\<lambda>e. Error (Cause (ProtobufCause e))) (\<lambda>bytes w.
           if size \<noteq> of_nat (length bytes) then
             (Inl (Panic (Panicked ''assertion failed: size == bytes.len() as u32'')), w)
           else
             try_io (write_u32_LittleEndian net size [], w)
               (\<lambda>e. Panic (Panicked ''called `Result::unwrap()` on an `Err` value'')) (\<lambda>wtr w.
             try_io (net_write_all net stream wtr w) (\<lambda>e. Error (Cause (IoCause e))) (\<lambda>_ w.
             try_io (net_write_all net stream bytes w) (\<lambda>e. Error (Cause (IoCause e))) (\<lambda>_ w.
             try_io (net_flush net stream w) (\<lambda>e. Error (Cause (IoCause e))) (\<lambda>_ w.
             (Inr (), w)))))))"

definition receive_frame ::
  "('a, 'h, 'c, 'w) net \<Rightarrow> 'h \<Rightarrow> 'w \<Rightarrow> (fault + bytes) \<times> 'w" where
  "receive_frame net stream w =
     try_io (net_peek net stream 10 w)
       (\<lambda>e. Error (ErrorKind (SysadminConnectionError
          (''Unable to read response, command may have timed out: '' @ io_Error_to_string e))))
       (\<lambda>_ w.
     let cis = cis_new net stream;
         (r, cis, w) = cis_read_raw_little_endian32 net cis w
     in try_io (r, w)
          (\<lambda>e. Error (Context ''error reading message size'' (ProtobufCause e))) (\<lambda>resp_size w.
        let (r, cis, w) = cis_read_raw_bytes net cis resp_size w
        in try_io (r, w)
             (\<lambda>e. Error (Context ''error reading response from sysadmin'' (ProtobufCause e)))
             (\<lambda>response_bytes w. (Inr response_bytes, w))))"

definition send ::
  "protobuf \<Rightarrow> ('a, 'h, 'c, 'w) net \<Rightarrow> 'h SysadminClient \<Rightarrow> ctl_Command \<Rightarrow> 'w
     \<Rightarrow> ((fault + ctl_Response) \<times> 'w) option" where
  "send rt net self command w =
     (case client_stream self of
        None \<Rightarrow>
          Some (Inl (Error (ErrorKind (SysadminConnectionError
             ''Command issued before connection was init''))), w)
      | Some stream \<Rightarrow>
          (case try_io (send_frame rt net stream command w) (\<lambda>e. e)
                  (\<lambda>_ w. receive_frame net stream w) of
             (Inl e, w) \<Rightarrow> Some (Inl e, w)
           | (Inr response_bytes, w) \<Rightarrow>
               (case parse_from_bytes (pb_entry_Response rt) (ctl_Response_message rt)
                       response_bytes of
                  None \<Rightarrow> None
                | Some (Inl e) \<Rightarrow>
                    Some (Inl (Error (Context ''error parsing response from sysadmin''
                      (ProtobufCause e))), w)
                | Some (Inr resp) \<Rightarrow> Some (Inr resp, w))))"

text \<open>\<open>request\<close> takes the \<open>set_payload\<close> of the message type as the trait \<open>Payload\<close> gives it.\<close>

definition request ::
  "protobuf \<Rightarrow> ('a, 'h, 'c, 'w) net \<Rightarrow> 'h SysadminClient \<Rightarrow> ('m \<Rightarrow> ctl_Command \<Rightarrow> ctl_Command)
     \<Rightarrow> 'm \<Rightarrow> 'w \<Rightarrow> ((fault + ctl_Response) \<times> 'w) option" where
  "request rt net self set_payload msg w =
     (let cmd = make_command self;
          cmd = set_payload msg cmd
      in send rt net self cmd w)"

text \<open>\<open>Ok(resp.into())\<close>: the conversion of the response, which may panic.\<close>

definition respond ::
  "((fault + ctl_Response) \<times> 'w) option \<Rightarrow> (ctl_Response \<Rightarrow> panic + 'r)
     \<Rightarrow> ((fault + 'r) \<times> 'w) option" where
  "respond r into =
     (case r of
        None \<Rightarrow> None
      | Some (Inl e, w) \<Rightarrow> Some (Inl e, w)
      | Some (Inr resp, w) \<Rightarrow>
          (case into resp of Inl p \<Rightarrow> Some (Inl (Panic p), w) | Inr x \<Rightarrow> Some (Inr x, w)))"

section \<open>The commands\<close>

definition Set_send_command where
  "Set_send_command rt net self client w =
     respond (request rt net client Set_set_payload (Set_into_buf self) w)
       (\<lambda>resp. Inr (GenericResponse_from resp))"

definition Commit_send_command where
  "Commit_send_command rt net self client w =
     respond (request rt net client Commit_set_payload (Commit_into_buf self) w)
       (\<lambda>resp. Inr (CommitResponse_from resp))"

definition Drop_send_command where
  "Drop_send_command rt net self client w =
     respond (request rt net client Drop_set_payload (Drop_into_buf self) w)
       (\<lambda>resp. Inr (GenericResponse_from resp))"

definition FireHooks_send_command where
  "FireHooks_send_command rt net self client w =
     respond (request rt net client FireHooks_set_payload (FireHooks_into_buf self) w)
       (\<lambda>resp. Inr (GenericResponse_from resp))"

definition Reset_send_command where
  "Reset_send_command rt net self client w =
     respond (request rt net client Reset_set_payload (Reset_into_buf self) w) ResetResponse_from"

definition DumpHooks_send_command where
  "DumpHooks_send_command rt net self client w =
     respond (request rt net client DumpHooks_set_payload (DumpHooks_into_buf self) w)
       DumpResponse_from"

definition InFlight_send_command where
  "InFlight_send_command rt net self client w =
     respond (request rt net client InFlight_set_payload (InFlight_into_buf self) w)
       InFlightResponse_from"

definition EraseKey_send_command where
  "EraseKey_send_command rt net self client w =
     respond (request rt net client EraseKey_set_payload (EraseKey_into_buf self) w)
       (\<lambda>resp. Inr (GenericResponse_from resp))"

definition TriggerHook_send_command where
  "TriggerHook_send_command rt net self client w =
     respond (request rt net client TriggerHook_set_payload (TriggerHook_into_buf self) w)
       (\<lambda>resp. Inr (GenericResponse_from resp))"

definition Blame_send_command where
  "Blame_send_command rt net self client w =
     respond (request rt net client Blame_set_payload (Blame_into_buf self) w) BlameResponse_from"

definition Get_send_command where
  "Get_send_command rt net self client w =
     respond (request rt net client Get_set_payload (Get_into_buf self) w) GetResponse_from"

definition Rollback_send_command where
  "Rollback_send_command rt net self client w =
     respond (request rt net client Rollback_set_payload (Rollback_into_buf self) w)
       (\<lambda>resp. Inr (GenericResponse_from resp))"

lemmas send_command_defs =
  Set_send_command_def Commit_send_command_def Drop_send_command_def FireHooks_send_command_def
  Reset_send_command_def DumpHooks_send_command_def InFlight_send_command_def
  EraseKey_send_command_def TriggerHook_send_command_def Blame_send_command_def
  Get_send_command_def Rollback_send_command_def

end
