(* ===== verification/Conversions.thy ===== *)
theory Conversions
  imports Client_Types
begin

text \<open>
  What the conversions between the client's data and the protobuf messages promise.  The messages
  a server builds from the client's view of a response (\<open>kvs_message\<close>, \<open>blame_message\<close>,
  \<open>response\<close>) are the specification: a conversion is right when it gives that view back.
\<close>

section \<open>Values\<close>

lemmas value_defs =
  SysadminValue_from_def ctl_ConfigValue_from_def ctl_ConfigValue_new_def
  ctl_Int32List_new_def ctl_BoolList_new_def ctl_StringList_new_def
  ctl_ConfigValue_set_int32val_def ctl_ConfigValue_set_strval_def ctl_ConfigValue_set_boolval_def
  ctl_ConfigValue_set_int32list_def ctl_ConfigValue_set_boollist_def
  ctl_ConfigValue_set_stringlist_def
  ctl_Int32List_set_list_def ctl_BoolList_set_list_def ctl_StringList_set_list_def
  ctl_ConfigValue_has_int32val_def ctl_ConfigValue_has_strval_def ctl_ConfigValue_has_boolval_def
  ctl_ConfigValue_has_int32list_def ctl_ConfigValue_has_boollist_def
  ctl_ConfigValue_has_stringlist_def
  ctl_ConfigValue_get_int32val_def ctl_ConfigValue_take_strval_def ctl_ConfigValue_get_boolval_def
  ctl_ConfigValue_take_int32list_def ctl_ConfigValue_take_boollist_def
  ctl_ConfigValue_take_stringlist_def
  ctl_Int32List_take_list_def ctl_BoolList_take_list_def ctl_StringList_take_list_def

text \<open>The value of the one alternative that is set, as the client sees it.\<close>

primrec oneof_view :: "ConfigValue_oneof_value \<Rightarrow> SysadminValue" where
  "oneof_view (ConfigValue_oneof_value_int32val v) = Int32 v"
| "oneof_view (ConfigValue_oneof_value_strval v) = Strval v"
| "oneof_view (ConfigValue_oneof_value_boolval v) = Bool v"
| "oneof_view (ConfigValue_oneof_value_int32list v) = Int32List (ctl_Int32List_list v)"
| "oneof_view (ConfigValue_oneof_value_boollist v) = BoolList (ctl_BoolList_list v)"
| "oneof_view (ConfigValue_oneof_value_stringlist v) = StrvalList (ctl_StringList_list v)"

lemma SysadminValue_from_view:
  "SysadminValue_from cv =
     (case ctl_ConfigValue_value cv of
        Some x \<Rightarrow> Inr (oneof_view x)
      | None \<Rightarrow> Inl (Panicked ''Error converting to SysadminValue from sysadminctl::ConfigValue:''))"
  by (simp add: value_defs split: option.split ConfigValue_oneof_value.split)

lemma SysadminValue_from_ctl [simp]: "SysadminValue_from (ctl_ConfigValue_from v) = Inr v"
  by (cases v) (simp_all add: value_defs)

definition value_ok :: "SysadminValue \<Rightarrow> bool" where
  "value_ok v \<longleftrightarrow>
     (case v of Strval s \<Rightarrow> string_ok s | StrvalList ss \<Rightarrow> list_all string_ok ss | _ \<Rightarrow> True)"

lemma ctl_ConfigValue_from_ok: "ctl_ConfigValue_ok (ctl_ConfigValue_from v) = value_ok v"
  by (cases v) (simp_all add: value_defs value_ok_def ctl_ConfigValue_ok_def ctl_Int32List_ok_def
      ctl_BoolList_ok_def ctl_StringList_ok_def)

lemma ctl_ConfigValue_from_norm [simp]:
  "ctl_ConfigValue_norm (ctl_ConfigValue_from v) = ctl_ConfigValue_from v"
  by (cases v) (simp_all add: value_defs ctl_ConfigValue_norm_def ctl_Int32List_norm_def
      ctl_BoolList_norm_def ctl_StringList_norm_def)

lemma ctl_ConfigValue_from_init [simp]: "ctl_ConfigValue_is_initialized (ctl_ConfigValue_from v)"
  by (cases v) (simp_all add: value_defs ctl_ConfigValue_is_initialized_def
      ctl_Int32List_is_initialized_def ctl_BoolList_is_initialized_def
      ctl_StringList_is_initialized_def)

section \<open>The messages a server builds\<close>

definition kvs_message :: "kvs \<Rightarrow> ctl_MappedField" where
  "kvs_message kv =
     (let m = ctl_MappedField_set_key ctl_MappedField_new (kvs_key kv)
      in case kvs_value kv of
           None \<Rightarrow> m
         | Some v \<Rightarrow> ctl_MappedField_set_value m (ctl_ConfigValue_from v))"

definition get_message :: "kvs list \<Rightarrow> ctl_GetResponse" where
  "get_message xs = ctl_GetResponse_set_kvs ctl_GetResponse_new (map kvs_message xs)"

definition inflight_message :: "kvs list \<Rightarrow> ctl_InFlightResponse" where
  "inflight_message xs = ctl_InFlightResponse_set_kvs ctl_InFlightResponse_new (map kvs_message xs)"

definition commit_message :: "u32 \<Rightarrow> ctl_CommitResponse" where
  "commit_message c = ctl_CommitResponse_set_commit_id ctl_CommitResponse_new c"

definition reset_message :: "u32 option \<Rightarrow> ctl_ResetResponse" where
  "reset_message cid =
     (case cid of
        None \<Rightarrow> ctl_ResetResponse_new
      | Some c \<Rightarrow> ctl_ResetResponse_set_commit_id ctl_ResetResponse_new c)"

definition dump_message :: "string list \<Rightarrow> string list \<Rightarrow> ctl_DumpResponse" where
  "dump_message ts ss =
     ctl_DumpResponse_set_servicehooks (ctl_DumpResponse_set_templatehooks ctl_DumpResponse_new ts) ss"

definition blame_entry_message :: "BlameEntry \<Rightarrow> ctl_BlameEntry" where
  "blame_entry_message e =
     ctl_BlameEntry_set_val
       (ctl_BlameEntry_set_commit_time
         (ctl_BlameEntry_set_commit_id ctl_BlameEntry_new (BlameEntry_commit_id e))
         (BlameEntry_commit_time e))
       (ctl_ConfigValue_from (BlameEntry_val e))"

definition blame_message :: "string \<Rightarrow> BlameEntry list \<Rightarrow> ctl_BlameResponse" where
  "blame_message k es =
     ctl_BlameResponse_set_entries (ctl_BlameResponse_set_key ctl_BlameResponse_new k)
       (map blame_entry_message es)"

definition response :: "u32 \<Rightarrow> StatusCode \<Rightarrow> Response_oneof_payload option \<Rightarrow> ctl_Response" where
  "response i s p =
     \<lparr>ctl_Response_id = Some i, ctl_Response_status = Some (ctl_StatusCode_from s),
      ctl_Response_payload = p, ctl_Response_unknown_fields = [], ctl_Response_cached_size = 0\<rparr>"

lemmas server_defs =
  kvs_message_def get_message_def inflight_message_def commit_message_def reset_message_def
  dump_message_def blame_entry_message_def blame_message_def response_def
  ctl_MappedField_new_def ctl_MappedField_set_key_def ctl_MappedField_set_value_def
  ctl_GetResponse_new_def ctl_GetResponse_set_kvs_def
  ctl_InFlightResponse_new_def ctl_InFlightResponse_set_kvs_def
  ctl_CommitResponse_new_def ctl_CommitResponse_set_commit_id_def
  ctl_ResetResponse_new_def ctl_ResetResponse_set_commit_id_def
  ctl_DumpResponse_new_def ctl_DumpResponse_set_templatehooks_def
  ctl_DumpResponse_set_servicehooks_def
  ctl_BlameEntry_new_def ctl_BlameEntry_set_commit_id_def ctl_BlameEntry_set_commit_time_def
  ctl_BlameEntry_set_val_def
  ctl_BlameResponse_new_def ctl_BlameResponse_set_key_def ctl_BlameResponse_set_entries_def

lemma response_get_id [simp]: "ctl_Response_get_id (response i s p) = i"
  and response_get_status [simp]: "ctl_Response_get_status (response i s p) = ctl_StatusCode_from s"
  by (simp_all add: response_def ctl_Response_get_id_def ctl_Response_get_status_def)

text \<open>A \<open>take\<close> keeps the id and the status.\<close>

lemma take_get_eq:
  "ctl_Response_take_get r =
     (case ctl_Response_payload r of
        Some (Response_oneof_payload_get v) \<Rightarrow> Inr (v, r\<lparr>ctl_Response_payload := None\<rparr>)
      | _ \<Rightarrow> Inr (ctl_GetResponse_new, r))"
  by (simp add: ctl_Response_take_get_def ctl_Response_has_get_def
      split: option.split Response_oneof_payload.split)

lemma take_reset_eq:
  "ctl_Response_take_reset r =
     (case ctl_Response_payload r of
        Some (Response_oneof_payload_reset v) \<Rightarrow> Inr (v, r\<lparr>ctl_Response_payload := None\<rparr>)
      | _ \<Rightarrow> Inr (ctl_ResetResponse_new, r))"
  by (simp add: ctl_Response_take_reset_def ctl_Response_has_reset_def
      split: option.split Response_oneof_payload.split)

lemma take_dump_eq:
  "ctl_Response_take_dump r =
     (case ctl_Response_payload r of
        Some (Response_oneof_payload_dump v) \<Rightarrow> Inr (v, r\<lparr>ctl_Response_payload := None\<rparr>)
      | _ \<Rightarrow> Inr (ctl_DumpResponse_new, r))"
  by (simp add: ctl_Response_take_dump_def ctl_Response_has_dump_def
      split: option.split Response_oneof_payload.split)

lemma take_blame_eq:
  "ctl_Response_take_blame r =
     (case ctl_Response_payload r of
        Some (Response_oneof_payload_blame v) \<Rightarrow> Inr (v, r\<lparr>ctl_Response_payload := None\<rparr>)
      | _ \<Rightarrow> Inr (ctl_BlameResponse_new, r))"
  by (simp add: ctl_Response_take_blame_def ctl_Response_has_blame_def
      split: option.split Response_oneof_payload.split)

lemmas take_eqs = take_get_eq take_reset_eq take_dump_eq take_blame_eq

lemma update_payload_get [simp]:
  "ctl_Response_get_id (r\<lparr>ctl_Response_payload := p\<rparr>) = ctl_Response_get_id r"
  "ctl_Response_get_status (r\<lparr>ctl_Response_payload := p\<rparr>) = ctl_Response_get_status r"
  by (simp_all add: ctl_Response_get_id_def ctl_Response_get_status_def)

lemma response_payload [simp]: "ctl_Response_payload (response i s p) = p"
  by (simp add: response_def)

lemma kvs_from_message [simp]: "kvs_from (kvs_message kv) = Inr kv"
  by (cases kv; cases "kvs_value kv")
    (simp_all add: kvs_from_def server_defs ctl_MappedField_has_value_def
      ctl_MappedField_take_value_def ctl_MappedField_take_key_def)

lemma BlameEntry_from_message [simp]: "BlameEntry_from (blame_entry_message e) = Inr e"
  by (simp add: BlameEntry_from_def server_defs ctl_BlameEntry_get_commit_id_def
      ctl_BlameEntry_take_commit_time_def ctl_BlameEntry_take_val_def)

lemma map_result_view:
  "(\<And>x. f (g x) = Inr x) \<Longrightarrow> map_result f (map g xs) = Inr xs"
  by (induction xs) simp_all

section \<open>The conversions of the responses\<close>

lemmas from_defs =
  GetResponse_from_def CommitResponse_from_def ResetResponse_from_def DumpResponse_from_def
  BlameResponse_from_def InFlightResponse_from_def GenericResponse_from_def

lemma GetResponse_from_response:
  "GetResponse_from (response i s (Some (Response_oneof_payload_get (get_message xs))))
     = Inr \<lparr>GetResponse_id = i, GetResponse_status = s, GetResponse_kvs = xs\<rparr>"
  by (simp add: GetResponse_from_def take_get_eq get_message_def ctl_GetResponse_set_kvs_def
      ctl_GetResponse_take_kvs_def map_result_view)

lemma CommitResponse_from_response:
  "CommitResponse_from (response i s (Some (Response_oneof_payload_commit (commit_message c))))
     = \<lparr>CommitResponse_id = i, CommitResponse_status = s, CommitResponse_commit_id = Some c\<rparr>"
  by (simp add: CommitResponse_from_def ctl_Response_get_commit_def commit_message_def
      ctl_CommitResponse_new_def ctl_CommitResponse_set_commit_id_def
      ctl_CommitResponse_has_commit_id_def ctl_CommitResponse_get_commit_id_def Let_def)

text \<open>The commit id of a reset is optional in the message; the client reports 0 for none.\<close>

lemma ResetResponse_from_response:
  "ResetResponse_from (response i s (Some (Response_oneof_payload_reset (reset_message cid))))
     = Inr \<lparr>ResetResponse_id = i, ResetResponse_status = s,
            ResetResponse_commit_id = (case cid of None \<Rightarrow> 0 | Some c \<Rightarrow> c)\<rparr>"
  by (simp add: ResetResponse_from_def take_reset_eq reset_message_def ctl_ResetResponse_new_def
      ctl_ResetResponse_set_commit_id_def ctl_ResetResponse_get_commit_id_def split: option.split)

lemma DumpResponse_from_response:
  "DumpResponse_from (response i s (Some (Response_oneof_payload_dump (dump_message ts ss))))
     = Inr \<lparr>DumpResponse_id = i, DumpResponse_status = s, DumpResponse_templatehooks = ts,
            DumpResponse_servicehooks = ss\<rparr>"
  by (simp add: DumpResponse_from_def take_dump_eq dump_message_def
      ctl_DumpResponse_set_templatehooks_def ctl_DumpResponse_set_servicehooks_def
      ctl_DumpResponse_take_templatehooks_def ctl_DumpResponse_take_servicehooks_def)

lemma BlameResponse_from_response:
  "BlameResponse_from (response i s (Some (Response_oneof_payload_blame (blame_message k es))))
     = Inr \<lparr>BlameResponse_id = i, BlameResponse_status = s, BlameResponse_entries = es\<rparr>"
  by (simp add: BlameResponse_from_def take_blame_eq blame_message_def
      ctl_BlameResponse_set_entries_def ctl_BlameResponse_take_entries_def map_result_view)

lemma InFlightResponse_from_response:
  "InFlightResponse_from (response i s (Some (Response_oneof_payload_inflight m)))
     = Inr \<lparr>InFlightResponse_id = i, InFlightResponse_status = s, InFlightResponse_kvs = []\<rparr>"
  by (simp add: InFlightResponse_from_def take_get_eq ctl_GetResponse_new_def
      ctl_GetResponse_take_kvs_def)

lemma GenericResponse_from_response:
  "GenericResponse_from (response i s p) = \<lparr>GenericResponse_id = i, GenericResponse_status = s\<rparr>"
  by (simp add: GenericResponse_from_def)

text \<open>The server's messages are valid, complete, and carry no cached sizes.\<close>

definition kvs_ok :: "kvs \<Rightarrow> bool" where
  "kvs_ok kv \<longleftrightarrow> string_ok (kvs_key kv) \<and> ok_opt value_ok (kvs_value kv)"

definition BlameEntry_ok :: "BlameEntry \<Rightarrow> bool" where
  "BlameEntry_ok e \<longleftrightarrow> string_ok (BlameEntry_commit_time e) \<and> value_ok (BlameEntry_val e)"

lemma kvs_message_facts:
  "ctl_MappedField_ok (kvs_message kv) = kvs_ok kv"
  "ctl_MappedField_is_initialized (kvs_message kv)"
  "ctl_MappedField_norm (kvs_message kv) = kvs_message kv"
  by (cases "kvs_value kv", auto simp: server_defs ctl_MappedField_ok_def
      ctl_MappedField_is_initialized_def ctl_MappedField_norm_def kvs_ok_def
      ctl_ConfigValue_from_ok)+

lemma blame_entry_message_facts:
  "ctl_BlameEntry_ok (blame_entry_message e) = BlameEntry_ok e"
  "ctl_BlameEntry_is_initialized (blame_entry_message e)"
  "ctl_BlameEntry_norm (blame_entry_message e) = blame_entry_message e"
  by (auto simp: server_defs ctl_BlameEntry_ok_def ctl_BlameEntry_is_initialized_def
      ctl_BlameEntry_norm_def BlameEntry_ok_def ctl_ConfigValue_from_ok)

lemma get_message_facts:
  "ctl_GetResponse_ok (get_message xs) = list_all kvs_ok xs"
  "ctl_GetResponse_is_initialized (get_message xs)"
  "ctl_GetResponse_norm (get_message xs) = get_message xs"
  by (simp_all add: get_message_def ctl_GetResponse_new_def ctl_GetResponse_set_kvs_def
      ctl_GetResponse_ok_def ctl_GetResponse_is_initialized_def ctl_GetResponse_norm_def
      list_all_iff kvs_message_facts)

lemma inflight_message_facts:
  "ctl_InFlightResponse_ok (inflight_message xs) = list_all kvs_ok xs"
  "ctl_InFlightResponse_is_initialized (inflight_message xs)"
  "ctl_InFlightResponse_norm (inflight_message xs) = inflight_message xs"
  by (simp_all add: inflight_message_def ctl_InFlightResponse_new_def
      ctl_InFlightResponse_set_kvs_def ctl_InFlightResponse_ok_def
      ctl_InFlightResponse_is_initialized_def ctl_InFlightResponse_norm_def
      list_all_iff kvs_message_facts)

lemma commit_message_facts:
  "ctl_CommitResponse_ok (commit_message c)"
  "ctl_CommitResponse_is_initialized (commit_message c)"
  "ctl_CommitResponse_norm (commit_message c) = commit_message c"
  by (simp_all add: server_defs ctl_CommitResponse_ok_def ctl_CommitResponse_is_initialized_def
      ctl_CommitResponse_norm_def)

lemma reset_message_facts:
  "ctl_ResetResponse_ok (reset_message cid)"
  "ctl_ResetResponse_is_initialized (reset_message cid)"
  "ctl_ResetResponse_norm (reset_message cid) = reset_message cid"
  by (simp_all add: server_defs ctl_ResetResponse_ok_def ctl_ResetResponse_is_initialized_def
      ctl_ResetResponse_norm_def split: option.split)

lemma dump_message_facts:
  "ctl_DumpResponse_ok (dump_message ts ss) \<longleftrightarrow> list_all string_ok ts \<and> list_all string_ok ss"
  "ctl_DumpResponse_is_initialized (dump_message ts ss)"
  "ctl_DumpResponse_norm (dump_message ts ss) = dump_message ts ss"
  by (auto simp: server_defs ctl_DumpResponse_ok_def ctl_DumpResponse_is_initialized_def
      ctl_DumpResponse_norm_def)

lemma blame_message_facts:
  "ctl_BlameResponse_ok (blame_message k es) \<longleftrightarrow> string_ok k \<and> list_all BlameEntry_ok es"
  "ctl_BlameResponse_is_initialized (blame_message k es)"
  "ctl_BlameResponse_norm (blame_message k es) = blame_message k es"
  by (auto simp: blame_message_def ctl_BlameResponse_new_def ctl_BlameResponse_set_key_def
      ctl_BlameResponse_set_entries_def ctl_BlameResponse_ok_def
      ctl_BlameResponse_is_initialized_def ctl_BlameResponse_norm_def
      list_all_iff blame_entry_message_facts)

lemmas payload_message_facts =
  get_message_facts inflight_message_facts commit_message_facts reset_message_facts
  dump_message_facts blame_message_facts

lemma response_facts:
  "ctl_Response_ok (response i s p) = ok_opt Response_oneof_payload_ok p"
  "ctl_Response_is_initialized (response i s p) = ok_opt Response_oneof_payload_init p"
  "ctl_Response_norm (response i s p) = response i s (map_option Response_oneof_payload_norm p)"
  by (auto simp: response_def ctl_Response_ok_def ctl_Response_is_initialized_def
      ctl_Response_norm_def ok_opt_def split: option.split Response_oneof_payload.split)

section \<open>Values that are not set\<close>

lemma oneof_view_norm [simp]: "oneof_view (ConfigValue_oneof_value_norm x) = oneof_view x"
  by (cases x) (simp_all add: ctl_Int32List_norm_def ctl_BoolList_norm_def ctl_StringList_norm_def)

lemma SysadminValue_from_norm:
  "SysadminValue_from (ctl_ConfigValue_norm cv) = SysadminValue_from cv"
  by (simp add: SysadminValue_from_view ctl_ConfigValue_norm_def split: option.split)

lemma kvs_from_view:
  "kvs_from m =
     (case ctl_MappedField_value m of
        None \<Rightarrow> Inr \<lparr>kvs_key = ctl_MappedField_get_key m, kvs_value = None\<rparr>
      | Some cv \<Rightarrow> and_then (SysadminValue_from cv)
          (\<lambda>v. Inr \<lparr>kvs_key = ctl_MappedField_get_key m, kvs_value = Some v\<rparr>))"
  by (cases "SysadminValue_from (the (ctl_MappedField_value m))")
    (auto simp: kvs_from_def ctl_MappedField_has_value_def ctl_MappedField_take_value_def
      ctl_MappedField_take_key_def ctl_MappedField_get_key_def split: option.split)

lemma BlameEntry_from_unset:
  assumes "ctl_BlameEntry_val e = Some cv" and "ctl_ConfigValue_value cv = None"
  shows "\<exists>p. BlameEntry_from (ctl_BlameEntry_norm e) = Inl p"
  using assms
  by (simp add: BlameEntry_from_def ctl_BlameEntry_norm_def ctl_BlameEntry_take_val_def
      ctl_BlameEntry_take_commit_time_def ctl_BlameEntry_get_commit_id_def
      SysadminValue_from_view [of cv] SysadminValue_from_norm)

lemma BlameResponse_from_unset:
  assumes "e \<in> set (ctl_BlameResponse_entries m)" and "ctl_BlameEntry_val e = Some cv"
    and "ctl_ConfigValue_value cv = None"
  shows "\<exists>p. BlameResponse_from
    (ctl_Response_norm (response i s (Some (Response_oneof_payload_blame m)))) = Inl p"
proof -
  obtain q where "BlameEntry_from (ctl_BlameEntry_norm e) = Inl q"
    using BlameEntry_from_unset [OF assms(2,3)] by blast
  then obtain p where
      "map_result BlameEntry_from (map ctl_BlameEntry_norm (ctl_BlameResponse_entries m)) = Inl p"
    using map_result_Inl [of "ctl_BlameEntry_norm e" _ BlameEntry_from] assms(1)
    by (metis image_eqI set_map)
  then show ?thesis
    by (simp add: BlameResponse_from_def response_facts take_blame_eq ctl_BlameResponse_norm_def
        ctl_BlameResponse_take_entries_def)
qed

lemma ctl_ConfigValue_from_view:
  "ConfigValue_oneof_value_ok x \<Longrightarrow> ctl_ConfigValue_from (oneof_view x)
     = \<lparr>ctl_ConfigValue_value = Some (ConfigValue_oneof_value_norm x),
        ctl_ConfigValue_unknown_fields = [], ctl_ConfigValue_cached_size = 0\<rparr>"
  by (cases x) (simp_all add: value_defs ctl_Int32List_ok_def ctl_BoolList_ok_def
      ctl_StringList_ok_def ctl_Int32List_norm_def ctl_BoolList_norm_def ctl_StringList_norm_def)

lemma map_result_Inl_iff:
  "(\<exists>e. map_result f xs = Inl e) \<longleftrightarrow> (\<exists>x e. x \<in> set xs \<and> f x = Inl e)"
  by (induction xs) (auto simp: and_then_def split: sum.splits)

lemma kvs_from_Inl_iff:
  "(\<exists>e. kvs_from m = Inl e)
     \<longleftrightarrow> (\<exists>cv. ctl_MappedField_value m = Some cv \<and> ctl_ConfigValue_value cv = None)"
  by (auto simp: kvs_from_view SysadminValue_from_view split: option.splits)

section \<open>Properties\<close>

text \<open>
  C21. The client's values and the messages without unknown fields correspond one to one: a value
  sent as a \<open>ConfigValue\<close> is read back as it was, for each of the six alternatives, and a message
  that was read converts back to the message.
\<close>

theorem values_round_trip:
  "SysadminValue_from (ctl_ConfigValue_from v) = Inr v \<and>
   (ctl_ConfigValue_ok cv \<and> SysadminValue_from cv = Inr u \<longrightarrow>
     ctl_ConfigValue_from u = ctl_ConfigValue_norm cv)"
  by (auto simp: SysadminValue_from_view [of cv] ctl_ConfigValue_ok_def ctl_ConfigValue_norm_def
      ctl_ConfigValue_from_view split: option.splits)

lemma values_round_trip_witness:
  "ctl_ConfigValue_from (Strval ''a'') = ctl_ConfigValue_norm
     \<lparr>ctl_ConfigValue_value = Some (ConfigValue_oneof_value_strval ''a''),
      ctl_ConfigValue_unknown_fields = [], ctl_ConfigValue_cached_size = 3\<rparr>"
  by (rule values_round_trip [THEN conjunct2, THEN mp])
    (simp add: SysadminValue_from_view ctl_ConfigValue_ok_def string_ok_def string_bytes_def)

text \<open>
  C20. A \<open>Get\<close> reply makes the client panic exactly when one of its pairs has a value message with
  no alternative set; in every other case the conversion succeeds.
\<close>

theorem Get_conversion_panics_iff_unset:
  "(\<exists>p. GetResponse_from r = Inl p) \<longleftrightarrow>
   (\<exists>g m cv. ctl_Response_payload r = Some (Response_oneof_payload_get g) \<and>
      m \<in> set (ctl_GetResponse_kvs g) \<and> ctl_MappedField_value m = Some cv \<and>
      ctl_ConfigValue_value cv = None)"
proof -
  have "(\<exists>p. GetResponse_from r = Inl p) \<longleftrightarrow>
      (\<exists>g. ctl_Response_payload r = Some (Response_oneof_payload_get g) \<and>
        (\<exists>e. map_result kvs_from (ctl_GetResponse_kvs g) = Inl e))"
    by (auto simp: GetResponse_from_def take_get_eq ctl_GetResponse_take_kvs_def
        ctl_GetResponse_new_def and_then_def
        split: option.splits Response_oneof_payload.splits sum.splits)
  moreover have "(\<exists>e. map_result kvs_from (ctl_GetResponse_kvs g) = Inl e) \<longleftrightarrow>
      (\<exists>m cv. m \<in> set (ctl_GetResponse_kvs g) \<and> ctl_MappedField_value m = Some cv \<and>
        ctl_ConfigValue_value cv = None)" for g
    unfolding map_result_Inl_iff using kvs_from_Inl_iff by blast
  ultimately show ?thesis by blast
qed

text \<open>
  C32. A response that carries only a status, as a server sends it when a command failed, is
  converted by every response type of the client without a panic, with the id and the status it
  has and nothing else in it.
\<close>

theorem status_only_responses_convert:
  "GetResponse_from (response i s None)
     = Inr \<lparr>GetResponse_id = i, GetResponse_status = s, GetResponse_kvs = []\<rparr> \<and>
   InFlightResponse_from (response i s None)
     = Inr \<lparr>InFlightResponse_id = i, InFlightResponse_status = s, InFlightResponse_kvs = []\<rparr> \<and>
   CommitResponse_from (response i s None)
     = \<lparr>CommitResponse_id = i, CommitResponse_status = s, CommitResponse_commit_id = None\<rparr> \<and>
   ResetResponse_from (response i s None)
     = Inr \<lparr>ResetResponse_id = i, ResetResponse_status = s, ResetResponse_commit_id = 0\<rparr> \<and>
   DumpResponse_from (response i s None)
     = Inr \<lparr>DumpResponse_id = i, DumpResponse_status = s, DumpResponse_templatehooks = [],
            DumpResponse_servicehooks = []\<rparr> \<and>
   BlameResponse_from (response i s None)
     = Inr \<lparr>BlameResponse_id = i, BlameResponse_status = s, BlameResponse_entries = []\<rparr> \<and>
   GenericResponse_from (response i s None) = \<lparr>GenericResponse_id = i, GenericResponse_status = s\<rparr>"
  by (simp add: from_defs take_eqs server_defs ctl_GetResponse_take_kvs_def
      ctl_Response_get_commit_def ctl_CommitResponse_default_instance_def
      ctl_CommitResponse_has_commit_id_def ctl_ResetResponse_get_commit_id_def
      ctl_DumpResponse_take_templatehooks_def ctl_DumpResponse_take_servicehooks_def
      ctl_BlameResponse_take_entries_def ctl_Response_get_id_def ctl_Response_get_status_def)

text \<open>
  C33. The client's status codes, the protocol's and their numbers correspond one to one: the two
  conversions are inverse to each other, and a number is read as a code exactly when it is the
  number written for it.
\<close>

theorem status_codes_correspond:
  "StatusCode_from (ctl_StatusCode_from c) = c \<and> ctl_StatusCode_from (StatusCode_from d) = d \<and>
   (ctl_StatusCode_from_i32 v = Some d \<longleftrightarrow> v = ctl_StatusCode_value d)"
  by (cases c; cases d) (auto simp: ctl_StatusCode_from_i32_def)

end
