(* ===== verification/Client_Commands.thy ===== *)
theory Client_Commands
  imports Client Conversions
begin

text \<open>
  The commands.  Every command type of the client keeps one contract, the locale
  \<open>client_command\<close>: its message, put into a \<open>Command\<close>, becomes the one payload specified for
  it and changes nothing else.  The contract is proved once for each of the twelve types; what
  follows from it, that each command carries the client's ids and passes the checks of \<open>send\<close>,
  is proved once.
\<close>

named_theorems payload_defs \<open>the payloads of the commands\<close>

section \<open>The commands on the wire\<close>

definition command :: "u32 \<Rightarrow> u32 \<Rightarrow> Command_oneof_payload \<Rightarrow> ctl_Command" where
  "command i x p =
     \<lparr>ctl_Command_id = Some i, ctl_Command_xid = Some x, ctl_Command_payload = Some p,
      ctl_Command_unknown_fields = [], ctl_Command_cached_size = 0\<rparr>"

lemma command_facts:
  "ctl_Command_ok (command i x p) = Command_oneof_payload_ok p"
  "ctl_Command_is_initialized (command i x p) = Command_oneof_payload_init p"
  "ctl_Command_norm (command i x p) = command i x (Command_oneof_payload_norm p)"
  "ctl_Command_wire (command i x p)
     = enc_uint32 6 i @ enc_uint32 10 x @ Command_oneof_payload_wire p"
  by (auto simp: command_def ctl_Command_ok_def ctl_Command_is_initialized_def
      ctl_Command_norm_def ctl_Command_wire_def split: Command_oneof_payload.split)

text \<open>The payload specified for each command.\<close>

definition Set_payload :: "Set \<Rightarrow> Command_oneof_payload" where [payload_defs]:
  "Set_payload self =
     Command_oneof_payload_set
       \<lparr>ctl_Set_key = Some (Set_key self),
        ctl_Set_value = Some (ctl_ConfigValue_from (Set_value self)),
        ctl_Set_unknown_fields = [], ctl_Set_cached_size = 0\<rparr>"

definition Get_payload :: "Get \<Rightarrow> Command_oneof_payload" where [payload_defs]:
  "Get_payload self =
     Command_oneof_payload_get
       \<lparr>ctl_Get_key = Some (Get_key self),
        ctl_Get_unknown_fields = [], ctl_Get_cached_size = 0\<rparr>"

definition Commit_payload :: "Commit \<Rightarrow> Command_oneof_payload" where [payload_defs]:
  "Commit_payload self =
     Command_oneof_payload_commit
       \<lparr>ctl_Commit_config = Some (ctl_CommitConfig_from (Commit_config self)),
        ctl_Commit_unknown_fields = [], ctl_Commit_cached_size = 0\<rparr>"

definition Drop_payload :: "Drop \<Rightarrow> Command_oneof_payload" where [payload_defs]:
  "Drop_payload self =
     Command_oneof_payload_drop
       \<lparr>ctl_Drop_unknown_fields = [], ctl_Drop_cached_size = 0\<rparr>"

definition FireHooks_payload :: "FireHooks \<Rightarrow> Command_oneof_payload" where [payload_defs]:
  "FireHooks_payload self =
     Command_oneof_payload_firehooks
       \<lparr>ctl_FireHooks_unknown_fields = [], ctl_FireHooks_cached_size = 0\<rparr>"

definition EraseKey_payload :: "EraseKey \<Rightarrow> Command_oneof_payload" where [payload_defs]:
  "EraseKey_payload self =
     Command_oneof_payload_erase
       \<lparr>ctl_EraseKey_key = Some (EraseKey_key self),
        ctl_EraseKey_unknown_fields = [], ctl_EraseKey_cached_size = 0\<rparr>"

definition Rollback_payload :: "Rollback \<Rightarrow> Command_oneof_payload" where [payload_defs]:
  "Rollback_payload self =
     Command_oneof_payload_rollback
       \<lparr>ctl_Rollback_id = Some (Rollback_id self),
        ctl_Rollback_unknown_fields = [], ctl_Rollback_cached_size = 0\<rparr>"

definition Reset_payload :: "Reset \<Rightarrow> Command_oneof_payload" where [payload_defs]:
  "Reset_payload self =
     Command_oneof_payload_reset
       \<lparr>ctl_Reset_unknown_fields = [], ctl_Reset_cached_size = 0\<rparr>"

definition DumpHooks_payload :: "DumpHooks \<Rightarrow> Command_oneof_payload" where [payload_defs]:
  "DumpHooks_payload self =
     Command_oneof_payload_dump
       \<lparr>ctl_DumpHooks_unknown_fields = [], ctl_DumpHooks_cached_size = 0\<rparr>"

definition TriggerHook_payload :: "TriggerHook \<Rightarrow> Command_oneof_payload" where [payload_defs]:
  "TriggerHook_payload self =
     Command_oneof_payload_trigger
       \<lparr>ctl_TriggerHook_hook = Some (TriggerHook_hook self),
        ctl_TriggerHook_unknown_fields = [], ctl_TriggerHook_cached_size = 0\<rparr>"

definition Blame_payload :: "Blame \<Rightarrow> Command_oneof_payload" where [payload_defs]:
  "Blame_payload self =
     Command_oneof_payload_blame
       \<lparr>ctl_Blame_key = Some (Blame_key self),
        ctl_Blame_unknown_fields = [], ctl_Blame_cached_size = 0\<rparr>"

definition InFlight_payload :: "InFlight \<Rightarrow> Command_oneof_payload" where [payload_defs]:
  "InFlight_payload self =
     Command_oneof_payload_inflight
       \<lparr>ctl_InFlight_unknown_fields = [], ctl_InFlight_cached_size = 0\<rparr>"

section \<open>The contract of a command\<close>

locale client_command =
  fixes into_buf :: "'cmd \<Rightarrow> 'm" and set_payload :: "'m \<Rightarrow> ctl_Command \<Rightarrow> ctl_Command"
    and payload :: "'cmd \<Rightarrow> Command_oneof_payload" and valid :: "'cmd \<Rightarrow> bool"
  assumes carries: "set_payload (into_buf x) c = c\<lparr>ctl_Command_payload := Some (payload x)\<rparr>"
    and payload_init: "Command_oneof_payload_init (payload x)"
    and payload_ok: "Command_oneof_payload_ok (payload x) = valid x"
    and payload_norm: "Command_oneof_payload_norm (payload x) = payload x"
begin

lemma set_payload_command:
  "set_payload (into_buf x) (make_command client)
     = command (client_id client) (client_xid client) (payload x)"
  by (simp add: carries make_command_def ctl_Command_new_def ctl_Command_set_id_def
      ctl_Command_set_xid_def command_def Let_def)

lemma request_eq:
  "request rt net client set_payload (into_buf x) w
     = send rt net client (command (client_id client) (client_xid client) (payload x)) w"
  by (simp add: request_def set_payload_command Let_def)

lemma command_ready:
  "ctl_Command_is_initialized (command i xid (payload x))"
  "ctl_Command_ok (command i xid (payload x)) = valid x"
  "ctl_Command_norm (command i xid (payload x)) = command i xid (payload x)"
  by (simp_all add: command_facts payload_init payload_ok payload_norm)

end

interpretation Set: client_command Set_into_buf Set_set_payload Set_payload
  "\<lambda>self. string_ok (Set_key self) \<and> value_ok (Set_value self)"
  by unfold_locales
    (simp_all add: Set_payload_def Set_into_buf_def Set_set_payload_def ctl_Command_set_set_def
      ctl_Set_new_def ctl_Set_is_initialized_def ctl_Set_ok_def ctl_Set_norm_def
      ctl_Set_set_key_def ctl_Set_set_value_def ctl_ConfigValue_from_ok)

interpretation Get: client_command Get_into_buf Get_set_payload Get_payload
  "\<lambda>self. string_ok (Get_key self)"
  by unfold_locales
    (simp_all add: Get_payload_def Get_into_buf_def Get_set_payload_def ctl_Command_set_get_def
      ctl_Get_new_def ctl_Get_is_initialized_def ctl_Get_ok_def ctl_Get_norm_def
      ctl_Get_set_key_def)

interpretation Commit: client_command Commit_into_buf Commit_set_payload Commit_payload
  "\<lambda>_. True"
  by unfold_locales
    (simp_all add: Commit_payload_def Commit_into_buf_def Commit_set_payload_def
      ctl_Command_set_commit_def ctl_Commit_new_def ctl_Commit_is_initialized_def
      ctl_Commit_ok_def ctl_Commit_norm_def ctl_Commit_set_config_def)

interpretation Drop: client_command Drop_into_buf Drop_set_payload Drop_payload
  "\<lambda>_. True"
  by unfold_locales
    (simp_all add: Drop_payload_def Drop_into_buf_def Drop_set_payload_def ctl_Command_set_drop_def
      ctl_Drop_new_def ctl_Drop_is_initialized_def ctl_Drop_ok_def ctl_Drop_norm_def)

interpretation FireHooks: client_command FireHooks_into_buf FireHooks_set_payload FireHooks_payload
  "\<lambda>_. True"
  by unfold_locales
    (simp_all add: FireHooks_payload_def FireHooks_into_buf_def FireHooks_set_payload_def
      ctl_Command_set_firehooks_def ctl_FireHooks_new_def ctl_FireHooks_is_initialized_def
      ctl_FireHooks_ok_def ctl_FireHooks_norm_def)

interpretation EraseKey: client_command EraseKey_into_buf EraseKey_set_payload EraseKey_payload
  "\<lambda>self. string_ok (EraseKey_key self)"
  by unfold_locales
    (simp_all add: EraseKey_payload_def EraseKey_into_buf_def EraseKey_set_payload_def
      ctl_Command_set_erase_def ctl_EraseKey_new_def ctl_EraseKey_is_initialized_def
      ctl_EraseKey_ok_def ctl_EraseKey_norm_def ctl_EraseKey_set_key_def)

interpretation Rollback: client_command Rollback_into_buf Rollback_set_payload Rollback_payload
  "\<lambda>_. True"
  by unfold_locales
    (simp_all add: Rollback_payload_def Rollback_into_buf_def Rollback_set_payload_def
      ctl_Command_set_rollback_def ctl_Rollback_new_def ctl_Rollback_is_initialized_def
      ctl_Rollback_ok_def ctl_Rollback_norm_def ctl_Rollback_set_id_def)

interpretation Reset: client_command Reset_into_buf Reset_set_payload Reset_payload
  "\<lambda>_. True"
  by unfold_locales
    (simp_all add: Reset_payload_def Reset_into_buf_def Reset_set_payload_def ctl_Command_set_reset_def
      ctl_Reset_new_def ctl_Reset_is_initialized_def ctl_Reset_ok_def ctl_Reset_norm_def)

interpretation DumpHooks: client_command DumpHooks_into_buf DumpHooks_set_payload DumpHooks_payload
  "\<lambda>_. True"
  by unfold_locales
    (simp_all add: DumpHooks_payload_def DumpHooks_into_buf_def DumpHooks_set_payload_def
      ctl_Command_set_dump_def ctl_DumpHooks_new_def ctl_DumpHooks_is_initialized_def
      ctl_DumpHooks_ok_def ctl_DumpHooks_norm_def)

interpretation TriggerHook: client_command TriggerHook_into_buf TriggerHook_set_payload TriggerHook_payload
  "\<lambda>self. string_ok (TriggerHook_hook self)"
  by unfold_locales
    (simp_all add: TriggerHook_payload_def TriggerHook_into_buf_def TriggerHook_set_payload_def
      ctl_Command_set_trigger_def ctl_TriggerHook_new_def ctl_TriggerHook_is_initialized_def
      ctl_TriggerHook_ok_def ctl_TriggerHook_norm_def ctl_TriggerHook_set_hook_def)

interpretation Blame: client_command Blame_into_buf Blame_set_payload Blame_payload
  "\<lambda>self. string_ok (Blame_key self)"
  by unfold_locales
    (simp_all add: Blame_payload_def Blame_into_buf_def Blame_set_payload_def ctl_Command_set_blame_def
      ctl_Blame_new_def ctl_Blame_is_initialized_def ctl_Blame_ok_def ctl_Blame_norm_def
      ctl_Blame_set_key_def)

interpretation InFlight: client_command InFlight_into_buf InFlight_set_payload InFlight_payload
  "\<lambda>_. True"
  by unfold_locales
    (simp_all add: InFlight_payload_def InFlight_into_buf_def InFlight_set_payload_def
      ctl_Command_set_inflight_def ctl_InFlight_new_def ctl_InFlight_is_initialized_def
      ctl_InFlight_ok_def ctl_InFlight_norm_def)

lemmas request_eqs =
  Set.request_eq Get.request_eq Commit.request_eq Drop.request_eq FireHooks.request_eq
  EraseKey.request_eq Rollback.request_eq Reset.request_eq DumpHooks.request_eq
  TriggerHook.request_eq Blame.request_eq InFlight.request_eq

lemmas command_readys =
  Set.command_ready Get.command_ready Commit.command_ready Drop.command_ready
  FireHooks.command_ready EraseKey.command_ready Rollback.command_ready Reset.command_ready
  DumpHooks.command_ready TriggerHook.command_ready Blame.command_ready InFlight.command_ready

section \<open>Without a connection\<close>

abbreviation not_connected :: fault where
  "not_connected \<equiv>
     Error (ErrorKind (SysadminConnectionError ''Command issued before connection was init''))"

lemma send_not_connected:
  "client_stream client = None \<Longrightarrow> send rt net client c w = Some (Inl not_connected, w)"
  by (simp add: send_def)

lemma respond_simps [simp]:
  "respond None into = None"
  "respond (Some (Inl e, w)) into = Some (Inl e, w)"
  "respond (Some (Inr resp, w)) into
     = Some (case into resp of Inl p \<Rightarrow> Inl (Panic p) | Inr x \<Rightarrow> Inr x, w)"
  by (simp_all add: respond_def split: sum.split)

end
