(* ===== verification/Transport.thy ===== *)
theory Transport
  imports Client_Commands
begin

text \<open>
  The connection between the client and a server.  The locale \<open>transport\<close> states what the client
  relies on of a TCP stream, of the coded input stream on it and of the little-endian writer; the
  peer is a function from the bytes it received to the bytes it answers.  The locale \<open>connected\<close>
  puts it beside the protobuf runtime and proves what \<open>connect\<close>, \<open>set_timeout\<close> and \<open>send\<close> do
  there.  The loopback network is an executable one that satisfies the laws.
\<close>

unbundle bit_operations_syntax

section \<open>Frames\<close>

definition le32 :: "u32 \<Rightarrow> bytes" where
  "le32 v = [ucast v, ucast (drop_bit 8 v), ucast (drop_bit 16 v), ucast (drop_bit 24 v)]"

definition le32_value :: "bytes \<Rightarrow> u32" where
  "le32_value b =
     ucast (b ! 0) OR push_bit 8 (ucast (b ! 1)) OR push_bit 16 (ucast (b ! 2))
       OR push_bit 24 (ucast (b ! 3))"

lemma length_le32 [simp]: "length (le32 v) = 4" and le32_nonempty [simp]: "le32 v \<noteq> []"
  by (simp_all add: le32_def)

lemma le32_value_le32 [simp]: "le32_value (le32 v) = v"
proof (rule bit_word_eqI)
  fix n
  assume "n < LENGTH(32)"
  then show "bit (le32_value (le32 v)) n = bit v n"
    by (cases "24 \<le> n"; cases "16 \<le> n") (auto simp: le32_def le32_value_def bit_simps)
qed

text \<open>A message on the connection: its length as 4 bytes, then its bytes.\<close>

definition frame :: "bytes \<Rightarrow> bytes" where
  "frame b = le32 (of_nat (length b)) @ b"

lemma frame_nonempty [simp]: "frame b \<noteq> []"
  by (simp add: frame_def le32_def)

section \<open>The contract of the network\<close>

locale transport =
  fixes net :: "('a, 'h, 'c, 'w) net"
    and live :: "'h \<Rightarrow> 'w \<Rightarrow> bool" and outgoing incoming :: "'h \<Rightarrow> 'w \<Rightarrow> bytes"
    and reading :: "'h \<Rightarrow> 'c \<Rightarrow> 'w \<Rightarrow> bool" and buffered :: "'c \<Rightarrow> 'w \<Rightarrow> bytes"
    and serve :: "bytes \<Rightarrow> bytes"
  assumes connects: "net_connect net a w = (Inr h, w') \<Longrightarrow>
      live h w' \<and> outgoing h w' = [] \<and> incoming h w' = []"
    and set_write_timeout: "live h w \<Longrightarrow> duration_secs d \<noteq> 0 \<Longrightarrow>
      \<exists>w'. net_set_write_timeout net h (Some d) w = (Inr (), w') \<and> live h w' \<and>
        outgoing h w' = outgoing h w \<and> incoming h w' = incoming h w"
    and set_read_timeout: "live h w \<Longrightarrow> duration_secs d \<noteq> 0 \<Longrightarrow>
      \<exists>w'. net_set_read_timeout net h (Some d) w = (Inr (), w') \<and> live h w' \<and>
        outgoing h w' = outgoing h w \<and> incoming h w' = incoming h w"
    and zero_timeout: "duration_secs d = 0 \<Longrightarrow> duration_nanos d = 0 \<Longrightarrow>
      \<exists>e w'. net_set_write_timeout net h (Some d) w = (Inl e, w')"
    and write_all: "live h w \<Longrightarrow>
      \<exists>w'. net_write_all net h b w = (Inr (), w') \<and> live h w' \<and>
        outgoing h w' = outgoing h w @ b \<and> incoming h w' = incoming h w"
    and flush: "live h w \<Longrightarrow>
      \<exists>w'. net_flush net h w = (Inr (), w') \<and> live h w' \<and>
        outgoing h w' = outgoing h w \<and> incoming h w' = incoming h w"
    and peek: "live h w \<Longrightarrow> incoming h w @ serve (outgoing h w) \<noteq> [] \<Longrightarrow>
      \<exists>n w'. net_peek net h k w = (Inr n, w') \<and> live h w' \<and> outgoing h w' = [] \<and>
        incoming h w' = incoming h w @ serve (outgoing h w)"
    and peek_timeout: "live h w \<Longrightarrow> incoming h w @ serve (outgoing h w) = [] \<Longrightarrow>
      \<exists>e w'. net_peek net h k w = (Inl e, w')"
    and input_new: "live h w \<Longrightarrow> reading h (cis_new net h) w \<and>
      buffered (cis_new net h) w = incoming h w"
    and input_le32: "reading h c w \<Longrightarrow> buffered c w = le32 n @ r \<Longrightarrow>
      \<exists>c' w'. cis_read_raw_little_endian32 net c w = (Inr n, c', w') \<and> reading h c' w' \<and>
        buffered c' w' = r \<and> outgoing h w' = outgoing h w"
    and input_le32_short: "reading h c w \<Longrightarrow> length (buffered c w) < 4 \<Longrightarrow>
      \<exists>e c' w'. cis_read_raw_little_endian32 net c w = (Inl e, c', w')"
    and input_bytes: "reading h c w \<Longrightarrow> buffered c w = b @ r \<Longrightarrow> length b = unat n \<Longrightarrow>
      \<exists>c' w'. cis_read_raw_bytes net c n w = (Inr b, c', w') \<and> reading h c' w' \<and>
        buffered c' w' = r \<and> outgoing h w' = outgoing h w"
    and input_bytes_short: "reading h c w \<Longrightarrow> length (buffered c w) < unat n \<Longrightarrow>
      \<exists>e c' w'. cis_read_raw_bytes net c n w = (Inl e, c', w')"
    and input_end: "reading h c w \<Longrightarrow> buffered c w = [] \<Longrightarrow> live h w \<and> incoming h w = []"
    and write_u32: "write_u32_LittleEndian net v b = Inr (b @ le32 v)"
begin

text \<open>A connection between two commands: nothing is under way in either direction.\<close>

definition idle :: "'h \<Rightarrow> 'w \<Rightarrow> bool" where
  "idle h w \<longleftrightarrow> live h w \<and> outgoing h w = [] \<and> incoming h w = []"

lemma idleI: "live h w \<Longrightarrow> outgoing h w = [] \<Longrightarrow> incoming h w = [] \<Longrightarrow> idle h w"
  and idleD: "idle h w \<Longrightarrow> live h w" "idle h w \<Longrightarrow> outgoing h w = []"
    "idle h w \<Longrightarrow> incoming h w = []"
  by (simp_all add: idle_def)

text \<open>The first frame that arrives is the one returned, whatever follows it.\<close>

lemma receive_frame_first:
  assumes "live h w" and "incoming h w = []" and "serve (outgoing h w) = frame b @ rest"
    and "length b < 2 ^ 32"
  shows "\<exists>c w'. receive_frame net h w = (Inr b, w') \<and> reading h c w' \<and> buffered c w' = rest \<and>
    outgoing h w' = []"
proof -
  let ?n = "of_nat (length b) :: u32"
  have n: "length b = unat ?n" using assms(4) by (simp add: unat_of_nat take_bit_nat_eq_self)
  obtain k w1 where 1: "net_peek net h 10 w = (Inr k, w1)" "live h w1" "outgoing h w1 = []"
      "incoming h w1 = le32 ?n @ b @ rest"
    using peek [OF assms(1), of 10] assms(2,3) by (auto simp: frame_def)
  obtain c2 w2 where 2: "cis_read_raw_little_endian32 net (cis_new net h) w1 = (Inr ?n, c2, w2)"
      "reading h c2 w2" "buffered c2 w2 = b @ rest" "outgoing h w2 = []"
    using input_new [OF 1(2)] input_le32 [of h "cis_new net h" w1 ?n "b @ rest"] 1(3,4) by auto
  obtain c3 w3 where 3: "cis_read_raw_bytes net c2 ?n w2 = (Inr b, c3, w3)"
      "reading h c3 w3" "buffered c3 w3 = rest" "outgoing h w3 = []"
    using input_bytes [OF 2(2,3) n] 2(4) by auto
  with 1(1) 2(1) show ?thesis by (auto simp: receive_frame_def)
qed

lemma receive_frame_reads:
  assumes "live h w" and "incoming h w = []" and "serve (outgoing h w) = frame b"
    and "length b < 2 ^ 32"
  shows "\<exists>w'. receive_frame net h w = (Inr b, w') \<and> idle h w'"
  using receive_frame_first [OF assms(1,2) _ assms(4), of "[]"] assms(3) input_end
  by (fastforce simp: idle_def)

text \<open>No reply: the command is reported as timed out.\<close>

lemma receive_frame_timeout:
  assumes "live h w" and "incoming h w = []" and "serve (outgoing h w) = []"
  shows "\<exists>e w'. receive_frame net h w = (Inl (Error (ErrorKind (SysadminConnectionError
    (''Unable to read response, command may have timed out: '' @ e)))), w')"
  using peek_timeout [OF assms(1), of 10] assms(2,3) by (auto simp: receive_frame_def)

text \<open>A reply that is cut off inside its length or inside its body.\<close>

lemma receive_frame_short:
  assumes "live h w" and "incoming h w = []" and "serve (outgoing h w) \<noteq> []"
  shows receive_frame_no_size: "length (serve (outgoing h w)) < 4 \<Longrightarrow>
      \<exists>e w'. receive_frame net h w =
        (Inl (Error (Context ''error reading message size'' (ProtobufCause e))), w')"
    and receive_frame_no_body: "serve (outgoing h w) = le32 n @ b \<Longrightarrow> length b < unat n \<Longrightarrow>
      \<exists>e w'. receive_frame net h w =
        (Inl (Error (Context ''error reading response from sysadmin'' (ProtobufCause e))), w')"
proof -
  obtain k w1 where 1: "net_peek net h 10 w = (Inr k, w1)" "live h w1"
      "incoming h w1 = serve (outgoing h w)"
    using peek [OF assms(1), of 10] assms(2,3) by auto
  note new = input_new [OF 1(2)]
  show "\<exists>e w'. receive_frame net h w =
      (Inl (Error (Context ''error reading message size'' (ProtobufCause e))), w')"
    if "length (serve (outgoing h w)) < 4"
    using input_le32_short [of h "cis_new net h" w1] new 1 that by (auto simp: receive_frame_def)
  show "\<exists>e w'. receive_frame net h w =
      (Inl (Error (Context ''error reading response from sysadmin'' (ProtobufCause e))), w')"
    if reply: "serve (outgoing h w) = le32 n @ b" and body: "length b < unat n"
  proof -
    obtain c2 w2 where 2: "cis_read_raw_little_endian32 net (cis_new net h) w1 = (Inr n, c2, w2)"
        "reading h c2 w2" "buffered c2 w2 = b"
      using input_le32 [of h "cis_new net h" w1 n b] new 1(3) reply by auto
    show ?thesis
      using input_bytes_short [OF 2(2), of n] 1(1) 2(1,3) body by (auto simp: receive_frame_def)
  qed
qed

lemma connect_connects:
  assumes "net_connect net a w = (Inr h, w1)" and "duration_secs (client_timeout client) \<noteq> 0"
  shows "\<exists>w'. connect net client a w = (Inr (), client\<lparr>client_stream := Some h\<rparr>, w') \<and> idle h w'"
proof -
  let ?d = "client_timeout client"
  note 1 = connects [OF assms(1)]
  obtain w2 where 2: "net_set_write_timeout net h (Some ?d) w1 = (Inr (), w2)" "live h w2"
      "outgoing h w2 = []" "incoming h w2 = []"
    using set_write_timeout [of h w1 ?d] 1 assms(2) by auto
  obtain w3 where "net_set_read_timeout net h (Some ?d) w2 = (Inr (), w3)" "live h w3"
      "outgoing h w3 = []" "incoming h w3 = []"
    using set_read_timeout [OF 2(2) assms(2)] 2(3,4) by auto
  with assms(1) 2(1) show ?thesis by (simp add: connect_def idle_def)
qed

lemma set_timeout_sets:
  assumes "client_stream client = Some h" and "idle h w" and "duration_secs d \<noteq> 0"
  shows "\<exists>w'. set_timeout net client d w = (Inr (), client\<lparr>client_timeout := d\<rparr>, w') \<and> idle h w'"
proof -
  obtain w1 where 1: "net_set_write_timeout net h (Some d) w = (Inr (), w1)" "live h w1"
      "outgoing h w1 = []" "incoming h w1 = []"
    using set_write_timeout [of h w d] assms(2,3) by (auto simp: idle_def)
  obtain w2 where "net_set_read_timeout net h (Some d) w1 = (Inr (), w2)" "live h w2"
      "outgoing h w2 = []" "incoming h w2 = []"
    using set_read_timeout [OF 1(2) assms(3)] 1(3,4) by auto
  with 1(1) show ?thesis by (simp add: set_timeout_def assms(1) idle_def)
qed

end

section \<open>Commands over a connection\<close>

text \<open>The peer answers the client's command with payload \<open>p\<close> by the response \<open>r\<close>.\<close>

definition answers ::
  "(bytes \<Rightarrow> bytes) \<Rightarrow> 'h SysadminClient \<Rightarrow> Command_oneof_payload \<Rightarrow> ctl_Response \<Rightarrow> bool" where
  "answers serve client p r \<longleftrightarrow>
     (let b = ctl_Command_wire (command (client_id client) (client_xid client) p)
      in small b \<and> small (ctl_Response_wire r) \<and> serve (frame b) = frame (ctl_Response_wire r))"

text \<open>Several commands in a row on one connection.\<close>

primrec session ::
  "protobuf \<Rightarrow> ('a, 'h, 'c, 'w) net \<Rightarrow> 'h SysadminClient \<Rightarrow> ctl_Command list \<Rightarrow> 'w
     \<Rightarrow> ((fault + ctl_Response) list \<times> 'w) option" where
  "session rt net client [] w = Some ([], w)"
| "session rt net client (c # cs) w =
     (case send rt net client c w of
        None \<Rightarrow> None
      | Some (r, w) \<Rightarrow> map_option (\<lambda>(rs, w). (r # rs, w)) (session rt net client cs w))"

locale connected = protobuf_runtime rt +
    transport net live outgoing incoming reading buffered serve
  for rt and net :: "('a, 'h, 'c, 'w) net" and live outgoing incoming reading buffered serve
begin

text \<open>
  A complete command is written as one frame: neither assertion of \<open>send\<close> fails, and the length
  in front is the length of the encoding.
\<close>

lemma write_bytes_command:
  assumes "ctl_Command_is_initialized c" and "ctl_Command_ok c" and "small (ctl_Command_wire c)"
  shows "write_to_bytes (pb_entry_Command rt) (ctl_Command_message rt)
      (snd (ctl_Command_compute_size rt c)) = Inr (ctl_Command_wire c)"
  using Command.write_to_bytes_wire [of "snd (ctl_Command_compute_size rt c)"] assms
  by (simp add: Command.after_size)

lemma send_frame_writes:
  assumes "ctl_Command_is_initialized c" and "ctl_Command_ok c" and "small (ctl_Command_wire c)"
    and "live h w"
  shows "\<exists>w'. send_frame rt net h c w = (Inr (), w') \<and> live h w' \<and>
      outgoing h w' = outgoing h w @ frame (ctl_Command_wire c) \<and> incoming h w' = incoming h w"
proof -
  let ?b = "ctl_Command_wire c"
  let ?n = "of_nat (length ?b) :: u32"
  obtain w1 where 1: "net_write_all net h (le32 ?n) w = (Inr (), w1)" "live h w1"
      "outgoing h w1 = outgoing h w @ le32 ?n" "incoming h w1 = incoming h w"
    using write_all [OF assms(4)] by blast
  obtain w2 where 2: "net_write_all net h ?b w1 = (Inr (), w2)" "live h w2"
      "outgoing h w2 = outgoing h w1 @ ?b" "incoming h w2 = incoming h w"
    using write_all [OF 1(2)] 1(4) by metis
  obtain w3 where 3: "net_flush net h w2 = (Inr (), w3)" "live h w3"
      "outgoing h w3 = outgoing h w2" "incoming h w3 = incoming h w"
    using flush [OF 2(2)] 2(4) by metis
  have "send_frame rt net h c w = (Inr (), w3)"
    using 1(1) 2(1) 3(1)
    by (simp add: send_frame_def assms write_bytes_command Command.size_wire split_beta write_u32)
  with 1(3) 2(3) 3(2-4) show ?thesis by (simp add: frame_def)
qed

lemma send_exchange:
  assumes "client_stream client = Some h" and "idle h w"
    and "ctl_Command_is_initialized c" and "ctl_Command_ok c" and "small (ctl_Command_wire c)"
    and "serve (frame (ctl_Command_wire c)) = frame (ctl_Response_wire r)"
    and "ctl_Response_is_initialized r" and "ctl_Response_ok r" and "small (ctl_Response_wire r)"
  shows "\<exists>w'. send rt net client c w = Some (Inr (ctl_Response_norm r), w') \<and> idle h w'"
proof -
  obtain w1 where 1: "send_frame rt net h c w = (Inr (), w1)" "live h w1"
      "outgoing h w1 = frame (ctl_Command_wire c)" "incoming h w1 = []"
    using send_frame_writes [OF assms(3-5) idleD(1) [OF assms(2)]] idleD(2,3) [OF assms(2)] by auto
  obtain w2 where "receive_frame net h w1 = (Inr (ctl_Response_wire r), w2)" "idle h w2"
    using receive_frame_reads [OF 1(2,4), of "ctl_Response_wire r"] 1(3) assms(6,9)
    by (auto simp: small_def)
  with 1(1) assms(1) Response.parse_wire [OF assms(8,9,7)] show ?thesis
    by (simp add: send_def)
qed

text \<open>The command of a payload, answered by a response.\<close>

lemma send_answered:
  assumes "client_stream client = Some h" and "idle h w" and "answers serve client p r"
    and "Command_oneof_payload_init p" and "Command_oneof_payload_ok p"
    and "ctl_Response_is_initialized r" and "ctl_Response_ok r"
  shows "\<exists>w'. send rt net client (command (client_id client) (client_xid client) p) w
      = Some (Inr (ctl_Response_norm r), w') \<and> idle h w'"
  using assms by (intro send_exchange) (simp_all add: answers_def command_facts(1-3) Let_def)

lemma respond_answered:
  assumes "client_stream client = Some h" and "idle h w" and "answers serve client p r"
    and "Command_oneof_payload_init p" and "Command_oneof_payload_ok p"
    and "ctl_Response_is_initialized r" and "ctl_Response_ok r"
    and "into (ctl_Response_norm r) = Inr x"
  shows "\<exists>w'. respond (send rt net client (command (client_id client) (client_xid client) p) w) into
      = Some (Inr x, w') \<and> idle h w'"
  using send_answered [OF assms(1-7)] assms(8) by auto

lemma respond_panics:
  assumes "client_stream client = Some h" and "idle h w" and "answers serve client p r"
    and "Command_oneof_payload_init p" and "Command_oneof_payload_ok p"
    and "ctl_Response_is_initialized r" and "ctl_Response_ok r"
    and "into (ctl_Response_norm r) = Inl e"
  shows "\<exists>w'. respond (send rt net client (command (client_id client) (client_xid client) p) w) into
      = Some (Inl (Panic e), w') \<and> idle h w'"
  using send_answered [OF assms(1-7)] assms(8) by auto

lemma session_exchange:
  assumes "client_stream client = Some h" and "idle h w"
    and "\<forall>c\<in>set cs. ctl_Command_is_initialized c \<and> ctl_Command_ok c \<and> small (ctl_Command_wire c) \<and>
      ctl_Response_is_initialized (reply c) \<and> ctl_Response_ok (reply c) \<and>
      small (ctl_Response_wire (reply c)) \<and>
      serve (frame (ctl_Command_wire c)) = frame (ctl_Response_wire (reply c))"
  shows "\<exists>w'. session rt net client cs w
      = Some (map (\<lambda>c. Inr (ctl_Response_norm (reply c))) cs, w') \<and> idle h w'"
  using assms(2,3)
proof (induction cs arbitrary: w)
  case Nil
  then show ?case by simp
next
  case (Cons c cs)
  obtain w1 where 1: "send rt net client c w = Some (Inr (ctl_Response_norm (reply c)), w1)"
      "idle h w1"
    using send_exchange [OF assms(1) Cons.prems(1), of c "reply c"] Cons.prems(2) by auto
  obtain w2 where "session rt net client cs w1
      = Some (map (\<lambda>c. Inr (ctl_Response_norm (reply c))) cs, w2)" "idle h w2"
    using Cons.IH [OF 1(2)] Cons.prems(2) by auto
  with 1(1) show ?case by simp
qed

lemma send_timeout:
  assumes "client_stream client = Some h" and "idle h w"
    and "ctl_Command_is_initialized c" and "ctl_Command_ok c" and "small (ctl_Command_wire c)"
    and "serve (frame (ctl_Command_wire c)) = []"
  shows "\<exists>e w'. send rt net client c w = Some (Inl (Error (ErrorKind (SysadminConnectionError
    (''Unable to read response, command may have timed out: '' @ e)))), w')"
proof -
  obtain w1 where 1: "send_frame rt net h c w = (Inr (), w1)" "live h w1"
      "outgoing h w1 = frame (ctl_Command_wire c)" "incoming h w1 = []"
    using send_frame_writes [OF assms(3-5) idleD(1) [OF assms(2)]] idleD(2,3) [OF assms(2)] by auto
  show ?thesis
    using receive_frame_timeout [OF 1(2,4)] 1(1,3) assms(1,6) by (auto simp: send_def)
qed

lemma send_short:
  assumes "client_stream client = Some h" and "idle h w"
    and "ctl_Command_is_initialized c" and "ctl_Command_ok c" and "small (ctl_Command_wire c)"
    and "serve (frame (ctl_Command_wire c)) = le32 n @ b" and "length b < unat n"
  shows "\<exists>e w'. send rt net client c w = Some (Inl (Error
    (Context ''error reading response from sysadmin'' (ProtobufCause e))), w')"
proof -
  obtain w1 where 1: "send_frame rt net h c w = (Inr (), w1)" "live h w1"
      "outgoing h w1 = frame (ctl_Command_wire c)" "incoming h w1 = []"
    using send_frame_writes [OF assms(3-5) idleD(1) [OF assms(2)]] idleD(2,3) [OF assms(2)] by auto
  show ?thesis
    using receive_frame_no_body [OF 1(2,4), of n b] 1(1,3) assms(1,6,7) by (auto simp: send_def)
qed

lemma send_unparsable:
  assumes "client_stream client = Some h" and "idle h w"
    and "ctl_Command_is_initialized c" and "ctl_Command_ok c" and "small (ctl_Command_wire c)"
    and "serve (frame (ctl_Command_wire c)) = frame b" and "small b"
    and "parse_from_bytes (pb_entry_Response rt) (ctl_Response_message rt) b = Some (Inl e)"
  shows "\<exists>w'. send rt net client c w = Some (Inl (Error
    (Context ''error parsing response from sysadmin'' (ProtobufCause e))), w') \<and> idle h w'"
proof -
  obtain w1 where 1: "send_frame rt net h c w = (Inr (), w1)" "live h w1"
      "outgoing h w1 = frame (ctl_Command_wire c)" "incoming h w1 = []"
    using send_frame_writes [OF assms(3-5) idleD(1) [OF assms(2)]] idleD(2,3) [OF assms(2)] by auto
  obtain w2 where "receive_frame net h w1 = (Inr b, w2)" "idle h w2"
    using receive_frame_reads [OF 1(2,4), of b] 1(3) assms(6,7) by (auto simp: small_def)
  with 1(1) assms(1,8) show ?thesis by (simp add: send_def)
qed

end

section \<open>The loopback network\<close>

text \<open>
  One connection to a peer \<open>serve\<close>, held as the two byte queues.  The coded input stream takes all
  bytes that have arrived into its buffer, and they are lost with it.
\<close>

record loopback =
  lo_open :: bool
  lo_out :: bytes
  lo_in :: bytes

definition lo_timeout :: "Duration option \<Rightarrow> loopback \<Rightarrow> (io_error + unit) \<times> loopback" where
  "lo_timeout d w =
     (case d of
        Some t \<Rightarrow> if duration_secs t = 0 \<and> duration_nanos t = 0
                  then (Inl (io_Error ''cannot set a 0 duration timeout''), w) else (Inr (), w)
      | None \<Rightarrow> (Inr (), w))"

definition lo_write :: "bytes \<Rightarrow> loopback \<Rightarrow> (io_error + unit) \<times> loopback" where
  "lo_write b w =
     (if lo_open w then (Inr (), w\<lparr>lo_out := lo_out w @ b\<rparr>) else (Inl (io_Error ''Broken pipe''), w))"

definition lo_peek :: "(bytes \<Rightarrow> bytes) \<Rightarrow> nat \<Rightarrow> loopback \<Rightarrow> (io_error + nat) \<times> loopback" where
  "lo_peek serve k w =
     (let b = lo_in w @ serve (lo_out w)
      in if b = [] then (Inl (io_Error ''Resource temporarily unavailable''), w)
         else (Inr (min k (length b)), w\<lparr>lo_in := b, lo_out := []\<rparr>))"

definition lo_le32 :: "bytes \<Rightarrow> loopback \<Rightarrow> (ProtobufError + u32) \<times> bytes \<times> loopback" where
  "lo_le32 c w =
     (let b = c @ lo_in w; w = w\<lparr>lo_in := []\<rparr>
      in if length b < 4 then (Inl (WireError ''unexpected EOF''), b, w)
         else (Inr (le32_value (take 4 b)), drop 4 b, w))"

definition lo_bytes ::
  "bytes \<Rightarrow> u32 \<Rightarrow> loopback \<Rightarrow> (ProtobufError + bytes) \<times> bytes \<times> loopback" where
  "lo_bytes c n w =
     (let b = c @ lo_in w; w = w\<lparr>lo_in := []\<rparr>
      in if length b < unat n then (Inl (WireError ''unexpected EOF''), b, w)
         else (Inr (take (unat n) b), drop (unat n) b, w))"

definition loopback_net :: "(bytes \<Rightarrow> bytes) \<Rightarrow> (bool, unit, bytes, loopback) net" where
  "loopback_net serve =
     \<lparr>net_connect = (\<lambda>up w. if up then (Inr (), \<lparr>lo_open = True, lo_out = [], lo_in = []\<rparr>)
        else (Inl (io_Error ''Connection refused''), w)),
      net_set_write_timeout = (\<lambda>_. lo_timeout),
      net_set_read_timeout = (\<lambda>_. lo_timeout),
      net_write_all = (\<lambda>_. lo_write),
      net_flush = (\<lambda>_ w. (Inr (), w)),
      net_peek = (\<lambda>_. lo_peek serve),
      cis_new = (\<lambda>_. []),
      cis_read_raw_little_endian32 = lo_le32,
      cis_read_raw_bytes = lo_bytes,
      write_u32_LittleEndian = (\<lambda>v b. Inr (b @ le32 v))\<rparr>"

lemmas loopback_defs =
  loopback_net_def lo_timeout_def lo_write_def lo_peek_def lo_le32_def lo_bytes_def

interpretation lo: transport "loopback_net serve" "\<lambda>_. lo_open" "\<lambda>_. lo_out" "\<lambda>_. lo_in"
  "\<lambda>_ _. lo_open" "\<lambda>c w. c @ lo_in w" serve for serve
  by unfold_locales (auto simp: loopback_defs Let_def split: if_splits)

end
