(* ===== verification/Sysadmin_Example.thy ===== *)
theory Sysadmin_Example
  imports Transport
begin

text \<open>
  The example program of the client library (\<open>clients/rust/examples/sysadmin-example.rs\<close>): \<open>run\<close>
  connects, sends eight commands and checks three of the replies, \<open>main\<close> turns its outcome into
  the exit code.

  What it prints is the list of its \<open>println!\<close> calls, each the format and the values shown, not
  their text.  Reading the address \<open>"127.0.0.1:4000"\<close> (\<open>ToSocketAddrs\<close>) is a parameter.
\<close>

section \<open>The program\<close>

datatype shown =
    Debug_GenericResponse GenericResponse
  | Debug_CommitResponse CommitResponse
  | Debug_DumpResponse DumpResponse
  | Debug_u32 u32
  | Debug_StatusCode StatusCode
  | Debug_String string
  | Debug_SysadminValue SysadminValue
  | Display_Error SysadminError

datatype line = Println string "shown list"

text \<open>
  A part of the program that goes on with \<open>k\<close>: after \<open>cmd.send_command(&mut client)?\<close>, after
  \<open>assert_eq!\<close>, after \<open>for_each\<close>.  \<open>out\<close> is what has been printed.
\<close>

type_synonym 'w running = "((fault + unit) \<times> line list \<times> 'w) option"

definition after_command ::
    "((fault + 'r) \<times> 'w) option \<Rightarrow> line list \<Rightarrow> ('r \<Rightarrow> 'w \<Rightarrow> 'w running) \<Rightarrow> 'w running" where
  "after_command r out k =
     (case r of
        None \<Rightarrow> None
      | Some (Inl e, w) \<Rightarrow> Some (Inl e, out, w)
      | Some (Inr x, w) \<Rightarrow> k x w)"

definition assert_eq :: "'a \<Rightarrow> 'a \<Rightarrow> line list \<Rightarrow> 'w \<Rightarrow> 'w running \<Rightarrow> 'w running" where
  "assert_eq l r out w k =
     (if l = r then k
      else Some (Inl (Panic (Panicked ''assertion failed: `(left == right)`'')), out, w))"

primrec print_kvs :: "kvs list \<Rightarrow> line list \<Rightarrow> 'w \<Rightarrow> (line list \<Rightarrow> 'w running) \<Rightarrow> 'w running" where
  "print_kvs [] out w k = k out"
| "print_kvs (kv # kvs) out w k =
     (case kvs_value kv of
        None \<Rightarrow>
          Some (Inl (Panic (Panicked ''called `Option::unwrap()` on a `None` value'')), out, w)
      | Some v \<Rightarrow>
          print_kvs kvs
            (out @ [Println ''GetResponse.kvs key={:?} value={:?}''
               [Debug_String (kvs_key kv), Debug_SysadminValue v]]) w k)"

definition example_run ::
    "protobuf \<Rightarrow> ('a, 'h, 'c, 'w) net \<Rightarrow> (string \<Rightarrow> 'a) \<Rightarrow> 'w \<Rightarrow> 'w running" where
  "example_run rt net to_socket_addr w =
     (let client = SysadminClient_default;
          (r, client, w) = connect net client (to_socket_addr ''127.0.0.1:4000'') w
      in case r of
           Inl e \<Rightarrow> Some (Inl (Error e), [], w)
         | Inr _ \<Rightarrow>
     let set_struct = Set_new ''foo'' (SysadminValue_from_i32 3)
     in after_command (Set_send_command rt net set_struct client w) [] (\<lambda>set_resp w.
     let out = [Println ''{:?}'' [Debug_GenericResponse set_resp]];
         commit_struct = Commit_default
     in after_command (Commit_send_command rt net commit_struct client w) out (\<lambda>com_resp w.
     assert_eq (CommitResponse_status com_resp) SUCCESS out w (
     let out = out @ [Println ''{:?}'' [Debug_CommitResponse com_resp]];
         set_struct = Set_new ''bar'' (SysadminValue_from_i32 3)
     in after_command (Set_send_command rt net set_struct client w) out (\<lambda>bar_set_response w.
     let out = out @ [Println ''{:?}'' [Debug_GenericResponse bar_set_response]]
     in after_command (Drop_send_command rt net Drop_default client w) out (\<lambda>drop_res w.
     let out = out @ [Println ''DROP RESULT {:?}'' [Debug_GenericResponse drop_res]]
     in after_command (Commit_send_command rt net (Commit_new NO_HOOKS) client w) out (\<lambda>com_resp w.
     assert_eq (CommitResponse_status com_resp) SUCCESS out w (
     let out = out @ [Println ''{:?}'' [Debug_CommitResponse com_resp]]
     in after_command (Get_send_command rt net (Get_new ''foo'') client w) out (\<lambda>get_resp w.
     let out = out @ [Println ''GetResponse.id {:?}'' [Debug_u32 (GetResponse_id get_resp)],
                      Println ''GetResponse.status {:?}'' [Debug_StatusCode (GetResponse_status get_resp)]]
     in print_kvs (GetResponse_kvs get_resp) out w (\<lambda>out.
     after_command (Get_send_command rt net (Get_new ''bar'') client w) out (\<lambda>get_bar_resp w.
     assert_eq (GetResponse_status get_bar_resp) KEY_NOT_FOUND out w (
     after_command (DumpHooks_send_command rt net DumpHooks_new client w) out (\<lambda>dumphooks w.
     let out = out @ [Println ''DUMPHOOKS RESULTS {:?}'' [Debug_DumpResponse dumphooks]];
         client = set_xid client 0
     in Some (Inr (), out, w))))))))))))))"

text \<open>The end of the process: \<open>exit\<close> with a code, or a panic of the main thread.\<close>

datatype process_end = Exited i32 | Died panic

definition example_main ::
    "protobuf \<Rightarrow> ('a, 'h, 'c, 'w) net \<Rightarrow> (string \<Rightarrow> 'a) \<Rightarrow> 'w
       \<Rightarrow> (process_end \<times> line list \<times> 'w) option" where
  "example_main rt net to_socket_addr w =
     (case example_run rt net to_socket_addr w of
        None \<Rightarrow> None
      | Some (Inr _, out, w) \<Rightarrow> Some (Exited 0, out, w)
      | Some (Inl (Error err), out, w) \<Rightarrow> Some (Exited 1, out @ [Println ''{}'' [Display_Error err]], w)
      | Some (Inl (Panic p), out, w) \<Rightarrow> Some (Died p, out, w))"

section \<open>Running it\<close>

lemma after_command_simps [simp]:
  "after_command (Some (Inr x, w)) out k = k x w"
  "after_command (Some (Inl e, w)) out k = Some (Inl e, out, w)"
  by (simp_all add: after_command_def)

lemma assert_eq_simps [simp]:
  "assert_eq x x out w k = k"
  by (simp add: assert_eq_def)

definition kv_line :: "kvs \<Rightarrow> line" where
  "kv_line kv =
     Println ''GetResponse.kvs key={:?} value={:?}''
       [Debug_String (kvs_key kv), Debug_SysadminValue (the (kvs_value kv))]"

lemma print_kvs_set:
  "\<forall>kv\<in>set xs. kvs_value kv \<noteq> None \<Longrightarrow> print_kvs xs out w k = k (out @ map kv_line xs)"
  by (induction xs arbitrary: out) (auto simp: kv_line_def)

text \<open>The commands of the example over a connection.\<close>

context connected begin

lemma Set_answered:
  assumes "client_stream client = Some h" and "idle h w"
    and "answers serve client (Set_payload cmd) (response i s None)"
    and "string_ok (Set_key cmd)" and "value_ok (Set_value cmd)"
  shows "\<exists>w'. Set_send_command rt net cmd client w
      = Some (Inr \<lparr>GenericResponse_id = i, GenericResponse_status = s\<rparr>, w') \<and> idle h w'"
  unfolding Set_send_command_def Set.request_eq
  by (rule respond_answered [OF assms(1-3)])
    (simp_all add: assms Set.payload_init Set.payload_ok response_facts GenericResponse_from_response)

lemma Drop_answered:
  assumes "client_stream client = Some h" and "idle h w"
    and "answers serve client (Drop_payload cmd) (response i s None)"
  shows "\<exists>w'. Drop_send_command rt net cmd client w
      = Some (Inr \<lparr>GenericResponse_id = i, GenericResponse_status = s\<rparr>, w') \<and> idle h w'"
  unfolding Drop_send_command_def Drop.request_eq
  by (rule respond_answered [OF assms(1-3)])
    (simp_all add: Drop.payload_init Drop.payload_ok response_facts GenericResponse_from_response)

lemma Commit_answered:
  assumes "client_stream client = Some h" and "idle h w"
    and "answers serve client (Commit_payload cmd)
      (response i s (Some (Response_oneof_payload_commit (commit_message c))))"
  shows "\<exists>w'. Commit_send_command rt net cmd client w
      = Some (Inr \<lparr>CommitResponse_id = i, CommitResponse_status = s, CommitResponse_commit_id = Some c\<rparr>, w')
    \<and> idle h w'"
  unfolding Commit_send_command_def Commit.request_eq
  by (rule respond_answered [OF assms(1-3)])
    (simp_all add: Commit.payload_init Commit.payload_ok response_facts commit_message_facts
      CommitResponse_from_response)

lemma Get_answered:
  assumes "client_stream client = Some h" and "idle h w"
    and "answers serve client (Get_payload cmd)
      (response i s (Some (Response_oneof_payload_get (get_message xs))))"
    and "string_ok (Get_key cmd)" and "list_all kvs_ok xs"
  shows "\<exists>w'. Get_send_command rt net cmd client w
      = Some (Inr \<lparr>GetResponse_id = i, GetResponse_status = s, GetResponse_kvs = xs\<rparr>, w') \<and> idle h w'"
  unfolding Get_send_command_def Get.request_eq
  by (rule respond_answered [OF assms(1-3)])
    (simp_all add: assms Get.payload_init Get.payload_ok response_facts get_message_facts
      GetResponse_from_response)

lemma DumpHooks_answered:
  assumes "client_stream client = Some h" and "idle h w"
    and "answers serve client (DumpHooks_payload cmd)
      (response i s (Some (Response_oneof_payload_dump (dump_message ts ss))))"
    and "list_all string_ok ts" and "list_all string_ok ss"
  shows "\<exists>w'. DumpHooks_send_command rt net cmd client w
      = Some (Inr \<lparr>DumpResponse_id = i, DumpResponse_status = s, DumpResponse_templatehooks = ts,
        DumpResponse_servicehooks = ss\<rparr>, w') \<and> idle h w'"
  unfolding DumpHooks_send_command_def DumpHooks.request_eq
  by (rule respond_answered [OF assms(1-3)])
    (simp_all add: assms DumpHooks.payload_init DumpHooks.payload_ok response_facts dump_message_facts
      DumpResponse_from_response)

end

section \<open>Its peer\<close>

text \<open>
  The replies the example expects, over a connected client with the default ids: any status for the
  two \<open>Set\<close>s and the \<open>Drop\<close>, success for both commits, the pairs \<open>xs\<close> for \<open>foo\<close>, nothing for
  \<open>bar\<close>.
\<close>

record example_replies =
  er_set_foo :: "u32 \<times> StatusCode"
  er_commit :: "u32 \<times> u32"
  er_set_bar :: "u32 \<times> StatusCode"
  er_drop :: "u32 \<times> StatusCode"
  er_commit_no_hooks :: "u32 \<times> u32"
  er_get_foo :: "u32 \<times> StatusCode \<times> kvs list"
  er_get_bar :: "u32 \<times> kvs list"
  er_dump :: "u32 \<times> StatusCode \<times> string list \<times> string list"

definition example_dialogue :: "example_replies \<Rightarrow> (Command_oneof_payload \<times> ctl_Response) list" where
  "example_dialogue e =
     [(Set_payload (Set_new ''foo'' (Int32 3)), response (fst (er_set_foo e)) (snd (er_set_foo e)) None),
      (Commit_payload (Commit_new DEFAULT), response (fst (er_commit e)) SUCCESS
        (Some (Response_oneof_payload_commit (commit_message (snd (er_commit e)))))),
      (Set_payload (Set_new ''bar'' (Int32 3)), response (fst (er_set_bar e)) (snd (er_set_bar e)) None),
      (Drop_payload Drop, response (fst (er_drop e)) (snd (er_drop e)) None),
      (Commit_payload (Commit_new NO_HOOKS), response (fst (er_commit_no_hooks e)) SUCCESS
        (Some (Response_oneof_payload_commit (commit_message (snd (er_commit_no_hooks e)))))),
      (Get_payload (Get_new ''foo''), (case er_get_foo e of (i, s, xs) \<Rightarrow>
        response i s (Some (Response_oneof_payload_get (get_message xs))))),
      (Get_payload (Get_new ''bar''), response (fst (er_get_bar e)) KEY_NOT_FOUND
        (Some (Response_oneof_payload_get (get_message (snd (er_get_bar e)))))),
      (DumpHooks_payload DumpHooks, (case er_dump e of (i, s, ts, ss) \<Rightarrow>
        response i s (Some (Response_oneof_payload_dump (dump_message ts ss)))))]"

definition example_replies_ok :: "example_replies \<Rightarrow> bool" where
  "example_replies_ok e \<longleftrightarrow>
     (case er_get_foo e of (i, s, xs) \<Rightarrow> list_all kvs_ok xs \<and> list_all (\<lambda>kv. kvs_value kv \<noteq> None) xs)
     \<and> list_all kvs_ok (snd (er_get_bar e))
     \<and> (case er_dump e of (i, s, ts, ss) \<Rightarrow> list_all string_ok ts \<and> list_all string_ok ss)"

definition example_output :: "example_replies \<Rightarrow> line list" where
  "example_output e =
     [Println ''{:?}'' [Debug_GenericResponse
        \<lparr>GenericResponse_id = fst (er_set_foo e), GenericResponse_status = snd (er_set_foo e)\<rparr>],
      Println ''{:?}'' [Debug_CommitResponse
        \<lparr>CommitResponse_id = fst (er_commit e), CommitResponse_status = SUCCESS,
         CommitResponse_commit_id = Some (snd (er_commit e))\<rparr>],
      Println ''{:?}'' [Debug_GenericResponse
        \<lparr>GenericResponse_id = fst (er_set_bar e), GenericResponse_status = snd (er_set_bar e)\<rparr>],
      Println ''DROP RESULT {:?}'' [Debug_GenericResponse
        \<lparr>GenericResponse_id = fst (er_drop e), GenericResponse_status = snd (er_drop e)\<rparr>],
      Println ''{:?}'' [Debug_CommitResponse
        \<lparr>CommitResponse_id = fst (er_commit_no_hooks e), CommitResponse_status = SUCCESS,
         CommitResponse_commit_id = Some (snd (er_commit_no_hooks e))\<rparr>],
      Println ''GetResponse.id {:?}'' [Debug_u32 (fst (er_get_foo e))],
      Println ''GetResponse.status {:?}'' [Debug_StatusCode (fst (snd (er_get_foo e)))]]
     @ map kv_line (snd (snd (er_get_foo e)))
     @ [Println ''DUMPHOOKS RESULTS {:?}'' [Debug_DumpResponse
          (case er_dump e of (i, s, ts, ss) \<Rightarrow>
            \<lparr>DumpResponse_id = i, DumpResponse_status = s, DumpResponse_templatehooks = ts,
             DumpResponse_servicehooks = ss\<rparr>)]]"

lemma example_keys_ok: "string_ok ''foo''" "string_ok ''bar''"
  by (simp_all add: string_ok_def string_bytes_def)

context connected begin

lemma answers_stream [simp]:
  "answers serve (client\<lparr>client_stream := x\<rparr>) p r = answers serve client p r"
  by (simp add: answers_def)

lemma example_runs:
  assumes "net_connect net (addr ''127.0.0.1:4000'') w = (Inr h, w1)"
    and "list_all (\<lambda>(p, r). answers serve (SysadminClient_default :: 'h SysadminClient) p r) (example_dialogue e)"
    and "example_replies_ok e"
  shows "\<exists>w'. example_run rt net addr w = Some (Inr (), example_output e, w') \<and> idle h w'"
proof -
  let ?c = "SysadminClient_default\<lparr>client_stream := Some h\<rparr>"
  have c: "client_stream ?c = Some h" by simp
  obtain i s xs where foo: "er_get_foo e = (i, s, xs)" by (cases "er_get_foo e") auto
  obtain j t ts ss where dump: "er_dump e = (j, t, ts, ss)" by (cases "er_dump e") auto
  have a: "list_all (\<lambda>(p, r). answers serve ?c p r) (example_dialogue e)"
    using assms(2) by simp
  note a = a [unfolded example_dialogue_def foo dump, simplified prod.case list.pred_inject, simplified]
  have ok: "list_all kvs_ok xs" "\<forall>kv\<in>set xs. kvs_value kv \<noteq> None" "list_all kvs_ok (snd (er_get_bar e))"
      "list_all string_ok ts" "list_all string_ok ss"
    using assms(3) by (simp_all add: example_replies_ok_def foo dump list_all_iff)
  obtain w2 where 2: "connect net SysadminClient_default (addr ''127.0.0.1:4000'') w = (Inr (), ?c, w2)"
      "idle h w2"
    using connect_connects [OF assms(1), of SysadminClient_default]
    by (auto simp: SysadminClient_default_def SysadminClient_new_def Duration_from_secs_def
        DEFAULT_COMMAND_TIMEOUT_def)
  obtain w3 where 3: "Set_send_command rt net (Set_new ''foo'' (Int32 3)) ?c w2 = Some (Inr
      \<lparr>GenericResponse_id = fst (er_set_foo e), GenericResponse_status = snd (er_set_foo e)\<rparr>, w3)"
      "idle h w3"
    using Set_answered [OF c 2(2), of "Set_new ''foo'' (Int32 3)"] a
    by (auto simp: Set_new_def example_keys_ok value_ok_def)
  obtain w4 where 4: "Commit_send_command rt net (Commit_new DEFAULT) ?c w3 = Some (Inr
      \<lparr>CommitResponse_id = fst (er_commit e), CommitResponse_status = SUCCESS,
       CommitResponse_commit_id = Some (snd (er_commit e))\<rparr>, w4)" "idle h w4"
    using Commit_answered [OF c 3(2), of "Commit_new DEFAULT" "fst (er_commit e)" SUCCESS "snd (er_commit e)"] a by auto
  obtain w5 where 5: "Set_send_command rt net (Set_new ''bar'' (Int32 3)) ?c w4 = Some (Inr
      \<lparr>GenericResponse_id = fst (er_set_bar e), GenericResponse_status = snd (er_set_bar e)\<rparr>, w5)"
      "idle h w5"
    using Set_answered [OF c 4(2), of "Set_new ''bar'' (Int32 3)"] a
    by (auto simp: Set_new_def example_keys_ok value_ok_def)
  obtain w6 where 6: "Drop_send_command rt net Drop ?c w5 = Some (Inr
      \<lparr>GenericResponse_id = fst (er_drop e), GenericResponse_status = snd (er_drop e)\<rparr>, w6)"
      "idle h w6"
    using Drop_answered [OF c 5(2), of Drop] a by auto
  obtain w7 where 7: "Commit_send_command rt net (Commit_new NO_HOOKS) ?c w6 = Some (Inr
      \<lparr>CommitResponse_id = fst (er_commit_no_hooks e), CommitResponse_status = SUCCESS,
       CommitResponse_commit_id = Some (snd (er_commit_no_hooks e))\<rparr>, w7)" "idle h w7"
    using Commit_answered [OF c 6(2), of "Commit_new NO_HOOKS" "fst (er_commit_no_hooks e)" SUCCESS
        "snd (er_commit_no_hooks e)"] a by auto
  obtain w8 where 8: "Get_send_command rt net (Get_new ''foo'') ?c w7 = Some (Inr
      \<lparr>GetResponse_id = i, GetResponse_status = s, GetResponse_kvs = xs\<rparr>, w8)" "idle h w8"
    using Get_answered [OF c 7(2), of "Get_new ''foo''" i s xs] a ok(1)
    by (auto simp: Get_new_def example_keys_ok)
  obtain w9 where 9: "Get_send_command rt net (Get_new ''bar'') ?c w8 = Some (Inr
      \<lparr>GetResponse_id = fst (er_get_bar e), GetResponse_status = KEY_NOT_FOUND,
       GetResponse_kvs = snd (er_get_bar e)\<rparr>, w9)" "idle h w9"
    using Get_answered [OF c 8(2), of "Get_new ''bar''" "fst (er_get_bar e)" KEY_NOT_FOUND
        "snd (er_get_bar e)"] a ok(3)
    by (auto simp: Get_new_def example_keys_ok)
  obtain w10 where 10: "DumpHooks_send_command rt net DumpHooks ?c w9 = Some (Inr
      \<lparr>DumpResponse_id = j, DumpResponse_status = t, DumpResponse_templatehooks = ts,
       DumpResponse_servicehooks = ss\<rparr>, w10)" "idle h w10"
    using DumpHooks_answered [OF c 9(2), of DumpHooks j t ts ss] a ok(4,5) by auto
  have "example_run rt net addr w = Some (Inr (), example_output e, w10)"
    by (simp add: example_run_def example_output_def 2(1) 3(1) 4(1) 5(1) 6(1) 7(1) 8(1) 9(1) 10(1)
        Commit_default_def CommitConfig_default_def Drop_default_def Drop_new_def DumpHooks_new_def
        SysadminValue_from_i32_def print_kvs_set [OF ok(2)] foo dump)
  with 10(2) show ?thesis by blast
qed

end

section \<open>A peer to run it against\<close>

definition table_peer :: "(Command_oneof_payload \<times> ctl_Response) list \<Rightarrow> bytes \<Rightarrow> bytes" where
  "table_peer dialogue b =
     (case find (\<lambda>(p, r). frame (ctl_Command_wire (command 1 1 p)) = b) dialogue of
        None \<Rightarrow> []
      | Some (p, r) \<Rightarrow> frame (ctl_Response_wire r))"

lemma table_peer_answers:
  assumes "distinct (map (\<lambda>(p, r). ctl_Command_wire (command 1 1 p)) dialogue)"
    and "list_all (\<lambda>(p, r). small (ctl_Command_wire (command 1 1 p)) \<and> small (ctl_Response_wire r))
      dialogue"
  shows "list_all (\<lambda>(p, r). answers (table_peer dialogue) SysadminClient_default p r) dialogue"
proof -
  have frame_eq: "frame b = frame b' \<longleftrightarrow> b = b'" for b b'
    by (auto simp: frame_def)
  have "find (\<lambda>(p', r'). ctl_Command_wire (command 1 1 p') = ctl_Command_wire (command 1 1 p)) dialogue
      = Some (p, r)" if "(p, r) \<in> set dialogue" for p r
    using assms(1) that by (induction dialogue) (force split: prod.splits)+
  then have "table_peer dialogue (frame (ctl_Command_wire (command 1 1 p))) = frame (ctl_Response_wire r)"
    if "(p, r) \<in> set dialogue" for p r
    using that by (simp add: table_peer_def frame_eq)
  then show ?thesis
    using assms(2) by (auto simp: list_all_iff answers_def SysadminClient_default_def
        SysadminClient_new_def)
qed

definition demo_replies :: example_replies where
  "demo_replies =
     \<lparr>er_set_foo = (1, SUCCESS_KEY_CREATED), er_commit = (1, 7), er_set_bar = (1, SUCCESS_KEY_CREATED),
      er_drop = (1, SUCCESS), er_commit_no_hooks = (1, 8),
      er_get_foo = (1, SUCCESS, [\<lparr>kvs_key = ''foo'', kvs_value = Some (Int32 3)\<rparr>]),
      er_get_bar = (1, []), er_dump = (1, SUCCESS, [''t''], [''s''])\<rparr>"

end
