(* ===== verification/Client_Machine.thy ===== *)
theory Client_Machine
  imports Transport
begin

text \<open>
  The client as a state machine: the calls a program makes on one \<open>SysadminClient\<close>, in any order,
  with what each returned.  The state is the client and the world; the events are the calls of
  \<open>connect\<close>, \<open>set_timeout\<close>, \<open>reset_timeout_to_default\<close>, \<open>set_xid\<close>, \<open>set_id\<close> and of a command.
  The specification is a machine without a network: it knows whether the client is connected, and
  a command on it returns the reply to that command.  Every run of the client over a network that
  leaves idle connections alone is a run of the specification; over a network where a reply may
  come late it is not, since a reply is not matched with its command.
\<close>

section \<open>Calls and runs\<close>

datatype 'a event =
    Connected 'a "SysadminError + unit"
  | TimeoutSet Duration "SysadminError + unit"
  | TimeoutReset "SysadminError + unit"
  | XidSet u32
  | IdSet u32
  | Requested ctl_Command "fault + ctl_Response"

inductive client_step ::
  "protobuf \<Rightarrow> ('a, 'h, 'c, 'w) net \<Rightarrow> 'h SysadminClient \<times> 'w \<Rightarrow> 'a event
     \<Rightarrow> 'h SysadminClient \<times> 'w \<Rightarrow> bool" for rt net where
  step_connect: "connect net client a w = (r, client', w') \<Longrightarrow>
    client_step rt net (client, w) (Connected a r) (client', w')"
| step_set_timeout: "set_timeout net client d w = (r, client', w') \<Longrightarrow>
    client_step rt net (client, w) (TimeoutSet d r) (client', w')"
| step_reset_timeout: "reset_timeout_to_default net client w = (r, client', w') \<Longrightarrow>
    client_step rt net (client, w) (TimeoutReset r) (client', w')"
| step_set_xid: "client_step rt net (client, w) (XidSet x) (set_xid client x, w)"
| step_set_id: "client_step rt net (client, w) (IdSet i) (set_id client i, w)"
| step_request: "send rt net client (command (client_id client) (client_xid client) p) w
      = Some (r, w') \<Longrightarrow>
    client_step rt net (client, w)
      (Requested (command (client_id client) (client_xid client) p) r) (client, w')"

inductive client_run ::
  "protobuf \<Rightarrow> ('a, 'h, 'c, 'w) net \<Rightarrow> 'h SysadminClient \<times> 'w \<Rightarrow> 'a event list
     \<Rightarrow> 'h SysadminClient \<times> 'w \<Rightarrow> bool" for rt net where
  run_nil [simp, intro]: "client_run rt net s [] s"
| run_cons [intro]: "client_step rt net s e s' \<Longrightarrow> client_run rt net s' es s'' \<Longrightarrow>
    client_run rt net s (e # es) s''"

inductive_cases ConnectedE: "client_step rt net (client, w) (Connected a r) t"
inductive_cases TimeoutSetE: "client_step rt net (client, w) (TimeoutSet d r) t"
inductive_cases TimeoutResetE: "client_step rt net (client, w) (TimeoutReset r) t"
inductive_cases XidSetE: "client_step rt net (client, w) (XidSet x) t"
inductive_cases IdSetE: "client_step rt net (client, w) (IdSet i) t"
inductive_cases RequestedE: "client_step rt net (client, w) (Requested c r) t"

inductive_simps client_run_simps [simp]:
  "client_run rt net s [] t"
  "client_run rt net s (e # es) t"

text \<open>A call from a state has one outcome.\<close>

lemma client_step_deterministic:
  "client_step rt net s e t \<Longrightarrow> client_step rt net s e t' \<Longrightarrow> t = t'"
  by (induction rule: client_step.induct)
    (auto elim: ConnectedE TimeoutSetE TimeoutResetE XidSetE IdSetE RequestedE)

text \<open>The \<open>request\<close> of every command type is such a step.\<close>

context client_command
begin

lemma request_steps:
  "request rt net client set_payload (into_buf cmd) w = Some (r, w') \<Longrightarrow>
    client_step rt net (client, w)
      (Requested (command (client_id client) (client_xid client) (payload cmd)) r) (client, w')"
  by (simp add: request_eq step_request)

end

section \<open>The specification\<close>

record client_view =
  view_timeout :: Duration
  view_xid :: u32
  view_id :: u32
  view_connected :: bool

definition client_view_of :: "'h SysadminClient \<Rightarrow> client_view" where
  "client_view_of client =
     \<lparr>view_timeout = client_timeout client, view_xid = client_xid client,
      view_id = client_id client, view_connected = (client_stream client \<noteq> None)\<rparr>"

lemma client_view_of_simps [simp]:
  "client_view_of (client\<lparr>client_timeout := d\<rparr>) = (client_view_of client)\<lparr>view_timeout := d\<rparr>"
  "client_view_of (client\<lparr>client_stream := Some h\<rparr>)
     = (client_view_of client)\<lparr>view_connected := True\<rparr>"
  "client_view_of (set_xid client x) = (client_view_of client)\<lparr>view_xid := x\<rparr>"
  "client_view_of (set_id client i) = (client_view_of client)\<lparr>view_id := i\<rparr>"
  "view_timeout (client_view_of client) = client_timeout client"
  "view_xid (client_view_of client) = client_xid client"
  "view_id (client_view_of client) = client_id client"
  "view_connected (client_view_of client) \<longleftrightarrow> client_stream client \<noteq> None"
  by (simp_all add: client_view_of_def set_xid_def set_id_def)

text \<open>
  The outcomes of \<open>set_timeout\<close>: without a connection it changes nothing; with one it keeps the
  timeout, and may fail only if that is below a second.
\<close>

inductive timeout_spec :: "client_view \<Rightarrow> Duration \<Rightarrow> (SysadminError + unit) \<Rightarrow> client_view \<Rightarrow> bool"
where
  timeout_unconnected: "\<not> view_connected v \<Longrightarrow> timeout_spec v d (Inl (ErrorKind (SysadminConnectionError
    ''Command issued before connection was initialized''))) v"
| timeout_accepted: "view_connected v \<Longrightarrow> timeout_spec v d (Inr ()) (v\<lparr>view_timeout := d\<rparr>)"
| timeout_refused: "view_connected v \<Longrightarrow> duration_secs d = 0 \<Longrightarrow>
    timeout_spec v d (Inl (Context m (IoCause e))) (v\<lparr>view_timeout := d\<rparr>)"

text \<open>The machine of a server that answers the command \<open>c\<close> with the response \<open>reply c\<close>.\<close>

inductive spec_step ::
  "(ctl_Command \<Rightarrow> ctl_Response) \<Rightarrow> client_view \<Rightarrow> 'a event \<Rightarrow> client_view \<Rightarrow> bool" for reply where
  spec_connected: "spec_step reply v (Connected a (Inr ())) (v\<lparr>view_connected := True\<rparr>)"
| spec_connect_failed: "spec_step reply v (Connected a (Inl (Context m (IoCause e)))) v"
| spec_set_timeout: "timeout_spec v d r v' \<Longrightarrow> spec_step reply v (TimeoutSet d r) v'"
| spec_reset_timeout: "timeout_spec v (Duration_from_secs DEFAULT_COMMAND_TIMEOUT) r v' \<Longrightarrow>
    spec_step reply v (TimeoutReset r) v'"
| spec_set_xid: "spec_step reply v (XidSet x) (v\<lparr>view_xid := x\<rparr>)"
| spec_set_id: "spec_step reply v (IdSet i) (v\<lparr>view_id := i\<rparr>)"
| spec_request: "view_connected v \<Longrightarrow> c = command (view_id v) (view_xid v) p \<Longrightarrow>
    spec_step reply v (Requested c (Inr (ctl_Response_norm (reply c)))) v"
| spec_request_unconnected: "\<not> view_connected v \<Longrightarrow> c = command (view_id v) (view_xid v) p \<Longrightarrow>
    spec_step reply v (Requested c (Inl not_connected)) v"

inductive spec_run ::
  "(ctl_Command \<Rightarrow> ctl_Response) \<Rightarrow> client_view \<Rightarrow> 'a event list \<Rightarrow> client_view \<Rightarrow> bool" for reply where
  spec_nil [simp, intro]: "spec_run reply v [] v"
| spec_cons [intro]: "spec_step reply v e v' \<Longrightarrow> spec_run reply v' es v'' \<Longrightarrow>
    spec_run reply v (e # es) v''"

text \<open>What the specification promises: no command gets the reply to another one.\<close>

inductive_cases spec_RequestedE: "spec_step reply v (Requested c r) v'"

lemma spec_run_replies:
  "spec_run reply v es v' \<Longrightarrow> Requested c (Inr r) \<in> set es \<Longrightarrow> r = ctl_Response_norm (reply c)"
  by (induction rule: spec_run.induct) (auto elim: spec_RequestedE)

section \<open>Every run is a run of the specification\<close>

text \<open>
  A network on which opening a connection and setting timeouts, successful or not, leaves every
  idle connection idle.
\<close>

locale quiet = transport +
  assumes connect_quiet: "net_connect net a w = (x, w') \<Longrightarrow> idle h w \<Longrightarrow> idle h w'"
    and write_timeout_quiet: "net_set_write_timeout net g d w = (r, w') \<Longrightarrow> idle h w \<Longrightarrow> idle h w'"
    and read_timeout_quiet: "net_set_read_timeout net g d w = (r, w') \<Longrightarrow> idle h w \<Longrightarrow> idle h w'"

text \<open>The command \<open>c\<close> can be sent, and the peer answers it with the response \<open>r\<close>.\<close>

definition served :: "(bytes \<Rightarrow> bytes) \<Rightarrow> ctl_Command \<Rightarrow> ctl_Response \<Rightarrow> bool" where
  "served serve c r \<longleftrightarrow>
     ctl_Command_is_initialized c \<and> ctl_Command_ok c \<and> small (ctl_Command_wire c) \<and>
     serve (frame (ctl_Command_wire c)) = frame (ctl_Response_wire r) \<and>
     ctl_Response_is_initialized r \<and> ctl_Response_ok r \<and> small (ctl_Response_wire r)"

primrec event_served ::
  "(bytes \<Rightarrow> bytes) \<Rightarrow> (ctl_Command \<Rightarrow> ctl_Response) \<Rightarrow> 'a event \<Rightarrow> bool" where
  "event_served serve reply (Connected a r) = True"
| "event_served serve reply (TimeoutSet d r) = True"
| "event_served serve reply (TimeoutReset r) = True"
| "event_served serve reply (XidSet x) = True"
| "event_served serve reply (IdSet i) = True"
| "event_served serve reply (Requested c r) = served serve c (reply c)"

locale steady = connected rt net live outgoing incoming reading buffered serve +
    quiet net live outgoing incoming reading buffered serve
  for rt and net :: "('a, 'h, 'c, 'w) net" and live outgoing incoming reading buffered serve
begin

definition in_step :: "'h SysadminClient \<times> 'w \<Rightarrow> bool" where
  "in_step s \<longleftrightarrow> (\<forall>h. client_stream (fst s) = Some h \<longrightarrow> idle h (snd s))"

lemma connect_spec:
  assumes "connect net client a w = (r, client', w')" and "in_step (client, w)"
  shows "spec_step reply (client_view_of client) (Connected a r) (client_view_of client') \<and>
    in_step (client', w')"
proof (cases "net_connect net a w")
  case (Pair x w1)
  show ?thesis
  proof (cases x)
    case (Inl e)
    with assms Pair show ?thesis
      by (auto simp: connect_def in_step_def intro: spec_connect_failed dest: connect_quiet)
  next
    case (Inr h)
    obtain y w2 where 2: "net_set_write_timeout net h (Some (client_timeout client)) w1 = (y, w2)"
      by (cases "net_set_write_timeout net h (Some (client_timeout client)) w1")
    obtain z w3 where 3: "net_set_read_timeout net h (Some (client_timeout client)) w2 = (z, w3)"
      by (cases "net_set_read_timeout net h (Some (client_timeout client)) w2")
    have keep: "idle g w2 \<and> idle g w3" if "idle g w1" for g
      using that 2 3 write_timeout_quiet read_timeout_quiet by blast
    have old: "idle g w1" if "idle g w" for g using that Pair connect_quiet by blast
    have new: "idle h w1" using connects Pair Inr by (simp add: idle_def)
    show ?thesis
      using assms Pair Inr 2 3 keep old new
      by (cases y; cases z)
        (auto simp: connect_def in_step_def intro: spec_connect_failed spec_connected)
  qed
qed

lemma set_timeout_spec:
  assumes "set_timeout net client d w = (r, client', w')" and "in_step (client, w)"
  shows "timeout_spec (client_view_of client) d r (client_view_of client') \<and> in_step (client', w')"
proof (cases "client_stream client")
  case None
  with assms show ?thesis by (auto simp: set_timeout_def intro: timeout_unconnected)
next
  case (Some h)
  obtain y w1 where 1: "net_set_write_timeout net h (Some d) w = (y, w1)"
    by (cases "net_set_write_timeout net h (Some d) w")
  obtain z w2 where 2: "net_set_read_timeout net h (Some d) w1 = (z, w2)"
    by (cases "net_set_read_timeout net h (Some d) w1")
  have idle: "idle h w" "idle h w1" "idle h w2"
    using assms(2) Some 1 2 write_timeout_quiet read_timeout_quiet
    by (auto simp: in_step_def)
  have accepted: "duration_secs d = 0 \<or> y = Inr () \<and> z = Inr ()"
    using set_write_timeout [OF idleD(1) [OF idle(1)], of d] 1
      set_read_timeout [OF idleD(1) [OF idle(2)], of d] 2 by auto
  show ?thesis
    using assms Some 1 2 idle accepted
    by (cases y; cases z)
      (auto simp: set_timeout_def in_step_def intro!: timeout_accepted timeout_refused)
qed

lemma request_spec:
  assumes "send rt net client (command (client_id client) (client_xid client) p) w = Some (r, w')"
    and "served serve (command (client_id client) (client_xid client) p)
      (reply (command (client_id client) (client_xid client) p))"
    and "in_step (client, w)"
  shows "spec_step reply (client_view_of client)
      (Requested (command (client_id client) (client_xid client) p) r) (client_view_of client) \<and>
    in_step (client, w')"
proof (cases "client_stream client")
  case None
  with assms show ?thesis
    by (auto simp: send_def in_step_def intro: spec_request_unconnected)
next
  case (Some h)
  with assms send_exchange [OF Some, of w] show ?thesis
    by (fastforce simp: served_def in_step_def intro: spec_request)
qed

lemma step_refines:
  assumes "client_step rt net s e s'" and "event_served serve reply e" and "in_step s"
  shows "spec_step reply (client_view_of (fst s)) e (client_view_of (fst s')) \<and> in_step s'"
  using assms
proof (induction rule: client_step.induct)
  case (step_connect client a w r client' w')
  then show ?case using connect_spec by simp
next
  case (step_set_timeout client d w r client' w')
  then show ?case using set_timeout_spec by (simp add: spec_set_timeout)
next
  case (step_reset_timeout client w r client' w')
  then show ?case
    using set_timeout_spec by (simp add: reset_timeout_to_default_def spec_reset_timeout)
next
  case (step_set_xid client w x)
  then show ?case by (simp add: spec_set_xid in_step_def) (simp add: set_xid_def)
next
  case (step_set_id client w i)
  then show ?case by (simp add: spec_set_id in_step_def) (simp add: set_id_def)
next
  case (step_request client p w r w')
  then show ?case using request_spec by simp
qed

lemma run_refines:
  "client_run rt net s es s' \<Longrightarrow> list_all (event_served serve reply) es \<Longrightarrow> in_step s \<Longrightarrow>
    spec_run reply (client_view_of (fst s)) es (client_view_of (fst s')) \<and> in_step s'"
  by (induction rule: client_run.induct) (auto dest: step_refines)

end

interpretation lo_quiet: quiet "loopback_net serve" "\<lambda>_. lo_open" "\<lambda>_. lo_out" "\<lambda>_. lo_in"
  "\<lambda>_ _. lo_open" "\<lambda>c w. c @ lo_in w" serve for serve
  by unfold_locales (auto simp: loopback_defs lo.idle_def split: if_splits option.splits)

section \<open>A reply that comes late\<close>

text \<open>
  A network where a reply that has not come when the client looks for it may come later: the
  command that timed out stays with the peer.
\<close>

locale patient = transport +
  assumes still_waiting: "live h w \<Longrightarrow> incoming h w @ serve (outgoing h w) = [] \<Longrightarrow>
    \<exists>e w'. net_peek net h k w = (Inl e, w') \<and> live h w' \<and> outgoing h w' = outgoing h w \<and>
      incoming h w' = incoming h w"

locale waiting = connected rt net live outgoing incoming reading buffered serve +
    patient net live outgoing incoming reading buffered serve
  for rt and net :: "('a, 'h, 'c, 'w) net" and live outgoing incoming reading buffered serve
begin

lemma send_times_out:
  assumes "client_stream client = Some h" and "idle h w"
    and "ctl_Command_is_initialized c" and "ctl_Command_ok c" and "small (ctl_Command_wire c)"
    and "serve (frame (ctl_Command_wire c)) = []"
  shows "\<exists>e w'. send rt net client c w = Some (Inl (Error (ErrorKind (SysadminConnectionError
      (''Unable to read response, command may have timed out: '' @ e)))), w') \<and>
    live h w' \<and> outgoing h w' = frame (ctl_Command_wire c) \<and> incoming h w' = []"
proof -
  obtain w1 where 1: "send_frame rt net h c w = (Inr (), w1)" "live h w1"
      "outgoing h w1 = frame (ctl_Command_wire c)" "incoming h w1 = []"
    using send_frame_writes [OF assms(3-5) idleD(1) [OF assms(2)]] idleD(2,3) [OF assms(2)] by auto
  obtain e w2 where "net_peek net h 10 w1 = (Inl e, w2)" "live h w2"
      "outgoing h w2 = outgoing h w1" "incoming h w2 = []"
    using still_waiting [OF 1(2), of 10] 1(3,4) assms(6) by auto
  with 1(1,3) assms(1) show ?thesis by (auto simp: send_def receive_frame_def)
qed

lemma late_reply:
  assumes "client_stream client = Some h" and "idle h w"
    and "ctl_Command_is_initialized c" and "ctl_Command_ok c" and "small (ctl_Command_wire c)"
    and "ctl_Command_is_initialized d" and "ctl_Command_ok d" and "small (ctl_Command_wire d)"
    and "serve (frame (ctl_Command_wire c)) = []"
    and "serve (frame (ctl_Command_wire c) @ frame (ctl_Command_wire d))
      = frame (ctl_Response_wire r) @ later"
    and "ctl_Response_is_initialized r" and "ctl_Response_ok r" and "small (ctl_Response_wire r)"
  shows "\<exists>e w1 w2. send rt net client c w = Some (Inl (Error (ErrorKind (SysadminConnectionError
      (''Unable to read response, command may have timed out: '' @ e)))), w1) \<and>
    send rt net client d w1 = Some (Inr (ctl_Response_norm r), w2)"
proof -
  obtain e w1 where 1: "send rt net client c w = Some (Inl (Error (ErrorKind
        (SysadminConnectionError
          (''Unable to read response, command may have timed out: '' @ e)))), w1)"
      "live h w1" "outgoing h w1 = frame (ctl_Command_wire c)" "incoming h w1 = []"
    using send_times_out [OF assms(1-5,9)] by blast
  obtain w2 where 2: "send_frame rt net h d w1 = (Inr (), w2)" "live h w2" "incoming h w2 = []"
      "serve (outgoing h w2) = frame (ctl_Response_wire r) @ later"
    using send_frame_writes [OF assms(6-8) 1(2)] 1(3,4) assms(10) by auto
  obtain w3 where "receive_frame net h w2 = (Inr (ctl_Response_wire r), w3)"
    using receive_frame_first [OF 2(2-4)] assms(13) by (auto simp: small_def)
  with 1(1) 2(1) assms(1) Response.parse_wire [OF assms(12,13,11)] show ?thesis
    by (auto simp: send_def [of _ _ _ d])
qed

end

interpretation lo_patient: patient "loopback_net serve" "\<lambda>_. lo_open" "\<lambda>_. lo_out" "\<lambda>_. lo_in"
  "\<lambda>_ _. lo_open" "\<lambda>c w. c @ lo_in w" serve for serve
  by unfold_locales (auto simp: loopback_defs)

end
