(* ===== verification/Client_Timeouts.thy ===== *)
theory Client_Timeouts
  imports Client_Machine
begin

text \<open>
  The timeouts of the sockets.  A read or a write on a socket without a timeout may block for ever;
  the client never leaves one so.  The locale \<open>timed\<close> states what is relied on of the sockets of
  the standard library: a new one is not one in use, a timeout that is accepted is in force, one
  that is refused changes nothing, and no other operation touches timeouts.  The network of this
  theory is executable and has any number of sockets, each a loopback with its two timeouts.
\<close>

section \<open>The contract of sockets\<close>

definition keeps ::
  "('h \<Rightarrow> 'w \<Rightarrow> bool) \<Rightarrow> ('h \<Rightarrow> 'w \<Rightarrow> Duration option) \<Rightarrow> ('h \<Rightarrow> 'w \<Rightarrow> Duration option)
     \<Rightarrow> 'h \<Rightarrow> 'w \<Rightarrow> 'w \<Rightarrow> bool" where
  "keeps opened read_limit write_limit g w w' \<longleftrightarrow>
     opened g w \<longrightarrow> opened g w' \<and> read_limit g w' = read_limit g w \<and> write_limit g w' = write_limit g w"

lemma keeps_refl [simp]: "keeps opn rl wl g w w"
  by (simp add: keeps_def)

lemma keeps_trans: "keeps opn rl wl g u v \<Longrightarrow> keeps opn rl wl g v w \<Longrightarrow> keeps opn rl wl g u w"
  by (simp add: keeps_def)

locale timed =
  fixes net :: "('a, 'h, 'c, 'w) net" and opened :: "'h \<Rightarrow> 'w \<Rightarrow> bool"
    and read_limit write_limit :: "'h \<Rightarrow> 'w \<Rightarrow> Duration option"
  assumes connect_fresh: "net_connect net a w = (Inr h, w') \<Longrightarrow> \<not> opened h w \<and> opened h w'"
    and connect_keeps: "keeps opened read_limit write_limit g w (snd (net_connect net a w))"
    and write_accepted: "net_set_write_timeout net h d w = (Inr u, w') \<Longrightarrow> opened h w \<Longrightarrow>
      opened h w' \<and> write_limit h w' = d \<and> read_limit h w' = read_limit h w"
    and write_refused: "net_set_write_timeout net h d w = (Inl e, w') \<Longrightarrow>
      keeps opened read_limit write_limit h w w'"
    and write_other: "g \<noteq> h \<Longrightarrow>
      keeps opened read_limit write_limit g w (snd (net_set_write_timeout net h d w))"
    and read_accepted: "net_set_read_timeout net h d w = (Inr u, w') \<Longrightarrow> opened h w \<Longrightarrow>
      opened h w' \<and> read_limit h w' = d \<and> write_limit h w' = write_limit h w"
    and read_refused: "net_set_read_timeout net h d w = (Inl e, w') \<Longrightarrow>
      keeps opened read_limit write_limit h w w'"
    and read_other: "g \<noteq> h \<Longrightarrow>
      keeps opened read_limit write_limit g w (snd (net_set_read_timeout net h d w))"
    and write_all_keeps: "keeps opened read_limit write_limit g w (snd (net_write_all net h b w))"
    and flush_keeps: "keeps opened read_limit write_limit g w (snd (net_flush net h w))"
    and peek_keeps: "keeps opened read_limit write_limit g w (snd (net_peek net h k w))"
    and le32_keeps: "keeps opened read_limit write_limit g w
      (snd (snd (cis_read_raw_little_endian32 net c w)))"
    and bytes_keeps: "keeps opened read_limit write_limit g w
      (snd (snd (cis_read_raw_bytes net c n w)))"
begin

abbreviation kept :: "'h \<Rightarrow> 'w \<Rightarrow> 'w \<Rightarrow> bool" where
  "kept \<equiv> keeps opened read_limit write_limit"

section \<open>Commands leave the timeouts\<close>

lemma kept_try_io:
  "kept g w (snd r) \<Longrightarrow> (\<And>b s. kept g w s \<Longrightarrow> kept g w (snd (k b s))) \<Longrightarrow>
    kept g w (snd (try_io r f k))"
  by (cases r; cases "fst r") (auto simp: try_io_def)

lemma kept_if:
  "kept g w (snd a) \<Longrightarrow> kept g w (snd b) \<Longrightarrow> kept g w (snd (if P then a else b))"
  by simp

lemma kept_pair: "kept g w v \<Longrightarrow> kept g w (snd (x, v))"
  by simp

lemma kept_after:
  "kept g w v \<Longrightarrow> kept g w (snd (net_write_all net h b v))"
  "kept g w v \<Longrightarrow> kept g w (snd (net_flush net h v))"
  "kept g w v \<Longrightarrow> kept g w (snd (net_peek net h k v))"
  "kept g w v \<Longrightarrow> kept g w (snd (snd (cis_read_raw_little_endian32 net c v)))"
  "kept g w v \<Longrightarrow> kept g w (snd (snd (cis_read_raw_bytes net c n v)))"
  using keeps_trans write_all_keeps flush_keeps peek_keeps le32_keeps bytes_keeps by metis+

lemma send_frame_keeps: "kept g w (snd (send_frame rt net h c w))"
  unfolding send_frame_def Let_def split_beta
  by (intro kept_if kept_try_io kept_after kept_pair keeps_refl)

lemma receive_frame_keeps: "kept g w v \<Longrightarrow> kept g w (snd (receive_frame net h v))"
  unfolding receive_frame_def Let_def split_beta
  by (intro kept_try_io kept_after kept_pair)

lemma send_keeps:
  assumes "send rt net client c w = Some (x, w')"
  shows "kept g w w'"
proof (cases "client_stream client")
  case None
  with assms show ?thesis by (simp add: send_def)
next
  case (Some h)
  have "kept g w (snd (try_io (send_frame rt net h c w) (\<lambda>e. e) (\<lambda>_ w. receive_frame net h w)))"
    by (intro kept_try_io send_frame_keeps receive_frame_keeps)
  with assms Some show ?thesis
    by (auto simp: send_def split: prod.splits sum.splits option.splits)
qed

section \<open>The invariant\<close>

text \<open>
  The socket of a connected client has both timeouts, and they are the client's unless the last
  timeout asked for was refused.
\<close>

definition limited :: "bool \<Rightarrow> 'h SysadminClient \<times> 'w \<Rightarrow> bool" where
  "limited refused s \<longleftrightarrow>
     (\<forall>h. client_stream (fst s) = Some h \<longrightarrow>
        opened h (snd s) \<and> read_limit h (snd s) \<noteq> None \<and> write_limit h (snd s) \<noteq> None \<and>
        (\<not> refused \<longrightarrow> read_limit h (snd s) = Some (client_timeout (fst s)) \<and>
          write_limit h (snd s) = Some (client_timeout (fst s))))"

lemma limited_kept:
  "limited b (client, w) \<Longrightarrow> (\<And>g. opened g w \<Longrightarrow> kept g w w') \<Longrightarrow> limited b (client, w')"
  by (auto simp: limited_def keeps_def)

lemma connect_limited:
  assumes "connect net client a w = (r, client', w')" and "limited b (client, w)"
  shows "limited (case r of Inl e \<Rightarrow> b | Inr u \<Rightarrow> False) (client', w')"
proof (cases "net_connect net a w")
  case (Pair x w1)
  show ?thesis
  proof (cases x)
    case (Inl e)
    with assms Pair connect_keeps [of _ w a] show ?thesis
      by (auto simp: connect_def intro: limited_kept)
  next
    case (Inr h)
    let ?d = "Some (client_timeout client)"
    obtain y w2 where 2: "net_set_write_timeout net h ?d w1 = (y, w2)"
      by (cases "net_set_write_timeout net h ?d w1")
    obtain z w3 where 3: "net_set_read_timeout net h ?d w2 = (z, w3)"
      by (cases "net_set_read_timeout net h ?d w2")
    have old: "kept g w w1" "kept g w w2" "kept g w w3" if "opened g w" for g
    proof -
      have "g \<noteq> h" using that connect_fresh [of a w h w1] Pair Inr by auto
      then have "kept g w w1" "kept g w1 w2" "kept g w2 w3"
        using connect_keeps [of g w a] write_other [of g h w1 ?d] read_other [of g h w2 ?d] Pair 2 3
        by simp_all
      then show "kept g w w1" "kept g w w2" "kept g w w3" by (metis keeps_trans)+
    qed
    have new: "opened h w1" using connect_fresh [of a w h w1] Pair Inr by simp
    show ?thesis
    proof (cases y)
      case (Inl e)
      with assms Pair Inr 2 old show ?thesis by (auto simp: connect_def intro: limited_kept)
    next
      case y: (Inr u)
      show ?thesis
      proof (cases z)
        case (Inl e)
        with assms Pair Inr 2 3 y old show ?thesis by (auto simp: connect_def intro: limited_kept)
      next
        case z: (Inr v)
        have "opened h w3 \<and> read_limit h w3 = ?d \<and> write_limit h w3 = ?d"
          using write_accepted [of h ?d w1 u w2] read_accepted [of h ?d w2 v w3] 2 3 y z new by simp
        with assms(1) Pair Inr 2 3 y z show ?thesis by (auto simp: connect_def limited_def)
      qed
    qed
  qed
qed

lemma set_timeout_limited:
  assumes "set_timeout net client d w = (r, client', w')" and "limited b (client, w)"
  shows "limited (case r of Inl e \<Rightarrow> True | Inr u \<Rightarrow> False) (client', w')"
proof (cases "client_stream client")
  case None
  with assms show ?thesis by (auto simp: set_timeout_def limited_def)
next
  case (Some h)
  obtain y w1 where 1: "net_set_write_timeout net h (Some d) w = (y, w1)"
    by (cases "net_set_write_timeout net h (Some d) w")
  obtain z w2 where 2: "net_set_read_timeout net h (Some d) w1 = (z, w2)"
    by (cases "net_set_read_timeout net h (Some d) w1")
  have w: "opened h w" "read_limit h w \<noteq> None" "write_limit h w \<noteq> None"
    using assms(2) Some by (auto simp: limited_def)
  show ?thesis
  proof (cases y)
    case (Inl e)
    with assms(1) Some 1 w write_refused [OF 1 [unfolded Inl]] show ?thesis
      by (auto simp: set_timeout_def limited_def keeps_def)
  next
    case y: (Inr u)
    note w1 = write_accepted [OF 1 [unfolded y] w(1)]
    show ?thesis
    proof (cases z)
      case (Inl e)
      with assms(1) Some 1 2 y w w1 read_refused [OF 2 [unfolded Inl]] show ?thesis
        by (auto simp: set_timeout_def limited_def keeps_def)
    next
      case z: (Inr v)
      with assms(1) Some 1 2 y w1 read_accepted [OF 2 [unfolded z]] show ?thesis
        by (auto simp: set_timeout_def limited_def)
    qed
  qed
qed

end

text \<open>Whether the last timeout asked for was refused, after a call.\<close>

primrec refusal :: "'a event \<Rightarrow> bool \<Rightarrow> bool" where
  "refusal (Connected a r) b = (case r of Inl e \<Rightarrow> b | Inr u \<Rightarrow> False)"
| "refusal (TimeoutSet d r) b = (case r of Inl e \<Rightarrow> True | Inr u \<Rightarrow> False)"
| "refusal (TimeoutReset r) b = (case r of Inl e \<Rightarrow> True | Inr u \<Rightarrow> False)"
| "refusal (XidSet x) b = b"
| "refusal (IdSet i) b = b"
| "refusal (Requested c r) b = b"

context timed begin

lemma step_limited:
  "client_step rt net s e s' \<Longrightarrow> limited b s \<Longrightarrow> limited (refusal e b) s'"
proof (induction rule: client_step.induct)
  case (step_connect client a w r client' w')
  then show ?case using connect_limited by simp
next
  case (step_set_timeout client d w r client' w')
  then show ?case using set_timeout_limited by simp
next
  case (step_reset_timeout client w r client' w')
  then show ?case using set_timeout_limited by (simp add: reset_timeout_to_default_def)
next
  case (step_set_xid client w x)
  then show ?case by (simp add: limited_def set_xid_def)
next
  case (step_set_id client w i)
  then show ?case by (simp add: limited_def set_id_def)
next
  case (step_request client p w r w')
  then show ?case using send_keeps limited_kept by simp
qed

lemma run_limited:
  "client_run rt net s es s' \<Longrightarrow> limited b s \<Longrightarrow> limited (fold refusal es b) s'"
  by (induction arbitrary: b rule: client_run.induct) (auto dest: step_limited)

end

section \<open>Sockets\<close>

text \<open>
  Any number of loopback connections, each with its timeouts.  A handle is the index of its socket;
  a new connection is a new socket at the end.
\<close>

record socket =
  sock_io :: loopback
  sock_read_limit :: "Duration option"
  sock_write_limit :: "Duration option"

definition new_socket :: socket where
  "new_socket =
     \<lparr>sock_io = \<lparr>lo_open = True, lo_out = [], lo_in = []\<rparr>, sock_read_limit = None,
      sock_write_limit = None\<rparr>"

definition on_socket ::
  "nat \<Rightarrow> 'e \<Rightarrow> (loopback \<Rightarrow> ('e + 'b) \<times> loopback) \<Rightarrow> socket list \<Rightarrow> ('e + 'b) \<times> socket list" where
  "on_socket h closed f w =
     (if h < length w then
        let (r, l) = f (sock_io (w ! h)) in (r, w[h := (w ! h)\<lparr>sock_io := l\<rparr>])
      else (Inl closed, w))"

definition on_limit ::
  "nat \<Rightarrow> (Duration option \<Rightarrow> socket \<Rightarrow> socket) \<Rightarrow> Duration option \<Rightarrow> socket list
     \<Rightarrow> (io_error + unit) \<times> socket list" where
  "on_limit h f d w =
     (if h < length w then
        case fst (lo_timeout d (sock_io (w ! h))) of
          Inl e \<Rightarrow> (Inl e, w)
        | Inr u \<Rightarrow> (Inr u, w[h := f d (w ! h)])
      else (Inl (io_Error ''Bad file descriptor''), w))"

definition on_input ::
  "nat \<times> bytes \<Rightarrow> (bytes \<Rightarrow> loopback \<Rightarrow> (ProtobufError + 'b) \<times> bytes \<times> loopback) \<Rightarrow> socket list
     \<Rightarrow> (ProtobufError + 'b) \<times> (nat \<times> bytes) \<times> socket list" where
  "on_input c f w =
     (let h = fst c in
      if h < length w then
        let (r, b, l) = f (snd c) (sock_io (w ! h)) in (r, (h, b), w[h := (w ! h)\<lparr>sock_io := l\<rparr>])
      else (Inl (WireError ''Bad file descriptor''), c, w))"

definition socket_net :: "(bytes \<Rightarrow> bytes) \<Rightarrow> (bool, nat, nat \<times> bytes, socket list) net" where
  "socket_net serve =
     \<lparr>net_connect = (\<lambda>up w. if up then (Inr (length w), w @ [new_socket])
        else (Inl (io_Error ''Connection refused''), w)),
      net_set_write_timeout = (\<lambda>h. on_limit h (\<lambda>d s. s\<lparr>sock_write_limit := d\<rparr>)),
      net_set_read_timeout = (\<lambda>h. on_limit h (\<lambda>d s. s\<lparr>sock_read_limit := d\<rparr>)),
      net_write_all = (\<lambda>h b. on_socket h (io_Error ''Bad file descriptor'') (lo_write b)),
      net_flush = (\<lambda>h. on_socket h (io_Error ''Bad file descriptor'') (\<lambda>l. (Inr (), l))),
      net_peek = (\<lambda>h k. on_socket h (io_Error ''Bad file descriptor'') (lo_peek serve k)),
      cis_new = (\<lambda>h. (h, [])),
      cis_read_raw_little_endian32 = (\<lambda>c. on_input c lo_le32),
      cis_read_raw_bytes = (\<lambda>c n. on_input c (\<lambda>b. lo_bytes b n)),
      write_u32_LittleEndian = (\<lambda>v b. Inr (b @ le32 v))\<rparr>"

lemmas socket_defs = socket_net_def on_socket_def on_limit_def on_input_def new_socket_def

abbreviation sock_opened :: "nat \<Rightarrow> socket list \<Rightarrow> bool" where
  "sock_opened h w \<equiv> h < length w"

interpretation sock_timed: timed "socket_net serve" sock_opened
  "\<lambda>h w. sock_read_limit (w ! h)" "\<lambda>h w. sock_write_limit (w ! h)" for serve
proof unfold_locales
  fix g h :: nat and w w' :: "socket list" and d :: "Duration option" and u :: unit
    and e :: io_error
  show "sock_opened h w' \<and> sock_write_limit (w' ! h) = d \<and> sock_read_limit (w' ! h) = sock_read_limit (w ! h)"
    if "net_set_write_timeout (socket_net serve) h d w = (Inr u, w')" and "sock_opened h w"
    using that by (auto simp: socket_defs split: sum.splits)
  show "sock_opened h w' \<and> sock_read_limit (w' ! h) = d \<and> sock_write_limit (w' ! h) = sock_write_limit (w ! h)"
    if "net_set_read_timeout (socket_net serve) h d w = (Inr u, w')" and "sock_opened h w"
    using that by (auto simp: socket_defs split: sum.splits)
qed (auto simp: keeps_def socket_defs nth_append nth_list_update split_beta Let_def split: sum.splits if_splits)

interpretation sock: transport "socket_net serve" "\<lambda>h w. sock_opened h w \<and> lo_open (sock_io (w ! h))"
  "\<lambda>h w. lo_out (sock_io (w ! h))" "\<lambda>h w. lo_in (sock_io (w ! h))"
  "\<lambda>h c w. fst c = h \<and> sock_opened h w \<and> lo_open (sock_io (w ! h))"
  "\<lambda>c w. snd c @ lo_in (sock_io (w ! fst c))" serve for serve
  by unfold_locales
    (auto simp: socket_defs lo_timeout_def lo_write_def lo_peek_def lo_le32_def lo_bytes_def Let_def
      split: if_splits)

interpretation sock_quiet: quiet "socket_net serve" "\<lambda>h w. sock_opened h w \<and> lo_open (sock_io (w ! h))"
  "\<lambda>h w. lo_out (sock_io (w ! h))" "\<lambda>h w. lo_in (sock_io (w ! h))"
  "\<lambda>h c w. fst c = h \<and> sock_opened h w \<and> lo_open (sock_io (w ! h))"
  "\<lambda>c w. snd c @ lo_in (sock_io (w ! fst c))" serve for serve
  by unfold_locales
    (auto simp: sock.idle_def socket_defs lo_timeout_def nth_append nth_list_update
      split: if_splits option.splits)

end
