(* ===== verification/Reference_System.thy ===== *)
theory Reference_System
  imports Reference_Runtime Progress Sysadmin_Example Client_Timeouts
begin

text \<open>
  The reference runtime reads every input to an end, and over the loopback network it makes a
  system on which the client runs in full, for every peer.
\<close>

section \<open>The reference runtime's reads\<close>

text \<open>A reader is frugal when it never gives bytes back.\<close>

definition frugal :: "(bytes \<Rightarrow> ProtobufError + 'x \<times> bytes) \<Rightarrow> bool" where
  "frugal f \<longleftrightarrow> (\<forall>b x r. f b = Inr (x, r) \<longrightarrow> length r \<le> length b)"

lemma frugal_consumes: "frugal f \<Longrightarrow> length b \<le> n \<Longrightarrow> consumes n (Some (f b))"
  by (fastforce simp: frugal_def consumes_def)

lemma read_varint_shorter: "read_varint b = Inr (n, r) \<Longrightarrow> length r < length b"
  by (auto simp: read_varint_def dest: get_varint_shorter split: option.splits if_splits)

lemma read_delimited_shorter: "read_delimited b = Inr (p, r) \<Longrightarrow> length r < length b"
  by (auto simp: read_delimited_def and_then_eq_Inr dest!: read_varint_shorter split: if_splits)

lemmas reads_shorter = read_varint_shorter read_delimited_shorter

lemma ref_read_tag_shorter: "ref_read_tag b = Inr (x, r) \<Longrightarrow> length r < length b"
  by (auto simp: ref_read_tag_def and_then_eq_Inr dest: read_varint_shorter
      split: option.splits if_splits)

lemma frugal_scalars:
  "frugal ref_read_int32" "frugal ref_read_uint32" "frugal ref_read_bool" "frugal ref_read_string"
  by (auto simp: frugal_def ref_read_int32_def ref_read_uint32_def ref_read_bool_def
      ref_read_string_def and_then_eq_Inr dest!: reads_shorter split: if_splits)

lemma frugal_repeated: "frugal f \<Longrightarrow> frugal (\<lambda>b. ref_read_repeated f w b l)"
  by (auto simp: frugal_def ref_read_repeated_def and_then_eq_Inr dest!: reads_shorter
      split: if_splits)

lemma frugal_strings:
  "frugal (\<lambda>b. ref_read_repeated_string w b l)" "frugal (\<lambda>b. ref_read_singular_string w b x)"
  using frugal_scalars(4)
  by (auto simp: frugal_def ref_read_repeated_string_def ref_read_singular_string_def
      and_then_eq_Inr split: if_splits)

lemma frugal_unknown: "frugal (\<lambda>b. ref_read_unknown f w b uf)"
  by (cases w) (auto simp: frugal_def ref_read_unknown_def and_then_eq_Inr read_fixed_def
      dest!: reads_shorter split: if_splits)

lemma frugal_enum: "frugal (read_enum ref_enum D)"
  using frugal_scalars(1)
  by (auto simp: frugal_def ref_enum_def and_then_eq_Inr split: option.splits)

lemma frugal_delimited: "frugal read_delimited"
  by (auto simp: frugal_def dest: read_delimited_shorter)

lemma ref_merge_payload_consumes:
  assumes "\<forall>p. msg_merge_from M (msg_new M) p \<noteq> None" and "length b \<le> n"
  shows "consumes n (ref_merge_payload M b)"
  unfolding ref_merge_payload_def
proof (rule consumes_then [OF frugal_consumes [OF frugal_delimited assms(2)]])
  fix p r :: bytes
  assume "length r \<le> n"
  moreover obtain x where "msg_merge_from M (msg_new M) p = Some x"
    using assms(1) by blast
  ultimately show "consumes n ((\<lambda>(p, r). run_then (msg_merge_from M (msg_new M) p)
      (\<lambda>(m, rest). Some (Inr (m, r)))) (p, r))"
    by (cases x) (auto simp: split_beta)
qed

lemma ref_nested_returns: "nested_returns ref_nested"
  by (auto simp: nested_returns_def ref_nested_def
      intro!: consumes_then ref_merge_payload_consumes)

lemmas ref_frugal =
  frugal_scalars frugal_repeated [OF frugal_scalars(1)] frugal_repeated [OF frugal_scalars(3)]
  frugal_strings frugal_unknown frugal_enum

interpretation ret: returning_runtime ref_runtime
proof (rule returning_runtime.intro [OF ref.protobuf_runtime_axioms], unfold_locales)
  show "consumes (length b - 1) (Some (rt_read_tag_unpack ref_runtime b))" if "b \<noteq> []" for b
    using ref_read_tag_shorter by (fastforce simp: ref_runtime_def consumes_def)
qed (simp_all add: ref_runtime_def ref_frugal [THEN frugal_consumes] ref_nested_returns,
    simp_all add: ref_entry_def run_then_def ctl_Command_message_def ctl_Response_message_def
      split: option.splits sum.splits)

section \<open>The whole system\<close>

interpretation sys: connected ref_runtime "loopback_net serve" "\<lambda>_. lo_open" "\<lambda>_. lo_out"
  "\<lambda>_. lo_in" "\<lambda>_ _. lo_open" "\<lambda>c w. c @ lo_in w" serve for serve
  by (intro connected.intro ref.protobuf_runtime_axioms lo.transport_axioms)

interpretation steady_sys: steady ref_runtime "loopback_net serve" "\<lambda>_. lo_open" "\<lambda>_. lo_out"
  "\<lambda>_. lo_in" "\<lambda>_ _. lo_open" "\<lambda>c w. c @ lo_in w" serve for serve
  by (intro steady.intro sys.connected_axioms lo_quiet.quiet_axioms)

interpretation waiting_sys: waiting ref_runtime "loopback_net serve" "\<lambda>_. lo_open" "\<lambda>_. lo_out"
  "\<lambda>_. lo_in" "\<lambda>_ _. lo_open" "\<lambda>c w. c @ lo_in w" serve for serve
  by (intro waiting.intro sys.connected_axioms lo_patient.patient_axioms)

section \<open>A running system\<close>

text \<open>A connected client of the loopback network, for the concrete runs below.\<close>

definition demo_client :: "unit SysadminClient" where
  "demo_client =
     \<lparr>client_timeout = Duration_from_secs 10, client_xid = 8, client_id = 7, client_stream = Some ()\<rparr>"

definition demo_world :: loopback where
  "demo_world = \<lparr>lo_open = True, lo_out = [], lo_in = []\<rparr>"

abbreviation demo_idle :: "loopback \<Rightarrow> bool" where
  "demo_idle \<equiv> transport.idle (\<lambda>_. lo_open) (\<lambda>_. lo_out) (\<lambda>_. lo_in) ()"

lemma demo_stream: "client_stream demo_client = Some ()"
  and demo_world_idle: "demo_idle demo_world"
  by (simp_all add: demo_client_def demo_world_def lo.idle_def)

lemmas encodings_eval =
  small_def frame_def enc_uint32_def enc_int32_def enc_string_def enc_message_def enc_bool_def
  wire_tag_def int32_varint_def bool_varint_def delimited_def varint.simps

lemmas demo_eval =
  encodings_eval command_def ctl_Command_wire_def ctl_Command_is_initialized_def ctl_Command_ok_def
  Get_payload_def Get_new_def ctl_Get_wire_def ctl_Get_is_initialized_def ctl_Get_ok_def
  string_bytes_def string_ok_def utf8_cont_def
  response_def ctl_Response_wire_def ctl_Response_is_initialized_def ctl_Response_ok_def
  ctl_Response_norm_def

lemmas demo_answers =
  demo_eval answers_def demo_client_def server_defs value_defs value_ok_def kvs_ok_def
  BlameEntry_ok_def Set_payload_def Set_new_def Commit_payload_def Commit_new_def
  Rollback_payload_def Rollback_new_def ctl_Rollback_wire_def Reset_payload_def DumpHooks_payload_def Blame_payload_def Blame_new_def InFlight_payload_def
  ctl_Set_wire_def ctl_Commit_wire_def ctl_Reset_wire_def ctl_DumpHooks_wire_def ctl_Blame_wire_def
  ctl_InFlight_wire_def
  ctl_MappedField_wire_def ctl_GetResponse_wire_def ctl_ConfigValue_wire_def ctl_Int32List_wire_def
  ctl_BoolList_wire_def ctl_StringList_wire_def ctl_CommitResponse_wire_def
  ctl_ResetResponse_wire_def ctl_DumpResponse_wire_def ctl_BlameEntry_wire_def
  ctl_BlameResponse_wire_def ctl_InFlightResponse_wire_def

text \<open>The replies of the example's peer.\<close>

lemma demo_replies_ok: "example_replies_ok demo_replies"
  by (simp add: example_replies_ok_def demo_replies_def demo_answers)

lemma demo_dialogue_answered:
  "list_all (\<lambda>(p, r). answers (table_peer (example_dialogue demo_replies)) SysadminClient_default p r)
    (example_dialogue demo_replies)"
proof (rule table_peer_answers)
  show "distinct (map (\<lambda>(p, r). ctl_Command_wire (command 1 1 p)) (example_dialogue demo_replies))"
    by (simp add: example_dialogue_def demo_replies_def demo_answers Drop_payload_def ctl_Drop_wire_def)
  show "list_all (\<lambda>(p, r). small (ctl_Command_wire (command 1 1 p)) \<and> small (ctl_Response_wire r))
      (example_dialogue demo_replies)"
    by (simp add: example_dialogue_def demo_replies_def demo_answers Drop_payload_def ctl_Drop_wire_def)
qed

end
