(* ===== verification/Descriptor.thy ===== *)
theory Descriptor
  imports Wire
begin

text \<open>
  The file descriptor embedded in \<open>clients/rust/src/sysadminctl.rs\<close>
  (\<open>file_descriptor_proto_data\<close>) and its parsing.  The types are those of the format's
  \<open>descriptor.proto\<close>, with the fields the embedded descriptor uses; their encoding is the one
  that file gives them.  The schema the bytes encode is written out, and the bytes are shown to be
  its encoding.  Parsing is the runtime's: a parameter.
\<close>

section \<open>Descriptors and their encoding\<close>

datatype FieldLabel = LABEL_OPTIONAL | LABEL_REQUIRED | LABEL_REPEATED

datatype FieldType =
  TYPE_INT32 | TYPE_BOOL | TYPE_STRING | TYPE_MESSAGE | TYPE_UINT32 | TYPE_ENUM

primrec label_number :: "FieldLabel \<Rightarrow> i32" where
  "label_number LABEL_OPTIONAL = 1"
| "label_number LABEL_REQUIRED = 2"
| "label_number LABEL_REPEATED = 3"

primrec type_number :: "FieldType \<Rightarrow> i32" where
  "type_number TYPE_INT32 = 5"
| "type_number TYPE_BOOL = 8"
| "type_number TYPE_STRING = 9"
| "type_number TYPE_MESSAGE = 11"
| "type_number TYPE_UINT32 = 13"
| "type_number TYPE_ENUM = 14"

record FieldDescriptorProto =
  fd_name :: string
  fd_number :: u32
  fd_label :: FieldLabel
  fd_type :: FieldType
  fd_type_name :: "string option"
  fd_oneof_index :: "i32 option"
  fd_json_name :: string

record DescriptorProto =
  msgd_name :: string
  msgd_field :: "FieldDescriptorProto list"
  msgd_oneof_decl :: "string list"

record EnumValueDescriptorProto =
  evd_name :: string
  evd_number :: i32

record EnumDescriptorProto =
  enumd_name :: string
  enumd_value :: "EnumValueDescriptorProto list"

record FileDescriptorProto =
  filed_name :: string
  filed_package :: string
  filed_message_type :: "DescriptorProto list"
  filed_enum_type :: "EnumDescriptorProto list"

definition field_wire :: "FieldDescriptorProto \<Rightarrow> bytes" where
  "field_wire d =
     enc_string 1 (fd_name d) @ enc_int32 3 (fd_number d)
     @ enc_int32 4 (label_number (fd_label d)) @ enc_int32 5 (type_number (fd_type d))
     @ enc_opt (enc_string 6) (fd_type_name d) @ enc_opt (enc_int32 9) (fd_oneof_index d)
     @ enc_string 10 (fd_json_name d)"

definition descriptor_wire :: "DescriptorProto \<Rightarrow> bytes" where
  "descriptor_wire d =
     enc_string 1 (msgd_name d)
     @ concat (map (\<lambda>f. enc_message 2 (field_wire f)) (msgd_field d))
     @ concat (map (\<lambda>n. enc_message 8 (enc_string 1 n)) (msgd_oneof_decl d))"

definition enum_value_wire :: "EnumValueDescriptorProto \<Rightarrow> bytes" where
  "enum_value_wire d = enc_string 1 (evd_name d) @ enc_int32 2 (evd_number d)"

definition enum_wire :: "EnumDescriptorProto \<Rightarrow> bytes" where
  "enum_wire d =
     enc_string 1 (enumd_name d)
     @ concat (map (\<lambda>v. enc_message 2 (enum_value_wire v)) (enumd_value d))"

definition file_wire :: "FileDescriptorProto \<Rightarrow> bytes" where
  "file_wire f =
     enc_string 1 (filed_name f) @ enc_string 2 (filed_package f)
     @ concat (map (\<lambda>d. enc_message 4 (descriptor_wire d)) (filed_message_type f))
     @ concat (map (\<lambda>d. enc_message 5 (enum_wire d)) (filed_enum_type f))"

section \<open>The bytes of the code\<close>

named_theorems descriptor_data \<open>the pieces of the embedded descriptor\<close>

text \<open>The string literal, cut before each message and enum it describes.\<close>

definition data_header :: bytes where [descriptor_data]:
  "data_header = [
    10, 17, 115, 121, 115, 97, 100, 109, 105, 110, 99, 116, 108, 46, 112, 114, 111, 116, 111,
    18, 11, 115, 121, 115, 97, 100, 109, 105, 110, 99, 116, 108]"

definition data_Int32List :: bytes where [descriptor_data]:
  "data_Int32List = [
    34, 31, 10, 9, 73, 110, 116, 51, 50, 76, 105, 115, 116, 18, 18, 10, 4, 108, 105, 115, 116,
    24, 1, 32, 3, 40, 5, 82, 4, 108, 105, 115, 116]"

definition data_BoolList :: bytes where [descriptor_data]:
  "data_BoolList = [
    34, 30, 10, 8, 66, 111, 111, 108, 76, 105, 115, 116, 18, 18, 10, 4, 108, 105, 115, 116, 24,
    1, 32, 3, 40, 8, 82, 4, 108, 105, 115, 116]"

definition data_StringList :: bytes where [descriptor_data]:
  "data_StringList = [
    34, 32, 10, 10, 83, 116, 114, 105, 110, 103, 76, 105, 115, 116, 18, 18, 10, 4, 108, 105,
    115, 116, 24, 1, 32, 3, 40, 9, 82, 4, 108, 105, 115, 116]"

definition data_ConfigValue :: bytes where [descriptor_data]:
  "data_ConfigValue = [
    34, 146, 2, 10, 11, 67, 111, 110, 102, 105, 103, 86, 97, 108, 117, 101, 18, 28, 10, 8, 105,
    110, 116, 51, 50, 118, 97, 108, 24, 1, 32, 1, 40, 5, 72, 0, 82, 8, 105, 110, 116, 51, 50,
    118, 97, 108, 18, 24, 10, 6, 115, 116, 114, 118, 97, 108, 24, 2, 32, 1, 40, 9, 72, 0, 82, 6,
    115, 116, 114, 118, 97, 108, 18, 26, 10, 7, 98, 111, 111, 108, 118, 97, 108, 24, 3, 32, 1,
    40, 8, 72, 0, 82, 7, 98, 111, 111, 108, 118, 97, 108, 18, 54, 10, 9, 105, 110, 116, 51, 50,
    108, 105, 115, 116, 24, 4, 32, 1, 40, 11, 50, 22, 46, 115, 121, 115, 97, 100, 109, 105, 110,
    99, 116, 108, 46, 73, 110, 116, 51, 50, 76, 105, 115, 116, 72, 0, 82, 9, 105, 110, 116, 51,
    50, 108, 105, 115, 116, 18, 51, 10, 8, 98, 111, 111, 108, 108, 105, 115, 116, 24, 5, 32, 1,
    40, 11, 50, 21, 46, 115, 121, 115, 97, 100, 109, 105, 110, 99, 116, 108, 46, 66, 111, 111,
    108, 76, 105, 115, 116, 72, 0, 82, 8, 98, 111, 111, 108, 108, 105, 115, 116, 18, 57, 10, 10,
    115, 116, 114, 105, 110, 103, 108, 105, 115, 116, 24, 6, 32, 1, 40, 11, 50, 23, 46, 115,
    121, 115, 97, 100, 109, 105, 110, 99, 116, 108, 46, 83, 116, 114, 105, 110, 103, 76, 105,
    115, 116, 72, 0, 82, 10, 115, 116, 114, 105, 110, 103, 108, 105, 115, 116, 66, 7, 10, 5,
    118, 97, 108, 117, 101]"

definition data_Set :: bytes where [descriptor_data]:
  "data_Set = [
    34, 71, 10, 3, 83, 101, 116, 18, 16, 10, 3, 107, 101, 121, 24, 1, 32, 2, 40, 9, 82, 3, 107,
    101, 121, 18, 46, 10, 5, 118, 97, 108, 117, 101, 24, 2, 32, 2, 40, 11, 50, 24, 46, 115, 121,
    115, 97, 100, 109, 105, 110, 99, 116, 108, 46, 67, 111, 110, 102, 105, 103, 86, 97, 108,
    117, 101, 82, 5, 118, 97, 108, 117, 101]"

definition data_Get :: bytes where [descriptor_data]:
  "data_Get = [
    34, 23, 10, 3, 71, 101, 116, 18, 16, 10, 3, 107, 101, 121, 24, 1, 32, 2, 40, 9, 82, 3, 107,
    101, 121]"

definition data_Commit :: bytes where [descriptor_data]:
  "data_Commit = [
    34, 59, 10, 6, 67, 111, 109, 109, 105, 116, 18, 49, 10, 6, 99, 111, 110, 102, 105, 103, 24,
    1, 32, 1, 40, 14, 50, 25, 46, 115, 121, 115, 97, 100, 109, 105, 110, 99, 116, 108, 46, 67,
    111, 109, 109, 105, 116, 67, 111, 110, 102, 105, 103, 82, 6, 99, 111, 110, 102, 105, 103]"

definition data_Drop :: bytes where [descriptor_data]:
  "data_Drop = [
    34, 6, 10, 4, 68, 114, 111, 112]"

definition data_FireHooks :: bytes where [descriptor_data]:
  "data_FireHooks = [
    34, 11, 10, 9, 70, 105, 114, 101, 72, 111, 111, 107, 115]"

definition data_Rollback :: bytes where [descriptor_data]:
  "data_Rollback = [
    34, 26, 10, 8, 82, 111, 108, 108, 98, 97, 99, 107, 18, 14, 10, 2, 105, 100, 24, 1, 32, 2,
    40, 13, 82, 2, 105, 100]"

definition data_EraseKey :: bytes where [descriptor_data]:
  "data_EraseKey = [
    34, 28, 10, 8, 69, 114, 97, 115, 101, 75, 101, 121, 18, 16, 10, 3, 107, 101, 121, 24, 1, 32,
    2, 40, 9, 82, 3, 107, 101, 121]"

definition data_Reset :: bytes where [descriptor_data]:
  "data_Reset = [
    34, 7, 10, 5, 82, 101, 115, 101, 116]"

definition data_DumpHooks :: bytes where [descriptor_data]:
  "data_DumpHooks = [
    34, 11, 10, 9, 68, 117, 109, 112, 72, 111, 111, 107, 115]"

definition data_TriggerHook :: bytes where [descriptor_data]:
  "data_TriggerHook = [
    34, 33, 10, 11, 84, 114, 105, 103, 103, 101, 114, 72, 111, 111, 107, 18, 18, 10, 4, 104,
    111, 111, 107, 24, 1, 32, 2, 40, 9, 82, 4, 104, 111, 111, 107]"

definition data_Blame :: bytes where [descriptor_data]:
  "data_Blame = [
    34, 25, 10, 5, 66, 108, 97, 109, 101, 18, 16, 10, 3, 107, 101, 121, 24, 1, 32, 2, 40, 9, 82,
    3, 107, 101, 121]"

definition data_InFlight :: bytes where [descriptor_data]:
  "data_InFlight = [
    34, 10, 10, 8, 73, 110, 70, 108, 105, 103, 104, 116]"

definition data_Command :: bytes where [descriptor_data]:
  "data_Command = [
    34, 231, 4, 10, 7, 67, 111, 109, 109, 97, 110, 100, 18, 36, 10, 3, 115, 101, 116, 24, 1, 32,
    1, 40, 11, 50, 16, 46, 115, 121, 115, 97, 100, 109, 105, 110, 99, 116, 108, 46, 83, 101,
    116, 72, 0, 82, 3, 115, 101, 116, 18, 36, 10, 3, 103, 101, 116, 24, 2, 32, 1, 40, 11, 50,
    16, 46, 115, 121, 115, 97, 100, 109, 105, 110, 99, 116, 108, 46, 71, 101, 116, 72, 0, 82, 3,
    103, 101, 116, 18, 45, 10, 6, 99, 111, 109, 109, 105, 116, 24, 3, 32, 1, 40, 11, 50, 19, 46,
    115, 121, 115, 97, 100, 109, 105, 110, 99, 116, 108, 46, 67, 111, 109, 109, 105, 116, 72, 0,
    82, 6, 99, 111, 109, 109, 105, 116, 18, 39, 10, 4, 100, 114, 111, 112, 24, 4, 32, 1, 40, 11,
    50, 17, 46, 115, 121, 115, 97, 100, 109, 105, 110, 99, 116, 108, 46, 68, 114, 111, 112, 72,
    0, 82, 4, 100, 114, 111, 112, 18, 54, 10, 9, 102, 105, 114, 101, 104, 111, 111, 107, 115,
    24, 7, 32, 1, 40, 11, 50, 22, 46, 115, 121, 115, 97, 100, 109, 105, 110, 99, 116, 108, 46,
    70, 105, 114, 101, 72, 111, 111, 107, 115, 72, 0, 82, 9, 102, 105, 114, 101, 104, 111, 111,
    107, 115, 18, 45, 10, 5, 101, 114, 97, 115, 101, 24, 8, 32, 1, 40, 11, 50, 21, 46, 115, 121,
    115, 97, 100, 109, 105, 110, 99, 116, 108, 46, 69, 114, 97, 115, 101, 75, 101, 121, 72, 0,
    82, 5, 101, 114, 97, 115, 101, 18, 51, 10, 8, 114, 111, 108, 108, 98, 97, 99, 107, 24, 11,
    32, 1, 40, 11, 50, 21, 46, 115, 121, 115, 97, 100, 109, 105, 110, 99, 116, 108, 46, 82, 111,
    108, 108, 98, 97, 99, 107, 72, 0, 82, 8, 114, 111, 108, 108, 98, 97, 99, 107, 18, 42, 10, 5,
    114, 101, 115, 101, 116, 24, 12, 32, 1, 40, 11, 50, 18, 46, 115, 121, 115, 97, 100, 109,
    105, 110, 99, 116, 108, 46, 82, 101, 115, 101, 116, 72, 0, 82, 5, 114, 101, 115, 101, 116,
    18, 44, 10, 4, 100, 117, 109, 112, 24, 13, 32, 1, 40, 11, 50, 22, 46, 115, 121, 115, 97,
    100, 109, 105, 110, 99, 116, 108, 46, 68, 117, 109, 112, 72, 111, 111, 107, 115, 72, 0, 82,
    4, 100, 117, 109, 112, 18, 52, 10, 7, 116, 114, 105, 103, 103, 101, 114, 24, 14, 32, 1, 40,
    11, 50, 24, 46, 115, 121, 115, 97, 100, 109, 105, 110, 99, 116, 108, 46, 84, 114, 105, 103,
    103, 101, 114, 72, 111, 111, 107, 72, 0, 82, 7, 116, 114, 105, 103, 103, 101, 114, 18, 42,
    10, 5, 98, 108, 97, 109, 101, 24, 15, 32, 1, 40, 11, 50, 18, 46, 115, 121, 115, 97, 100,
    109, 105, 110, 99, 116, 108, 46, 66, 108, 97, 109, 101, 72, 0, 82, 5, 98, 108, 97, 109, 101,
    18, 51, 10, 8, 105, 110, 102, 108, 105, 103, 104, 116, 24, 16, 32, 1, 40, 11, 50, 21, 46,
    115, 121, 115, 97, 100, 109, 105, 110, 99, 116, 108, 46, 73, 110, 70, 108, 105, 103, 104,
    116, 72, 0, 82, 8, 105, 110, 102, 108, 105, 103, 104, 116, 18, 14, 10, 2, 105, 100, 24, 6,
    32, 2, 40, 13, 82, 2, 105, 100, 18, 16, 10, 3, 120, 105, 100, 24, 10, 32, 1, 40, 13, 82, 3,
    120, 105, 100, 66, 9, 10, 7, 112, 97, 121, 108, 111, 97, 100]"

definition data_MappedField :: bytes where [descriptor_data]:
  "data_MappedField = [
    34, 79, 10, 11, 77, 97, 112, 112, 101, 100, 70, 105, 101, 108, 100, 18, 16, 10, 3, 107, 101,
    121, 24, 1, 32, 2, 40, 9, 82, 3, 107, 101, 121, 18, 46, 10, 5, 118, 97, 108, 117, 101, 24,
    2, 32, 1, 40, 11, 50, 24, 46, 115, 121, 115, 97, 100, 109, 105, 110, 99, 116, 108, 46, 67,
    111, 110, 102, 105, 103, 86, 97, 108, 117, 101, 82, 5, 118, 97, 108, 117, 101]"

definition data_GetResponse :: bytes where [descriptor_data]:
  "data_GetResponse = [
    34, 57, 10, 11, 71, 101, 116, 82, 101, 115, 112, 111, 110, 115, 101, 18, 42, 10, 3, 107,
    118, 115, 24, 1, 32, 3, 40, 11, 50, 24, 46, 115, 121, 115, 97, 100, 109, 105, 110, 99, 116,
    108, 46, 77, 97, 112, 112, 101, 100, 70, 105, 101, 108, 100, 82, 3, 107, 118, 115]"

definition data_CommitResponse :: bytes where [descriptor_data]:
  "data_CommitResponse = [
    34, 45, 10, 14, 67, 111, 109, 109, 105, 116, 82, 101, 115, 112, 111, 110, 115, 101, 18, 27,
    10, 9, 99, 111, 109, 109, 105, 116, 95, 105, 100, 24, 1, 32, 2, 40, 13, 82, 8, 99, 111, 109,
    109, 105, 116, 73, 100]"

definition data_ResetResponse :: bytes where [descriptor_data]:
  "data_ResetResponse = [
    34, 44, 10, 13, 82, 101, 115, 101, 116, 82, 101, 115, 112, 111, 110, 115, 101, 18, 27, 10,
    9, 99, 111, 109, 109, 105, 116, 95, 105, 100, 24, 1, 32, 1, 40, 13, 82, 8, 99, 111, 109,
    109, 105, 116, 73, 100]"

definition data_DumpResponse :: bytes where [descriptor_data]:
  "data_DumpResponse = [
    34, 88, 10, 12, 68, 117, 109, 112, 82, 101, 115, 112, 111, 110, 115, 101, 18, 36, 10, 13,
    116, 101, 109, 112, 108, 97, 116, 101, 104, 111, 111, 107, 115, 24, 1, 32, 3, 40, 9, 82, 13,
    116, 101, 109, 112, 108, 97, 116, 101, 104, 111, 111, 107, 115, 18, 34, 10, 12, 115, 101,
    114, 118, 105, 99, 101, 104, 111, 111, 107, 115, 24, 2, 32, 3, 40, 9, 82, 12, 115, 101, 114,
    118, 105, 99, 101, 104, 111, 111, 107, 115]"

definition data_BlameEntry :: bytes where [descriptor_data]:
  "data_BlameEntry = [
    34, 118, 10, 10, 66, 108, 97, 109, 101, 69, 110, 116, 114, 121, 18, 27, 10, 9, 99, 111, 109,
    109, 105, 116, 95, 105, 100, 24, 1, 32, 2, 40, 13, 82, 8, 99, 111, 109, 109, 105, 116, 73,
    100, 18, 31, 10, 11, 99, 111, 109, 109, 105, 116, 95, 116, 105, 109, 101, 24, 2, 32, 2, 40,
    9, 82, 10, 99, 111, 109, 109, 105, 116, 84, 105, 109, 101, 18, 42, 10, 3, 118, 97, 108, 24,
    3, 32, 2, 40, 11, 50, 24, 46, 115, 121, 115, 97, 100, 109, 105, 110, 99, 116, 108, 46, 67,
    111, 110, 102, 105, 103, 86, 97, 108, 117, 101, 82, 3, 118, 97, 108]"

definition data_BlameResponse :: bytes where [descriptor_data]:
  "data_BlameResponse = [
    34, 84, 10, 13, 66, 108, 97, 109, 101, 82, 101, 115, 112, 111, 110, 115, 101, 18, 16, 10, 3,
    107, 101, 121, 24, 1, 32, 2, 40, 9, 82, 3, 107, 101, 121, 18, 49, 10, 7, 101, 110, 116, 114,
    105, 101, 115, 24, 2, 32, 3, 40, 11, 50, 23, 46, 115, 121, 115, 97, 100, 109, 105, 110, 99,
    116, 108, 46, 66, 108, 97, 109, 101, 69, 110, 116, 114, 121, 82, 7, 101, 110, 116, 114, 105,
    101, 115]"

definition data_InFlightResponse :: bytes where [descriptor_data]:
  "data_InFlightResponse = [
    34, 62, 10, 16, 73, 110, 70, 108, 105, 103, 104, 116, 82, 101, 115, 112, 111, 110, 115, 101,
    18, 42, 10, 3, 107, 118, 115, 24, 1, 32, 3, 40, 11, 50, 24, 46, 115, 121, 115, 97, 100, 109,
    105, 110, 99, 116, 108, 46, 77, 97, 112, 112, 101, 100, 70, 105, 101, 108, 100, 82, 3, 107,
    118, 115]"

definition data_Response :: bytes where [descriptor_data]:
  "data_Response = [
    34, 145, 3, 10, 8, 82, 101, 115, 112, 111, 110, 115, 101, 18, 44, 10, 3, 103, 101, 116, 24,
    1, 32, 1, 40, 11, 50, 24, 46, 115, 121, 115, 97, 100, 109, 105, 110, 99, 116, 108, 46, 71,
    101, 116, 82, 101, 115, 112, 111, 110, 115, 101, 72, 0, 82, 3, 103, 101, 116, 18, 53, 10, 6,
    99, 111, 109, 109, 105, 116, 24, 2, 32, 1, 40, 11, 50, 27, 46, 115, 121, 115, 97, 100, 109,
    105, 110, 99, 116, 108, 46, 67, 111, 109, 109, 105, 116, 82, 101, 115, 112, 111, 110, 115,
    101, 72, 0, 82, 6, 99, 111, 109, 109, 105, 116, 18, 50, 10, 5, 114, 101, 115, 101, 116, 24,
    3, 32, 1, 40, 11, 50, 26, 46, 115, 121, 115, 97, 100, 109, 105, 110, 99, 116, 108, 46, 82,
    101, 115, 101, 116, 82, 101, 115, 112, 111, 110, 115, 101, 72, 0, 82, 5, 114, 101, 115, 101,
    116, 18, 47, 10, 4, 100, 117, 109, 112, 24, 4, 32, 1, 40, 11, 50, 25, 46, 115, 121, 115, 97,
    100, 109, 105, 110, 99, 116, 108, 46, 68, 117, 109, 112, 82, 101, 115, 112, 111, 110, 115,
    101, 72, 0, 82, 4, 100, 117, 109, 112, 18, 50, 10, 5, 98, 108, 97, 109, 101, 24, 5, 32, 1,
    40, 11, 50, 26, 46, 115, 121, 115, 97, 100, 109, 105, 110, 99, 116, 108, 46, 66, 108, 97,
    109, 101, 82, 101, 115, 112, 111, 110, 115, 101, 72, 0, 82, 5, 98, 108, 97, 109, 101, 18,
    59, 10, 8, 105, 110, 102, 108, 105, 103, 104, 116, 24, 8, 32, 1, 40, 11, 50, 29, 46, 115,
    121, 115, 97, 100, 109, 105, 110, 99, 116, 108, 46, 73, 110, 70, 108, 105, 103, 104, 116,
    82, 101, 115, 112, 111, 110, 115, 101, 72, 0, 82, 8, 105, 110, 102, 108, 105, 103, 104, 116,
    18, 14, 10, 2, 105, 100, 24, 6, 32, 2, 40, 13, 82, 2, 105, 100, 18, 47, 10, 6, 115, 116, 97,
    116, 117, 115, 24, 7, 32, 2, 40, 14, 50, 23, 46, 115, 121, 115, 97, 100, 109, 105, 110, 99,
    116, 108, 46, 83, 116, 97, 116, 117, 115, 67, 111, 100, 101, 82, 6, 115, 116, 97, 116, 117,
    115, 66, 9, 10, 7, 112, 97, 121, 108, 111, 97, 100]"

definition data_CommitConfig :: bytes where [descriptor_data]:
  "data_CommitConfig = [
    42, 60, 10, 12, 67, 111, 109, 109, 105, 116, 67, 111, 110, 102, 105, 103, 18, 11, 10, 7, 68,
    69, 70, 65, 85, 76, 84, 16, 0, 18, 17, 10, 13, 84, 69, 77, 80, 76, 65, 84, 69, 95, 79, 78,
    76, 89, 16, 1, 18, 12, 10, 8, 78, 79, 95, 72, 79, 79, 75, 83, 16, 3]"

definition data_StatusCode :: bytes where [descriptor_data]:
  "data_StatusCode = [
    42, 138, 2, 10, 10, 83, 116, 97, 116, 117, 115, 67, 111, 100, 101, 18, 11, 10, 7, 83, 85,
    67, 67, 69, 83, 83, 16, 0, 18, 17, 10, 13, 85, 78, 75, 78, 79, 87, 78, 95, 69, 82, 82, 79,
    82, 16, 1, 18, 17, 10, 13, 84, 89, 80, 69, 95, 77, 73, 83, 77, 65, 84, 67, 72, 16, 2, 18,
    29, 10, 25, 67, 79, 77, 77, 65, 78, 68, 95, 84, 82, 65, 78, 83, 76, 65, 84, 73, 79, 78, 95,
    69, 82, 82, 79, 82, 16, 3, 18, 17, 10, 13, 75, 69, 89, 95, 78, 79, 84, 95, 70, 79, 85, 78,
    68, 16, 4, 18, 26, 10, 22, 69, 88, 84, 69, 82, 78, 65, 76, 95, 80, 82, 79, 67, 69, 83, 83,
    95, 69, 82, 82, 79, 82, 16, 5, 18, 15, 10, 11, 73, 78, 86, 65, 76, 73, 68, 95, 75, 69, 89,
    16, 6, 18, 19, 10, 15, 70, 65, 73, 76, 69, 68, 95, 82, 79, 76, 76, 66, 65, 67, 75, 16, 7,
    18, 16, 10, 12, 76, 79, 67, 75, 69, 68, 95, 81, 85, 69, 85, 69, 16, 8, 18, 18, 10, 14, 72,
    79, 79, 75, 95, 78, 79, 84, 95, 70, 79, 85, 78, 68, 16, 9, 18, 23, 10, 19, 83, 85, 67, 67,
    69, 83, 83, 95, 75, 69, 89, 95, 67, 82, 69, 65, 84, 69, 68, 16, 10, 18, 22, 10, 18, 77, 69,
    83, 83, 65, 71, 69, 95, 83, 73, 90, 69, 95, 69, 82, 82, 79, 82, 16, 11]"

definition file_descriptor_proto_data :: bytes where
  "file_descriptor_proto_data =
     concat
       [data_header, data_Int32List, data_BoolList, data_StringList, data_ConfigValue,
        data_Set, data_Get, data_Commit, data_Drop, data_FireHooks, data_Rollback,
        data_EraseKey, data_Reset, data_DumpHooks, data_TriggerHook, data_Blame, data_InFlight,
        data_Command, data_MappedField, data_GetResponse, data_CommitResponse,
        data_ResetResponse, data_DumpResponse, data_BlameEntry, data_BlameResponse,
        data_InFlightResponse, data_Response, data_CommitConfig, data_StatusCode]"

section \<open>The schema\<close>

named_theorems descriptors \<open>the descriptors of the schema\<close>

definition field_descriptor ::
    "string \<Rightarrow> u32 \<Rightarrow> FieldLabel \<Rightarrow> FieldType \<Rightarrow> string option \<Rightarrow> i32 option \<Rightarrow> string
      \<Rightarrow> FieldDescriptorProto" where [descriptors]:
  "field_descriptor name n l t type_name oneof json =
     \<lparr>fd_name = name, fd_number = n, fd_label = l, fd_type = t, fd_type_name = type_name,
      fd_oneof_index = oneof, fd_json_name = json\<rparr>"

definition message_descriptor ::
    "string \<Rightarrow> FieldDescriptorProto list \<Rightarrow> string list \<Rightarrow> DescriptorProto" where [descriptors]:
  "message_descriptor name fs oneofs =
     \<lparr>msgd_name = name, msgd_field = fs, msgd_oneof_decl = oneofs\<rparr>"

definition enum_value_descriptor :: "string \<Rightarrow> i32 \<Rightarrow> EnumValueDescriptorProto" where [descriptors]:
  "enum_value_descriptor name n = \<lparr>evd_name = name, evd_number = n\<rparr>"

definition enum_descriptor ::
    "string \<Rightarrow> EnumValueDescriptorProto list \<Rightarrow> EnumDescriptorProto" where [descriptors]:
  "enum_descriptor name vs = \<lparr>enumd_name = name, enumd_value = vs\<rparr>"

definition descriptor_Int32List :: DescriptorProto where [descriptors]:
  "descriptor_Int32List =
     message_descriptor ''Int32List''
       [field_descriptor ''list'' 1 LABEL_REPEATED TYPE_INT32 None None ''list''] []"

definition descriptor_BoolList :: DescriptorProto where [descriptors]:
  "descriptor_BoolList =
     message_descriptor ''BoolList''
       [field_descriptor ''list'' 1 LABEL_REPEATED TYPE_BOOL None None ''list''] []"

definition descriptor_StringList :: DescriptorProto where [descriptors]:
  "descriptor_StringList =
     message_descriptor ''StringList''
       [field_descriptor ''list'' 1 LABEL_REPEATED TYPE_STRING None None ''list''] []"

definition descriptor_ConfigValue :: DescriptorProto where [descriptors]:
  "descriptor_ConfigValue =
     message_descriptor ''ConfigValue''
       [field_descriptor ''int32val'' 1 LABEL_OPTIONAL TYPE_INT32 None (Some 0) ''int32val'',
        field_descriptor ''strval'' 2 LABEL_OPTIONAL TYPE_STRING None (Some 0) ''strval'',
        field_descriptor ''boolval'' 3 LABEL_OPTIONAL TYPE_BOOL None (Some 0) ''boolval'',
        field_descriptor ''int32list'' 4 LABEL_OPTIONAL TYPE_MESSAGE (Some ''.sysadminctl.Int32List'') (Some 0) ''int32list'',
        field_descriptor ''boollist'' 5 LABEL_OPTIONAL TYPE_MESSAGE (Some ''.sysadminctl.BoolList'') (Some 0) ''boollist'',
        field_descriptor ''stringlist'' 6 LABEL_OPTIONAL TYPE_MESSAGE (Some ''.sysadminctl.StringList'') (Some 0) ''stringlist''] [''value'']"

definition descriptor_Set :: DescriptorProto where [descriptors]:
  "descriptor_Set =
     message_descriptor ''Set''
       [field_descriptor ''key'' 1 LABEL_REQUIRED TYPE_STRING None None ''key'',
        field_descriptor ''value'' 2 LABEL_REQUIRED TYPE_MESSAGE (Some ''.sysadminctl.ConfigValue'') None ''value''] []"

definition descriptor_Get :: DescriptorProto where [descriptors]:
  "descriptor_Get =
     message_descriptor ''Get''
       [field_descriptor ''key'' 1 LABEL_REQUIRED TYPE_STRING None None ''key''] []"

definition descriptor_Commit :: DescriptorProto where [descriptors]:
  "descriptor_Commit =
     message_descriptor ''Commit''
       [field_descriptor ''config'' 1 LABEL_OPTIONAL TYPE_ENUM (Some ''.sysadminctl.CommitConfig'') None ''config''] []"

definition descriptor_Drop :: DescriptorProto where [descriptors]:
  "descriptor_Drop =
     message_descriptor ''Drop''
       [] []"

definition descriptor_FireHooks :: DescriptorProto where [descriptors]:
  "descriptor_FireHooks =
     message_descriptor ''FireHooks''
       [] []"

definition descriptor_Rollback :: DescriptorProto where [descriptors]:
  "descriptor_Rollback =
     message_descriptor ''Rollback''
       [field_descriptor ''id'' 1 LABEL_REQUIRED TYPE_UINT32 None None ''id''] []"

definition descriptor_EraseKey :: DescriptorProto where [descriptors]:
  "descriptor_EraseKey =
     message_descriptor ''EraseKey''
       [field_descriptor ''key'' 1 LABEL_REQUIRED TYPE_STRING None None ''key''] []"

definition descriptor_Reset :: DescriptorProto where [descriptors]:
  "descriptor_Reset =
     message_descriptor ''Reset''
       [] []"

definition descriptor_DumpHooks :: DescriptorProto where [descriptors]:
  "descriptor_DumpHooks =
     message_descriptor ''DumpHooks''
       [] []"

definition descriptor_TriggerHook :: DescriptorProto where [descriptors]:
  "descriptor_TriggerHook =
     message_descriptor ''TriggerHook''
       [field_descriptor ''hook'' 1 LABEL_REQUIRED TYPE_STRING None None ''hook''] []"

definition descriptor_Blame :: DescriptorProto where [descriptors]:
  "descriptor_Blame =
     message_descriptor ''Blame''
       [field_descriptor ''key'' 1 LABEL_REQUIRED TYPE_STRING None None ''key''] []"

definition descriptor_InFlight :: DescriptorProto where [descriptors]:
  "descriptor_InFlight =
     message_descriptor ''InFlight''
       [] []"

definition descriptor_Command :: DescriptorProto where [descriptors]:
  "descriptor_Command =
     message_descriptor ''Command''
       [field_descriptor ''set'' 1 LABEL_OPTIONAL TYPE_MESSAGE (Some ''.sysadminctl.Set'') (Some 0) ''set'',
        field_descriptor ''get'' 2 LABEL_OPTIONAL TYPE_MESSAGE (Some ''.sysadminctl.Get'') (Some 0) ''get'',
        field_descriptor ''commit'' 3 LABEL_OPTIONAL TYPE_MESSAGE (Some ''.sysadminctl.Commit'') (Some 0) ''commit'',
        field_descriptor ''drop'' 4 LABEL_OPTIONAL TYPE_MESSAGE (Some ''.sysadminctl.Drop'') (Some 0) ''drop'',
        field_descriptor ''firehooks'' 7 LABEL_OPTIONAL TYPE_MESSAGE (Some ''.sysadminctl.FireHooks'') (Some 0) ''firehooks'',
        field_descriptor ''erase'' 8 LABEL_OPTIONAL TYPE_MESSAGE (Some ''.sysadminctl.EraseKey'') (Some 0) ''erase'',
        field_descriptor ''rollback'' 11 LABEL_OPTIONAL TYPE_MESSAGE (Some ''.sysadminctl.Rollback'') (Some 0) ''rollback'',
        field_descriptor ''reset'' 12 LABEL_OPTIONAL TYPE_MESSAGE (Some ''.sysadminctl.Reset'') (Some 0) ''reset'',
        field_descriptor ''dump'' 13 LABEL_OPTIONAL TYPE_MESSAGE (Some ''.sysadminctl.DumpHooks'') (Some 0) ''dump'',
        field_descriptor ''trigger'' 14 LABEL_OPTIONAL TYPE_MESSAGE (Some ''.sysadminctl.TriggerHook'') (Some 0) ''trigger'',
        field_descriptor ''blame'' 15 LABEL_OPTIONAL TYPE_MESSAGE (Some ''.sysadminctl.Blame'') (Some 0) ''blame'',
        field_descriptor ''inflight'' 16 LABEL_OPTIONAL TYPE_MESSAGE (Some ''.sysadminctl.InFlight'') (Some 0) ''inflight'',
        field_descriptor ''id'' 6 LABEL_REQUIRED TYPE_UINT32 None None ''id'',
        field_descriptor ''xid'' 10 LABEL_OPTIONAL TYPE_UINT32 None None ''xid''] [''payload'']"

definition descriptor_MappedField :: DescriptorProto where [descriptors]:
  "descriptor_MappedField =
     message_descriptor ''MappedField''
       [field_descriptor ''key'' 1 LABEL_REQUIRED TYPE_STRING None None ''key'',
        field_descriptor ''value'' 2 LABEL_OPTIONAL TYPE_MESSAGE (Some ''.sysadminctl.ConfigValue'') None ''value''] []"

definition descriptor_GetResponse :: DescriptorProto where [descriptors]:
  "descriptor_GetResponse =
     message_descriptor ''GetResponse''
       [field_descriptor ''kvs'' 1 LABEL_REPEATED TYPE_MESSAGE (Some ''.sysadminctl.MappedField'') None ''kvs''] []"

definition descriptor_CommitResponse :: DescriptorProto where [descriptors]:
  "descriptor_CommitResponse =
     message_descriptor ''CommitResponse''
       [field_descriptor ''commit_id'' 1 LABEL_REQUIRED TYPE_UINT32 None None ''commitId''] []"

definition descriptor_ResetResponse :: DescriptorProto where [descriptors]:
  "descriptor_ResetResponse =
     message_descriptor ''ResetResponse''
       [field_descriptor ''commit_id'' 1 LABEL_OPTIONAL TYPE_UINT32 None None ''commitId''] []"

definition descriptor_DumpResponse :: DescriptorProto where [descriptors]:
  "descriptor_DumpResponse =
     message_descriptor ''DumpResponse''
       [field_descriptor ''templatehooks'' 1 LABEL_REPEATED TYPE_STRING None None ''templatehooks'',
        field_descriptor ''servicehooks'' 2 LABEL_REPEATED TYPE_STRING None None ''servicehooks''] []"

definition descriptor_BlameEntry :: DescriptorProto where [descriptors]:
  "descriptor_BlameEntry =
     message_descriptor ''BlameEntry''
       [field_descriptor ''commit_id'' 1 LABEL_REQUIRED TYPE_UINT32 None None ''commitId'',
        field_descriptor ''commit_time'' 2 LABEL_REQUIRED TYPE_STRING None None ''commitTime'',
        field_descriptor ''val'' 3 LABEL_REQUIRED TYPE_MESSAGE (Some ''.sysadminctl.ConfigValue'') None ''val''] []"

definition descriptor_BlameResponse :: DescriptorProto where [descriptors]:
  "descriptor_BlameResponse =
     message_descriptor ''BlameResponse''
       [field_descriptor ''key'' 1 LABEL_REQUIRED TYPE_STRING None None ''key'',
        field_descriptor ''entries'' 2 LABEL_REPEATED TYPE_MESSAGE (Some ''.sysadminctl.BlameEntry'') None ''entries''] []"

definition descriptor_InFlightResponse :: DescriptorProto where [descriptors]:
  "descriptor_InFlightResponse =
     message_descriptor ''InFlightResponse''
       [field_descriptor ''kvs'' 1 LABEL_REPEATED TYPE_MESSAGE (Some ''.sysadminctl.MappedField'') None ''kvs''] []"

definition descriptor_Response :: DescriptorProto where [descriptors]:
  "descriptor_Response =
     message_descriptor ''Response''
       [field_descriptor ''get'' 1 LABEL_OPTIONAL TYPE_MESSAGE (Some ''.sysadminctl.GetResponse'') (Some 0) ''get'',
        field_descriptor ''commit'' 2 LABEL_OPTIONAL TYPE_MESSAGE (Some ''.sysadminctl.CommitResponse'') (Some 0) ''commit'',
        field_descriptor ''reset'' 3 LABEL_OPTIONAL TYPE_MESSAGE (Some ''.sysadminctl.ResetResponse'') (Some 0) ''reset'',
        field_descriptor ''dump'' 4 LABEL_OPTIONAL TYPE_MESSAGE (Some ''.sysadminctl.DumpResponse'') (Some 0) ''dump'',
        field_descriptor ''blame'' 5 LABEL_OPTIONAL TYPE_MESSAGE (Some ''.sysadminctl.BlameResponse'') (Some 0) ''blame'',
        field_descriptor ''inflight'' 8 LABEL_OPTIONAL TYPE_MESSAGE (Some ''.sysadminctl.InFlightResponse'') (Some 0) ''inflight'',
        field_descriptor ''id'' 6 LABEL_REQUIRED TYPE_UINT32 None None ''id'',
        field_descriptor ''status'' 7 LABEL_REQUIRED TYPE_ENUM (Some ''.sysadminctl.StatusCode'') None ''status''] [''payload'']"

definition descriptor_CommitConfig :: EnumDescriptorProto where [descriptors]:
  "descriptor_CommitConfig =
     enum_descriptor ''CommitConfig''
       [enum_value_descriptor ''DEFAULT'' 0,
        enum_value_descriptor ''TEMPLATE_ONLY'' 1,
        enum_value_descriptor ''NO_HOOKS'' 3]"

definition descriptor_StatusCode :: EnumDescriptorProto where [descriptors]:
  "descriptor_StatusCode =
     enum_descriptor ''StatusCode''
       [enum_value_descriptor ''SUCCESS'' 0,
        enum_value_descriptor ''UNKNOWN_ERROR'' 1,
        enum_value_descriptor ''TYPE_MISMATCH'' 2,
        enum_value_descriptor ''COMMAND_TRANSLATION_ERROR'' 3,
        enum_value_descriptor ''KEY_NOT_FOUND'' 4,
        enum_value_descriptor ''EXTERNAL_PROCESS_ERROR'' 5,
        enum_value_descriptor ''INVALID_KEY'' 6,
        enum_value_descriptor ''FAILED_ROLLBACK'' 7,
        enum_value_descriptor ''LOCKED_QUEUE'' 8,
        enum_value_descriptor ''HOOK_NOT_FOUND'' 9,
        enum_value_descriptor ''SUCCESS_KEY_CREATED'' 10,
        enum_value_descriptor ''MESSAGE_SIZE_ERROR'' 11]"

definition sysadminctl_file :: FileDescriptorProto where
  "sysadminctl_file =
     \<lparr>filed_name = ''sysadminctl.proto'', filed_package = ''sysadminctl'',
      filed_message_type =
       [descriptor_Int32List, descriptor_BoolList, descriptor_StringList,
        descriptor_ConfigValue, descriptor_Set, descriptor_Get, descriptor_Commit,
        descriptor_Drop, descriptor_FireHooks, descriptor_Rollback, descriptor_EraseKey,
        descriptor_Reset, descriptor_DumpHooks, descriptor_TriggerHook, descriptor_Blame,
        descriptor_InFlight, descriptor_Command, descriptor_MappedField,
        descriptor_GetResponse, descriptor_CommitResponse, descriptor_ResetResponse,
        descriptor_DumpResponse, descriptor_BlameEntry, descriptor_BlameResponse,
        descriptor_InFlightResponse, descriptor_Response],
      filed_enum_type =
       [descriptor_CommitConfig, descriptor_StatusCode]\<rparr>"

section \<open>The bytes are the encoding of the schema\<close>

lemmas wire_eval = enc_string_def enc_int32_def enc_message_def delimited_def wire_tag_def
  int32_varint_def string_bytes_def varint.simps

lemmas descriptor_eval = descriptor_wire_def field_wire_def enum_wire_def enum_value_wire_def
  descriptors descriptor_data wire_eval

lemma header_data: "enc_string 1 ''sysadminctl.proto'' @ enc_string 2 ''sysadminctl'' = data_header"
  by (simp add: descriptor_eval)

lemma Int32List_data:
  "enc_message 4 (descriptor_wire descriptor_Int32List) = data_Int32List"
  by (simp add: descriptor_eval)

lemma BoolList_data:
  "enc_message 4 (descriptor_wire descriptor_BoolList) = data_BoolList"
  by (simp add: descriptor_eval)

lemma StringList_data:
  "enc_message 4 (descriptor_wire descriptor_StringList) = data_StringList"
  by (simp add: descriptor_eval)

lemma ConfigValue_data:
  "enc_message 4 (descriptor_wire descriptor_ConfigValue) = data_ConfigValue"
  by (simp add: descriptor_eval)

lemma Set_data:
  "enc_message 4 (descriptor_wire descriptor_Set) = data_Set"
  by (simp add: descriptor_eval)

lemma Get_data:
  "enc_message 4 (descriptor_wire descriptor_Get) = data_Get"
  by (simp add: descriptor_eval)

lemma Commit_data:
  "enc_message 4 (descriptor_wire descriptor_Commit) = data_Commit"
  by (simp add: descriptor_eval)

lemma Drop_data:
  "enc_message 4 (descriptor_wire descriptor_Drop) = data_Drop"
  by (simp add: descriptor_eval)

lemma FireHooks_data:
  "enc_message 4 (descriptor_wire descriptor_FireHooks) = data_FireHooks"
  by (simp add: descriptor_eval)

lemma Rollback_data:
  "enc_message 4 (descriptor_wire descriptor_Rollback) = data_Rollback"
  by (simp add: descriptor_eval)

lemma EraseKey_data:
  "enc_message 4 (descriptor_wire descriptor_EraseKey) = data_EraseKey"
  by (simp add: descriptor_eval)

lemma Reset_data:
  "enc_message 4 (descriptor_wire descriptor_Reset) = data_Reset"
  by (simp add: descriptor_eval)

lemma DumpHooks_data:
  "enc_message 4 (descriptor_wire descriptor_DumpHooks) = data_DumpHooks"
  by (simp add: descriptor_eval)

lemma TriggerHook_data:
  "enc_message 4 (descriptor_wire descriptor_TriggerHook) = data_TriggerHook"
  by (simp add: descriptor_eval)

lemma Blame_data:
  "enc_message 4 (descriptor_wire descriptor_Blame) = data_Blame"
  by (simp add: descriptor_eval)

lemma InFlight_data:
  "enc_message 4 (descriptor_wire descriptor_InFlight) = data_InFlight"
  by (simp add: descriptor_eval)

lemma Command_data:
  "enc_message 4 (descriptor_wire descriptor_Command) = data_Command"
  by (simp add: descriptor_eval)

lemma MappedField_data:
  "enc_message 4 (descriptor_wire descriptor_MappedField) = data_MappedField"
  by (simp add: descriptor_eval)

lemma GetResponse_data:
  "enc_message 4 (descriptor_wire descriptor_GetResponse) = data_GetResponse"
  by (simp add: descriptor_eval)

lemma CommitResponse_data:
  "enc_message 4 (descriptor_wire descriptor_CommitResponse) = data_CommitResponse"
  by (simp add: descriptor_eval)

lemma ResetResponse_data:
  "enc_message 4 (descriptor_wire descriptor_ResetResponse) = data_ResetResponse"
  by (simp add: descriptor_eval)

lemma DumpResponse_data:
  "enc_message 4 (descriptor_wire descriptor_DumpResponse) = data_DumpResponse"
  by (simp add: descriptor_eval)

lemma BlameEntry_data:
  "enc_message 4 (descriptor_wire descriptor_BlameEntry) = data_BlameEntry"
  by (simp add: descriptor_eval)

lemma BlameResponse_data:
  "enc_message 4 (descriptor_wire descriptor_BlameResponse) = data_BlameResponse"
  by (simp add: descriptor_eval)

lemma InFlightResponse_data:
  "enc_message 4 (descriptor_wire descriptor_InFlightResponse) = data_InFlightResponse"
  by (simp add: descriptor_eval)

lemma Response_data:
  "enc_message 4 (descriptor_wire descriptor_Response) = data_Response"
  by (simp add: descriptor_eval)

lemma CommitConfig_data:
  "enc_message 5 (enum_wire descriptor_CommitConfig) = data_CommitConfig"
  by (simp add: descriptor_eval)

lemma StatusCode_data:
  "enc_message 5 (enum_wire descriptor_StatusCode) = data_StatusCode"
  by (simp add: descriptor_eval)

lemmas pieces_data =
  header_data Int32List_data BoolList_data StringList_data ConfigValue_data Set_data
  Get_data Commit_data Drop_data FireHooks_data Rollback_data EraseKey_data Reset_data
  DumpHooks_data TriggerHook_data Blame_data InFlight_data Command_data MappedField_data
  GetResponse_data CommitResponse_data ResetResponse_data DumpResponse_data
  BlameEntry_data BlameResponse_data InFlightResponse_data Response_data CommitConfig_data
  StatusCode_data

lemma file_descriptor_is_the_schema: "file_wire sysadminctl_file = file_descriptor_proto_data"
  by (simp add: file_wire_def sysadminctl_file_def file_descriptor_proto_data_def pieces_data
      flip: append_assoc)

end
