(* ===== verification/Reflect.thy ===== *)
theory Reflect
  imports Descriptor Ctl_Commands Ctl_Responses
begin

text \<open>
  The reflection interface of the generated code (\<open>clients/rust/src/sysadminctl.rs\<close>): type-erased
  messages, the field accessors a message registers in its descriptor, and the two enums.

  \<open>dyn\<close> is a message behind \<open>&Message\<close>, \<open>&Any\<close> or \<open>Box<Any>\<close>: one constructor per message type
  of the module.  A field accessor is what the call that makes it passes to the runtime: the name
  of the field and the functions of the message type that read and change it.  The runtime's
  constructors are held once per type the code uses them at; their names are the runtime's, with
  the type of the field appended.  A \<open>MessageDescriptor\<close> is made of the name of the Rust type, the
  accessors and the file descriptor.  What is computed once and kept (\<open>Lazy\<close>) is its value here.
\<close>

section \<open>Type-erased messages\<close>

datatype dyn =
    Dyn_Int32List ctl_Int32List
  | Dyn_BoolList ctl_BoolList
  | Dyn_StringList ctl_StringList
  | Dyn_ConfigValue ctl_ConfigValue
  | Dyn_Set ctl_Set
  | Dyn_Get ctl_Get
  | Dyn_Commit ctl_Commit
  | Dyn_Drop ctl_Drop
  | Dyn_FireHooks ctl_FireHooks
  | Dyn_Rollback ctl_Rollback
  | Dyn_EraseKey ctl_EraseKey
  | Dyn_Reset ctl_Reset
  | Dyn_DumpHooks ctl_DumpHooks
  | Dyn_TriggerHook ctl_TriggerHook
  | Dyn_Blame ctl_Blame
  | Dyn_InFlight ctl_InFlight
  | Dyn_Command ctl_Command
  | Dyn_MappedField ctl_MappedField
  | Dyn_GetResponse ctl_GetResponse
  | Dyn_CommitResponse ctl_CommitResponse
  | Dyn_ResetResponse ctl_ResetResponse
  | Dyn_DumpResponse ctl_DumpResponse
  | Dyn_BlameEntry ctl_BlameEntry
  | Dyn_BlameResponse ctl_BlameResponse
  | Dyn_InFlightResponse ctl_InFlightResponse
  | Dyn_Response ctl_Response

text \<open>A reference to a value of a field, as the runtime hands it out.\<close>

datatype ProtobufValueRef =
    RefU32 u32
  | RefI32 i32
  | RefBool bool
  | RefString string
  | RefEnum EnumValueDescriptorProto
  | RefMessage dyn

text \<open>\<open>protobuf::text_format::fmt\<close>, a parameter: a message and the formatter's text so far.\<close>

type_synonym text_format = "dyn \<Rightarrow> string \<Rightarrow> unit + string"

section \<open>Accessors and descriptors\<close>

type_synonym ('m, 'a) getter = "'m \<Rightarrow> 'a"
type_synonym ('m, 'a) mutter = "'m \<Rightarrow> ('a \<Rightarrow> 'a) \<Rightarrow> 'm"

datatype 'm FieldAccessor =
    make_vec_accessor_int32 string "('m, i32 list) getter" "('m, i32 list) mutter"
  | make_vec_accessor_bool string "('m, bool list) getter" "('m, bool list) mutter"
  | make_repeated_field_accessor_string string "('m, string list) getter" "('m, string list) mutter"
  | make_repeated_field_accessor_MappedField string
      "('m, ctl_MappedField list) getter" "('m, ctl_MappedField list) mutter"
  | make_repeated_field_accessor_BlameEntry string
      "('m, ctl_BlameEntry list) getter" "('m, ctl_BlameEntry list) mutter"
  | make_singular_field_accessor_string string
      "('m, string option) getter" "('m, string option) mutter"
  | make_singular_ptr_field_accessor_ConfigValue string
      "('m, ctl_ConfigValue option) getter" "('m, ctl_ConfigValue option) mutter"
  | make_option_accessor_uint32 string "('m, u32 option) getter" "('m, u32 option) mutter"
  | make_option_accessor_CommitConfig string
      "('m, ctl_CommitConfig option) getter" "('m, ctl_CommitConfig option) mutter"
  | make_option_accessor_StatusCode string
      "('m, ctl_StatusCode option) getter" "('m, ctl_StatusCode option) mutter"
  | make_singular_i32_accessor string "'m \<Rightarrow> bool" "'m \<Rightarrow> i32"
  | make_singular_bool_accessor string "'m \<Rightarrow> bool" "'m \<Rightarrow> bool"
  | make_singular_string_accessor string "'m \<Rightarrow> bool" "'m \<Rightarrow> string"
  | make_singular_message_accessor string "'m \<Rightarrow> bool" "'m \<Rightarrow> dyn"

record 'm MessageDescriptor =
  md_rust_name :: string
  md_fields :: "'m FieldAccessor list"
  md_file :: FileDescriptorProto

record EnumDescriptor =
  ed_rust_name :: string
  ed_file :: FileDescriptorProto

text \<open>
  The runtime: the parser of file descriptors and \<open>EnumDescriptor::value_by_number\<close>, which the
  provided method \<open>ProtobufEnum::descriptor\<close> calls with the number of the value.
\<close>

record descriptor_rt =
  rf_parse_from_bytes :: "bytes \<Rightarrow> ProtobufError + FileDescriptorProto"
  rf_value_by_number :: "EnumDescriptor \<Rightarrow> i32 \<Rightarrow> EnumValueDescriptorProto"

section \<open>The embedded file descriptor\<close>

definition parse_descriptor_proto :: "descriptor_rt \<Rightarrow> panic + FileDescriptorProto" where
  "parse_descriptor_proto R =
     (case rf_parse_from_bytes R file_descriptor_proto_data of
        Inl e \<Rightarrow> Inl (Panicked ''unwrap on Err'')
      | Inr file \<Rightarrow> Inr file)"

definition file_descriptor_proto :: "descriptor_rt \<Rightarrow> panic + FileDescriptorProto" where
  "file_descriptor_proto R = parse_descriptor_proto R"

section \<open>The enums\<close>

named_theorems reflect \<open>the reflection interface of the messages\<close>

definition ctl_CommitConfig_enum_descriptor_static :: "descriptor_rt \<Rightarrow> panic + EnumDescriptor" where
  "ctl_CommitConfig_enum_descriptor_static R =
     and_then (file_descriptor_proto R) (\<lambda>file.
       Inr \<lparr>ed_rust_name = ''CommitConfig'', ed_file = file\<rparr>)"

definition ctl_CommitConfig_as_ref ::
    "descriptor_rt \<Rightarrow> ctl_CommitConfig \<Rightarrow> panic + ProtobufValueRef" where
  "ctl_CommitConfig_as_ref R v =
     and_then (ctl_CommitConfig_enum_descriptor_static R) (\<lambda>d.
       Inr (RefEnum (rf_value_by_number R d (ctl_CommitConfig_value v))))"

definition ctl_StatusCode_enum_descriptor_static :: "descriptor_rt \<Rightarrow> panic + EnumDescriptor" where
  "ctl_StatusCode_enum_descriptor_static R =
     and_then (file_descriptor_proto R) (\<lambda>file.
       Inr \<lparr>ed_rust_name = ''StatusCode'', ed_file = file\<rparr>)"

definition ctl_StatusCode_as_ref ::
    "descriptor_rt \<Rightarrow> ctl_StatusCode \<Rightarrow> panic + ProtobufValueRef" where
  "ctl_StatusCode_as_ref R v =
     and_then (ctl_StatusCode_enum_descriptor_static R) (\<lambda>d.
       Inr (RefEnum (rf_value_by_number R d (ctl_StatusCode_value v))))"

section \<open>Reading a field through its accessor\<close>

text \<open>
  The contract of an accessor: the name of its field, and the values the field holds, none or one
  for a singular field (absent or present), all of them in order for a repeated one.
\<close>

primrec accessor_name :: "'m FieldAccessor \<Rightarrow> string" where
  "accessor_name (make_vec_accessor_int32 name g u) = name"
| "accessor_name (make_vec_accessor_bool name g u) = name"
| "accessor_name (make_repeated_field_accessor_string name g u) = name"
| "accessor_name (make_repeated_field_accessor_MappedField name g u) = name"
| "accessor_name (make_repeated_field_accessor_BlameEntry name g u) = name"
| "accessor_name (make_singular_field_accessor_string name g u) = name"
| "accessor_name (make_singular_ptr_field_accessor_ConfigValue name g u) = name"
| "accessor_name (make_option_accessor_uint32 name g u) = name"
| "accessor_name (make_option_accessor_CommitConfig name g u) = name"
| "accessor_name (make_option_accessor_StatusCode name g u) = name"
| "accessor_name (make_singular_i32_accessor name g u) = name"
| "accessor_name (make_singular_bool_accessor name g u) = name"
| "accessor_name (make_singular_string_accessor name g u) = name"
| "accessor_name (make_singular_message_accessor name g u) = name"

definition present :: "('a \<Rightarrow> ProtobufValueRef) \<Rightarrow> 'a option \<Rightarrow> panic + ProtobufValueRef list" where
  "present r x = Inr (case x of None \<Rightarrow> [] | Some v \<Rightarrow> [r v])"

lemma present_simps [simp]: "present r None = Inr []" "present r (Some v) = Inr [r v]"
  by (simp_all add: present_def)

primrec accessor_read ::
    "descriptor_rt \<Rightarrow> 'm FieldAccessor \<Rightarrow> 'm \<Rightarrow> panic + ProtobufValueRef list" where
  "accessor_read R (make_vec_accessor_int32 name g u) m = Inr (map RefI32 (g m))"
| "accessor_read R (make_vec_accessor_bool name g u) m = Inr (map RefBool (g m))"
| "accessor_read R (make_repeated_field_accessor_string name g u) m = Inr (map RefString (g m))"
| "accessor_read R (make_repeated_field_accessor_MappedField name g u) m =
     Inr (map (\<lambda>v. RefMessage (Dyn_MappedField v)) (g m))"
| "accessor_read R (make_repeated_field_accessor_BlameEntry name g u) m =
     Inr (map (\<lambda>v. RefMessage (Dyn_BlameEntry v)) (g m))"
| "accessor_read R (make_singular_field_accessor_string name g u) m = present RefString (g m)"
| "accessor_read R (make_singular_ptr_field_accessor_ConfigValue name g u) m =
     present (\<lambda>v. RefMessage (Dyn_ConfigValue v)) (g m)"
| "accessor_read R (make_option_accessor_uint32 name g u) m = present RefU32 (g m)"
| "accessor_read R (make_option_accessor_CommitConfig name g u) m =
     (case g m of None \<Rightarrow> Inr [] | Some v \<Rightarrow> map_result (ctl_CommitConfig_as_ref R) [v])"
| "accessor_read R (make_option_accessor_StatusCode name g u) m =
     (case g m of None \<Rightarrow> Inr [] | Some v \<Rightarrow> map_result (ctl_StatusCode_as_ref R) [v])"
| "accessor_read R (make_singular_i32_accessor name h g) m = Inr (if h m then [RefI32 (g m)] else [])"
| "accessor_read R (make_singular_bool_accessor name h g) m =
     Inr (if h m then [RefBool (g m)] else [])"
| "accessor_read R (make_singular_string_accessor name h g) m =
     Inr (if h m then [RefString (g m)] else [])"
| "accessor_read R (make_singular_message_accessor name h g) m =
     Inr (if h m then [RefMessage (g m)] else [])"

end
