(* ===== verification/Reflect_Values.thy ===== *)
theory Reflect_Values
  imports Reflect
begin

text \<open>
  Reflection of the value messages (\<open>clients/rust/src/sysadminctl.rs\<close>): the accessors for
  reflection, the conversions to \<open>Any\<close>, the descriptor each type registers, \<open>Debug\<close> and
  \<open>ProtobufValue\<close>.  A method that returns a mutable reference takes the update made through it;
  through \<open>&mut Any\<close> a value can be changed but not its type.  \<open>descriptor_static\<close> panics when the
  embedded file descriptor does not parse.
\<close>

subsection \<open>Int32List\<close>

definition ctl_Int32List_get_list_for_reflect :: "ctl_Int32List \<Rightarrow> i32 list" where [reflect]:
  "ctl_Int32List_get_list_for_reflect m = ctl_Int32List_list m"

definition ctl_Int32List_mut_list_for_reflect ::
    "ctl_Int32List \<Rightarrow> (i32 list \<Rightarrow> i32 list) \<Rightarrow> ctl_Int32List" where [reflect]:
  "ctl_Int32List_mut_list_for_reflect m upd = m\<lparr>ctl_Int32List_list := upd (ctl_Int32List_list m)\<rparr>"

definition ctl_Int32List_mut_unknown_fields ::
    "ctl_Int32List \<Rightarrow> (UnknownFields \<Rightarrow> UnknownFields) \<Rightarrow> ctl_Int32List" where [reflect]:
  "ctl_Int32List_mut_unknown_fields m upd =
     m\<lparr>ctl_Int32List_unknown_fields := upd (ctl_Int32List_unknown_fields m)\<rparr>"

definition ctl_Int32List_as_any :: "ctl_Int32List \<Rightarrow> dyn" where [reflect]:
  "ctl_Int32List_as_any m = Dyn_Int32List m"

definition ctl_Int32List_as_any_mut :: "ctl_Int32List \<Rightarrow> (dyn \<Rightarrow> dyn) \<Rightarrow> ctl_Int32List"
    where [reflect]:
  "ctl_Int32List_as_any_mut m upd = (case upd (Dyn_Int32List m) of Dyn_Int32List m' \<Rightarrow> m' | _ \<Rightarrow> m)"

definition ctl_Int32List_into_any :: "ctl_Int32List \<Rightarrow> dyn" where [reflect]:
  "ctl_Int32List_into_any m = Dyn_Int32List m"

definition ctl_Int32List_static_new :: "ctl_Int32List" where [reflect]:
  "ctl_Int32List_static_new = ctl_Int32List_new"

definition ctl_Int32List_descriptor_static ::
    "descriptor_rt \<Rightarrow> panic + ctl_Int32List MessageDescriptor" where [reflect]:
  "ctl_Int32List_descriptor_static R =
     (let fields =
           [make_vec_accessor_int32 ''list''
              ctl_Int32List_get_list_for_reflect ctl_Int32List_mut_list_for_reflect]
      in and_then (file_descriptor_proto R) (\<lambda>file.
           Inr \<lparr>md_rust_name = ''Int32List'', md_fields = fields, md_file = file\<rparr>))"

definition ctl_Int32List_descriptor ::
    "descriptor_rt \<Rightarrow> ctl_Int32List \<Rightarrow> panic + ctl_Int32List MessageDescriptor" where [reflect]:
  "ctl_Int32List_descriptor R m = ctl_Int32List_descriptor_static R"

definition ctl_Int32List_fmt :: "text_format \<Rightarrow> ctl_Int32List \<Rightarrow> string \<Rightarrow> unit + string"
    where [reflect]:
  "ctl_Int32List_fmt text_format_fmt m f = text_format_fmt (Dyn_Int32List m) f"

definition ctl_Int32List_as_ref :: "ctl_Int32List \<Rightarrow> ProtobufValueRef" where [reflect]:
  "ctl_Int32List_as_ref m = RefMessage (Dyn_Int32List m)"

subsection \<open>BoolList\<close>

definition ctl_BoolList_get_list_for_reflect :: "ctl_BoolList \<Rightarrow> bool list" where [reflect]:
  "ctl_BoolList_get_list_for_reflect m = ctl_BoolList_list m"

definition ctl_BoolList_mut_list_for_reflect ::
    "ctl_BoolList \<Rightarrow> (bool list \<Rightarrow> bool list) \<Rightarrow> ctl_BoolList" where [reflect]:
  "ctl_BoolList_mut_list_for_reflect m upd = m\<lparr>ctl_BoolList_list := upd (ctl_BoolList_list m)\<rparr>"

definition ctl_BoolList_mut_unknown_fields ::
    "ctl_BoolList \<Rightarrow> (UnknownFields \<Rightarrow> UnknownFields) \<Rightarrow> ctl_BoolList" where [reflect]:
  "ctl_BoolList_mut_unknown_fields m upd =
     m\<lparr>ctl_BoolList_unknown_fields := upd (ctl_BoolList_unknown_fields m)\<rparr>"

definition ctl_BoolList_as_any :: "ctl_BoolList \<Rightarrow> dyn" where [reflect]:
  "ctl_BoolList_as_any m = Dyn_BoolList m"

definition ctl_BoolList_as_any_mut :: "ctl_BoolList \<Rightarrow> (dyn \<Rightarrow> dyn) \<Rightarrow> ctl_BoolList" where [reflect]:
  "ctl_BoolList_as_any_mut m upd = (case upd (Dyn_BoolList m) of Dyn_BoolList m' \<Rightarrow> m' | _ \<Rightarrow> m)"

definition ctl_BoolList_into_any :: "ctl_BoolList \<Rightarrow> dyn" where [reflect]:
  "ctl_BoolList_into_any m = Dyn_BoolList m"

definition ctl_BoolList_static_new :: "ctl_BoolList" where [reflect]:
  "ctl_BoolList_static_new = ctl_BoolList_new"

definition ctl_BoolList_descriptor_static ::
    "descriptor_rt \<Rightarrow> panic + ctl_BoolList MessageDescriptor" where [reflect]:
  "ctl_BoolList_descriptor_static R =
     (let fields =
           [make_vec_accessor_bool ''list''
              ctl_BoolList_get_list_for_reflect ctl_BoolList_mut_list_for_reflect]
      in and_then (file_descriptor_proto R) (\<lambda>file.
           Inr \<lparr>md_rust_name = ''BoolList'', md_fields = fields, md_file = file\<rparr>))"

definition ctl_BoolList_descriptor ::
    "descriptor_rt \<Rightarrow> ctl_BoolList \<Rightarrow> panic + ctl_BoolList MessageDescriptor" where [reflect]:
  "ctl_BoolList_descriptor R m = ctl_BoolList_descriptor_static R"

definition ctl_BoolList_fmt :: "text_format \<Rightarrow> ctl_BoolList \<Rightarrow> string \<Rightarrow> unit + string"
    where [reflect]:
  "ctl_BoolList_fmt text_format_fmt m f = text_format_fmt (Dyn_BoolList m) f"

definition ctl_BoolList_as_ref :: "ctl_BoolList \<Rightarrow> ProtobufValueRef" where [reflect]:
  "ctl_BoolList_as_ref m = RefMessage (Dyn_BoolList m)"

subsection \<open>StringList\<close>

definition ctl_StringList_get_list_for_reflect :: "ctl_StringList \<Rightarrow> string list" where [reflect]:
  "ctl_StringList_get_list_for_reflect m = ctl_StringList_list m"

definition ctl_StringList_mut_list_for_reflect ::
    "ctl_StringList \<Rightarrow> (string list \<Rightarrow> string list) \<Rightarrow> ctl_StringList" where [reflect]:
  "ctl_StringList_mut_list_for_reflect m upd =
      m\<lparr>ctl_StringList_list := upd (ctl_StringList_list m)\<rparr>"

definition ctl_StringList_mut_unknown_fields ::
    "ctl_StringList \<Rightarrow> (UnknownFields \<Rightarrow> UnknownFields) \<Rightarrow> ctl_StringList" where [reflect]:
  "ctl_StringList_mut_unknown_fields m upd =
     m\<lparr>ctl_StringList_unknown_fields := upd (ctl_StringList_unknown_fields m)\<rparr>"

definition ctl_StringList_as_any :: "ctl_StringList \<Rightarrow> dyn" where [reflect]:
  "ctl_StringList_as_any m = Dyn_StringList m"

definition ctl_StringList_as_any_mut :: "ctl_StringList \<Rightarrow> (dyn \<Rightarrow> dyn) \<Rightarrow> ctl_StringList"
    where [reflect]:
  "ctl_StringList_as_any_mut m upd = (case upd (Dyn_StringList m) of Dyn_StringList m' \<Rightarrow> m'
      | _ \<Rightarrow> m)"

definition ctl_StringList_into_any :: "ctl_StringList \<Rightarrow> dyn" where [reflect]:
  "ctl_StringList_into_any m = Dyn_StringList m"

definition ctl_StringList_static_new :: "ctl_StringList" where [reflect]:
  "ctl_StringList_static_new = ctl_StringList_new"

definition ctl_StringList_descriptor_static ::
    "descriptor_rt \<Rightarrow> panic + ctl_StringList MessageDescriptor" where [reflect]:
  "ctl_StringList_descriptor_static R =
     (let fields =
           [make_repeated_field_accessor_string ''list''
              ctl_StringList_get_list_for_reflect ctl_StringList_mut_list_for_reflect]
      in and_then (file_descriptor_proto R) (\<lambda>file.
           Inr \<lparr>md_rust_name = ''StringList'', md_fields = fields, md_file = file\<rparr>))"

definition ctl_StringList_descriptor ::
    "descriptor_rt \<Rightarrow> ctl_StringList \<Rightarrow> panic + ctl_StringList MessageDescriptor" where [reflect]:
  "ctl_StringList_descriptor R m = ctl_StringList_descriptor_static R"

definition ctl_StringList_fmt :: "text_format \<Rightarrow> ctl_StringList \<Rightarrow> string \<Rightarrow> unit + string"
    where [reflect]:
  "ctl_StringList_fmt text_format_fmt m f = text_format_fmt (Dyn_StringList m) f"

definition ctl_StringList_as_ref :: "ctl_StringList \<Rightarrow> ProtobufValueRef" where [reflect]:
  "ctl_StringList_as_ref m = RefMessage (Dyn_StringList m)"

subsection \<open>ConfigValue\<close>

definition ctl_ConfigValue_mut_unknown_fields ::
    "ctl_ConfigValue \<Rightarrow> (UnknownFields \<Rightarrow> UnknownFields) \<Rightarrow> ctl_ConfigValue" where [reflect]:
  "ctl_ConfigValue_mut_unknown_fields m upd =
     m\<lparr>ctl_ConfigValue_unknown_fields := upd (ctl_ConfigValue_unknown_fields m)\<rparr>"

definition ctl_ConfigValue_as_any :: "ctl_ConfigValue \<Rightarrow> dyn" where [reflect]:
  "ctl_ConfigValue_as_any m = Dyn_ConfigValue m"

definition ctl_ConfigValue_as_any_mut :: "ctl_ConfigValue \<Rightarrow> (dyn \<Rightarrow> dyn) \<Rightarrow> ctl_ConfigValue"
    where [reflect]:
  "ctl_ConfigValue_as_any_mut m upd = (case upd (Dyn_ConfigValue m) of Dyn_ConfigValue m' \<Rightarrow> m'
      | _ \<Rightarrow> m)"

definition ctl_ConfigValue_into_any :: "ctl_ConfigValue \<Rightarrow> dyn" where [reflect]:
  "ctl_ConfigValue_into_any m = Dyn_ConfigValue m"

definition ctl_ConfigValue_static_new :: "ctl_ConfigValue" where [reflect]:
  "ctl_ConfigValue_static_new = ctl_ConfigValue_new"

definition ctl_ConfigValue_descriptor_static ::
    "descriptor_rt \<Rightarrow> panic + ctl_ConfigValue MessageDescriptor" where [reflect]:
  "ctl_ConfigValue_descriptor_static R =
     (let fields =
           [make_singular_i32_accessor ''int32val''
              ctl_ConfigValue_has_int32val ctl_ConfigValue_get_int32val,
            make_singular_string_accessor ''strval''
              ctl_ConfigValue_has_strval ctl_ConfigValue_get_strval,
            make_singular_bool_accessor ''boolval''
              ctl_ConfigValue_has_boolval ctl_ConfigValue_get_boolval,
            make_singular_message_accessor ''int32list''
              ctl_ConfigValue_has_int32list (\<lambda>m. Dyn_Int32List (ctl_ConfigValue_get_int32list m)),
            make_singular_message_accessor ''boollist''
              ctl_ConfigValue_has_boollist (\<lambda>m. Dyn_BoolList (ctl_ConfigValue_get_boollist m)),
            make_singular_message_accessor ''stringlist''
              ctl_ConfigValue_has_stringlist (\<lambda>m. Dyn_StringList (ctl_ConfigValue_get_stringlist m))]
      in and_then (file_descriptor_proto R) (\<lambda>file.
           Inr \<lparr>md_rust_name = ''ConfigValue'', md_fields = fields, md_file = file\<rparr>))"

definition ctl_ConfigValue_descriptor ::
    "descriptor_rt \<Rightarrow> ctl_ConfigValue \<Rightarrow> panic + ctl_ConfigValue MessageDescriptor" where [reflect]:
  "ctl_ConfigValue_descriptor R m = ctl_ConfigValue_descriptor_static R"

definition ctl_ConfigValue_fmt :: "text_format \<Rightarrow> ctl_ConfigValue \<Rightarrow> string \<Rightarrow> unit + string"
    where [reflect]:
  "ctl_ConfigValue_fmt text_format_fmt m f = text_format_fmt (Dyn_ConfigValue m) f"

definition ctl_ConfigValue_as_ref :: "ctl_ConfigValue \<Rightarrow> ProtobufValueRef" where [reflect]:
  "ctl_ConfigValue_as_ref m = RefMessage (Dyn_ConfigValue m)"

end
