(* ===== verification/Reflect_Commands.thy ===== *)
theory Reflect_Commands
  imports Reflect
begin

text \<open>
  Reflection of the command messages and \<open>Command\<close> (\<open>clients/rust/src/sysadminctl.rs\<close>), in the
  conventions of theory Reflect_Values.
\<close>

subsection \<open>Set\<close>

definition ctl_Set_get_key_for_reflect :: "ctl_Set \<Rightarrow> string option" where [reflect]:
  "ctl_Set_get_key_for_reflect m = ctl_Set_key m"

definition ctl_Set_mut_key_for_reflect ::
    "ctl_Set \<Rightarrow> (string option \<Rightarrow> string option) \<Rightarrow> ctl_Set" where [reflect]:
  "ctl_Set_mut_key_for_reflect m upd = m\<lparr>ctl_Set_key := upd (ctl_Set_key m)\<rparr>"

definition ctl_Set_get_value_for_reflect :: "ctl_Set \<Rightarrow> ctl_ConfigValue option" where [reflect]:
  "ctl_Set_get_value_for_reflect m = ctl_Set_value m"

definition ctl_Set_mut_value_for_reflect ::
    "ctl_Set \<Rightarrow> (ctl_ConfigValue option \<Rightarrow> ctl_ConfigValue option) \<Rightarrow> ctl_Set" where [reflect]:
  "ctl_Set_mut_value_for_reflect m upd = m\<lparr>ctl_Set_value := upd (ctl_Set_value m)\<rparr>"

definition ctl_Set_mut_unknown_fields ::
    "ctl_Set \<Rightarrow> (UnknownFields \<Rightarrow> UnknownFields) \<Rightarrow> ctl_Set" where [reflect]:
  "ctl_Set_mut_unknown_fields m upd =
     m\<lparr>ctl_Set_unknown_fields := upd (ctl_Set_unknown_fields m)\<rparr>"

definition ctl_Set_as_any :: "ctl_Set \<Rightarrow> dyn" where [reflect]:
  "ctl_Set_as_any m = Dyn_Set m"

definition ctl_Set_as_any_mut :: "ctl_Set \<Rightarrow> (dyn \<Rightarrow> dyn) \<Rightarrow> ctl_Set" where [reflect]:
  "ctl_Set_as_any_mut m upd = (case upd (Dyn_Set m) of Dyn_Set m' \<Rightarrow> m' | _ \<Rightarrow> m)"

definition ctl_Set_into_any :: "ctl_Set \<Rightarrow> dyn" where [reflect]:
  "ctl_Set_into_any m = Dyn_Set m"

definition ctl_Set_static_new :: "ctl_Set" where [reflect]:
  "ctl_Set_static_new = ctl_Set_new"

definition ctl_Set_descriptor_static ::
    "descriptor_rt \<Rightarrow> panic + ctl_Set MessageDescriptor" where [reflect]:
  "ctl_Set_descriptor_static R =
     (let fields =
           [make_singular_field_accessor_string ''key''
              ctl_Set_get_key_for_reflect ctl_Set_mut_key_for_reflect,
            make_singular_ptr_field_accessor_ConfigValue ''value''
              ctl_Set_get_value_for_reflect ctl_Set_mut_value_for_reflect]
      in and_then (file_descriptor_proto R) (\<lambda>file.
           Inr \<lparr>md_rust_name = ''Set'', md_fields = fields, md_file = file\<rparr>))"

definition ctl_Set_descriptor ::
    "descriptor_rt \<Rightarrow> ctl_Set \<Rightarrow> panic + ctl_Set MessageDescriptor" where [reflect]:
  "ctl_Set_descriptor R m = ctl_Set_descriptor_static R"

definition ctl_Set_fmt :: "text_format \<Rightarrow> ctl_Set \<Rightarrow> string \<Rightarrow> unit + string" where [reflect]:
  "ctl_Set_fmt text_format_fmt m f = text_format_fmt (Dyn_Set m) f"

definition ctl_Set_as_ref :: "ctl_Set \<Rightarrow> ProtobufValueRef" where [reflect]:
  "ctl_Set_as_ref m = RefMessage (Dyn_Set m)"

subsection \<open>Get\<close>

definition ctl_Get_get_key_for_reflect :: "ctl_Get \<Rightarrow> string option" where [reflect]:
  "ctl_Get_get_key_for_reflect m = ctl_Get_key m"

definition ctl_Get_mut_key_for_reflect ::
    "ctl_Get \<Rightarrow> (string option \<Rightarrow> string option) \<Rightarrow> ctl_Get" where [reflect]:
  "ctl_Get_mut_key_for_reflect m upd = m\<lparr>ctl_Get_key := upd (ctl_Get_key m)\<rparr>"

definition ctl_Get_mut_unknown_fields ::
    "ctl_Get \<Rightarrow> (UnknownFields \<Rightarrow> UnknownFields) \<Rightarrow> ctl_Get" where [reflect]:
  "ctl_Get_mut_unknown_fields m upd =
     m\<lparr>ctl_Get_unknown_fields := upd (ctl_Get_unknown_fields m)\<rparr>"

definition ctl_Get_as_any :: "ctl_Get \<Rightarrow> dyn" where [reflect]:
  "ctl_Get_as_any m = Dyn_Get m"

definition ctl_Get_as_any_mut :: "ctl_Get \<Rightarrow> (dyn \<Rightarrow> dyn) \<Rightarrow> ctl_Get" where [reflect]:
  "ctl_Get_as_any_mut m upd = (case upd (Dyn_Get m) of Dyn_Get m' \<Rightarrow> m' | _ \<Rightarrow> m)"

definition ctl_Get_into_any :: "ctl_Get \<Rightarrow> dyn" where [reflect]:
  "ctl_Get_into_any m = Dyn_Get m"

definition ctl_Get_static_new :: "ctl_Get" where [reflect]:
  "ctl_Get_static_new = ctl_Get_new"

definition ctl_Get_descriptor_static ::
    "descriptor_rt \<Rightarrow> panic + ctl_Get MessageDescriptor" where [reflect]:
  "ctl_Get_descriptor_static R =
     (let fields =
           [make_singular_field_accessor_string ''key''
              ctl_Get_get_key_for_reflect ctl_Get_mut_key_for_reflect]
      in and_then (file_descriptor_proto R) (\<lambda>file.
           Inr \<lparr>md_rust_name = ''Get'', md_fields = fields, md_file = file\<rparr>))"

definition ctl_Get_descriptor ::
    "descriptor_rt \<Rightarrow> ctl_Get \<Rightarrow> panic + ctl_Get MessageDescriptor" where [reflect]:
  "ctl_Get_descriptor R m = ctl_Get_descriptor_static R"

definition ctl_Get_fmt :: "text_format \<Rightarrow> ctl_Get \<Rightarrow> string \<Rightarrow> unit + string" where [reflect]:
  "ctl_Get_fmt text_format_fmt m f = text_format_fmt (Dyn_Get m) f"

definition ctl_Get_as_ref :: "ctl_Get \<Rightarrow> ProtobufValueRef" where [reflect]:
  "ctl_Get_as_ref m = RefMessage (Dyn_Get m)"

subsection \<open>Commit\<close>

definition ctl_Commit_get_config_for_reflect :: "ctl_Commit \<Rightarrow> ctl_CommitConfig option"
    where [reflect]:
  "ctl_Commit_get_config_for_reflect m = ctl_Commit_config m"

definition ctl_Commit_mut_config_for_reflect ::
    "ctl_Commit \<Rightarrow> (ctl_CommitConfig option \<Rightarrow> ctl_CommitConfig option) \<Rightarrow> ctl_Commit"
        where [reflect]:
  "ctl_Commit_mut_config_for_reflect m upd = m\<lparr>ctl_Commit_config := upd (ctl_Commit_config m)\<rparr>"

definition ctl_Commit_mut_unknown_fields ::
    "ctl_Commit \<Rightarrow> (UnknownFields \<Rightarrow> UnknownFields) \<Rightarrow> ctl_Commit" where [reflect]:
  "ctl_Commit_mut_unknown_fields m upd =
     m\<lparr>ctl_Commit_unknown_fields := upd (ctl_Commit_unknown_fields m)\<rparr>"

definition ctl_Commit_as_any :: "ctl_Commit \<Rightarrow> dyn" where [reflect]:
  "ctl_Commit_as_any m = Dyn_Commit m"

definition ctl_Commit_as_any_mut :: "ctl_Commit \<Rightarrow> (dyn \<Rightarrow> dyn) \<Rightarrow> ctl_Commit" where [reflect]:
  "ctl_Commit_as_any_mut m upd = (case upd (Dyn_Commit m) of Dyn_Commit m' \<Rightarrow> m' | _ \<Rightarrow> m)"

definition ctl_Commit_into_any :: "ctl_Commit \<Rightarrow> dyn" where [reflect]:
  "ctl_Commit_into_any m = Dyn_Commit m"

definition ctl_Commit_static_new :: "ctl_Commit" where [reflect]:
  "ctl_Commit_static_new = ctl_Commit_new"

definition ctl_Commit_descriptor_static ::
    "descriptor_rt \<Rightarrow> panic + ctl_Commit MessageDescriptor" where [reflect]:
  "ctl_Commit_descriptor_static R =
     (let fields =
           [make_option_accessor_CommitConfig ''config''
              ctl_Commit_get_config_for_reflect ctl_Commit_mut_config_for_reflect]
      in and_then (file_descriptor_proto R) (\<lambda>file.
           Inr \<lparr>md_rust_name = ''Commit'', md_fields = fields, md_file = file\<rparr>))"

definition ctl_Commit_descriptor ::
    "descriptor_rt \<Rightarrow> ctl_Commit \<Rightarrow> panic + ctl_Commit MessageDescriptor" where [reflect]:
  "ctl_Commit_descriptor R m = ctl_Commit_descriptor_static R"

definition ctl_Commit_fmt :: "text_format \<Rightarrow> ctl_Commit \<Rightarrow> string \<Rightarrow> unit + string" where [reflect]:
  "ctl_Commit_fmt text_format_fmt m f = text_format_fmt (Dyn_Commit m) f"

definition ctl_Commit_as_ref :: "ctl_Commit \<Rightarrow> ProtobufValueRef" where [reflect]:
  "ctl_Commit_as_ref m = RefMessage (Dyn_Commit m)"

subsection \<open>Drop\<close>

definition ctl_Drop_mut_unknown_fields ::
    "ctl_Drop \<Rightarrow> (UnknownFields \<Rightarrow> UnknownFields) \<Rightarrow> ctl_Drop" where [reflect]:
  "ctl_Drop_mut_unknown_fields m upd =
     m\<lparr>ctl_Drop_unknown_fields := upd (ctl_Drop_unknown_fields m)\<rparr>"

definition ctl_Drop_as_any :: "ctl_Drop \<Rightarrow> dyn" where [reflect]:
  "ctl_Drop_as_any m = Dyn_Drop m"

definition ctl_Drop_as_any_mut :: "ctl_Drop \<Rightarrow> (dyn \<Rightarrow> dyn) \<Rightarrow> ctl_Drop" where [reflect]:
  "ctl_Drop_as_any_mut m upd = (case upd (Dyn_Drop m) of Dyn_Drop m' \<Rightarrow> m' | _ \<Rightarrow> m)"

definition ctl_Drop_into_any :: "ctl_Drop \<Rightarrow> dyn" where [reflect]:
  "ctl_Drop_into_any m = Dyn_Drop m"

definition ctl_Drop_static_new :: "ctl_Drop" where [reflect]:
  "ctl_Drop_static_new = ctl_Drop_new"

definition ctl_Drop_descriptor_static ::
    "descriptor_rt \<Rightarrow> panic + ctl_Drop MessageDescriptor" where [reflect]:
  "ctl_Drop_descriptor_static R =
     (let fields =
           []
      in and_then (file_descriptor_proto R) (\<lambda>file.
           Inr \<lparr>md_rust_name = ''Drop'', md_fields = fields, md_file = file\<rparr>))"

definition ctl_Drop_descriptor ::
    "descriptor_rt \<Rightarrow> ctl_Drop \<Rightarrow> panic + ctl_Drop MessageDescriptor" where [reflect]:
  "ctl_Drop_descriptor R m = ctl_Drop_descriptor_static R"

definition ctl_Drop_fmt :: "text_format \<Rightarrow> ctl_Drop \<Rightarrow> string \<Rightarrow> unit + string" where [reflect]:
  "ctl_Drop_fmt text_format_fmt m f = text_format_fmt (Dyn_Drop m) f"

definition ctl_Drop_as_ref :: "ctl_Drop \<Rightarrow> ProtobufValueRef" where [reflect]:
  "ctl_Drop_as_ref m = RefMessage (Dyn_Drop m)"

subsection \<open>FireHooks\<close>

definition ctl_FireHooks_mut_unknown_fields ::
    "ctl_FireHooks \<Rightarrow> (UnknownFields \<Rightarrow> UnknownFields) \<Rightarrow> ctl_FireHooks" where [reflect]:
  "ctl_FireHooks_mut_unknown_fields m upd =
     m\<lparr>ctl_FireHooks_unknown_fields := upd (ctl_FireHooks_unknown_fields m)\<rparr>"

definition ctl_FireHooks_as_any :: "ctl_FireHooks \<Rightarrow> dyn" where [reflect]:
  "ctl_FireHooks_as_any m = Dyn_FireHooks m"

definition ctl_FireHooks_as_any_mut :: "ctl_FireHooks \<Rightarrow> (dyn \<Rightarrow> dyn) \<Rightarrow> ctl_FireHooks"
    where [reflect]:
  "ctl_FireHooks_as_any_mut m upd = (case upd (Dyn_FireHooks m) of Dyn_FireHooks m' \<Rightarrow> m' | _ \<Rightarrow> m)"

definition ctl_FireHooks_into_any :: "ctl_FireHooks \<Rightarrow> dyn" where [reflect]:
  "ctl_FireHooks_into_any m = Dyn_FireHooks m"

definition ctl_FireHooks_static_new :: "ctl_FireHooks" where [reflect]:
  "ctl_FireHooks_static_new = ctl_FireHooks_new"

definition ctl_FireHooks_descriptor_static ::
    "descriptor_rt \<Rightarrow> panic + ctl_FireHooks MessageDescriptor" where [reflect]:
  "ctl_FireHooks_descriptor_static R =
     (let fields =
           []
      in and_then (file_descriptor_proto R) (\<lambda>file.
           Inr \<lparr>md_rust_name = ''FireHooks'', md_fields = fields, md_file = file\<rparr>))"

definition ctl_FireHooks_descriptor ::
    "descriptor_rt \<Rightarrow> ctl_FireHooks \<Rightarrow> panic + ctl_FireHooks MessageDescriptor" where [reflect]:
  "ctl_FireHooks_descriptor R m = ctl_FireHooks_descriptor_static R"

definition ctl_FireHooks_fmt :: "text_format \<Rightarrow> ctl_FireHooks \<Rightarrow> string \<Rightarrow> unit + string"
    where [reflect]:
  "ctl_FireHooks_fmt text_format_fmt m f = text_format_fmt (Dyn_FireHooks m) f"

definition ctl_FireHooks_as_ref :: "ctl_FireHooks \<Rightarrow> ProtobufValueRef" where [reflect]:
  "ctl_FireHooks_as_ref m = RefMessage (Dyn_FireHooks m)"

subsection \<open>Rollback\<close>

definition ctl_Rollback_get_id_for_reflect :: "ctl_Rollback \<Rightarrow> u32 option" where [reflect]:
  "ctl_Rollback_get_id_for_reflect m = ctl_Rollback_id m"

definition ctl_Rollback_mut_id_for_reflect ::
    "ctl_Rollback \<Rightarrow> (u32 option \<Rightarrow> u32 option) \<Rightarrow> ctl_Rollback" where [reflect]:
  "ctl_Rollback_mut_id_for_reflect m upd = m\<lparr>ctl_Rollback_id := upd (ctl_Rollback_id m)\<rparr>"

definition ctl_Rollback_mut_unknown_fields ::
    "ctl_Rollback \<Rightarrow> (UnknownFields \<Rightarrow> UnknownFields) \<Rightarrow> ctl_Rollback" where [reflect]:
  "ctl_Rollback_mut_unknown_fields m upd =
     m\<lparr>ctl_Rollback_unknown_fields := upd (ctl_Rollback_unknown_fields m)\<rparr>"

definition ctl_Rollback_as_any :: "ctl_Rollback \<Rightarrow> dyn" where [reflect]:
  "ctl_Rollback_as_any m = Dyn_Rollback m"

definition ctl_Rollback_as_any_mut :: "ctl_Rollback \<Rightarrow> (dyn \<Rightarrow> dyn) \<Rightarrow> ctl_Rollback" where [reflect]:
  "ctl_Rollback_as_any_mut m upd = (case upd (Dyn_Rollback m) of Dyn_Rollback m' \<Rightarrow> m' | _ \<Rightarrow> m)"

definition ctl_Rollback_into_any :: "ctl_Rollback \<Rightarrow> dyn" where [reflect]:
  "ctl_Rollback_into_any m = Dyn_Rollback m"

definition ctl_Rollback_static_new :: "ctl_Rollback" where [reflect]:
  "ctl_Rollback_static_new = ctl_Rollback_new"

definition ctl_Rollback_descriptor_static ::
    "descriptor_rt \<Rightarrow> panic + ctl_Rollback MessageDescriptor" where [reflect]:
  "ctl_Rollback_descriptor_static R =
     (let fields =
           [make_option_accessor_uint32 ''id''
              ctl_Rollback_get_id_for_reflect ctl_Rollback_mut_id_for_reflect]
      in and_then (file_descriptor_proto R) (\<lambda>file.
           Inr \<lparr>md_rust_name = ''Rollback'', md_fields = fields, md_file = file\<rparr>))"

definition ctl_Rollback_descriptor ::
    "descriptor_rt \<Rightarrow> ctl_Rollback \<Rightarrow> panic + ctl_Rollback MessageDescriptor" where [reflect]:
  "ctl_Rollback_descriptor R m = ctl_Rollback_descriptor_static R"

definition ctl_Rollback_fmt :: "text_format \<Rightarrow> ctl_Rollback \<Rightarrow> string \<Rightarrow> unit + string"
    where [reflect]:
  "ctl_Rollback_fmt text_format_fmt m f = text_format_fmt (Dyn_Rollback m) f"

definition ctl_Rollback_as_ref :: "ctl_Rollback \<Rightarrow> ProtobufValueRef" where [reflect]:
  "ctl_Rollback_as_ref m = RefMessage (Dyn_Rollback m)"

subsection \<open>EraseKey\<close>

definition ctl_EraseKey_get_key_for_reflect :: "ctl_EraseKey \<Rightarrow> string option" where [reflect]:
  "ctl_EraseKey_get_key_for_reflect m = ctl_EraseKey_key m"

definition ctl_EraseKey_mut_key_for_reflect ::
    "ctl_EraseKey \<Rightarrow> (string option \<Rightarrow> string option) \<Rightarrow> ctl_EraseKey" where [reflect]:
  "ctl_EraseKey_mut_key_for_reflect m upd = m\<lparr>ctl_EraseKey_key := upd (ctl_EraseKey_key m)\<rparr>"

definition ctl_EraseKey_mut_unknown_fields ::
    "ctl_EraseKey \<Rightarrow> (UnknownFields \<Rightarrow> UnknownFields) \<Rightarrow> ctl_EraseKey" where [reflect]:
  "ctl_EraseKey_mut_unknown_fields m upd =
     m\<lparr>ctl_EraseKey_unknown_fields := upd (ctl_EraseKey_unknown_fields m)\<rparr>"

definition ctl_EraseKey_as_any :: "ctl_EraseKey \<Rightarrow> dyn" where [reflect]:
  "ctl_EraseKey_as_any m = Dyn_EraseKey m"

definition ctl_EraseKey_as_any_mut :: "ctl_EraseKey \<Rightarrow> (dyn \<Rightarrow> dyn) \<Rightarrow> ctl_EraseKey" where [reflect]:
  "ctl_EraseKey_as_any_mut m upd = (case upd (Dyn_EraseKey m) of Dyn_EraseKey m' \<Rightarrow> m' | _ \<Rightarrow> m)"

definition ctl_EraseKey_into_any :: "ctl_EraseKey \<Rightarrow> dyn" where [reflect]:
  "ctl_EraseKey_into_any m = Dyn_EraseKey m"

definition ctl_EraseKey_static_new :: "ctl_EraseKey" where [reflect]:
  "ctl_EraseKey_static_new = ctl_EraseKey_new"

definition ctl_EraseKey_descriptor_static ::
    "descriptor_rt \<Rightarrow> panic + ctl_EraseKey MessageDescriptor" where [reflect]:
  "ctl_EraseKey_descriptor_static R =
     (let fields =
           [make_singular_field_accessor_string ''key''
              ctl_EraseKey_get_key_for_reflect ctl_EraseKey_mut_key_for_reflect]
      in and_then (file_descriptor_proto R) (\<lambda>file.
           Inr \<lparr>md_rust_name = ''EraseKey'', md_fields = fields, md_file = file\<rparr>))"

definition ctl_EraseKey_descriptor ::
    "descriptor_rt \<Rightarrow> ctl_EraseKey \<Rightarrow> panic + ctl_EraseKey MessageDescriptor" where [reflect]:
  "ctl_EraseKey_descriptor R m = ctl_EraseKey_descriptor_static R"

definition ctl_EraseKey_fmt :: "text_format \<Rightarrow> ctl_EraseKey \<Rightarrow> string \<Rightarrow> unit + string"
    where [reflect]:
  "ctl_EraseKey_fmt text_format_fmt m f = text_format_fmt (Dyn_EraseKey m) f"

definition ctl_EraseKey_as_ref :: "ctl_EraseKey \<Rightarrow> ProtobufValueRef" where [reflect]:
  "ctl_EraseKey_as_ref m = RefMessage (Dyn_EraseKey m)"

subsection \<open>Reset\<close>

definition ctl_Reset_mut_unknown_fields ::
    "ctl_Reset \<Rightarrow> (UnknownFields \<Rightarrow> UnknownFields) \<Rightarrow> ctl_Reset" where [reflect]:
  "ctl_Reset_mut_unknown_fields m upd =
     m\<lparr>ctl_Reset_unknown_fields := upd (ctl_Reset_unknown_fields m)\<rparr>"

definition ctl_Reset_as_any :: "ctl_Reset \<Rightarrow> dyn" where [reflect]:
  "ctl_Reset_as_any m = Dyn_Reset m"

definition ctl_Reset_as_any_mut :: "ctl_Reset \<Rightarrow> (dyn \<Rightarrow> dyn) \<Rightarrow> ctl_Reset" where [reflect]:
  "ctl_Reset_as_any_mut m upd = (case upd (Dyn_Reset m) of Dyn_Reset m' \<Rightarrow> m' | _ \<Rightarrow> m)"

definition ctl_Reset_into_any :: "ctl_Reset \<Rightarrow> dyn" where [reflect]:
  "ctl_Reset_into_any m = Dyn_Reset m"

definition ctl_Reset_static_new :: "ctl_Reset" where [reflect]:
  "ctl_Reset_static_new = ctl_Reset_new"

definition ctl_Reset_descriptor_static ::
    "descriptor_rt \<Rightarrow> panic + ctl_Reset MessageDescriptor" where [reflect]:
  "ctl_Reset_descriptor_static R =
     (let fields =
           []
      in and_then (file_descriptor_proto R) (\<lambda>file.
           Inr \<lparr>md_rust_name = ''Reset'', md_fields = fields, md_file = file\<rparr>))"

definition ctl_Reset_descriptor ::
    "descriptor_rt \<Rightarrow> ctl_Reset \<Rightarrow> panic + ctl_Reset MessageDescriptor" where [reflect]:
  "ctl_Reset_descriptor R m = ctl_Reset_descriptor_static R"

definition ctl_Reset_fmt :: "text_format \<Rightarrow> ctl_Reset \<Rightarrow> string \<Rightarrow> unit + string" where [reflect]:
  "ctl_Reset_fmt text_format_fmt m f = text_format_fmt (Dyn_Reset m) f"

definition ctl_Reset_as_ref :: "ctl_Reset \<Rightarrow> ProtobufValueRef" where [reflect]:
  "ctl_Reset_as_ref m = RefMessage (Dyn_Reset m)"

subsection \<open>DumpHooks\<close>

definition ctl_DumpHooks_mut_unknown_fields ::
    "ctl_DumpHooks \<Rightarrow> (UnknownFields \<Rightarrow> UnknownFields) \<Rightarrow> ctl_DumpHooks" where [reflect]:
  "ctl_DumpHooks_mut_unknown_fields m upd =
     m\<lparr>ctl_DumpHooks_unknown_fields := upd (ctl_DumpHooks_unknown_fields m)\<rparr>"

definition ctl_DumpHooks_as_any :: "ctl_DumpHooks \<Rightarrow> dyn" where [reflect]:
  "ctl_DumpHooks_as_any m = Dyn_DumpHooks m"

definition ctl_DumpHooks_as_any_mut :: "ctl_DumpHooks \<Rightarrow> (dyn \<Rightarrow> dyn) \<Rightarrow> ctl_DumpHooks"
    where [reflect]:
  "ctl_DumpHooks_as_any_mut m upd = (case upd (Dyn_DumpHooks m) of Dyn_DumpHooks m' \<Rightarrow> m' | _ \<Rightarrow> m)"

definition ctl_DumpHooks_into_any :: "ctl_DumpHooks \<Rightarrow> dyn" where [reflect]:
  "ctl_DumpHooks_into_any m = Dyn_DumpHooks m"

definition ctl_DumpHooks_static_new :: "ctl_DumpHooks" where [reflect]:
  "ctl_DumpHooks_static_new = ctl_DumpHooks_new"

definition ctl_DumpHooks_descriptor_static ::
    "descriptor_rt \<Rightarrow> panic + ctl_DumpHooks MessageDescriptor" where [reflect]:
  "ctl_DumpHooks_descriptor_static R =
     (let fields =
           []
      in and_then (file_descriptor_proto R) (\<lambda>file.
           Inr \<lparr>md_rust_name = ''DumpHooks'', md_fields = fields, md_file = file\<rparr>))"

definition ctl_DumpHooks_descriptor ::
    "descriptor_rt \<Rightarrow> ctl_DumpHooks \<Rightarrow> panic + ctl_DumpHooks MessageDescriptor" where [reflect]:
  "ctl_DumpHooks_descriptor R m = ctl_DumpHooks_descriptor_static R"

definition ctl_DumpHooks_fmt :: "text_format \<Rightarrow> ctl_DumpHooks \<Rightarrow> string \<Rightarrow> unit + string"
    where [reflect]:
  "ctl_DumpHooks_fmt text_format_fmt m f = text_format_fmt (Dyn_DumpHooks m) f"

definition ctl_DumpHooks_as_ref :: "ctl_DumpHooks \<Rightarrow> ProtobufValueRef" where [reflect]:
  "ctl_DumpHooks_as_ref m = RefMessage (Dyn_DumpHooks m)"

subsection \<open>TriggerHook\<close>

definition ctl_TriggerHook_get_hook_for_reflect :: "ctl_TriggerHook \<Rightarrow> string option"
    where [reflect]:
  "ctl_TriggerHook_get_hook_for_reflect m = ctl_TriggerHook_hook m"

definition ctl_TriggerHook_mut_hook_for_reflect ::
    "ctl_TriggerHook \<Rightarrow> (string option \<Rightarrow> string option) \<Rightarrow> ctl_TriggerHook" where [reflect]:
  "ctl_TriggerHook_mut_hook_for_reflect m upd =
      m\<lparr>ctl_TriggerHook_hook := upd (ctl_TriggerHook_hook m)\<rparr>"

definition ctl_TriggerHook_mut_unknown_fields ::
    "ctl_TriggerHook \<Rightarrow> (UnknownFields \<Rightarrow> UnknownFields) \<Rightarrow> ctl_TriggerHook" where [reflect]:
  "ctl_TriggerHook_mut_unknown_fields m upd =
     m\<lparr>ctl_TriggerHook_unknown_fields := upd (ctl_TriggerHook_unknown_fields m)\<rparr>"

definition ctl_TriggerHook_as_any :: "ctl_TriggerHook \<Rightarrow> dyn" where [reflect]:
  "ctl_TriggerHook_as_any m = Dyn_TriggerHook m"

definition ctl_TriggerHook_as_any_mut :: "ctl_TriggerHook \<Rightarrow> (dyn \<Rightarrow> dyn) \<Rightarrow> ctl_TriggerHook"
    where [reflect]:
  "ctl_TriggerHook_as_any_mut m upd = (case upd (Dyn_TriggerHook m) of Dyn_TriggerHook m' \<Rightarrow> m'
      | _ \<Rightarrow> m)"

definition ctl_TriggerHook_into_any :: "ctl_TriggerHook \<Rightarrow> dyn" where [reflect]:
  "ctl_TriggerHook_into_any m = Dyn_TriggerHook m"

definition ctl_TriggerHook_static_new :: "ctl_TriggerHook" where [reflect]:
  "ctl_TriggerHook_static_new = ctl_TriggerHook_new"

definition ctl_TriggerHook_descriptor_static ::
    "descriptor_rt \<Rightarrow> panic + ctl_TriggerHook MessageDescriptor" where [reflect]:
  "ctl_TriggerHook_descriptor_static R =
     (let fields =
           [make_singular_field_accessor_string ''hook''
              ctl_TriggerHook_get_hook_for_reflect ctl_TriggerHook_mut_hook_for_reflect]
      in and_then (file_descriptor_proto R) (\<lambda>file.
           Inr \<lparr>md_rust_name = ''TriggerHook'', md_fields = fields, md_file = file\<rparr>))"

definition ctl_TriggerHook_descriptor ::
    "descriptor_rt \<Rightarrow> ctl_TriggerHook \<Rightarrow> panic + ctl_TriggerHook MessageDescriptor" where [reflect]:
  "ctl_TriggerHook_descriptor R m = ctl_TriggerHook_descriptor_static R"

definition ctl_TriggerHook_fmt :: "text_format \<Rightarrow> ctl_TriggerHook \<Rightarrow> string \<Rightarrow> unit + string"
    where [reflect]:
  "ctl_TriggerHook_fmt text_format_fmt m f = text_format_fmt (Dyn_TriggerHook m) f"

definition ctl_TriggerHook_as_ref :: "ctl_TriggerHook \<Rightarrow> ProtobufValueRef" where [reflect]:
  "ctl_TriggerHook_as_ref m = RefMessage (Dyn_TriggerHook m)"

subsection \<open>Blame\<close>

definition ctl_Blame_get_key_for_reflect :: "ctl_Blame \<Rightarrow> string option" where [reflect]:
  "ctl_Blame_get_key_for_reflect m = ctl_Blame_key m"

definition ctl_Blame_mut_key_for_reflect ::
    "ctl_Blame \<Rightarrow> (string option \<Rightarrow> string option) \<Rightarrow> ctl_Blame" where [reflect]:
  "ctl_Blame_mut_key_for_reflect m upd = m\<lparr>ctl_Blame_key := upd (ctl_Blame_key m)\<rparr>"

definition ctl_Blame_mut_unknown_fields ::
    "ctl_Blame \<Rightarrow> (UnknownFields \<Rightarrow> UnknownFields) \<Rightarrow> ctl_Blame" where [reflect]:
  "ctl_Blame_mut_unknown_fields m upd =
     m\<lparr>ctl_Blame_unknown_fields := upd (ctl_Blame_unknown_fields m)\<rparr>"

definition ctl_Blame_as_any :: "ctl_Blame \<Rightarrow> dyn" where [reflect]:
  "ctl_Blame_as_any m = Dyn_Blame m"

definition ctl_Blame_as_any_mut :: "ctl_Blame \<Rightarrow> (dyn \<Rightarrow> dyn) \<Rightarrow> ctl_Blame" where [reflect]:
  "ctl_Blame_as_any_mut m upd = (case upd (Dyn_Blame m) of Dyn_Blame m' \<Rightarrow> m' | _ \<Rightarrow> m)"

definition ctl_Blame_into_any :: "ctl_Blame \<Rightarrow> dyn" where [reflect]:
  "ctl_Blame_into_any m = Dyn_Blame m"

definition ctl_Blame_static_new :: "ctl_Blame" where [reflect]:
  "ctl_Blame_static_new = ctl_Blame_new"

definition ctl_Blame_descriptor_static ::
    "descriptor_rt \<Rightarrow> panic + ctl_Blame MessageDescriptor" where [reflect]:
  "ctl_Blame_descriptor_static R =
     (let fields =
           [make_singular_field_accessor_string ''key''
              ctl_Blame_get_key_for_reflect ctl_Blame_mut_key_for_reflect]
      in and_then (file_descriptor_proto R) (\<lambda>file.
           Inr \<lparr>md_rust_name = ''Blame'', md_fields = fields, md_file = file\<rparr>))"

definition ctl_Blame_descriptor ::
    "descriptor_rt \<Rightarrow> ctl_Blame \<Rightarrow> panic + ctl_Blame MessageDescriptor" where [reflect]:
  "ctl_Blame_descriptor R m = ctl_Blame_descriptor_static R"

definition ctl_Blame_fmt :: "text_format \<Rightarrow> ctl_Blame \<Rightarrow> string \<Rightarrow> unit + string" where [reflect]:
  "ctl_Blame_fmt text_format_fmt m f = text_format_fmt (Dyn_Blame m) f"

definition ctl_Blame_as_ref :: "ctl_Blame \<Rightarrow> ProtobufValueRef" where [reflect]:
  "ctl_Blame_as_ref m = RefMessage (Dyn_Blame m)"

subsection \<open>InFlight\<close>

definition ctl_InFlight_mut_unknown_fields ::
    "ctl_InFlight \<Rightarrow> (UnknownFields \<Rightarrow> UnknownFields) \<Rightarrow> ctl_InFlight" where [reflect]:
  "ctl_InFlight_mut_unknown_fields m upd =
     m\<lparr>ctl_InFlight_unknown_fields := upd (ctl_InFlight_unknown_fields m)\<rparr>"

definition ctl_InFlight_as_any :: "ctl_InFlight \<Rightarrow> dyn" where [reflect]:
  "ctl_InFlight_as_any m = Dyn_InFlight m"

definition ctl_InFlight_as_any_mut :: "ctl_InFlight \<Rightarrow> (dyn \<Rightarrow> dyn) \<Rightarrow> ctl_InFlight" where [reflect]:
  "ctl_InFlight_as_any_mut m upd = (case upd (Dyn_InFlight m) of Dyn_InFlight m' \<Rightarrow> m' | _ \<Rightarrow> m)"

definition ctl_InFlight_into_any :: "ctl_InFlight \<Rightarrow> dyn" where [reflect]:
  "ctl_InFlight_into_any m = Dyn_InFlight m"

definition ctl_InFlight_static_new :: "ctl_InFlight" where [reflect]:
  "ctl_InFlight_static_new = ctl_InFlight_new"

definition ctl_InFlight_descriptor_static ::
    "descriptor_rt \<Rightarrow> panic + ctl_InFlight MessageDescriptor" where [reflect]:
  "ctl_InFlight_descriptor_static R =
     (let fields =
           []
      in and_then (file_descriptor_proto R) (\<lambda>file.
           Inr \<lparr>md_rust_name = ''InFlight'', md_fields = fields, md_file = file\<rparr>))"

definition ctl_InFlight_descriptor ::
    "descriptor_rt \<Rightarrow> ctl_InFlight \<Rightarrow> panic + ctl_InFlight MessageDescriptor" where [reflect]:
  "ctl_InFlight_descriptor R m = ctl_InFlight_descriptor_static R"

definition ctl_InFlight_fmt :: "text_format \<Rightarrow> ctl_InFlight \<Rightarrow> string \<Rightarrow> unit + string"
    where [reflect]:
  "ctl_InFlight_fmt text_format_fmt m f = text_format_fmt (Dyn_InFlight m) f"

definition ctl_InFlight_as_ref :: "ctl_InFlight \<Rightarrow> ProtobufValueRef" where [reflect]:
  "ctl_InFlight_as_ref m = RefMessage (Dyn_InFlight m)"

subsection \<open>Command\<close>

definition ctl_Command_get_id_for_reflect :: "ctl_Command \<Rightarrow> u32 option" where [reflect]:
  "ctl_Command_get_id_for_reflect m = ctl_Command_id m"

definition ctl_Command_mut_id_for_reflect ::
    "ctl_Command \<Rightarrow> (u32 option \<Rightarrow> u32 option) \<Rightarrow> ctl_Command" where [reflect]:
  "ctl_Command_mut_id_for_reflect m upd = m\<lparr>ctl_Command_id := upd (ctl_Command_id m)\<rparr>"

definition ctl_Command_get_xid_for_reflect :: "ctl_Command \<Rightarrow> u32 option" where [reflect]:
  "ctl_Command_get_xid_for_reflect m = ctl_Command_xid m"

definition ctl_Command_mut_xid_for_reflect ::
    "ctl_Command \<Rightarrow> (u32 option \<Rightarrow> u32 option) \<Rightarrow> ctl_Command" where [reflect]:
  "ctl_Command_mut_xid_for_reflect m upd = m\<lparr>ctl_Command_xid := upd (ctl_Command_xid m)\<rparr>"

definition ctl_Command_mut_unknown_fields ::
    "ctl_Command \<Rightarrow> (UnknownFields \<Rightarrow> UnknownFields) \<Rightarrow> ctl_Command" where [reflect]:
  "ctl_Command_mut_unknown_fields m upd =
     m\<lparr>ctl_Command_unknown_fields := upd (ctl_Command_unknown_fields m)\<rparr>"

definition ctl_Command_as_any :: "ctl_Command \<Rightarrow> dyn" where [reflect]:
  "ctl_Command_as_any m = Dyn_Command m"

definition ctl_Command_as_any_mut :: "ctl_Command \<Rightarrow> (dyn \<Rightarrow> dyn) \<Rightarrow> ctl_Command" where [reflect]:
  "ctl_Command_as_any_mut m upd = (case upd (Dyn_Command m) of Dyn_Command m' \<Rightarrow> m' | _ \<Rightarrow> m)"

definition ctl_Command_into_any :: "ctl_Command \<Rightarrow> dyn" where [reflect]:
  "ctl_Command_into_any m = Dyn_Command m"

definition ctl_Command_static_new :: "ctl_Command" where [reflect]:
  "ctl_Command_static_new = ctl_Command_new"

definition ctl_Command_descriptor_static ::
    "descriptor_rt \<Rightarrow> panic + ctl_Command MessageDescriptor" where [reflect]:
  "ctl_Command_descriptor_static R =
     (let fields =
           [make_singular_message_accessor ''set''
              ctl_Command_has_set (\<lambda>m. Dyn_Set (ctl_Command_get_set m)),
            make_singular_message_accessor ''get''
              ctl_Command_has_get (\<lambda>m. Dyn_Get (ctl_Command_get_get m)),
            make_singular_message_accessor ''commit''
              ctl_Command_has_commit (\<lambda>m. Dyn_Commit (ctl_Command_get_commit m)),
            make_singular_message_accessor ''drop''
              ctl_Command_has_drop (\<lambda>m. Dyn_Drop (ctl_Command_get_drop m)),
            make_singular_message_accessor ''firehooks''
              ctl_Command_has_firehooks (\<lambda>m. Dyn_FireHooks (ctl_Command_get_firehooks m)),
            make_singular_message_accessor ''erase''
              ctl_Command_has_erase (\<lambda>m. Dyn_EraseKey (ctl_Command_get_erase m)),
            make_singular_message_accessor ''rollback''
              ctl_Command_has_rollback (\<lambda>m. Dyn_Rollback (ctl_Command_get_rollback m)),
            make_singular_message_accessor ''reset''
              ctl_Command_has_reset (\<lambda>m. Dyn_Reset (ctl_Command_get_reset m)),
            make_singular_message_accessor ''dump''
              ctl_Command_has_dump (\<lambda>m. Dyn_DumpHooks (ctl_Command_get_dump m)),
            make_singular_message_accessor ''trigger''
              ctl_Command_has_trigger (\<lambda>m. Dyn_TriggerHook (ctl_Command_get_trigger m)),
            make_singular_message_accessor ''blame''
              ctl_Command_has_blame (\<lambda>m. Dyn_Blame (ctl_Command_get_blame m)),
            make_singular_message_accessor ''inflight''
              ctl_Command_has_inflight (\<lambda>m. Dyn_InFlight (ctl_Command_get_inflight m)),
            make_option_accessor_uint32 ''id''
              ctl_Command_get_id_for_reflect ctl_Command_mut_id_for_reflect,
            make_option_accessor_uint32 ''xid''
              ctl_Command_get_xid_for_reflect ctl_Command_mut_xid_for_reflect]
      in and_then (file_descriptor_proto R) (\<lambda>file.
           Inr \<lparr>md_rust_name = ''Command'', md_fields = fields, md_file = file\<rparr>))"

definition ctl_Command_descriptor ::
    "descriptor_rt \<Rightarrow> ctl_Command \<Rightarrow> panic + ctl_Command MessageDescriptor" where [reflect]:
  "ctl_Command_descriptor R m = ctl_Command_descriptor_static R"

definition ctl_Command_fmt :: "text_format \<Rightarrow> ctl_Command \<Rightarrow> string \<Rightarrow> unit + string"
    where [reflect]:
  "ctl_Command_fmt text_format_fmt m f = text_format_fmt (Dyn_Command m) f"

definition ctl_Command_as_ref :: "ctl_Command \<Rightarrow> ProtobufValueRef" where [reflect]:
  "ctl_Command_as_ref m = RefMessage (Dyn_Command m)"

end
