(* ===== verification/Reflect_Responses.thy ===== *)
theory Reflect_Responses
  imports Reflect
begin

text \<open>
  Reflection of the response messages and \<open>Response\<close> (\<open>clients/rust/src/sysadminctl.rs\<close>), in the
  conventions of theory Reflect_Values.
\<close>

subsection \<open>MappedField\<close>

definition ctl_MappedField_get_key_for_reflect :: "ctl_MappedField \<Rightarrow> string option"
    where [reflect]:
  "ctl_MappedField_get_key_for_reflect m = ctl_MappedField_key m"

definition ctl_MappedField_mut_key_for_reflect ::
    "ctl_MappedField \<Rightarrow> (string option \<Rightarrow> string option) \<Rightarrow> ctl_MappedField" where [reflect]:
  "ctl_MappedField_mut_key_for_reflect m upd =
      m\<lparr>ctl_MappedField_key := upd (ctl_MappedField_key m)\<rparr>"

definition ctl_MappedField_get_value_for_reflect :: "ctl_MappedField \<Rightarrow> ctl_ConfigValue option"
    where [reflect]:
  "ctl_MappedField_get_value_for_reflect m = ctl_MappedField_value m"

definition ctl_MappedField_mut_value_for_reflect ::
    "ctl_MappedField \<Rightarrow> (ctl_ConfigValue option \<Rightarrow> ctl_ConfigValue option) \<Rightarrow> ctl_MappedField"
        where [reflect]:
  "ctl_MappedField_mut_value_for_reflect m upd =
      m\<lparr>ctl_MappedField_value := upd (ctl_MappedField_value m)\<rparr>"

definition ctl_MappedField_mut_unknown_fields ::
    "ctl_MappedField \<Rightarrow> (UnknownFields \<Rightarrow> UnknownFields) \<Rightarrow> ctl_MappedField" where [reflect]:
  "ctl_MappedField_mut_unknown_fields m upd =
     m\<lparr>ctl_MappedField_unknown_fields := upd (ctl_MappedField_unknown_fields m)\<rparr>"

definition ctl_MappedField_as_any :: "ctl_MappedField \<Rightarrow> dyn" where [reflect]:
  "ctl_MappedField_as_any m = Dyn_MappedField m"

definition ctl_MappedField_as_any_mut :: "ctl_MappedField \<Rightarrow> (dyn \<Rightarrow> dyn) \<Rightarrow> ctl_MappedField"
    where [reflect]:
  "ctl_MappedField_as_any_mut m upd = (case upd (Dyn_MappedField m) of Dyn_MappedField m' \<Rightarrow> m'
      | _ \<Rightarrow> m)"

definition ctl_MappedField_into_any :: "ctl_MappedField \<Rightarrow> dyn" where [reflect]:
  "ctl_MappedField_into_any m = Dyn_MappedField m"

definition ctl_MappedField_static_new :: "ctl_MappedField" where [reflect]:
  "ctl_MappedField_static_new = ctl_MappedField_new"

definition ctl_MappedField_descriptor_static ::
    "descriptor_rt \<Rightarrow> panic + ctl_MappedField MessageDescriptor" where [reflect]:
  "ctl_MappedField_descriptor_static R =
     (let fields =
           [make_singular_field_accessor_string ''key''
              ctl_MappedField_get_key_for_reflect ctl_MappedField_mut_key_for_reflect,
            make_singular_ptr_field_accessor_ConfigValue ''value''
              ctl_MappedField_get_value_for_reflect ctl_MappedField_mut_value_for_reflect]
      in and_then (file_descriptor_proto R) (\<lambda>file.
           Inr \<lparr>md_rust_name = ''MappedField'', md_fields = fields, md_file = file\<rparr>))"

definition ctl_MappedField_descriptor ::
    "descriptor_rt \<Rightarrow> ctl_MappedField \<Rightarrow> panic + ctl_MappedField MessageDescriptor" where [reflect]:
  "ctl_MappedField_descriptor R m = ctl_MappedField_descriptor_static R"

definition ctl_MappedField_fmt :: "text_format \<Rightarrow> ctl_MappedField \<Rightarrow> string \<Rightarrow> unit + string"
    where [reflect]:
  "ctl_MappedField_fmt text_format_fmt m f = text_format_fmt (Dyn_MappedField m) f"

definition ctl_MappedField_as_ref :: "ctl_MappedField \<Rightarrow> ProtobufValueRef" where [reflect]:
  "ctl_MappedField_as_ref m = RefMessage (Dyn_MappedField m)"

subsection \<open>GetResponse\<close>

definition ctl_GetResponse_get_kvs_for_reflect :: "ctl_GetResponse \<Rightarrow> ctl_MappedField list"
    where [reflect]:
  "ctl_GetResponse_get_kvs_for_reflect m = ctl_GetResponse_kvs m"

definition ctl_GetResponse_mut_kvs_for_reflect ::
    "ctl_GetResponse \<Rightarrow> (ctl_MappedField list \<Rightarrow> ctl_MappedField list) \<Rightarrow> ctl_GetResponse"
        where [reflect]:
  "ctl_GetResponse_mut_kvs_for_reflect m upd =
      m\<lparr>ctl_GetResponse_kvs := upd (ctl_GetResponse_kvs m)\<rparr>"

definition ctl_GetResponse_mut_unknown_fields ::
    "ctl_GetResponse \<Rightarrow> (UnknownFields \<Rightarrow> UnknownFields) \<Rightarrow> ctl_GetResponse" where [reflect]:
  "ctl_GetResponse_mut_unknown_fields m upd =
     m\<lparr>ctl_GetResponse_unknown_fields := upd (ctl_GetResponse_unknown_fields m)\<rparr>"

definition ctl_GetResponse_as_any :: "ctl_GetResponse \<Rightarrow> dyn" where [reflect]:
  "ctl_GetResponse_as_any m = Dyn_GetResponse m"

definition ctl_GetResponse_as_any_mut :: "ctl_GetResponse \<Rightarrow> (dyn \<Rightarrow> dyn) \<Rightarrow> ctl_GetResponse"
    where [reflect]:
  "ctl_GetResponse_as_any_mut m upd = (case upd (Dyn_GetResponse m) of Dyn_GetResponse m' \<Rightarrow> m'
      | _ \<Rightarrow> m)"

definition ctl_GetResponse_into_any :: "ctl_GetResponse \<Rightarrow> dyn" where [reflect]:
  "ctl_GetResponse_into_any m = Dyn_GetResponse m"

definition ctl_GetResponse_static_new :: "ctl_GetResponse" where [reflect]:
  "ctl_GetResponse_static_new = ctl_GetResponse_new"

definition ctl_GetResponse_descriptor_static ::
    "descriptor_rt \<Rightarrow> panic + ctl_GetResponse MessageDescriptor" where [reflect]:
  "ctl_GetResponse_descriptor_static R =
     (let fields =
           [make_repeated_field_accessor_MappedField ''kvs''
              ctl_GetResponse_get_kvs_for_reflect ctl_GetResponse_mut_kvs_for_reflect]
      in and_then (file_descriptor_proto R) (\<lambda>file.
           Inr \<lparr>md_rust_name = ''GetResponse'', md_fields = fields, md_file = file\<rparr>))"

definition ctl_GetResponse_descriptor ::
    "descriptor_rt \<Rightarrow> ctl_GetResponse \<Rightarrow> panic + ctl_GetResponse MessageDescriptor" where [reflect]:
  "ctl_GetResponse_descriptor R m = ctl_GetResponse_descriptor_static R"

definition ctl_GetResponse_fmt :: "text_format \<Rightarrow> ctl_GetResponse \<Rightarrow> string \<Rightarrow> unit + string"
    where [reflect]:
  "ctl_GetResponse_fmt text_format_fmt m f = text_format_fmt (Dyn_GetResponse m) f"

definition ctl_GetResponse_as_ref :: "ctl_GetResponse \<Rightarrow> ProtobufValueRef" where [reflect]:
  "ctl_GetResponse_as_ref m = RefMessage (Dyn_GetResponse m)"

subsection \<open>CommitResponse\<close>

definition ctl_CommitResponse_get_commit_id_for_reflect :: "ctl_CommitResponse \<Rightarrow> u32 option"
    where [reflect]:
  "ctl_CommitResponse_get_commit_id_for_reflect m = ctl_CommitResponse_commit_id m"

definition ctl_CommitResponse_mut_commit_id_for_reflect ::
    "ctl_CommitResponse \<Rightarrow> (u32 option \<Rightarrow> u32 option) \<Rightarrow> ctl_CommitResponse" where [reflect]:
  "ctl_CommitResponse_mut_commit_id_for_reflect m upd =
      m\<lparr>ctl_CommitResponse_commit_id := upd (ctl_CommitResponse_commit_id m)\<rparr>"

definition ctl_CommitResponse_mut_unknown_fields ::
    "ctl_CommitResponse \<Rightarrow> (UnknownFields \<Rightarrow> UnknownFields) \<Rightarrow> ctl_CommitResponse" where [reflect]:
  "ctl_CommitResponse_mut_unknown_fields m upd =
     m\<lparr>ctl_CommitResponse_unknown_fields := upd (ctl_CommitResponse_unknown_fields m)\<rparr>"

definition ctl_CommitResponse_as_any :: "ctl_CommitResponse \<Rightarrow> dyn" where [reflect]:
  "ctl_CommitResponse_as_any m = Dyn_CommitResponse m"

definition ctl_CommitResponse_as_any_mut :: "ctl_CommitResponse \<Rightarrow> (dyn \<Rightarrow> dyn)
    \<Rightarrow> ctl_CommitResponse" where [reflect]:
  "ctl_CommitResponse_as_any_mut m upd =
      (case upd (Dyn_CommitResponse m) of Dyn_CommitResponse m' \<Rightarrow> m' | _ \<Rightarrow> m)"

definition ctl_CommitResponse_into_any :: "ctl_CommitResponse \<Rightarrow> dyn" where [reflect]:
  "ctl_CommitResponse_into_any m = Dyn_CommitResponse m"

definition ctl_CommitResponse_static_new :: "ctl_CommitResponse" where [reflect]:
  "ctl_CommitResponse_static_new = ctl_CommitResponse_new"

definition ctl_CommitResponse_descriptor_static ::
    "descriptor_rt \<Rightarrow> panic + ctl_CommitResponse MessageDescriptor" where [reflect]:
  "ctl_CommitResponse_descriptor_static R =
     (let fields =
           [make_option_accessor_uint32 ''commit_id''
              ctl_CommitResponse_get_commit_id_for_reflect ctl_CommitResponse_mut_commit_id_for_reflect]
      in and_then (file_descriptor_proto R) (\<lambda>file.
           Inr \<lparr>md_rust_name = ''CommitResponse'', md_fields = fields, md_file = file\<rparr>))"

definition ctl_CommitResponse_descriptor ::
    "descriptor_rt \<Rightarrow> ctl_CommitResponse \<Rightarrow> panic + ctl_CommitResponse MessageDescriptor"
        where [reflect]:
  "ctl_CommitResponse_descriptor R m = ctl_CommitResponse_descriptor_static R"

definition ctl_CommitResponse_fmt :: "text_format \<Rightarrow> ctl_CommitResponse \<Rightarrow> string \<Rightarrow> unit + string"
    where [reflect]:
  "ctl_CommitResponse_fmt text_format_fmt m f = text_format_fmt (Dyn_CommitResponse m) f"

definition ctl_CommitResponse_as_ref :: "ctl_CommitResponse \<Rightarrow> ProtobufValueRef" where [reflect]:
  "ctl_CommitResponse_as_ref m = RefMessage (Dyn_CommitResponse m)"

subsection \<open>ResetResponse\<close>

definition ctl_ResetResponse_get_commit_id_for_reflect :: "ctl_ResetResponse \<Rightarrow> u32 option"
    where [reflect]:
  "ctl_ResetResponse_get_commit_id_for_reflect m = ctl_ResetResponse_commit_id m"

definition ctl_ResetResponse_mut_commit_id_for_reflect ::
    "ctl_ResetResponse \<Rightarrow> (u32 option \<Rightarrow> u32 option) \<Rightarrow> ctl_ResetResponse" where [reflect]:
  "ctl_ResetResponse_mut_commit_id_for_reflect m upd =
      m\<lparr>ctl_ResetResponse_commit_id := upd (ctl_ResetResponse_commit_id m)\<rparr>"

definition ctl_ResetResponse_mut_unknown_fields ::
    "ctl_ResetResponse \<Rightarrow> (UnknownFields \<Rightarrow> UnknownFields) \<Rightarrow> ctl_ResetResponse" where [reflect]:
  "ctl_ResetResponse_mut_unknown_fields m upd =
     m\<lparr>ctl_ResetResponse_unknown_fields := upd (ctl_ResetResponse_unknown_fields m)\<rparr>"

definition ctl_ResetResponse_as_any :: "ctl_ResetResponse \<Rightarrow> dyn" where [reflect]:
  "ctl_ResetResponse_as_any m = Dyn_ResetResponse m"

definition ctl_ResetResponse_as_any_mut :: "ctl_ResetResponse \<Rightarrow> (dyn \<Rightarrow> dyn) \<Rightarrow> ctl_ResetResponse"
    where [reflect]:
  "ctl_ResetResponse_as_any_mut m upd =
      (case upd (Dyn_ResetResponse m) of Dyn_ResetResponse m' \<Rightarrow> m' | _ \<Rightarrow> m)"

definition ctl_ResetResponse_into_any :: "ctl_ResetResponse \<Rightarrow> dyn" where [reflect]:
  "ctl_ResetResponse_into_any m = Dyn_ResetResponse m"

definition ctl_ResetResponse_static_new :: "ctl_ResetResponse" where [reflect]:
  "ctl_ResetResponse_static_new = ctl_ResetResponse_new"

definition ctl_ResetResponse_descriptor_static ::
    "descriptor_rt \<Rightarrow> panic + ctl_ResetResponse MessageDescriptor" where [reflect]:
  "ctl_ResetResponse_descriptor_static R =
     (let fields =
           [make_option_accessor_uint32 ''commit_id''
              ctl_ResetResponse_get_commit_id_for_reflect ctl_ResetResponse_mut_commit_id_for_reflect]
      in and_then (file_descriptor_proto R) (\<lambda>file.
           Inr \<lparr>md_rust_name = ''ResetResponse'', md_fields = fields, md_file = file\<rparr>))"

definition ctl_ResetResponse_descriptor ::
    "descriptor_rt \<Rightarrow> ctl_ResetResponse \<Rightarrow> panic + ctl_ResetResponse MessageDescriptor"
        where [reflect]:
  "ctl_ResetResponse_descriptor R m = ctl_ResetResponse_descriptor_static R"

definition ctl_ResetResponse_fmt :: "text_format \<Rightarrow> ctl_ResetResponse \<Rightarrow> string \<Rightarrow> unit + string"
    where [reflect]:
  "ctl_ResetResponse_fmt text_format_fmt m f = text_format_fmt (Dyn_ResetResponse m) f"

definition ctl_ResetResponse_as_ref :: "ctl_ResetResponse \<Rightarrow> ProtobufValueRef" where [reflect]:
  "ctl_ResetResponse_as_ref m = RefMessage (Dyn_ResetResponse m)"

subsection \<open>DumpResponse\<close>

definition ctl_DumpResponse_get_templatehooks_for_reflect :: "ctl_DumpResponse \<Rightarrow> string list"
    where [reflect]:
  "ctl_DumpResponse_get_templatehooks_for_reflect m = ctl_DumpResponse_templatehooks m"

definition ctl_DumpResponse_mut_templatehooks_for_reflect ::
    "ctl_DumpResponse \<Rightarrow> (string list \<Rightarrow> string list) \<Rightarrow> ctl_DumpResponse" where [reflect]:
  "ctl_DumpResponse_mut_templatehooks_for_reflect m upd =
      m\<lparr>ctl_DumpResponse_templatehooks := upd (ctl_DumpResponse_templatehooks m)\<rparr>"

definition ctl_DumpResponse_get_servicehooks_for_reflect :: "ctl_DumpResponse \<Rightarrow> string list"
    where [reflect]:
  "ctl_DumpResponse_get_servicehooks_for_reflect m = ctl_DumpResponse_servicehooks m"

definition ctl_DumpResponse_mut_servicehooks_for_reflect ::
    "ctl_DumpResponse \<Rightarrow> (string list \<Rightarrow> string list) \<Rightarrow> ctl_DumpResponse" where [reflect]:
  "ctl_DumpResponse_mut_servicehooks_for_reflect m upd =
      m\<lparr>ctl_DumpResponse_servicehooks := upd (ctl_DumpResponse_servicehooks m)\<rparr>"

definition ctl_DumpResponse_mut_unknown_fields ::
    "ctl_DumpResponse \<Rightarrow> (UnknownFields \<Rightarrow> UnknownFields) \<Rightarrow> ctl_DumpResponse" where [reflect]:
  "ctl_DumpResponse_mut_unknown_fields m upd =
     m\<lparr>ctl_DumpResponse_unknown_fields := upd (ctl_DumpResponse_unknown_fields m)\<rparr>"

definition ctl_DumpResponse_as_any :: "ctl_DumpResponse \<Rightarrow> dyn" where [reflect]:
  "ctl_DumpResponse_as_any m = Dyn_DumpResponse m"

definition ctl_DumpResponse_as_any_mut :: "ctl_DumpResponse \<Rightarrow> (dyn \<Rightarrow> dyn) \<Rightarrow> ctl_DumpResponse"
    where [reflect]:
  "ctl_DumpResponse_as_any_mut m upd = (case upd (Dyn_DumpResponse m) of Dyn_DumpResponse m' \<Rightarrow> m'
      | _ \<Rightarrow> m)"

definition ctl_DumpResponse_into_any :: "ctl_DumpResponse \<Rightarrow> dyn" where [reflect]:
  "ctl_DumpResponse_into_any m = Dyn_DumpResponse m"

definition ctl_DumpResponse_static_new :: "ctl_DumpResponse" where [reflect]:
  "ctl_DumpResponse_static_new = ctl_DumpResponse_new"

definition ctl_DumpResponse_descriptor_static ::
    "descriptor_rt \<Rightarrow> panic + ctl_DumpResponse MessageDescriptor" where [reflect]:
  "ctl_DumpResponse_descriptor_static R =
     (let fields =
           [make_repeated_field_accessor_string ''templatehooks''
              ctl_DumpResponse_get_templatehooks_for_reflect ctl_DumpResponse_mut_templatehooks_for_reflect,
            make_repeated_field_accessor_string ''servicehooks''
              ctl_DumpResponse_get_servicehooks_for_reflect ctl_DumpResponse_mut_servicehooks_for_reflect]
      in and_then (file_descriptor_proto R) (\<lambda>file.
           Inr \<lparr>md_rust_name = ''DumpResponse'', md_fields = fields, md_file = file\<rparr>))"

definition ctl_DumpResponse_descriptor ::
    "descriptor_rt \<Rightarrow> ctl_DumpResponse \<Rightarrow> panic + ctl_DumpResponse MessageDescriptor"
        where [reflect]:
  "ctl_DumpResponse_descriptor R m = ctl_DumpResponse_descriptor_static R"

definition ctl_DumpResponse_fmt :: "text_format \<Rightarrow> ctl_DumpResponse \<Rightarrow> string \<Rightarrow> unit + string"
    where [reflect]:
  "ctl_DumpResponse_fmt text_format_fmt m f = text_format_fmt (Dyn_DumpResponse m) f"

definition ctl_DumpResponse_as_ref :: "ctl_DumpResponse \<Rightarrow> ProtobufValueRef" where [reflect]:
  "ctl_DumpResponse_as_ref m = RefMessage (Dyn_DumpResponse m)"

subsection \<open>BlameEntry\<close>

definition ctl_BlameEntry_get_commit_id_for_reflect :: "ctl_BlameEntry \<Rightarrow> u32 option"
    where [reflect]:
  "ctl_BlameEntry_get_commit_id_for_reflect m = ctl_BlameEntry_commit_id m"

definition ctl_BlameEntry_mut_commit_id_for_reflect ::
    "ctl_BlameEntry \<Rightarrow> (u32 option \<Rightarrow> u32 option) \<Rightarrow> ctl_BlameEntry" where [reflect]:
  "ctl_BlameEntry_mut_commit_id_for_reflect m upd =
      m\<lparr>ctl_BlameEntry_commit_id := upd (ctl_BlameEntry_commit_id m)\<rparr>"

definition ctl_BlameEntry_get_commit_time_for_reflect :: "ctl_BlameEntry \<Rightarrow> string option"
    where [reflect]:
  "ctl_BlameEntry_get_commit_time_for_reflect m = ctl_BlameEntry_commit_time m"

definition ctl_BlameEntry_mut_commit_time_for_reflect ::
    "ctl_BlameEntry \<Rightarrow> (string option \<Rightarrow> string option) \<Rightarrow> ctl_BlameEntry" where [reflect]:
  "ctl_BlameEntry_mut_commit_time_for_reflect m upd =
      m\<lparr>ctl_BlameEntry_commit_time := upd (ctl_BlameEntry_commit_time m)\<rparr>"

definition ctl_BlameEntry_get_val_for_reflect :: "ctl_BlameEntry \<Rightarrow> ctl_ConfigValue option"
    where [reflect]:
  "ctl_BlameEntry_get_val_for_reflect m = ctl_BlameEntry_val m"

definition ctl_BlameEntry_mut_val_for_reflect ::
    "ctl_BlameEntry \<Rightarrow> (ctl_ConfigValue option \<Rightarrow> ctl_ConfigValue option) \<Rightarrow> ctl_BlameEntry"
        where [reflect]:
  "ctl_BlameEntry_mut_val_for_reflect m upd = m\<lparr>ctl_BlameEntry_val := upd (ctl_BlameEntry_val m)\<rparr>"

definition ctl_BlameEntry_mut_unknown_fields ::
    "ctl_BlameEntry \<Rightarrow> (UnknownFields \<Rightarrow> UnknownFields) \<Rightarrow> ctl_BlameEntry" where [reflect]:
  "ctl_BlameEntry_mut_unknown_fields m upd =
     m\<lparr>ctl_BlameEntry_unknown_fields := upd (ctl_BlameEntry_unknown_fields m)\<rparr>"

definition ctl_BlameEntry_as_any :: "ctl_BlameEntry \<Rightarrow> dyn" where [reflect]:
  "ctl_BlameEntry_as_any m = Dyn_BlameEntry m"

definition ctl_BlameEntry_as_any_mut :: "ctl_BlameEntry \<Rightarrow> (dyn \<Rightarrow> dyn) \<Rightarrow> ctl_BlameEntry"
    where [reflect]:
  "ctl_BlameEntry_as_any_mut m upd = (case upd (Dyn_BlameEntry m) of Dyn_BlameEntry m' \<Rightarrow> m'
      | _ \<Rightarrow> m)"

definition ctl_BlameEntry_into_any :: "ctl_BlameEntry \<Rightarrow> dyn" where [reflect]:
  "ctl_BlameEntry_into_any m = Dyn_BlameEntry m"

definition ctl_BlameEntry_static_new :: "ctl_BlameEntry" where [reflect]:
  "ctl_BlameEntry_static_new = ctl_BlameEntry_new"

definition ctl_BlameEntry_descriptor_static ::
    "descriptor_rt \<Rightarrow> panic + ctl_BlameEntry MessageDescriptor" where [reflect]:
  "ctl_BlameEntry_descriptor_static R =
     (let fields =
           [make_option_accessor_uint32 ''commit_id''
              ctl_BlameEntry_get_commit_id_for_reflect ctl_BlameEntry_mut_commit_id_for_reflect,
            make_singular_field_accessor_string ''commit_time''
              ctl_BlameEntry_get_commit_time_for_reflect ctl_BlameEntry_mut_commit_time_for_reflect,
            make_singular_ptr_field_accessor_ConfigValue ''val''
              ctl_BlameEntry_get_val_for_reflect ctl_BlameEntry_mut_val_for_reflect]
      in and_then (file_descriptor_proto R) (\<lambda>file.
           Inr \<lparr>md_rust_name = ''BlameEntry'', md_fields = fields, md_file = file\<rparr>))"

definition ctl_BlameEntry_descriptor ::
    "descriptor_rt \<Rightarrow> ctl_BlameEntry \<Rightarrow> panic + ctl_BlameEntry MessageDescriptor" where [reflect]:
  "ctl_BlameEntry_descriptor R m = ctl_BlameEntry_descriptor_static R"

definition ctl_BlameEntry_fmt :: "text_format \<Rightarrow> ctl_BlameEntry \<Rightarrow> string \<Rightarrow> unit + string"
    where [reflect]:
  "ctl_BlameEntry_fmt text_format_fmt m f = text_format_fmt (Dyn_BlameEntry m) f"

definition ctl_BlameEntry_as_ref :: "ctl_BlameEntry \<Rightarrow> ProtobufValueRef" where [reflect]:
  "ctl_BlameEntry_as_ref m = RefMessage (Dyn_BlameEntry m)"

subsection \<open>BlameResponse\<close>

definition ctl_BlameResponse_get_key_for_reflect :: "ctl_BlameResponse \<Rightarrow> string option"
    where [reflect]:
  "ctl_BlameResponse_get_key_for_reflect m = ctl_BlameResponse_key m"

definition ctl_BlameResponse_mut_key_for_reflect ::
    "ctl_BlameResponse \<Rightarrow> (string option \<Rightarrow> string option) \<Rightarrow> ctl_BlameResponse" where [reflect]:
  "ctl_BlameResponse_mut_key_for_reflect m upd =
      m\<lparr>ctl_BlameResponse_key := upd (ctl_BlameResponse_key m)\<rparr>"

definition ctl_BlameResponse_get_entries_for_reflect :: "ctl_BlameResponse \<Rightarrow> ctl_BlameEntry list"
    where [reflect]:
  "ctl_BlameResponse_get_entries_for_reflect m = ctl_BlameResponse_entries m"

definition ctl_BlameResponse_mut_entries_for_reflect ::
    "ctl_BlameResponse \<Rightarrow> (ctl_BlameEntry list \<Rightarrow> ctl_BlameEntry list) \<Rightarrow> ctl_BlameResponse"
        where [reflect]:
  "ctl_BlameResponse_mut_entries_for_reflect m upd =
      m\<lparr>ctl_BlameResponse_entries := upd (ctl_BlameResponse_entries m)\<rparr>"

definition ctl_BlameResponse_mut_unknown_fields ::
    "ctl_BlameResponse \<Rightarrow> (UnknownFields \<Rightarrow> UnknownFields) \<Rightarrow> ctl_BlameResponse" where [reflect]:
  "ctl_BlameResponse_mut_unknown_fields m upd =
     m\<lparr>ctl_BlameResponse_unknown_fields := upd (ctl_BlameResponse_unknown_fields m)\<rparr>"

definition ctl_BlameResponse_as_any :: "ctl_BlameResponse \<Rightarrow> dyn" where [reflect]:
  "ctl_BlameResponse_as_any m = Dyn_BlameResponse m"

definition ctl_BlameResponse_as_any_mut :: "ctl_BlameResponse \<Rightarrow> (dyn \<Rightarrow> dyn) \<Rightarrow> ctl_BlameResponse"
    where [reflect]:
  "ctl_BlameResponse_as_any_mut m upd =
      (case upd (Dyn_BlameResponse m) of Dyn_BlameResponse m' \<Rightarrow> m' | _ \<Rightarrow> m)"

definition ctl_BlameResponse_into_any :: "ctl_BlameResponse \<Rightarrow> dyn" where [reflect]:
  "ctl_BlameResponse_into_any m = Dyn_BlameResponse m"

definition ctl_BlameResponse_static_new :: "ctl_BlameResponse" where [reflect]:
  "ctl_BlameResponse_static_new = ctl_BlameResponse_new"

definition ctl_BlameResponse_descriptor_static ::
    "descriptor_rt \<Rightarrow> panic + ctl_BlameResponse MessageDescriptor" where [reflect]:
  "ctl_BlameResponse_descriptor_static R =
     (let fields =
           [make_singular_field_accessor_string ''key''
              ctl_BlameResponse_get_key_for_reflect ctl_BlameResponse_mut_key_for_reflect,
            make_repeated_field_accessor_BlameEntry ''entries''
              ctl_BlameResponse_get_entries_for_reflect ctl_BlameResponse_mut_entries_for_reflect]
      in and_then (file_descriptor_proto R) (\<lambda>file.
           Inr \<lparr>md_rust_name = ''BlameResponse'', md_fields = fields, md_file = file\<rparr>))"

definition ctl_BlameResponse_descriptor ::
    "descriptor_rt \<Rightarrow> ctl_BlameResponse \<Rightarrow> panic + ctl_BlameResponse MessageDescriptor"
        where [reflect]:
  "ctl_BlameResponse_descriptor R m = ctl_BlameResponse_descriptor_static R"

definition ctl_BlameResponse_fmt :: "text_format \<Rightarrow> ctl_BlameResponse \<Rightarrow> string \<Rightarrow> unit + string"
    where [reflect]:
  "ctl_BlameResponse_fmt text_format_fmt m f = text_format_fmt (Dyn_BlameResponse m) f"

definition ctl_BlameResponse_as_ref :: "ctl_BlameResponse \<Rightarrow> ProtobufValueRef" where [reflect]:
  "ctl_BlameResponse_as_ref m = RefMessage (Dyn_BlameResponse m)"

subsection \<open>InFlightResponse\<close>

definition ctl_InFlightResponse_get_kvs_for_reflect :: "ctl_InFlightResponse
    \<Rightarrow> ctl_MappedField list" where [reflect]:
  "ctl_InFlightResponse_get_kvs_for_reflect m = ctl_InFlightResponse_kvs m"

definition ctl_InFlightResponse_mut_kvs_for_reflect ::
    "ctl_InFlightResponse \<Rightarrow> (ctl_MappedField list \<Rightarrow> ctl_MappedField list) \<Rightarrow> ctl_InFlightResponse"
        where [reflect]:
  "ctl_InFlightResponse_mut_kvs_for_reflect m upd =
      m\<lparr>ctl_InFlightResponse_kvs := upd (ctl_InFlightResponse_kvs m)\<rparr>"

definition ctl_InFlightResponse_mut_unknown_fields ::
    "ctl_InFlightResponse \<Rightarrow> (UnknownFields \<Rightarrow> UnknownFields) \<Rightarrow> ctl_InFlightResponse"
        where [reflect]:
  "ctl_InFlightResponse_mut_unknown_fields m upd =
     m\<lparr>ctl_InFlightResponse_unknown_fields := upd (ctl_InFlightResponse_unknown_fields m)\<rparr>"

definition ctl_InFlightResponse_as_any :: "ctl_InFlightResponse \<Rightarrow> dyn" where [reflect]:
  "ctl_InFlightResponse_as_any m = Dyn_InFlightResponse m"

definition ctl_InFlightResponse_as_any_mut :: "ctl_InFlightResponse \<Rightarrow> (dyn \<Rightarrow> dyn)
    \<Rightarrow> ctl_InFlightResponse" where [reflect]:
  "ctl_InFlightResponse_as_any_mut m upd =
      (case upd (Dyn_InFlightResponse m) of Dyn_InFlightResponse m' \<Rightarrow> m' | _ \<Rightarrow> m)"

definition ctl_InFlightResponse_into_any :: "ctl_InFlightResponse \<Rightarrow> dyn" where [reflect]:
  "ctl_InFlightResponse_into_any m = Dyn_InFlightResponse m"

definition ctl_InFlightResponse_static_new :: "ctl_InFlightResponse" where [reflect]:
  "ctl_InFlightResponse_static_new = ctl_InFlightResponse_new"

definition ctl_InFlightResponse_descriptor_static ::
    "descriptor_rt \<Rightarrow> panic + ctl_InFlightResponse MessageDescriptor" where [reflect]:
  "ctl_InFlightResponse_descriptor_static R =
     (let fields =
           [make_repeated_field_accessor_MappedField ''kvs''
              ctl_InFlightResponse_get_kvs_for_reflect ctl_InFlightResponse_mut_kvs_for_reflect]
      in and_then (file_descriptor_proto R) (\<lambda>file.
           Inr \<lparr>md_rust_name = ''InFlightResponse'', md_fields = fields, md_file = file\<rparr>))"

definition ctl_InFlightResponse_descriptor ::
    "descriptor_rt \<Rightarrow> ctl_InFlightResponse \<Rightarrow> panic + ctl_InFlightResponse MessageDescriptor"
        where [reflect]:
  "ctl_InFlightResponse_descriptor R m = ctl_InFlightResponse_descriptor_static R"

definition ctl_InFlightResponse_fmt :: "text_format \<Rightarrow> ctl_InFlightResponse \<Rightarrow> string
    \<Rightarrow> unit + string" where [reflect]:
  "ctl_InFlightResponse_fmt text_format_fmt m f = text_format_fmt (Dyn_InFlightResponse m) f"

definition ctl_InFlightResponse_as_ref :: "ctl_InFlightResponse \<Rightarrow> ProtobufValueRef"
    where [reflect]:
  "ctl_InFlightResponse_as_ref m = RefMessage (Dyn_InFlightResponse m)"

subsection \<open>Response\<close>

definition ctl_Response_get_id_for_reflect :: "ctl_Response \<Rightarrow> u32 option" where [reflect]:
  "ctl_Response_get_id_for_reflect m = ctl_Response_id m"

definition ctl_Response_mut_id_for_reflect ::
    "ctl_Response \<Rightarrow> (u32 option \<Rightarrow> u32 option) \<Rightarrow> ctl_Response" where [reflect]:
  "ctl_Response_mut_id_for_reflect m upd = m\<lparr>ctl_Response_id := upd (ctl_Response_id m)\<rparr>"

definition ctl_Response_get_status_for_reflect :: "ctl_Response \<Rightarrow> ctl_StatusCode option"
    where [reflect]:
  "ctl_Response_get_status_for_reflect m = ctl_Response_status m"

definition ctl_Response_mut_status_for_reflect ::
    "ctl_Response \<Rightarrow> (ctl_StatusCode option \<Rightarrow> ctl_StatusCode option) \<Rightarrow> ctl_Response"
        where [reflect]:
  "ctl_Response_mut_status_for_reflect m upd =
      m\<lparr>ctl_Response_status := upd (ctl_Response_status m)\<rparr>"

definition ctl_Response_mut_unknown_fields ::
    "ctl_Response \<Rightarrow> (UnknownFields \<Rightarrow> UnknownFields) \<Rightarrow> ctl_Response" where [reflect]:
  "ctl_Response_mut_unknown_fields m upd =
     m\<lparr>ctl_Response_unknown_fields := upd (ctl_Response_unknown_fields m)\<rparr>"

definition ctl_Response_as_any :: "ctl_Response \<Rightarrow> dyn" where [reflect]:
  "ctl_Response_as_any m = Dyn_Response m"

definition ctl_Response_as_any_mut :: "ctl_Response \<Rightarrow> (dyn \<Rightarrow> dyn) \<Rightarrow> ctl_Response" where [reflect]:
  "ctl_Response_as_any_mut m upd = (case upd (Dyn_Response m) of Dyn_Response m' \<Rightarrow> m' | _ \<Rightarrow> m)"

definition ctl_Response_into_any :: "ctl_Response \<Rightarrow> dyn" where [reflect]:
  "ctl_Response_into_any m = Dyn_Response m"

definition ctl_Response_static_new :: "ctl_Response" where [reflect]:
  "ctl_Response_static_new = ctl_Response_new"

definition ctl_Response_descriptor_static ::
    "descriptor_rt \<Rightarrow> panic + ctl_Response MessageDescriptor" where [reflect]:
  "ctl_Response_descriptor_static R =
     (let fields =
           [make_singular_message_accessor ''get''
              ctl_Response_has_get (\<lambda>m. Dyn_GetResponse (ctl_Response_get_get m)),
            make_singular_message_accessor ''commit''
              ctl_Response_has_commit (\<lambda>m. Dyn_CommitResponse (ctl_Response_get_commit m)),
            make_singular_message_accessor ''reset''
              ctl_Response_has_reset (\<lambda>m. Dyn_ResetResponse (ctl_Response_get_reset m)),
            make_singular_message_accessor ''dump''
              ctl_Response_has_dump (\<lambda>m. Dyn_DumpResponse (ctl_Response_get_dump m)),
            make_singular_message_accessor ''blame''
              ctl_Response_has_blame (\<lambda>m. Dyn_BlameResponse (ctl_Response_get_blame m)),
            make_singular_message_accessor ''inflight''
              ctl_Response_has_inflight (\<lambda>m. Dyn_InFlightResponse (ctl_Response_get_inflight m)),
            make_option_accessor_uint32 ''id''
              ctl_Response_get_id_for_reflect ctl_Response_mut_id_for_reflect,
            make_option_accessor_StatusCode ''status''
              ctl_Response_get_status_for_reflect ctl_Response_mut_status_for_reflect]
      in and_then (file_descriptor_proto R) (\<lambda>file.
           Inr \<lparr>md_rust_name = ''Response'', md_fields = fields, md_file = file\<rparr>))"

definition ctl_Response_descriptor ::
    "descriptor_rt \<Rightarrow> ctl_Response \<Rightarrow> panic + ctl_Response MessageDescriptor" where [reflect]:
  "ctl_Response_descriptor R m = ctl_Response_descriptor_static R"

definition ctl_Response_fmt :: "text_format \<Rightarrow> ctl_Response \<Rightarrow> string \<Rightarrow> unit + string"
    where [reflect]:
  "ctl_Response_fmt text_format_fmt m f = text_format_fmt (Dyn_Response m) f"

definition ctl_Response_as_ref :: "ctl_Response \<Rightarrow> ProtobufValueRef" where [reflect]:
  "ctl_Response_as_ref m = RefMessage (Dyn_Response m)"

end
