(* ===== verification/Schema_Codec.thy ===== *)
theory Schema_Codec
  imports Reflect_Values Reflect_Commands Reflect_Responses Codec_Commands Codec_Responses
begin

text \<open>
  The schema against the code.  What the generated code relies on in the runtime's reflection is
  stated as a locale; from it follows what \<open>file_descriptor_proto\<close> and the descriptors of the
  messages are.  \<open>reflect_encode\<close> is the reference encoder: it knows nothing of the message types
  and encodes a message by its descriptor, each declared field by its number, type and label in
  the embedded schema and by the values its accessor reads.  The encodings of theories
  Codec_Values, Codec_Commands and Codec_Responses, which the generated code writes, are those of
  the reference encoder.  The last section says when a registered descriptor is right (\<open>registers\<close>,
  \<open>reads_all\<close>), and that all 26 are.
\<close>

section \<open>What the code relies on\<close>

definition field_ok :: "FieldDescriptorProto \<Rightarrow> bool" where
  "field_ok d \<longleftrightarrow> string_ok (fd_name d) \<and> ok_opt string_ok (fd_type_name d) \<and> string_ok (fd_json_name d)"

definition descriptor_ok :: "DescriptorProto \<Rightarrow> bool" where
  "descriptor_ok d \<longleftrightarrow>
     string_ok (msgd_name d) \<and> list_all field_ok (msgd_field d) \<and> list_all string_ok (msgd_oneof_decl d)"

definition enum_descriptor_ok :: "EnumDescriptorProto \<Rightarrow> bool" where
  "enum_descriptor_ok d \<longleftrightarrow>
     string_ok (enumd_name d) \<and> list_all (\<lambda>v. string_ok (evd_name v)) (enumd_value d)"

definition file_ok :: "FileDescriptorProto \<Rightarrow> bool" where
  "file_ok f \<longleftrightarrow>
     string_ok (filed_name f) \<and> string_ok (filed_package f)
     \<and> list_all descriptor_ok (filed_message_type f) \<and> list_all enum_descriptor_ok (filed_enum_type f)"

definition find_message :: "FileDescriptorProto \<Rightarrow> string \<Rightarrow> DescriptorProto option" where
  "find_message f name = find (\<lambda>d. msgd_name d = name) (filed_message_type f)"

definition find_enum :: "FileDescriptorProto \<Rightarrow> string \<Rightarrow> EnumDescriptorProto option" where
  "find_enum f name = find (\<lambda>d. enumd_name d = name) (filed_enum_type f)"

text \<open>
  Parsing gives back an encoded file descriptor, and \<open>value_by_number\<close> finds the value the enum
  declares with the number.
\<close>

locale descriptor_runtime =
  fixes R :: descriptor_rt
  assumes parse: "file_ok f \<Longrightarrow> small (file_wire f) \<Longrightarrow> rf_parse_from_bytes R (file_wire f) = Inr f"
    and value_by_number: "find_enum (ed_file d) (ed_rust_name d) = Some e \<Longrightarrow>
      find (\<lambda>v. evd_number v = n) (enumd_value e) = Some v \<Longrightarrow> rf_value_by_number R d n = v"

section \<open>The schema is well formed\<close>

lemma utf8_ascii: "list_all (\<lambda>b. b \<le> 0x7F) bs \<Longrightarrow> utf8_valid bs"
  by (induction bs) simp_all

lemma string_ok_ascii: "list_all (\<lambda>c. of_nat (of_char c) \<le> (0x7F :: u8)) s \<Longrightarrow> string_ok s"
  unfolding string_ok_def by (rule utf8_ascii) (simp add: string_bytes_def list_all_iff)

lemma field_descriptor_ok:
  "field_ok (field_descriptor name n l t type_name oneof json)
     \<longleftrightarrow> string_ok name \<and> ok_opt string_ok type_name \<and> string_ok json"
  by (simp add: field_ok_def field_descriptor_def)

lemma sysadminctl_file_ok: "file_ok sysadminctl_file"
  by (simp add: file_ok_def sysadminctl_file_def descriptor_ok_def enum_descriptor_ok_def
      message_descriptor_def enum_descriptor_def enum_value_descriptor_def field_descriptor_ok
      descriptor_Int32List_def descriptor_BoolList_def descriptor_StringList_def
      descriptor_ConfigValue_def descriptor_Set_def descriptor_Get_def descriptor_Commit_def
      descriptor_Drop_def descriptor_FireHooks_def descriptor_Rollback_def
      descriptor_EraseKey_def descriptor_Reset_def descriptor_DumpHooks_def
      descriptor_TriggerHook_def descriptor_Blame_def descriptor_InFlight_def
      descriptor_Command_def descriptor_MappedField_def descriptor_GetResponse_def
      descriptor_CommitResponse_def descriptor_ResetResponse_def descriptor_DumpResponse_def
      descriptor_BlameEntry_def descriptor_BlameResponse_def descriptor_InFlightResponse_def
      descriptor_Response_def descriptor_CommitConfig_def descriptor_StatusCode_def
      string_ok_ascii)

lemma sysadminctl_file_small: "small (file_wire sysadminctl_file)"
  unfolding file_descriptor_is_the_schema
  by (simp add: small_def file_descriptor_proto_data_def descriptor_data)

lemma descriptor_names:
  "msgd_name descriptor_Int32List = ''Int32List''"
  "msgd_name descriptor_BoolList = ''BoolList''"
  "msgd_name descriptor_StringList = ''StringList''"
  "msgd_name descriptor_ConfigValue = ''ConfigValue''"
  "msgd_name descriptor_Set = ''Set''"
  "msgd_name descriptor_Get = ''Get''"
  "msgd_name descriptor_Commit = ''Commit''"
  "msgd_name descriptor_Drop = ''Drop''"
  "msgd_name descriptor_FireHooks = ''FireHooks''"
  "msgd_name descriptor_Rollback = ''Rollback''"
  "msgd_name descriptor_EraseKey = ''EraseKey''"
  "msgd_name descriptor_Reset = ''Reset''"
  "msgd_name descriptor_DumpHooks = ''DumpHooks''"
  "msgd_name descriptor_TriggerHook = ''TriggerHook''"
  "msgd_name descriptor_Blame = ''Blame''"
  "msgd_name descriptor_InFlight = ''InFlight''"
  "msgd_name descriptor_Command = ''Command''"
  "msgd_name descriptor_MappedField = ''MappedField''"
  "msgd_name descriptor_GetResponse = ''GetResponse''"
  "msgd_name descriptor_CommitResponse = ''CommitResponse''"
  "msgd_name descriptor_ResetResponse = ''ResetResponse''"
  "msgd_name descriptor_DumpResponse = ''DumpResponse''"
  "msgd_name descriptor_BlameEntry = ''BlameEntry''"
  "msgd_name descriptor_BlameResponse = ''BlameResponse''"
  "msgd_name descriptor_InFlightResponse = ''InFlightResponse''"
  "msgd_name descriptor_Response = ''Response''"
  by (simp_all add: descriptors)

lemma find_messages:
  "find_message sysadminctl_file ''Int32List'' = Some descriptor_Int32List"
  "find_message sysadminctl_file ''BoolList'' = Some descriptor_BoolList"
  "find_message sysadminctl_file ''StringList'' = Some descriptor_StringList"
  "find_message sysadminctl_file ''ConfigValue'' = Some descriptor_ConfigValue"
  "find_message sysadminctl_file ''Set'' = Some descriptor_Set"
  "find_message sysadminctl_file ''Get'' = Some descriptor_Get"
  "find_message sysadminctl_file ''Commit'' = Some descriptor_Commit"
  "find_message sysadminctl_file ''Drop'' = Some descriptor_Drop"
  "find_message sysadminctl_file ''FireHooks'' = Some descriptor_FireHooks"
  "find_message sysadminctl_file ''Rollback'' = Some descriptor_Rollback"
  "find_message sysadminctl_file ''EraseKey'' = Some descriptor_EraseKey"
  "find_message sysadminctl_file ''Reset'' = Some descriptor_Reset"
  "find_message sysadminctl_file ''DumpHooks'' = Some descriptor_DumpHooks"
  "find_message sysadminctl_file ''TriggerHook'' = Some descriptor_TriggerHook"
  "find_message sysadminctl_file ''Blame'' = Some descriptor_Blame"
  "find_message sysadminctl_file ''InFlight'' = Some descriptor_InFlight"
  "find_message sysadminctl_file ''Command'' = Some descriptor_Command"
  "find_message sysadminctl_file ''MappedField'' = Some descriptor_MappedField"
  "find_message sysadminctl_file ''GetResponse'' = Some descriptor_GetResponse"
  "find_message sysadminctl_file ''CommitResponse'' = Some descriptor_CommitResponse"
  "find_message sysadminctl_file ''ResetResponse'' = Some descriptor_ResetResponse"
  "find_message sysadminctl_file ''DumpResponse'' = Some descriptor_DumpResponse"
  "find_message sysadminctl_file ''BlameEntry'' = Some descriptor_BlameEntry"
  "find_message sysadminctl_file ''BlameResponse'' = Some descriptor_BlameResponse"
  "find_message sysadminctl_file ''InFlightResponse'' = Some descriptor_InFlightResponse"
  "find_message sysadminctl_file ''Response'' = Some descriptor_Response"
  by (simp_all add: find_message_def sysadminctl_file_def descriptor_names)

lemma find_enums:
  "find_enum sysadminctl_file ''CommitConfig'' = Some descriptor_CommitConfig"
  "find_enum sysadminctl_file ''StatusCode'' = Some descriptor_StatusCode"
  by (simp_all add: find_enum_def sysadminctl_file_def descriptors)

section \<open>The reference encoder\<close>

definition fields_read ::
    "descriptor_rt \<Rightarrow> 'm MessageDescriptor \<Rightarrow> 'm \<Rightarrow> panic + (string \<times> ProtobufValueRef list) list" where
  "fields_read R md m =
     map_result (\<lambda>a. and_then (accessor_read R a m) (\<lambda>vs. Inr (accessor_name a, vs))) (md_fields md)"

definition view_through ::
    "descriptor_rt \<Rightarrow> panic + 'm MessageDescriptor \<Rightarrow> 'm
      \<Rightarrow> panic + string \<times> (string \<times> ProtobufValueRef list) list \<times> FileDescriptorProto" where
  "view_through R descriptor m =
     and_then descriptor (\<lambda>md. and_then (fields_read R md m) (\<lambda>vs.
       Inr (md_rust_name md, vs, md_file md)))"

text \<open>The call of \<open>descriptor\<close> on \<open>&Message\<close> goes to the type of the message.\<close>

primrec dyn_view ::
    "descriptor_rt \<Rightarrow> dyn
      \<Rightarrow> panic + string \<times> (string \<times> ProtobufValueRef list) list \<times> FileDescriptorProto" where
"dyn_view R (Dyn_Int32List m) = view_through R (ctl_Int32List_descriptor R m) m"
| "dyn_view R (Dyn_BoolList m) = view_through R (ctl_BoolList_descriptor R m) m"
| "dyn_view R (Dyn_StringList m) = view_through R (ctl_StringList_descriptor R m) m"
| "dyn_view R (Dyn_ConfigValue m) = view_through R (ctl_ConfigValue_descriptor R m) m"
| "dyn_view R (Dyn_Set m) = view_through R (ctl_Set_descriptor R m) m"
| "dyn_view R (Dyn_Get m) = view_through R (ctl_Get_descriptor R m) m"
| "dyn_view R (Dyn_Commit m) = view_through R (ctl_Commit_descriptor R m) m"
| "dyn_view R (Dyn_Drop m) = view_through R (ctl_Drop_descriptor R m) m"
| "dyn_view R (Dyn_FireHooks m) = view_through R (ctl_FireHooks_descriptor R m) m"
| "dyn_view R (Dyn_Rollback m) = view_through R (ctl_Rollback_descriptor R m) m"
| "dyn_view R (Dyn_EraseKey m) = view_through R (ctl_EraseKey_descriptor R m) m"
| "dyn_view R (Dyn_Reset m) = view_through R (ctl_Reset_descriptor R m) m"
| "dyn_view R (Dyn_DumpHooks m) = view_through R (ctl_DumpHooks_descriptor R m) m"
| "dyn_view R (Dyn_TriggerHook m) = view_through R (ctl_TriggerHook_descriptor R m) m"
| "dyn_view R (Dyn_Blame m) = view_through R (ctl_Blame_descriptor R m) m"
| "dyn_view R (Dyn_InFlight m) = view_through R (ctl_InFlight_descriptor R m) m"
| "dyn_view R (Dyn_Command m) = view_through R (ctl_Command_descriptor R m) m"
| "dyn_view R (Dyn_MappedField m) = view_through R (ctl_MappedField_descriptor R m) m"
| "dyn_view R (Dyn_GetResponse m) = view_through R (ctl_GetResponse_descriptor R m) m"
| "dyn_view R (Dyn_CommitResponse m) = view_through R (ctl_CommitResponse_descriptor R m) m"
| "dyn_view R (Dyn_ResetResponse m) = view_through R (ctl_ResetResponse_descriptor R m) m"
| "dyn_view R (Dyn_DumpResponse m) = view_through R (ctl_DumpResponse_descriptor R m) m"
| "dyn_view R (Dyn_BlameEntry m) = view_through R (ctl_BlameEntry_descriptor R m) m"
| "dyn_view R (Dyn_BlameResponse m) = view_through R (ctl_BlameResponse_descriptor R m) m"
| "dyn_view R (Dyn_InFlightResponse m) = view_through R (ctl_InFlightResponse_descriptor R m) m"
| "dyn_view R (Dyn_Response m) = view_through R (ctl_Response_descriptor R m) m"

fun encode_value ::
    "(dyn \<Rightarrow> panic + bytes) \<Rightarrow> FieldType \<Rightarrow> u32 \<Rightarrow> ProtobufValueRef \<Rightarrow> panic + bytes" where
  "encode_value enc TYPE_INT32 n (RefI32 v) = Inr (enc_int32 n v)"
| "encode_value enc TYPE_UINT32 n (RefU32 v) = Inr (enc_uint32 n v)"
| "encode_value enc TYPE_BOOL n (RefBool v) = Inr (enc_bool n v)"
| "encode_value enc TYPE_STRING n (RefString v) = Inr (enc_string n v)"
| "encode_value enc TYPE_ENUM n (RefEnum e) = Inr (enc_int32 n (evd_number e))"
| "encode_value enc TYPE_MESSAGE n (RefMessage d) =
     and_then (enc d) (\<lambda>b. Inr (enc_message n b))"
| "encode_value enc t n v = Inl (Panicked ''value of another type'')"

definition label_allows :: "FieldLabel \<Rightarrow> 'a list \<Rightarrow> bool" where
  "label_allows l vs \<longleftrightarrow> l = LABEL_REPEATED \<or> length vs \<le> 1"

definition encode_field ::
    "(dyn \<Rightarrow> panic + bytes) \<Rightarrow> (string \<times> ProtobufValueRef list) list \<Rightarrow> FieldDescriptorProto
      \<Rightarrow> panic + bytes" where
  "encode_field enc values d =
     (case map_of values (fd_name d) of
        None \<Rightarrow> Inl (Panicked ''no accessor for the field'')
      | Some vs \<Rightarrow>
          if label_allows (fd_label d) vs then
            and_then (map_result (encode_value enc (fd_type d) (fd_number d)) vs) (\<lambda>bs. Inr (concat bs))
          else Inl (Panicked ''several values of a singular field''))"

text \<open>The fields in the order the generated code writes them: the members of oneofs last.\<close>

definition wire_order :: "DescriptorProto \<Rightarrow> FieldDescriptorProto list" where
  "wire_order d =
     filter (\<lambda>f. fd_oneof_index f = None) (msgd_field d)
     @ filter (\<lambda>f. fd_oneof_index f \<noteq> None) (msgd_field d)"

text \<open>The first argument bounds the nesting of messages; the schema nests them five deep.\<close>

primrec reflect_encode :: "descriptor_rt \<Rightarrow> nat \<Rightarrow> dyn \<Rightarrow> panic + bytes" where
  "reflect_encode R 0 d = Inl (Panicked ''nested too deep'')"
| "reflect_encode R (Suc n) d =
     and_then (dyn_view R d) (\<lambda>(name, values, file).
       case find_message file name of
         None \<Rightarrow> Inl (Panicked ''no such message'')
       | Some desc \<Rightarrow>
           and_then (map_result (encode_field (reflect_encode R n) values) (wire_order desc))
             (\<lambda>bs. Inr (concat bs)))"

lemmas reflect_encode_Suc = reflect_encode.simps(2)

declare reflect_encode.simps(2) [simp del]

section \<open>The descriptors of the messages\<close>

lemmas reflect_reads = view_through_def fields_read_def

context descriptor_runtime begin

lemma file_descriptor_proto_is: "file_descriptor_proto R = Inr sysadminctl_file"
  using parse [OF sysadminctl_file_ok sysadminctl_file_small]
  by (simp add: file_descriptor_proto_def parse_descriptor_proto_def file_descriptor_is_the_schema)

lemma CommitConfig_as_ref:
  "\<exists>e. ctl_CommitConfig_as_ref R v = Inr (RefEnum e) \<and> evd_number e = ctl_CommitConfig_value v"
  by (cases v) (simp_all add: ctl_CommitConfig_as_ref_def ctl_CommitConfig_enum_descriptor_static_def
      file_descriptor_proto_is
      value_by_number [where e = descriptor_CommitConfig] find_enums descriptors)

lemma StatusCode_as_ref:
  "\<exists>e. ctl_StatusCode_as_ref R v = Inr (RefEnum e) \<and> evd_number e = ctl_StatusCode_value v"
  by (cases v) (simp_all add: ctl_StatusCode_as_ref_def ctl_StatusCode_enum_descriptor_static_def
      file_descriptor_proto_is
      value_by_number [where e = descriptor_StatusCode] find_enums descriptors)

section \<open>The encodings are those of the schema\<close>

lemma encode_messages [simp]:
  "(\<And>v. v \<in> set vs \<Longrightarrow> enc (C v) = Inr (w v)) \<Longrightarrow>
     map_result (encode_value enc TYPE_MESSAGE n) (map (\<lambda>v. RefMessage (C v)) vs)
       = Inr (map (\<lambda>v. enc_message n (w v)) vs)"
  by (induction vs) simp_all

lemma encode_strings [simp]:
  "map_result (encode_value enc TYPE_STRING n) (map RefString vs) = Inr (map (enc_string n) vs)"
  by (induction vs) simp_all

lemma encode_int32s [simp]:
  "map_result (encode_value enc TYPE_INT32 n) (map RefI32 vs) = Inr (map (enc_int32 n) vs)"
  by (induction vs) simp_all

lemma encode_bools [simp]:
  "map_result (encode_value enc TYPE_BOOL n) (map RefBool vs) = Inr (map (enc_bool n) vs)"
  by (induction vs) simp_all

lemmas encode_eval = reflect_reads reflect descriptors find_messages file_descriptor_proto_is
  wire_order_def encode_field_def label_allows_def
  present_def enc_opt_def

lemma encode_Int32List: "reflect_encode R (Suc n) (Dyn_Int32List m) = Inr (ctl_Int32List_wire m)"
  by (subst reflect_encode_Suc, simp add: encode_eval ctl_Int32List_wire_def  split: option.split)

lemma encode_BoolList: "reflect_encode R (Suc n) (Dyn_BoolList m) = Inr (ctl_BoolList_wire m)"
  by (subst reflect_encode_Suc, simp add: encode_eval ctl_BoolList_wire_def  split: option.split)

lemma encode_StringList: "reflect_encode R (Suc n) (Dyn_StringList m) = Inr (ctl_StringList_wire m)"
  by (subst reflect_encode_Suc, simp add: encode_eval ctl_StringList_wire_def  split: option.split)

lemma encode_Get: "reflect_encode R (Suc n) (Dyn_Get m) = Inr (ctl_Get_wire m)"
  by (subst reflect_encode_Suc, simp add: encode_eval ctl_Get_wire_def  split: option.split)

lemma encode_Commit: "reflect_encode R (Suc n) (Dyn_Commit m) = Inr (ctl_Commit_wire m)"
  using CommitConfig_as_ref [of "the (ctl_Commit_config m)"]
  by (subst reflect_encode_Suc, auto simp: encode_eval ctl_Commit_wire_def split: option.split)

lemma encode_Drop: "reflect_encode R (Suc n) (Dyn_Drop m) = Inr (ctl_Drop_wire m)"
  by (subst reflect_encode_Suc, simp add: encode_eval ctl_Drop_wire_def  split: option.split)

lemma encode_FireHooks: "reflect_encode R (Suc n) (Dyn_FireHooks m) = Inr (ctl_FireHooks_wire m)"
  by (subst reflect_encode_Suc, simp add: encode_eval ctl_FireHooks_wire_def  split: option.split)

lemma encode_Rollback: "reflect_encode R (Suc n) (Dyn_Rollback m) = Inr (ctl_Rollback_wire m)"
  by (subst reflect_encode_Suc, simp add: encode_eval ctl_Rollback_wire_def  split: option.split)

lemma encode_EraseKey: "reflect_encode R (Suc n) (Dyn_EraseKey m) = Inr (ctl_EraseKey_wire m)"
  by (subst reflect_encode_Suc, simp add: encode_eval ctl_EraseKey_wire_def  split: option.split)

lemma encode_Reset: "reflect_encode R (Suc n) (Dyn_Reset m) = Inr (ctl_Reset_wire m)"
  by (subst reflect_encode_Suc, simp add: encode_eval ctl_Reset_wire_def  split: option.split)

lemma encode_DumpHooks: "reflect_encode R (Suc n) (Dyn_DumpHooks m) = Inr (ctl_DumpHooks_wire m)"
  by (subst reflect_encode_Suc, simp add: encode_eval ctl_DumpHooks_wire_def  split: option.split)

lemma encode_TriggerHook: "reflect_encode R (Suc n) (Dyn_TriggerHook m) = Inr (ctl_TriggerHook_wire m)"
  by (subst reflect_encode_Suc, simp add: encode_eval ctl_TriggerHook_wire_def  split: option.split)

lemma encode_Blame: "reflect_encode R (Suc n) (Dyn_Blame m) = Inr (ctl_Blame_wire m)"
  by (subst reflect_encode_Suc, simp add: encode_eval ctl_Blame_wire_def  split: option.split)

lemma encode_InFlight: "reflect_encode R (Suc n) (Dyn_InFlight m) = Inr (ctl_InFlight_wire m)"
  by (subst reflect_encode_Suc, simp add: encode_eval ctl_InFlight_wire_def  split: option.split)

lemma encode_CommitResponse: "reflect_encode R (Suc n) (Dyn_CommitResponse m) = Inr (ctl_CommitResponse_wire m)"
  by (subst reflect_encode_Suc, simp add: encode_eval ctl_CommitResponse_wire_def  split: option.split)

lemma encode_ResetResponse: "reflect_encode R (Suc n) (Dyn_ResetResponse m) = Inr (ctl_ResetResponse_wire m)"
  by (subst reflect_encode_Suc, simp add: encode_eval ctl_ResetResponse_wire_def  split: option.split)

lemma encode_DumpResponse: "reflect_encode R (Suc n) (Dyn_DumpResponse m) = Inr (ctl_DumpResponse_wire m)"
  by (subst reflect_encode_Suc, simp add: encode_eval ctl_DumpResponse_wire_def  split: option.split)

lemma encode_ConfigValue:
  "reflect_encode R (Suc (Suc n)) (Dyn_ConfigValue m) = Inr (ctl_ConfigValue_wire m)"
proof (cases "ctl_ConfigValue_value m")
  case None
  then show ?thesis
    by (subst reflect_encode_Suc, auto simp: encode_eval ctl_ConfigValue_wire_def msg_defs split: option.split)
next
  case (Some p)
  then show ?thesis
    by (subst reflect_encode_Suc, cases p) (auto simp: encode_eval ctl_ConfigValue_wire_def msg_defs
        encode_BoolList encode_Int32List encode_StringList split: option.split)
qed

lemma encode_Set: "reflect_encode R (Suc (Suc (Suc n))) (Dyn_Set m) = Inr (ctl_Set_wire m)"
  by (subst reflect_encode_Suc, simp add: encode_eval ctl_Set_wire_def encode_ConfigValue split: option.split)

lemma encode_MappedField: "reflect_encode R (Suc (Suc (Suc n))) (Dyn_MappedField m) = Inr (ctl_MappedField_wire m)"
  by (subst reflect_encode_Suc, simp add: encode_eval ctl_MappedField_wire_def encode_ConfigValue split: option.split)

lemma encode_BlameEntry: "reflect_encode R (Suc (Suc (Suc n))) (Dyn_BlameEntry m) = Inr (ctl_BlameEntry_wire m)"
  by (subst reflect_encode_Suc, simp add: encode_eval ctl_BlameEntry_wire_def encode_ConfigValue split: option.split)

lemma encode_Command:
  "reflect_encode R (Suc (Suc (Suc (Suc n)))) (Dyn_Command m) = Inr (ctl_Command_wire m)"
proof (cases "ctl_Command_payload m")
  case None
  then show ?thesis
    by (subst reflect_encode_Suc, auto simp: encode_eval ctl_Command_wire_def msg_defs split: option.split)
next
  case (Some p)
  then show ?thesis
    by (subst reflect_encode_Suc, cases p) (auto simp: encode_eval ctl_Command_wire_def msg_defs
        encode_Blame encode_Commit encode_Drop encode_DumpHooks encode_EraseKey encode_FireHooks encode_Get encode_InFlight encode_Reset encode_Rollback encode_Set encode_TriggerHook split: option.split)
qed

lemma encode_GetResponse: "reflect_encode R (Suc (Suc (Suc (Suc n)))) (Dyn_GetResponse m) = Inr (ctl_GetResponse_wire m)"
  by (subst reflect_encode_Suc, simp add: encode_eval ctl_GetResponse_wire_def encode_MappedField split: option.split)

lemma encode_BlameResponse: "reflect_encode R (Suc (Suc (Suc (Suc n)))) (Dyn_BlameResponse m) = Inr (ctl_BlameResponse_wire m)"
  by (subst reflect_encode_Suc, simp add: encode_eval ctl_BlameResponse_wire_def encode_BlameEntry split: option.split)

lemma encode_InFlightResponse: "reflect_encode R (Suc (Suc (Suc (Suc n)))) (Dyn_InFlightResponse m) = Inr (ctl_InFlightResponse_wire m)"
  by (subst reflect_encode_Suc, simp add: encode_eval ctl_InFlightResponse_wire_def encode_MappedField split: option.split)

lemma encode_Response:
  "reflect_encode R (Suc (Suc (Suc (Suc (Suc n))))) (Dyn_Response m) = Inr (ctl_Response_wire m)"
proof (cases "ctl_Response_payload m")
  case None
  then show ?thesis
    using StatusCode_as_ref [of "the (ctl_Response_status m)"]
    by (subst reflect_encode_Suc, auto simp: encode_eval ctl_Response_wire_def msg_defs split: option.split)
next
  case (Some p)
  then show ?thesis
    using StatusCode_as_ref [of "the (ctl_Response_status m)"]
    by (subst reflect_encode_Suc, cases p) (auto simp: encode_eval ctl_Response_wire_def msg_defs
        encode_BlameResponse encode_CommitResponse encode_DumpResponse encode_GetResponse encode_InFlightResponse encode_ResetResponse split: option.split)
qed

end

section \<open>Every declared field has its accessor\<close>

text \<open>An accessor is of the kind for a field of its label and type.\<close>

primrec accessor_fits :: "'m FieldAccessor \<Rightarrow> FieldDescriptorProto \<Rightarrow> bool" where
  "accessor_fits (make_vec_accessor_int32 name g u) f \<longleftrightarrow>
     fd_label f = LABEL_REPEATED \<and> fd_type f = TYPE_INT32"
| "accessor_fits (make_vec_accessor_bool name g u) f \<longleftrightarrow>
     fd_label f = LABEL_REPEATED \<and> fd_type f = TYPE_BOOL"
| "accessor_fits (make_repeated_field_accessor_string name g u) f \<longleftrightarrow>
     fd_label f = LABEL_REPEATED \<and> fd_type f = TYPE_STRING"
| "accessor_fits (make_repeated_field_accessor_MappedField name g u) f \<longleftrightarrow>
     fd_label f = LABEL_REPEATED \<and> fd_type f = TYPE_MESSAGE
     \<and> fd_type_name f = Some ''.sysadminctl.MappedField''"
| "accessor_fits (make_repeated_field_accessor_BlameEntry name g u) f \<longleftrightarrow>
     fd_label f = LABEL_REPEATED \<and> fd_type f = TYPE_MESSAGE
     \<and> fd_type_name f = Some ''.sysadminctl.BlameEntry''"
| "accessor_fits (make_singular_field_accessor_string name g u) f \<longleftrightarrow>
     fd_label f \<noteq> LABEL_REPEATED \<and> fd_oneof_index f = None \<and> fd_type f = TYPE_STRING"
| "accessor_fits (make_singular_ptr_field_accessor_ConfigValue name g u) f \<longleftrightarrow>
     fd_label f \<noteq> LABEL_REPEATED \<and> fd_oneof_index f = None \<and> fd_type f = TYPE_MESSAGE
     \<and> fd_type_name f = Some ''.sysadminctl.ConfigValue''"
| "accessor_fits (make_option_accessor_uint32 name g u) f \<longleftrightarrow>
     fd_label f \<noteq> LABEL_REPEATED \<and> fd_oneof_index f = None \<and> fd_type f = TYPE_UINT32"
| "accessor_fits (make_option_accessor_CommitConfig name g u) f \<longleftrightarrow>
     fd_label f \<noteq> LABEL_REPEATED \<and> fd_oneof_index f = None \<and> fd_type f = TYPE_ENUM
     \<and> fd_type_name f = Some ''.sysadminctl.CommitConfig''"
| "accessor_fits (make_option_accessor_StatusCode name g u) f \<longleftrightarrow>
     fd_label f \<noteq> LABEL_REPEATED \<and> fd_oneof_index f = None \<and> fd_type f = TYPE_ENUM
     \<and> fd_type_name f = Some ''.sysadminctl.StatusCode''"
| "accessor_fits (make_singular_i32_accessor name h g) f \<longleftrightarrow>
     fd_label f = LABEL_OPTIONAL \<and> fd_oneof_index f \<noteq> None \<and> fd_type f = TYPE_INT32"
| "accessor_fits (make_singular_bool_accessor name h g) f \<longleftrightarrow>
     fd_label f = LABEL_OPTIONAL \<and> fd_oneof_index f \<noteq> None \<and> fd_type f = TYPE_BOOL"
| "accessor_fits (make_singular_string_accessor name h g) f \<longleftrightarrow>
     fd_label f = LABEL_OPTIONAL \<and> fd_oneof_index f \<noteq> None \<and> fd_type f = TYPE_STRING"
| "accessor_fits (make_singular_message_accessor name h g) f \<longleftrightarrow>
     fd_label f = LABEL_OPTIONAL \<and> fd_oneof_index f \<noteq> None \<and> fd_type f = TYPE_MESSAGE"

text \<open>A value is of the declared type of a field: a message or an enum value of the declared name.\<close>

primrec dyn_name :: "dyn \<Rightarrow> string" where
"dyn_name (Dyn_Int32List m) = ''Int32List''"
| "dyn_name (Dyn_BoolList m) = ''BoolList''"
| "dyn_name (Dyn_StringList m) = ''StringList''"
| "dyn_name (Dyn_ConfigValue m) = ''ConfigValue''"
| "dyn_name (Dyn_Set m) = ''Set''"
| "dyn_name (Dyn_Get m) = ''Get''"
| "dyn_name (Dyn_Commit m) = ''Commit''"
| "dyn_name (Dyn_Drop m) = ''Drop''"
| "dyn_name (Dyn_FireHooks m) = ''FireHooks''"
| "dyn_name (Dyn_Rollback m) = ''Rollback''"
| "dyn_name (Dyn_EraseKey m) = ''EraseKey''"
| "dyn_name (Dyn_Reset m) = ''Reset''"
| "dyn_name (Dyn_DumpHooks m) = ''DumpHooks''"
| "dyn_name (Dyn_TriggerHook m) = ''TriggerHook''"
| "dyn_name (Dyn_Blame m) = ''Blame''"
| "dyn_name (Dyn_InFlight m) = ''InFlight''"
| "dyn_name (Dyn_Command m) = ''Command''"
| "dyn_name (Dyn_MappedField m) = ''MappedField''"
| "dyn_name (Dyn_GetResponse m) = ''GetResponse''"
| "dyn_name (Dyn_CommitResponse m) = ''CommitResponse''"
| "dyn_name (Dyn_ResetResponse m) = ''ResetResponse''"
| "dyn_name (Dyn_DumpResponse m) = ''DumpResponse''"
| "dyn_name (Dyn_BlameEntry m) = ''BlameEntry''"
| "dyn_name (Dyn_BlameResponse m) = ''BlameResponse''"
| "dyn_name (Dyn_InFlightResponse m) = ''InFlightResponse''"
| "dyn_name (Dyn_Response m) = ''Response''"

definition full_name :: "FileDescriptorProto \<Rightarrow> string \<Rightarrow> string" where
  "full_name file name = ''.'' @ filed_package file @ ''.'' @ name"

primrec value_fits :: "FileDescriptorProto \<Rightarrow> FieldDescriptorProto \<Rightarrow> ProtobufValueRef \<Rightarrow> bool" where
  "value_fits file f (RefU32 v) \<longleftrightarrow> fd_type f = TYPE_UINT32"
| "value_fits file f (RefI32 v) \<longleftrightarrow> fd_type f = TYPE_INT32"
| "value_fits file f (RefBool v) \<longleftrightarrow> fd_type f = TYPE_BOOL"
| "value_fits file f (RefString v) \<longleftrightarrow> fd_type f = TYPE_STRING"
| "value_fits file f (RefEnum e) \<longleftrightarrow> fd_type f = TYPE_ENUM \<and>
     list_ex (\<lambda>d. fd_type_name f = Some (full_name file (enumd_name d)) \<and> e \<in> set (enumd_value d))
       (filed_enum_type file)"
| "value_fits file f (RefMessage d) \<longleftrightarrow> fd_type f = TYPE_MESSAGE \<and>
     fd_type_name f = Some (full_name file (dyn_name d))"

text \<open>
  What the functions of an accessor do.  On every message it reads values of the declared type, as
  many as the label allows.  An update through it changes the field it reads; the presence test of
  an alternative of a \<open>oneof\<close> holds of some message.  An update through an accessor is not seen
  through another one, and two alternatives of one \<open>oneof\<close> are never both present.
\<close>

definition reads_declared ::
    "descriptor_rt \<Rightarrow> FileDescriptorProto \<Rightarrow> FieldDescriptorProto \<Rightarrow> 'm FieldAccessor \<Rightarrow> bool" where
  "reads_declared R file f a \<longleftrightarrow>
     (\<forall>m. \<exists>vs. accessor_read R a m = Inr vs \<and> label_allows (fd_label f) vs \<and>
       list_all (value_fits file f) vs)"

primrec accessor_updates :: "'m FieldAccessor \<Rightarrow> bool" where
  "accessor_updates (make_vec_accessor_int32 name g u) \<longleftrightarrow> (\<forall>m f. g (u m f) = f (g m))"
| "accessor_updates (make_vec_accessor_bool name g u) \<longleftrightarrow> (\<forall>m f. g (u m f) = f (g m))"
| "accessor_updates (make_repeated_field_accessor_string name g u) \<longleftrightarrow> (\<forall>m f. g (u m f) = f (g m))"
| "accessor_updates (make_repeated_field_accessor_MappedField name g u) \<longleftrightarrow> (\<forall>m f. g (u m f) = f (g m))"
| "accessor_updates (make_repeated_field_accessor_BlameEntry name g u) \<longleftrightarrow> (\<forall>m f. g (u m f) = f (g m))"
| "accessor_updates (make_singular_field_accessor_string name g u) \<longleftrightarrow> (\<forall>m f. g (u m f) = f (g m))"
| "accessor_updates (make_singular_ptr_field_accessor_ConfigValue name g u) \<longleftrightarrow> (\<forall>m f. g (u m f) = f (g m))"
| "accessor_updates (make_option_accessor_uint32 name g u) \<longleftrightarrow> (\<forall>m f. g (u m f) = f (g m))"
| "accessor_updates (make_option_accessor_CommitConfig name g u) \<longleftrightarrow> (\<forall>m f. g (u m f) = f (g m))"
| "accessor_updates (make_option_accessor_StatusCode name g u) \<longleftrightarrow> (\<forall>m f. g (u m f) = f (g m))"
| "accessor_updates (make_singular_i32_accessor name h g) \<longleftrightarrow> (\<exists>m. h m)"
| "accessor_updates (make_singular_bool_accessor name h g) \<longleftrightarrow> (\<exists>m. h m)"
| "accessor_updates (make_singular_string_accessor name h g) \<longleftrightarrow> (\<exists>m. h m)"
| "accessor_updates (make_singular_message_accessor name h g) \<longleftrightarrow> (\<exists>m. h m)"

primrec leaves_alone :: "descriptor_rt \<Rightarrow> 'm FieldAccessor \<Rightarrow> 'm FieldAccessor \<Rightarrow> bool" where
  "leaves_alone R (make_vec_accessor_int32 name g u) b \<longleftrightarrow>
     (\<forall>m f. accessor_read R b (u m f) = accessor_read R b m)"
| "leaves_alone R (make_vec_accessor_bool name g u) b \<longleftrightarrow>
     (\<forall>m f. accessor_read R b (u m f) = accessor_read R b m)"
| "leaves_alone R (make_repeated_field_accessor_string name g u) b \<longleftrightarrow>
     (\<forall>m f. accessor_read R b (u m f) = accessor_read R b m)"
| "leaves_alone R (make_repeated_field_accessor_MappedField name g u) b \<longleftrightarrow>
     (\<forall>m f. accessor_read R b (u m f) = accessor_read R b m)"
| "leaves_alone R (make_repeated_field_accessor_BlameEntry name g u) b \<longleftrightarrow>
     (\<forall>m f. accessor_read R b (u m f) = accessor_read R b m)"
| "leaves_alone R (make_singular_field_accessor_string name g u) b \<longleftrightarrow>
     (\<forall>m f. accessor_read R b (u m f) = accessor_read R b m)"
| "leaves_alone R (make_singular_ptr_field_accessor_ConfigValue name g u) b \<longleftrightarrow>
     (\<forall>m f. accessor_read R b (u m f) = accessor_read R b m)"
| "leaves_alone R (make_option_accessor_uint32 name g u) b \<longleftrightarrow>
     (\<forall>m f. accessor_read R b (u m f) = accessor_read R b m)"
| "leaves_alone R (make_option_accessor_CommitConfig name g u) b \<longleftrightarrow>
     (\<forall>m f. accessor_read R b (u m f) = accessor_read R b m)"
| "leaves_alone R (make_option_accessor_StatusCode name g u) b \<longleftrightarrow>
     (\<forall>m f. accessor_read R b (u m f) = accessor_read R b m)"
| "leaves_alone R (make_singular_i32_accessor name h g) b \<longleftrightarrow> True"
| "leaves_alone R (make_singular_bool_accessor name h g) b \<longleftrightarrow> True"
| "leaves_alone R (make_singular_string_accessor name h g) b \<longleftrightarrow> True"
| "leaves_alone R (make_singular_message_accessor name h g) b \<longleftrightarrow> True"

definition oneof_of :: "DescriptorProto \<Rightarrow> 'm FieldAccessor \<Rightarrow> i32 option" where
  "oneof_of d a =
     (case find (\<lambda>f. fd_name f = accessor_name a) (msgd_field d) of
        None \<Rightarrow> None
      | Some f \<Rightarrow> fd_oneof_index f)"

definition apart :: "descriptor_rt \<Rightarrow> DescriptorProto \<Rightarrow> 'm FieldAccessor \<Rightarrow> 'm FieldAccessor \<Rightarrow> bool" where
  "apart R d a b \<longleftrightarrow>
     accessor_name a \<noteq> accessor_name b \<and> leaves_alone R a b \<and> leaves_alone R b a \<and>
     (oneof_of d a \<noteq> None \<and> oneof_of d a = oneof_of d b \<longrightarrow>
       (\<forall>m. accessor_read R a m = Inr [] \<or> accessor_read R b m = Inr []))"

text \<open>
  A descriptor is registered right when the file declares the message, its fields have distinct
  names, the accessors are those of the fields, one each, of the declared label and type, and
  their functions read and change these fields.
\<close>

definition registers :: "descriptor_rt \<Rightarrow> 'm MessageDescriptor \<Rightarrow> bool" where
  "registers R md \<longleftrightarrow>
     (case find_message (md_file md) (md_rust_name md) of
        None \<Rightarrow> False
      | Some d \<Rightarrow>
          distinct (map fd_name (msgd_field d)) \<and> length (md_fields md) = length (msgd_field d) \<and>
          list_all (\<lambda>a. accessor_updates a \<and>
            list_ex (\<lambda>f. fd_name f = accessor_name a \<and> accessor_fits a f \<and>
              reads_declared R (md_file md) f a) (msgd_field d))
            (md_fields md) \<and>
          sorted_wrt (apart R d) (md_fields md))"

definition registered :: "descriptor_rt \<Rightarrow> panic + 'm MessageDescriptor \<Rightarrow> bool" where
  "registered R r = (case r of Inl p \<Rightarrow> False | Inr md \<Rightarrow> registers R md)"

text \<open>
  Such a descriptor reads every message of its type right when, besides, the contents of the
  fields it reads, under their numbers, are the encoding of the message.
\<close>

definition reads_all ::
    "descriptor_rt \<Rightarrow> panic + 'm MessageDescriptor \<Rightarrow> ('m \<Rightarrow> dyn) \<Rightarrow> ('m \<Rightarrow> bytes) \<Rightarrow> bool" where
  "reads_all R r D wire \<longleftrightarrow> registered R r \<and> (\<forall>m. reflect_encode R 5 (D m) = Inr (wire m))"

lemma schema_names [simp]:
  "full_name sysadminctl_file name = ''.sysadminctl.'' @ name"
  "filed_enum_type sysadminctl_file = [descriptor_CommitConfig, descriptor_StatusCode]"
  "enumd_name descriptor_CommitConfig = ''CommitConfig''"
  "enumd_name descriptor_StatusCode = ''StatusCode''"
  by (simp_all add: full_name_def sysadminctl_file_def descriptors)

text \<open>The presence tests of the alternatives of a \<open>oneof\<close>.\<close>

lemma ConfigValue_presence:
  "ctl_ConfigValue_has_int32val m \<longleftrightarrow> (\<exists>v. ctl_ConfigValue_value m = Some (ConfigValue_oneof_value_int32val v))"
  "ctl_ConfigValue_has_strval m \<longleftrightarrow> (\<exists>v. ctl_ConfigValue_value m = Some (ConfigValue_oneof_value_strval v))"
  "ctl_ConfigValue_has_boolval m \<longleftrightarrow> (\<exists>v. ctl_ConfigValue_value m = Some (ConfigValue_oneof_value_boolval v))"
  "ctl_ConfigValue_has_int32list m \<longleftrightarrow> (\<exists>v. ctl_ConfigValue_value m = Some (ConfigValue_oneof_value_int32list v))"
  "ctl_ConfigValue_has_boollist m \<longleftrightarrow> (\<exists>v. ctl_ConfigValue_value m = Some (ConfigValue_oneof_value_boollist v))"
  "ctl_ConfigValue_has_stringlist m \<longleftrightarrow> (\<exists>v. ctl_ConfigValue_value m = Some (ConfigValue_oneof_value_stringlist v))"
  by (simp_all add: msg_defs split: option.split ConfigValue_oneof_value.split)

lemma ConfigValue_holds: "\<exists>(m :: ctl_ConfigValue) v. ctl_ConfigValue_value m = Some (C v)"
  by (rule exI [of _ "ctl_ConfigValue_new\<lparr>ctl_ConfigValue_value := Some (C undefined)\<rparr>"]) auto

lemma Command_presence:
  "ctl_Command_has_set m \<longleftrightarrow> (\<exists>v. ctl_Command_payload m = Some (Command_oneof_payload_set v))"
  "ctl_Command_has_get m \<longleftrightarrow> (\<exists>v. ctl_Command_payload m = Some (Command_oneof_payload_get v))"
  "ctl_Command_has_commit m \<longleftrightarrow> (\<exists>v. ctl_Command_payload m = Some (Command_oneof_payload_commit v))"
  "ctl_Command_has_drop m \<longleftrightarrow> (\<exists>v. ctl_Command_payload m = Some (Command_oneof_payload_drop v))"
  "ctl_Command_has_firehooks m \<longleftrightarrow> (\<exists>v. ctl_Command_payload m = Some (Command_oneof_payload_firehooks v))"
  "ctl_Command_has_erase m \<longleftrightarrow> (\<exists>v. ctl_Command_payload m = Some (Command_oneof_payload_erase v))"
  "ctl_Command_has_rollback m \<longleftrightarrow> (\<exists>v. ctl_Command_payload m = Some (Command_oneof_payload_rollback v))"
  "ctl_Command_has_reset m \<longleftrightarrow> (\<exists>v. ctl_Command_payload m = Some (Command_oneof_payload_reset v))"
  "ctl_Command_has_dump m \<longleftrightarrow> (\<exists>v. ctl_Command_payload m = Some (Command_oneof_payload_dump v))"
  "ctl_Command_has_trigger m \<longleftrightarrow> (\<exists>v. ctl_Command_payload m = Some (Command_oneof_payload_trigger v))"
  "ctl_Command_has_blame m \<longleftrightarrow> (\<exists>v. ctl_Command_payload m = Some (Command_oneof_payload_blame v))"
  "ctl_Command_has_inflight m \<longleftrightarrow> (\<exists>v. ctl_Command_payload m = Some (Command_oneof_payload_inflight v))"
  by (simp_all add: msg_defs split: option.split Command_oneof_payload.split)

lemma Command_holds: "\<exists>(m :: ctl_Command) v. ctl_Command_payload m = Some (C v)"
  by (rule exI [of _ "ctl_Command_new\<lparr>ctl_Command_payload := Some (C undefined)\<rparr>"]) auto

lemma Response_presence:
  "ctl_Response_has_get m \<longleftrightarrow> (\<exists>v. ctl_Response_payload m = Some (Response_oneof_payload_get v))"
  "ctl_Response_has_commit m \<longleftrightarrow> (\<exists>v. ctl_Response_payload m = Some (Response_oneof_payload_commit v))"
  "ctl_Response_has_reset m \<longleftrightarrow> (\<exists>v. ctl_Response_payload m = Some (Response_oneof_payload_reset v))"
  "ctl_Response_has_dump m \<longleftrightarrow> (\<exists>v. ctl_Response_payload m = Some (Response_oneof_payload_dump v))"
  "ctl_Response_has_blame m \<longleftrightarrow> (\<exists>v. ctl_Response_payload m = Some (Response_oneof_payload_blame v))"
  "ctl_Response_has_inflight m \<longleftrightarrow> (\<exists>v. ctl_Response_payload m = Some (Response_oneof_payload_inflight v))"
  by (simp_all add: msg_defs split: option.split Response_oneof_payload.split)

lemma Response_holds: "\<exists>(m :: ctl_Response) v. ctl_Response_payload m = Some (C v)"
  by (rule exI [of _ "ctl_Response_new\<lparr>ctl_Response_payload := Some (C undefined)\<rparr>"]) auto

lemmas presence = ConfigValue_presence ConfigValue_holds Command_presence Command_holds
  Response_presence Response_holds

text \<open>What is to be shown of an accessor of each kind.\<close>

lemma reads_declared_rules:
  "fd_label f = LABEL_REPEATED \<Longrightarrow> (\<And>v. value_fits file f (RefI32 v)) \<Longrightarrow>
    reads_declared R file f (make_vec_accessor_int32 name g1 u1)"
  "fd_label f = LABEL_REPEATED \<Longrightarrow> (\<And>v. value_fits file f (RefBool v)) \<Longrightarrow>
    reads_declared R file f (make_vec_accessor_bool name g2 u2)"
  "fd_label f = LABEL_REPEATED \<Longrightarrow> (\<And>v. value_fits file f (RefString v)) \<Longrightarrow>
    reads_declared R file f (make_repeated_field_accessor_string name g3 u3)"
  "fd_label f = LABEL_REPEATED \<Longrightarrow> (\<And>v. value_fits file f ((\<lambda>v. RefMessage (Dyn_MappedField v)) v)) \<Longrightarrow>
    reads_declared R file f (make_repeated_field_accessor_MappedField name g4 u4)"
  "fd_label f = LABEL_REPEATED \<Longrightarrow> (\<And>v. value_fits file f ((\<lambda>v. RefMessage (Dyn_BlameEntry v)) v)) \<Longrightarrow>
    reads_declared R file f (make_repeated_field_accessor_BlameEntry name g5 u5)"
  "(\<And>v. value_fits file f (RefString v)) \<Longrightarrow>
    reads_declared R file f (make_singular_field_accessor_string name g6 u6)"
  "(\<And>v. value_fits file f ((\<lambda>v. RefMessage (Dyn_ConfigValue v)) v)) \<Longrightarrow>
    reads_declared R file f (make_singular_ptr_field_accessor_ConfigValue name g7 u7)"
  "(\<And>v. value_fits file f (RefU32 v)) \<Longrightarrow>
    reads_declared R file f (make_option_accessor_uint32 name g8 u8)"
  "(\<And>m. value_fits file f (RefI32 (g9 m))) \<Longrightarrow>
    reads_declared R file f (make_singular_i32_accessor name h9 g9)"
  "(\<And>m. value_fits file f (RefBool (g10 m))) \<Longrightarrow>
    reads_declared R file f (make_singular_bool_accessor name h10 g10)"
  "(\<And>m. value_fits file f (RefString (g11 m))) \<Longrightarrow>
    reads_declared R file f (make_singular_string_accessor name h11 g11)"
  "(\<And>m. value_fits file f (RefMessage (g12 m))) \<Longrightarrow>
    reads_declared R file f (make_singular_message_accessor name h12 g12)"
  by (auto simp: reads_declared_def label_allows_def present_def list_all_iff split: option.split)

lemma Command_payload_frame:
  "ctl_Command_has_set (m\<lparr>ctl_Command_id := y_id\<rparr>) = ctl_Command_has_set m"
  "ctl_Command_get_set (m\<lparr>ctl_Command_id := y_id\<rparr>) = ctl_Command_get_set m"
  "ctl_Command_has_get (m\<lparr>ctl_Command_id := y_id\<rparr>) = ctl_Command_has_get m"
  "ctl_Command_get_get (m\<lparr>ctl_Command_id := y_id\<rparr>) = ctl_Command_get_get m"
  "ctl_Command_has_commit (m\<lparr>ctl_Command_id := y_id\<rparr>) = ctl_Command_has_commit m"
  "ctl_Command_get_commit (m\<lparr>ctl_Command_id := y_id\<rparr>) = ctl_Command_get_commit m"
  "ctl_Command_has_drop (m\<lparr>ctl_Command_id := y_id\<rparr>) = ctl_Command_has_drop m"
  "ctl_Command_get_drop (m\<lparr>ctl_Command_id := y_id\<rparr>) = ctl_Command_get_drop m"
  "ctl_Command_has_firehooks (m\<lparr>ctl_Command_id := y_id\<rparr>) = ctl_Command_has_firehooks m"
  "ctl_Command_get_firehooks (m\<lparr>ctl_Command_id := y_id\<rparr>) = ctl_Command_get_firehooks m"
  "ctl_Command_has_erase (m\<lparr>ctl_Command_id := y_id\<rparr>) = ctl_Command_has_erase m"
  "ctl_Command_get_erase (m\<lparr>ctl_Command_id := y_id\<rparr>) = ctl_Command_get_erase m"
  "ctl_Command_has_rollback (m\<lparr>ctl_Command_id := y_id\<rparr>) = ctl_Command_has_rollback m"
  "ctl_Command_get_rollback (m\<lparr>ctl_Command_id := y_id\<rparr>) = ctl_Command_get_rollback m"
  "ctl_Command_has_reset (m\<lparr>ctl_Command_id := y_id\<rparr>) = ctl_Command_has_reset m"
  "ctl_Command_get_reset (m\<lparr>ctl_Command_id := y_id\<rparr>) = ctl_Command_get_reset m"
  "ctl_Command_has_dump (m\<lparr>ctl_Command_id := y_id\<rparr>) = ctl_Command_has_dump m"
  "ctl_Command_get_dump (m\<lparr>ctl_Command_id := y_id\<rparr>) = ctl_Command_get_dump m"
  "ctl_Command_has_trigger (m\<lparr>ctl_Command_id := y_id\<rparr>) = ctl_Command_has_trigger m"
  "ctl_Command_get_trigger (m\<lparr>ctl_Command_id := y_id\<rparr>) = ctl_Command_get_trigger m"
  "ctl_Command_has_blame (m\<lparr>ctl_Command_id := y_id\<rparr>) = ctl_Command_has_blame m"
  "ctl_Command_get_blame (m\<lparr>ctl_Command_id := y_id\<rparr>) = ctl_Command_get_blame m"
  "ctl_Command_has_inflight (m\<lparr>ctl_Command_id := y_id\<rparr>) = ctl_Command_has_inflight m"
  "ctl_Command_get_inflight (m\<lparr>ctl_Command_id := y_id\<rparr>) = ctl_Command_get_inflight m"
  "ctl_Command_has_set (m\<lparr>ctl_Command_xid := y_xid\<rparr>) = ctl_Command_has_set m"
  "ctl_Command_get_set (m\<lparr>ctl_Command_xid := y_xid\<rparr>) = ctl_Command_get_set m"
  "ctl_Command_has_get (m\<lparr>ctl_Command_xid := y_xid\<rparr>) = ctl_Command_has_get m"
  "ctl_Command_get_get (m\<lparr>ctl_Command_xid := y_xid\<rparr>) = ctl_Command_get_get m"
  "ctl_Command_has_commit (m\<lparr>ctl_Command_xid := y_xid\<rparr>) = ctl_Command_has_commit m"
  "ctl_Command_get_commit (m\<lparr>ctl_Command_xid := y_xid\<rparr>) = ctl_Command_get_commit m"
  "ctl_Command_has_drop (m\<lparr>ctl_Command_xid := y_xid\<rparr>) = ctl_Command_has_drop m"
  "ctl_Command_get_drop (m\<lparr>ctl_Command_xid := y_xid\<rparr>) = ctl_Command_get_drop m"
  "ctl_Command_has_firehooks (m\<lparr>ctl_Command_xid := y_xid\<rparr>) = ctl_Command_has_firehooks m"
  "ctl_Command_get_firehooks (m\<lparr>ctl_Command_xid := y_xid\<rparr>) = ctl_Command_get_firehooks m"
  "ctl_Command_has_erase (m\<lparr>ctl_Command_xid := y_xid\<rparr>) = ctl_Command_has_erase m"
  "ctl_Command_get_erase (m\<lparr>ctl_Command_xid := y_xid\<rparr>) = ctl_Command_get_erase m"
  "ctl_Command_has_rollback (m\<lparr>ctl_Command_xid := y_xid\<rparr>) = ctl_Command_has_rollback m"
  "ctl_Command_get_rollback (m\<lparr>ctl_Command_xid := y_xid\<rparr>) = ctl_Command_get_rollback m"
  "ctl_Command_has_reset (m\<lparr>ctl_Command_xid := y_xid\<rparr>) = ctl_Command_has_reset m"
  "ctl_Command_get_reset (m\<lparr>ctl_Command_xid := y_xid\<rparr>) = ctl_Command_get_reset m"
  "ctl_Command_has_dump (m\<lparr>ctl_Command_xid := y_xid\<rparr>) = ctl_Command_has_dump m"
  "ctl_Command_get_dump (m\<lparr>ctl_Command_xid := y_xid\<rparr>) = ctl_Command_get_dump m"
  "ctl_Command_has_trigger (m\<lparr>ctl_Command_xid := y_xid\<rparr>) = ctl_Command_has_trigger m"
  "ctl_Command_get_trigger (m\<lparr>ctl_Command_xid := y_xid\<rparr>) = ctl_Command_get_trigger m"
  "ctl_Command_has_blame (m\<lparr>ctl_Command_xid := y_xid\<rparr>) = ctl_Command_has_blame m"
  "ctl_Command_get_blame (m\<lparr>ctl_Command_xid := y_xid\<rparr>) = ctl_Command_get_blame m"
  "ctl_Command_has_inflight (m\<lparr>ctl_Command_xid := y_xid\<rparr>) = ctl_Command_has_inflight m"
  "ctl_Command_get_inflight (m\<lparr>ctl_Command_xid := y_xid\<rparr>) = ctl_Command_get_inflight m"
  by (simp_all add: msg_defs)

lemma Response_payload_frame:
  "ctl_Response_has_get (m\<lparr>ctl_Response_id := y_id\<rparr>) = ctl_Response_has_get m"
  "ctl_Response_get_get (m\<lparr>ctl_Response_id := y_id\<rparr>) = ctl_Response_get_get m"
  "ctl_Response_has_commit (m\<lparr>ctl_Response_id := y_id\<rparr>) = ctl_Response_has_commit m"
  "ctl_Response_get_commit (m\<lparr>ctl_Response_id := y_id\<rparr>) = ctl_Response_get_commit m"
  "ctl_Response_has_reset (m\<lparr>ctl_Response_id := y_id\<rparr>) = ctl_Response_has_reset m"
  "ctl_Response_get_reset (m\<lparr>ctl_Response_id := y_id\<rparr>) = ctl_Response_get_reset m"
  "ctl_Response_has_dump (m\<lparr>ctl_Response_id := y_id\<rparr>) = ctl_Response_has_dump m"
  "ctl_Response_get_dump (m\<lparr>ctl_Response_id := y_id\<rparr>) = ctl_Response_get_dump m"
  "ctl_Response_has_blame (m\<lparr>ctl_Response_id := y_id\<rparr>) = ctl_Response_has_blame m"
  "ctl_Response_get_blame (m\<lparr>ctl_Response_id := y_id\<rparr>) = ctl_Response_get_blame m"
  "ctl_Response_has_inflight (m\<lparr>ctl_Response_id := y_id\<rparr>) = ctl_Response_has_inflight m"
  "ctl_Response_get_inflight (m\<lparr>ctl_Response_id := y_id\<rparr>) = ctl_Response_get_inflight m"
  "ctl_Response_has_get (m\<lparr>ctl_Response_status := y_status\<rparr>) = ctl_Response_has_get m"
  "ctl_Response_get_get (m\<lparr>ctl_Response_status := y_status\<rparr>) = ctl_Response_get_get m"
  "ctl_Response_has_commit (m\<lparr>ctl_Response_status := y_status\<rparr>) = ctl_Response_has_commit m"
  "ctl_Response_get_commit (m\<lparr>ctl_Response_status := y_status\<rparr>) = ctl_Response_get_commit m"
  "ctl_Response_has_reset (m\<lparr>ctl_Response_status := y_status\<rparr>) = ctl_Response_has_reset m"
  "ctl_Response_get_reset (m\<lparr>ctl_Response_status := y_status\<rparr>) = ctl_Response_get_reset m"
  "ctl_Response_has_dump (m\<lparr>ctl_Response_status := y_status\<rparr>) = ctl_Response_has_dump m"
  "ctl_Response_get_dump (m\<lparr>ctl_Response_status := y_status\<rparr>) = ctl_Response_get_dump m"
  "ctl_Response_has_blame (m\<lparr>ctl_Response_status := y_status\<rparr>) = ctl_Response_has_blame m"
  "ctl_Response_get_blame (m\<lparr>ctl_Response_status := y_status\<rparr>) = ctl_Response_get_blame m"
  "ctl_Response_has_inflight (m\<lparr>ctl_Response_status := y_status\<rparr>) = ctl_Response_has_inflight m"
  "ctl_Response_get_inflight (m\<lparr>ctl_Response_status := y_status\<rparr>) = ctl_Response_get_inflight m"
  by (simp_all add: msg_defs)

lemma message_absent:
  "accessor_read R (make_singular_i32_accessor name h g_i32) m = Inr [] \<longleftrightarrow> \<not> h m"
  "accessor_read R (make_singular_bool_accessor name h g_bool) m = Inr [] \<longleftrightarrow> \<not> h m"
  "accessor_read R (make_singular_string_accessor name h g_string) m = Inr [] \<longleftrightarrow> \<not> h m"
  "accessor_read R (make_singular_message_accessor name h g_message) m = Inr [] \<longleftrightarrow> \<not> h m"
  by simp_all

context descriptor_runtime begin

lemma CommitConfig_declared:
  "\<exists>e. ctl_CommitConfig_as_ref R v = Inr (RefEnum e) \<and> e \<in> set (enumd_value descriptor_CommitConfig)"
  by (cases v) (simp_all add: ctl_CommitConfig_as_ref_def ctl_CommitConfig_enum_descriptor_static_def
      file_descriptor_proto_is
      value_by_number [where e = descriptor_CommitConfig] find_enums descriptors)

lemma StatusCode_declared:
  "\<exists>e. ctl_StatusCode_as_ref R v = Inr (RefEnum e) \<and> e \<in> set (enumd_value descriptor_StatusCode)"
  by (cases v) (simp_all add: ctl_StatusCode_as_ref_def ctl_StatusCode_enum_descriptor_static_def
      file_descriptor_proto_is
      value_by_number [where e = descriptor_StatusCode] find_enums descriptors)

lemma CommitConfig_reads_declared:
  assumes "fd_type f = TYPE_ENUM" and "fd_type_name f = Some ''.sysadminctl.CommitConfig''"
  shows "reads_declared R sysadminctl_file f (make_option_accessor_CommitConfig name g u)"
proof -
  have "\<exists>vs. map_result (ctl_CommitConfig_as_ref R) [v] = Inr vs \<and> length vs \<le> 1 \<and>
      list_all (value_fits sysadminctl_file f) vs" for v
    using CommitConfig_declared [of v] assms by auto
  then show ?thesis
    by (auto simp: reads_declared_def label_allows_def simp del: map_result.simps split: option.split)
qed

lemma StatusCode_reads_declared:
  assumes "fd_type f = TYPE_ENUM" and "fd_type_name f = Some ''.sysadminctl.StatusCode''"
  shows "reads_declared R sysadminctl_file f (make_option_accessor_StatusCode name g u)"
proof -
  have "\<exists>vs. map_result (ctl_StatusCode_as_ref R) [v] = Inr vs \<and> length vs \<le> 1 \<and>
      list_all (value_fits sysadminctl_file f) vs" for v
    using StatusCode_declared [of v] assms by auto
  then show ?thesis
    by (auto simp: reads_declared_def label_allows_def simp del: map_result.simps split: option.split)
qed

lemmas registered_eval = registered_def registers_def reflect file_descriptor_proto_is find_messages
  descriptors apart_def oneof_of_def CommitConfig_reads_declared StatusCode_reads_declared
  reads_declared_rules Command_payload_frame Response_payload_frame presence

lemma registered_Int32List: "registered R (ctl_Int32List_descriptor_static R)"
  by (simp add: registered_eval)

lemma registered_BoolList: "registered R (ctl_BoolList_descriptor_static R)"
  by (simp add: registered_eval)

lemma registered_StringList: "registered R (ctl_StringList_descriptor_static R)"
  by (simp add: registered_eval)

lemma registered_ConfigValue: "registered R (ctl_ConfigValue_descriptor_static R)"
  by (simp add: registered_eval) auto

lemma registered_Set: "registered R (ctl_Set_descriptor_static R)"
  by (simp add: registered_eval)

lemma registered_Get: "registered R (ctl_Get_descriptor_static R)"
  by (simp add: registered_eval)

lemma registered_Commit: "registered R (ctl_Commit_descriptor_static R)"
  by (simp add: registered_eval)

lemma registered_Drop: "registered R (ctl_Drop_descriptor_static R)"
  by (simp add: registered_eval)

lemma registered_FireHooks: "registered R (ctl_FireHooks_descriptor_static R)"
  by (simp add: registered_eval)

lemma registered_Rollback: "registered R (ctl_Rollback_descriptor_static R)"
  by (simp add: registered_eval)

lemma registered_EraseKey: "registered R (ctl_EraseKey_descriptor_static R)"
  by (simp add: registered_eval)

lemma registered_Reset: "registered R (ctl_Reset_descriptor_static R)"
  by (simp add: registered_eval)

lemma registered_DumpHooks: "registered R (ctl_DumpHooks_descriptor_static R)"
  by (simp add: registered_eval)

lemma registered_TriggerHook: "registered R (ctl_TriggerHook_descriptor_static R)"
  by (simp add: registered_eval)

lemma registered_Blame: "registered R (ctl_Blame_descriptor_static R)"
  by (simp add: registered_eval)

lemma registered_InFlight: "registered R (ctl_InFlight_descriptor_static R)"
  by (simp add: registered_eval)

text \<open>\<open>Command\<close> has the most fields; they are told apart before their declarations are looked up.\<close>

lemma apart_alternatives:
  "name \<noteq> name' \<Longrightarrow> (\<And>m. \<not> (h m \<and> h' m)) \<Longrightarrow>
    apart R d (make_singular_message_accessor name h g) (make_singular_message_accessor name' h' g')"
  by (auto simp: apart_def)

lemma apart_plain:
  "name \<noteq> name' \<Longrightarrow> oneof_of d (make_option_accessor_uint32 name' g' u) = None \<Longrightarrow>
    (\<And>m f. h (u m f) = h m \<and> g (u m f) = g m) \<Longrightarrow>
    apart R d (make_singular_message_accessor name h g) (make_option_accessor_uint32 name' g' u)"
  "name \<noteq> name' \<Longrightarrow> oneof_of d (make_option_accessor_uint32 name' g' u) = None \<Longrightarrow>
    (\<And>m f. k (u m f) = k m) \<Longrightarrow> (\<And>m f. g' (v m f) = g' m) \<Longrightarrow>
    apart R d (make_option_accessor_uint32 name k v) (make_option_accessor_uint32 name' g' u)"
  by (auto simp: apart_def)

lemma Command_plain:
  "oneof_of descriptor_Command (make_option_accessor_uint32 ''id'' g u) = None"
  "oneof_of descriptor_Command (make_option_accessor_uint32 ''xid'' g' u') = None"
  by (simp_all add: oneof_of_def descriptors)

lemma Command_apart:
  assumes "ctl_Command_descriptor_static R = Inr md"
  shows "sorted_wrt (apart R descriptor_Command) (md_fields md)"
proof -
  show ?thesis
    using assms unfolding ctl_Command_descriptor_static_def file_descriptor_proto_is Let_def
    by (auto simp: Command_plain Command_presence Command_payload_frame
        ctl_Command_get_id_for_reflect_def ctl_Command_mut_id_for_reflect_def
        ctl_Command_get_xid_for_reflect_def ctl_Command_mut_xid_for_reflect_def
        intro!: apart_alternatives apart_plain)
qed

lemma Command_declared:
  assumes "ctl_Command_descriptor_static R = Inr md"
  shows "list_all (\<lambda>a. accessor_updates a \<and>
      list_ex (\<lambda>f. fd_name f = accessor_name a \<and> accessor_fits a f \<and>
        reads_declared R sysadminctl_file f a) (msgd_field descriptor_Command)) (md_fields md) \<and>
    distinct (map fd_name (msgd_field descriptor_Command)) \<and>
    length (md_fields md) = length (msgd_field descriptor_Command)"
  using assms
  by (auto simp: reflect file_descriptor_proto_is descriptors reads_declared_rules Command_presence
      Command_holds)

lemma registered_Command: "registered R (ctl_Command_descriptor_static R)"
proof -
  obtain md where md: "ctl_Command_descriptor_static R = Inr md" "md_file md = sysadminctl_file"
      "md_rust_name md = ''Command''"
    by (simp add: ctl_Command_descriptor_static_def file_descriptor_proto_is)
  with Command_apart Command_declared show ?thesis
    by (simp add: registered_def registers_def find_messages)
qed

lemma registered_MappedField: "registered R (ctl_MappedField_descriptor_static R)"
  by (simp add: registered_eval)

lemma registered_GetResponse: "registered R (ctl_GetResponse_descriptor_static R)"
  by (simp add: registered_eval)

lemma registered_CommitResponse: "registered R (ctl_CommitResponse_descriptor_static R)"
  by (simp add: registered_eval)

lemma registered_ResetResponse: "registered R (ctl_ResetResponse_descriptor_static R)"
  by (simp add: registered_eval)

lemma registered_DumpResponse: "registered R (ctl_DumpResponse_descriptor_static R)"
  by (simp add: registered_eval)

lemma registered_BlameEntry: "registered R (ctl_BlameEntry_descriptor_static R)"
  by (simp add: registered_eval)

lemma registered_BlameResponse: "registered R (ctl_BlameResponse_descriptor_static R)"
  by (simp add: registered_eval)

lemma registered_InFlightResponse: "registered R (ctl_InFlightResponse_descriptor_static R)"
  by (simp add: registered_eval)

lemma registered_Response: "registered R (ctl_Response_descriptor_static R)"
  by (simp add: registered_eval) auto

lemma descriptors_read_all:
  "reads_all R (ctl_Int32List_descriptor_static R) Dyn_Int32List ctl_Int32List_wire"
  "reads_all R (ctl_BoolList_descriptor_static R) Dyn_BoolList ctl_BoolList_wire"
  "reads_all R (ctl_StringList_descriptor_static R) Dyn_StringList ctl_StringList_wire"
  "reads_all R (ctl_ConfigValue_descriptor_static R) Dyn_ConfigValue ctl_ConfigValue_wire"
  "reads_all R (ctl_Set_descriptor_static R) Dyn_Set ctl_Set_wire"
  "reads_all R (ctl_Get_descriptor_static R) Dyn_Get ctl_Get_wire"
  "reads_all R (ctl_Commit_descriptor_static R) Dyn_Commit ctl_Commit_wire"
  "reads_all R (ctl_Drop_descriptor_static R) Dyn_Drop ctl_Drop_wire"
  "reads_all R (ctl_FireHooks_descriptor_static R) Dyn_FireHooks ctl_FireHooks_wire"
  "reads_all R (ctl_Rollback_descriptor_static R) Dyn_Rollback ctl_Rollback_wire"
  "reads_all R (ctl_EraseKey_descriptor_static R) Dyn_EraseKey ctl_EraseKey_wire"
  "reads_all R (ctl_Reset_descriptor_static R) Dyn_Reset ctl_Reset_wire"
  "reads_all R (ctl_DumpHooks_descriptor_static R) Dyn_DumpHooks ctl_DumpHooks_wire"
  "reads_all R (ctl_TriggerHook_descriptor_static R) Dyn_TriggerHook ctl_TriggerHook_wire"
  "reads_all R (ctl_Blame_descriptor_static R) Dyn_Blame ctl_Blame_wire"
  "reads_all R (ctl_InFlight_descriptor_static R) Dyn_InFlight ctl_InFlight_wire"
  "reads_all R (ctl_Command_descriptor_static R) Dyn_Command ctl_Command_wire"
  "reads_all R (ctl_MappedField_descriptor_static R) Dyn_MappedField ctl_MappedField_wire"
  "reads_all R (ctl_GetResponse_descriptor_static R) Dyn_GetResponse ctl_GetResponse_wire"
  "reads_all R (ctl_CommitResponse_descriptor_static R) Dyn_CommitResponse ctl_CommitResponse_wire"
  "reads_all R (ctl_ResetResponse_descriptor_static R) Dyn_ResetResponse ctl_ResetResponse_wire"
  "reads_all R (ctl_DumpResponse_descriptor_static R) Dyn_DumpResponse ctl_DumpResponse_wire"
  "reads_all R (ctl_BlameEntry_descriptor_static R) Dyn_BlameEntry ctl_BlameEntry_wire"
  "reads_all R (ctl_BlameResponse_descriptor_static R) Dyn_BlameResponse ctl_BlameResponse_wire"
  "reads_all R (ctl_InFlightResponse_descriptor_static R) Dyn_InFlightResponse ctl_InFlightResponse_wire"
  "reads_all R (ctl_Response_descriptor_static R) Dyn_Response ctl_Response_wire"
  by (simp_all add: reads_all_def eval_nat_numeral
      registered_Int32List encode_Int32List
      registered_BoolList encode_BoolList
      registered_StringList encode_StringList
      registered_ConfigValue encode_ConfigValue
      registered_Set encode_Set
      registered_Get encode_Get
      registered_Commit encode_Commit
      registered_Drop encode_Drop
      registered_FireHooks encode_FireHooks
      registered_Rollback encode_Rollback
      registered_EraseKey encode_EraseKey
      registered_Reset encode_Reset
      registered_DumpHooks encode_DumpHooks
      registered_TriggerHook encode_TriggerHook
      registered_Blame encode_Blame
      registered_InFlight encode_InFlight
      registered_Command encode_Command
      registered_MappedField encode_MappedField
      registered_GetResponse encode_GetResponse
      registered_CommitResponse encode_CommitResponse
      registered_ResetResponse encode_ResetResponse
      registered_DumpResponse encode_DumpResponse
      registered_BlameEntry encode_BlameEntry
      registered_BlameResponse encode_BlameResponse
      registered_InFlightResponse encode_InFlightResponse
      registered_Response encode_Response)

end

end
