(* ===== verification/Reference_Descriptor.thy ===== *)
theory Reference_Descriptor
  imports Schema_Codec Reference_Runtime
begin

text \<open>
  An executable parser of file descriptors, written from \<open>descriptor.proto\<close> for the fields of theory
  Descriptor, and a lookup of enum values: an instance of the locale of theory Schema_Codec.
\<close>

section \<open>The fields of a message, uninterpreted\<close>

definition read_raw :: "bytes \<Rightarrow> ProtobufError + (u32 \<times> UnknownValue) \<times> bytes" where
  "read_raw bs =
     and_then (ref_read_tag bs) (\<lambda>((f, w), r).
       and_then (ref_read_unknown f w r []) (\<lambda>(uf, r). Inr (hd uf, r)))"

definition raw_fields :: "bytes \<Rightarrow> ProtobufError + UnknownFields" where
  "raw_fields bs = ref_read_all read_raw bs"

fun raw_ok :: "u32 \<times> UnknownValue \<Rightarrow> bool" where
  "raw_ok (f, UnknownVarint v) \<longleftrightarrow> field_number_ok f"
| "raw_ok (f, UnknownLengthDelimited p) \<longleftrightarrow> field_number_ok f \<and> small p"
| "raw_ok _ \<longleftrightarrow> False"

lemma read_raw_enc:
  assumes "raw_ok x"
  shows "read_raw (enc_unknown x @ r) = Inr (x, r)"
proof -
  have "unat (v :: 64 word) < 2 ^ 64" for v
    by (rule order_less_le_trans [OF unsigned_less]) simp
  then show ?thesis
    using assms by (cases x rule: raw_ok.cases)
      (simp_all add: read_raw_def ref_read_tag_wire_tag ref_read_unknown_def)
qed

lemma raw_fields_enc:
  "list_all raw_ok fs \<Longrightarrow> raw_fields (concat (map enc_unknown fs)) = Inr fs"
  unfolding raw_fields_def
  by (rule ref_read_all_concat) (auto simp: read_raw_enc list_all_iff elim!: raw_ok.elims)

lemma enc_as_raw:
  "enc_int32 f v = enc_unknown (f, UnknownVarint (scast v))"
  "enc_string f s = enc_unknown (f, UnknownLengthDelimited (string_bytes s))"
  "enc_message f p = enc_unknown (f, UnknownLengthDelimited p)"
  by (simp_all add: enc_int32_def int32_varint_def enc_string_def enc_message_def)

section \<open>Picking the fields\<close>

definition payloads_at :: "u32 \<Rightarrow> UnknownFields \<Rightarrow> bytes list" where
  "payloads_at n fs =
     concat (map (\<lambda>(f, v). case v of UnknownLengthDelimited p \<Rightarrow> if f = n then [p] else [] | _ \<Rightarrow> []) fs)"

definition int32s_at :: "u32 \<Rightarrow> UnknownFields \<Rightarrow> i32 list" where
  "int32s_at n fs =
     concat (map (\<lambda>(f, v). case v of UnknownVarint x \<Rightarrow> if f = n then [ucast x] else [] | _ \<Rightarrow> []) fs)"

lemma ucast_scast: "(ucast (scast (v :: i32) :: 64 word) :: i32) = v"
  by (rule bit_word_eqI) (auto simp: bit_simps)

lemma at_simps [simp]:
  "payloads_at n [] = []"
  "payloads_at n ((f, UnknownLengthDelimited p) # fs) = (if f = n then [p] else []) @ payloads_at n fs"
  "payloads_at n ((f, UnknownVarint x) # fs) = payloads_at n fs"
  "payloads_at n (fs @ fs') = payloads_at n fs @ payloads_at n fs'"
  "int32s_at n [] = []"
  "int32s_at n ((f, UnknownLengthDelimited p) # fs) = int32s_at n fs"
  "int32s_at n ((f, UnknownVarint x) # fs) = (if f = n then [ucast x] else []) @ int32s_at n fs"
  "int32s_at n (fs @ fs') = int32s_at n fs @ int32s_at n fs'"
  by (simp_all add: payloads_at_def int32s_at_def)

lemma payloads_at_map [simp]:
  "payloads_at n (map (\<lambda>x. (f, UnknownLengthDelimited (g x))) xs) = (if f = n then map g xs else [])"
  by (induction xs) simp_all

definition missing_field :: ProtobufError where
  "missing_field = WireError ''missing field''"

fun single :: "'a list \<Rightarrow> ProtobufError + 'a" where
  "single [x] = Inr x"
| "single _ = Inl missing_field"

fun at_most_one :: "'a list \<Rightarrow> ProtobufError + 'a option" where
  "at_most_one [] = Inr None"
| "at_most_one [x] = Inr (Some x)"
| "at_most_one _ = Inl (WireError ''repeated field'')"

definition utf8_string :: "bytes \<Rightarrow> ProtobufError + string" where
  "utf8_string p = (if utf8_valid p then Inr (bytes_string p) else Inl Utf8Error)"

lemma utf8_string_bytes [simp]: "string_ok s \<Longrightarrow> utf8_string (string_bytes s) = Inr s"
  by (simp add: utf8_string_def string_ok_def)

definition string_at :: "u32 \<Rightarrow> UnknownFields \<Rightarrow> ProtobufError + string" where
  "string_at n fs = and_then (single (payloads_at n fs)) utf8_string"

definition number_in :: "('a \<Rightarrow> i32) \<Rightarrow> 'a list \<Rightarrow> i32 \<Rightarrow> ProtobufError + 'a" where
  "number_in f xs v =
     (case find (\<lambda>x. f x = v) xs of None \<Rightarrow> Inl (WireError ''invalid enum value'') | Some x \<Rightarrow> Inr x)"

section \<open>The parser\<close>

definition parse_field :: "bytes \<Rightarrow> ProtobufError + FieldDescriptorProto" where
  "parse_field bs =
     and_then (raw_fields bs) (\<lambda>fs.
     and_then (string_at 1 fs) (\<lambda>name.
     and_then (single (int32s_at 3 fs)) (\<lambda>n.
     and_then (and_then (single (int32s_at 4 fs))
       (number_in label_number [LABEL_OPTIONAL, LABEL_REQUIRED, LABEL_REPEATED])) (\<lambda>l.
     and_then (and_then (single (int32s_at 5 fs))
       (number_in type_number [TYPE_INT32, TYPE_BOOL, TYPE_STRING, TYPE_MESSAGE, TYPE_UINT32, TYPE_ENUM])) (\<lambda>t.
     and_then (map_result utf8_string (payloads_at 6 fs)) (\<lambda>type_names.
     and_then (at_most_one type_names) (\<lambda>type_name.
     and_then (at_most_one (int32s_at 9 fs)) (\<lambda>oneof.
     and_then (string_at 10 fs) (\<lambda>json.
     Inr (field_descriptor name n l t type_name oneof json))))))))))"

definition parse_oneof :: "bytes \<Rightarrow> ProtobufError + string" where
  "parse_oneof bs = and_then (raw_fields bs) (string_at 1)"

definition parse_descriptor :: "bytes \<Rightarrow> ProtobufError + DescriptorProto" where
  "parse_descriptor bs =
     and_then (raw_fields bs) (\<lambda>fs.
     and_then (string_at 1 fs) (\<lambda>name.
     and_then (map_result parse_field (payloads_at 2 fs)) (\<lambda>fields.
     and_then (map_result parse_oneof (payloads_at 8 fs)) (\<lambda>oneofs.
     Inr (message_descriptor name fields oneofs)))))"

definition parse_enum_value :: "bytes \<Rightarrow> ProtobufError + EnumValueDescriptorProto" where
  "parse_enum_value bs =
     and_then (raw_fields bs) (\<lambda>fs.
     and_then (string_at 1 fs) (\<lambda>name.
     and_then (single (int32s_at 2 fs)) (\<lambda>n.
     Inr (enum_value_descriptor name n))))"

definition parse_enum :: "bytes \<Rightarrow> ProtobufError + EnumDescriptorProto" where
  "parse_enum bs =
     and_then (raw_fields bs) (\<lambda>fs.
     and_then (string_at 1 fs) (\<lambda>name.
     and_then (map_result parse_enum_value (payloads_at 2 fs)) (\<lambda>vs.
     Inr (enum_descriptor name vs))))"

definition parse_file :: "bytes \<Rightarrow> ProtobufError + FileDescriptorProto" where
  "parse_file bs =
     and_then (raw_fields bs) (\<lambda>fs.
     and_then (string_at 1 fs) (\<lambda>name.
     and_then (string_at 2 fs) (\<lambda>package.
     and_then (map_result parse_descriptor (payloads_at 4 fs)) (\<lambda>messages.
     and_then (map_result parse_enum (payloads_at 5 fs)) (\<lambda>enums.
     Inr \<lparr>filed_name = name, filed_package = package, filed_message_type = messages,
           filed_enum_type = enums\<rparr>)))))"

definition ref_value_by_number :: "EnumDescriptor \<Rightarrow> i32 \<Rightarrow> EnumValueDescriptorProto" where
  "ref_value_by_number d n =
     (case find_enum (ed_file d) (ed_rust_name d) of
        None \<Rightarrow> enum_value_descriptor [] n
      | Some e \<Rightarrow> (case find (\<lambda>v. evd_number v = n) (enumd_value e) of
                      None \<Rightarrow> enum_value_descriptor [] n
                    | Some v \<Rightarrow> v))"

definition ref_descriptor :: descriptor_rt where
  "ref_descriptor = \<lparr>rf_parse_from_bytes = parse_file, rf_value_by_number = ref_value_by_number\<rparr>"

section \<open>It gives back what was encoded\<close>

lemma number_in_label [simp]:
  "number_in label_number [LABEL_OPTIONAL, LABEL_REQUIRED, LABEL_REPEATED] (label_number l) = Inr l"
  by (cases l) (simp_all add: number_in_def)

lemma number_in_type [simp]:
  "number_in type_number [TYPE_INT32, TYPE_BOOL, TYPE_STRING, TYPE_MESSAGE, TYPE_UINT32, TYPE_ENUM]
     (type_number t) = Inr t"
  by (cases t) (simp_all add: number_in_def)

text \<open>The encodings as lists of uninterpreted fields.\<close>

definition opt_raw :: "('a \<Rightarrow> u32 \<times> UnknownValue) \<Rightarrow> 'a option \<Rightarrow> UnknownFields" where
  "opt_raw f x = (case x of None \<Rightarrow> [] | Some v \<Rightarrow> [f v])"

definition field_raw :: "FieldDescriptorProto \<Rightarrow> UnknownFields" where
  "field_raw d =
     [(1, UnknownLengthDelimited (string_bytes (fd_name d))),
      (3, UnknownVarint (scast (fd_number d))),
      (4, UnknownVarint (scast (label_number (fd_label d)))),
      (5, UnknownVarint (scast (type_number (fd_type d))))]
     @ opt_raw (\<lambda>s. (6, UnknownLengthDelimited (string_bytes s))) (fd_type_name d)
     @ opt_raw (\<lambda>v. (9, UnknownVarint (scast v))) (fd_oneof_index d)
     @ [(10, UnknownLengthDelimited (string_bytes (fd_json_name d)))]"

lemma field_wire_raw: "field_wire d = concat (map enc_unknown (field_raw d))"
  by (simp add: field_wire_def field_raw_def enc_as_raw opt_raw_def enc_opt_def split: option.split)

lemma small_le: "small b \<Longrightarrow> length a \<le> length b \<Longrightarrow> small a"
  by (simp add: small_def)

text \<open>The payloads of an encoding are shorter than it.\<close>

fun raw_payload :: "u32 \<times> UnknownValue \<Rightarrow> bytes" where
  "raw_payload (f, UnknownLengthDelimited p) = p"
| "raw_payload _ = []"

lemma raw_payload_small:
  assumes "small (concat (map enc_unknown fs))" and "x \<in> set fs"
  shows "small (raw_payload x)"
proof -
  have "length (raw_payload x) \<le> length (enc_unknown x)"
    by (cases x rule: raw_payload.cases) (simp_all add: length_delimited)
  also have "\<dots> \<le> length (concat (map enc_unknown fs))"
    using assms(2) by (rule length_concat_ge)
  finally show ?thesis
    using assms(1) small_le by blast
qed

fun raw_shape :: "u32 \<times> UnknownValue \<Rightarrow> bool" where
  "raw_shape (f, UnknownVarint v) \<longleftrightarrow> field_number_ok f"
| "raw_shape (f, UnknownLengthDelimited p) \<longleftrightarrow> field_number_ok f"
| "raw_shape _ \<longleftrightarrow> False"

lemma raw_ok_iff: "raw_ok x \<longleftrightarrow> raw_shape x \<and> small (raw_payload x)"
  by (cases x rule: raw_ok.cases) (simp_all add: small_def)

lemma raw_fields_small:
  assumes "small (concat (map enc_unknown fs))" and "list_all raw_shape fs"
  shows "raw_fields (concat (map enc_unknown fs)) = Inr fs"
proof (rule raw_fields_enc)
  show "list_all raw_ok fs"
    using assms raw_payload_small [OF assms(1)] by (simp add: list_all_iff raw_ok_iff)
qed

lemma parse_field_wire:
  assumes "field_ok d" and "small (field_wire d)"
  shows "parse_field (field_wire d) = Inr d"
proof -
  have "raw_fields (field_wire d) = Inr (field_raw d)"
    using assms(2) unfolding field_wire_raw
    by (rule raw_fields_small) (simp add: field_raw_def opt_raw_def field_number_ok_def split: option.split)
  then show ?thesis
    using assms(1)
    by (cases "fd_type_name d"; cases "fd_oneof_index d")
      (simp_all add: parse_field_def field_ok_def string_at_def field_raw_def opt_raw_def ucast_scast
        field_descriptor_def)
qed

lemma parse_oneof_wire:
  assumes "string_ok s" and "small (enc_string 1 s)"
  shows "parse_oneof (enc_string 1 s) = Inr s"
proof -
  have "raw_fields (enc_string 1 s) = Inr [(1, UnknownLengthDelimited (string_bytes s))]"
    using assms(2) raw_fields_small [of "[(1, UnknownLengthDelimited (string_bytes s))]"]
    by (simp add: enc_as_raw)
  with assms(1) show ?thesis by (simp add: parse_oneof_def string_at_def)
qed

lemma parse_enum_value_wire:
  assumes "string_ok (evd_name v)" and "small (enum_value_wire v)"
  shows "parse_enum_value (enum_value_wire v) = Inr v"
proof -
  let ?raw = "[(1, UnknownLengthDelimited (string_bytes (evd_name v))),
    (2, UnknownVarint (scast (evd_number v)))]"
  have w: "enum_value_wire v = concat (map enc_unknown ?raw)"
    by (simp add: enum_value_wire_def enc_as_raw del: enc_unknown.simps)
  have "raw_fields (enum_value_wire v) = Inr ?raw"
    using assms(2) unfolding w by (rule raw_fields_small) simp
  with assms(1) show ?thesis
    by (simp add: parse_enum_value_def string_at_def enum_value_descriptor_def ucast_scast)
qed

lemma concat_enc_message:
  "concat (map (\<lambda>x. enc_message n (g x)) xs)
     = concat (map enc_unknown (map (\<lambda>x. (n, UnknownLengthDelimited (g x))) xs))"
  by (simp add: enc_as_raw comp_def)

lemma parse_list:
  assumes "\<And>x. ok x \<Longrightarrow> small (w x) \<Longrightarrow> parse (w x) = Inr x"
    and "list_all ok xs" and "small (concat (map (\<lambda>x. enc_message n (w x)) xs))"
  shows "map_result parse (map w xs) = Inr xs"
  using assms(2,3)
proof (induction xs)
  case Nil
  show ?case by simp
next
  case (Cons x xs)
  then have "small (enc_message n (w x))"
    by (auto dest: small_append_iff)
  then have "small (w x)"
    by (rule small_le) (simp add: length_enc_message_ge less_imp_le)
  with Cons show ?case
    by (auto simp: assms(1) dest: small_append_iff)
qed

lemma parse_descriptor_wire:
  assumes "descriptor_ok d" and "small (descriptor_wire d)"
  shows "parse_descriptor (descriptor_wire d) = Inr d"
proof -
  let ?raw = "(1, UnknownLengthDelimited (string_bytes (msgd_name d)))
    # map (\<lambda>f. (2, UnknownLengthDelimited (field_wire f))) (msgd_field d)
    @ map (\<lambda>n. (8, UnknownLengthDelimited (enc_string 1 n))) (msgd_oneof_decl d)"
  have w: "descriptor_wire d = concat (map enc_unknown ?raw)"
    by (simp add: descriptor_wire_def concat_enc_message enc_as_raw(2) [of 1 "msgd_name d"])
  have "raw_fields (descriptor_wire d) = Inr ?raw"
    using assms(2) unfolding w by (rule raw_fields_small) (auto simp: list_all_iff)
  moreover have "map_result parse_field (map field_wire (msgd_field d)) = Inr (msgd_field d)"
    and "map_result parse_oneof (map (enc_string 1) (msgd_oneof_decl d)) = Inr (msgd_oneof_decl d)"
    using assms unfolding descriptor_ok_def descriptor_wire_def
    by (auto dest!: small_append_iff intro: parse_list [OF parse_field_wire] parse_list [OF parse_oneof_wire])
  ultimately show ?thesis
    using assms(1) by (simp add: parse_descriptor_def descriptor_ok_def string_at_def message_descriptor_def)
qed

lemma parse_enum_wire:
  assumes "enum_descriptor_ok d" and "small (enum_wire d)"
  shows "parse_enum (enum_wire d) = Inr d"
proof -
  let ?raw = "(1, UnknownLengthDelimited (string_bytes (enumd_name d)))
    # map (\<lambda>v. (2, UnknownLengthDelimited (enum_value_wire v))) (enumd_value d)"
  have w: "enum_wire d = concat (map enc_unknown ?raw)"
    by (simp add: enum_wire_def concat_enc_message enc_as_raw(2))
  have "raw_fields (enum_wire d) = Inr ?raw"
    using assms(2) unfolding w by (rule raw_fields_small) (auto simp: list_all_iff)
  moreover have "map_result parse_enum_value (map enum_value_wire (enumd_value d)) = Inr (enumd_value d)"
    using assms unfolding enum_descriptor_ok_def enum_wire_def
    by (auto dest!: small_append_iff
        intro: parse_list [where ok = "\<lambda>v. string_ok (evd_name v)", OF parse_enum_value_wire])
  ultimately show ?thesis
    using assms(1) by (simp add: parse_enum_def enum_descriptor_ok_def string_at_def enum_descriptor_def)
qed

lemma parse_file_wire:
  assumes "file_ok f" and "small (file_wire f)"
  shows "parse_file (file_wire f) = Inr f"
proof -
  let ?raw = "(1, UnknownLengthDelimited (string_bytes (filed_name f)))
    # (2, UnknownLengthDelimited (string_bytes (filed_package f)))
    # map (\<lambda>d. (4, UnknownLengthDelimited (descriptor_wire d))) (filed_message_type f)
    @ map (\<lambda>d. (5, UnknownLengthDelimited (enum_wire d))) (filed_enum_type f)"
  have w: "file_wire f = concat (map enc_unknown ?raw)"
    by (simp add: file_wire_def concat_enc_message enc_as_raw(2))
  have "raw_fields (file_wire f) = Inr ?raw"
    using assms(2) unfolding w by (rule raw_fields_small) (auto simp: list_all_iff)
  moreover have "map_result parse_descriptor (map descriptor_wire (filed_message_type f))
      = Inr (filed_message_type f)"
    and "map_result parse_enum (map enum_wire (filed_enum_type f)) = Inr (filed_enum_type f)"
    using assms unfolding file_ok_def file_wire_def
    by (auto dest!: small_append_iff
        intro: parse_list [OF parse_descriptor_wire] parse_list [OF parse_enum_wire])
  ultimately show ?thesis
    using assms(1) by (simp add: parse_file_def file_ok_def string_at_def)
qed

interpretation ref_desc: descriptor_runtime ref_descriptor
  by unfold_locales
    (simp_all add: ref_descriptor_def parse_file_wire ref_value_by_number_def)

end
