(* ===== verification/Codec_Facts.thy ===== *)
theory Codec_Facts
  imports Codec_Commands Codec_Responses
begin

text \<open>
  What reading and writing whole commands and responses promises beyond the encodings of theories
  Codec_Commands and Codec_Responses: fields in any order, repeated alternatives, missing required
  fields, unknown status codes.
\<close>

lemma enum_read_unknown:
  "enum_ok E \<Longrightarrow> enum_from_i32 D v = None \<Longrightarrow> \<exists>e. read_enum E D (int32_varint v @ r) = Inl e"
  unfolding enum_ok_def by blast

text \<open>The fields of a response, as they may follow each other in any order and number.\<close>

datatype response_field =
    IdField u32
  | StatusField ctl_StatusCode
  | PayloadField Response_oneof_payload

primrec response_field_wire :: "response_field \<Rightarrow> bytes" where
  "response_field_wire (IdField i) = enc_uint32 6 i"
| "response_field_wire (StatusField s) = enc_int32 7 (ctl_StatusCode_value s)"
| "response_field_wire (PayloadField p) = Response_oneof_payload_wire p"

primrec response_field_ok :: "response_field \<Rightarrow> bool" where
  "response_field_ok (IdField i) \<longleftrightarrow> True"
| "response_field_ok (StatusField s) \<longleftrightarrow> True"
| "response_field_ok (PayloadField p) \<longleftrightarrow>
     Response_oneof_payload_ok p \<and> small (Response_oneof_payload_wire p) \<and> Response_oneof_payload_init p"

primrec response_with :: "response_field \<Rightarrow> ctl_Response \<Rightarrow> ctl_Response" where
  "response_with (IdField i) m = m\<lparr>ctl_Response_id := Some i\<rparr>"
| "response_with (StatusField s) m = m\<lparr>ctl_Response_status := Some s\<rparr>"
| "response_with (PayloadField p) m =
     m\<lparr>ctl_Response_payload := Some (Response_oneof_payload_norm p)\<rparr>"

definition response_of :: "response_field list \<Rightarrow> ctl_Response \<Rightarrow> ctl_Response" where
  "response_of fs m = fold response_with fs m"

lemma response_of_id: "list_all (\<lambda>f. \<forall>i. f \<noteq> IdField i) fs \<Longrightarrow>
    ctl_Response_id (response_of fs m) = ctl_Response_id m"
  and response_of_status: "list_all (\<lambda>f. \<forall>s. f \<noteq> StatusField s) fs \<Longrightarrow>
    ctl_Response_status (response_of fs m) = ctl_Response_status m"
  unfolding response_of_def
proof (induction fs arbitrary: m)
  case (Cons f fs)
  { case 1 then show ?case using Cons by (cases f) simp_all }
  { case 2 then show ?case using Cons by (cases f) simp_all }
qed simp_all

context protobuf_runtime begin

section \<open>Commands\<close>

lemmas Command_read =
  ctl_Command_merge_from_def ctl_Command_new_def Command_oneof_payload_merge ctl_Command_merge_id
  ctl_Command_merge_xid Command_oneof_payload_merge [where r = "[]", simplified]
  ctl_Command_merge_id [where r = "[]", simplified]
  ctl_Command_merge_xid [where r = "[]", simplified]

lemma Command_written_parsed:
  assumes "ctl_Command_ok c" and "small (ctl_Command_wire c)" and "ctl_Command_is_initialized c"
  shows "\<exists>b. write_to_bytes (pb_entry_Command rt) (ctl_Command_message rt) c = Inr b \<and>
    length b = unat (fst (ctl_Command_compute_size rt c)) \<and>
    parse_from_bytes (pb_entry_Command rt) (ctl_Command_message rt) b
      = Some (Inr (ctl_Command_norm c))"
  using Command.write_to_bytes_wire [OF assms] Command.parse_wire [OF assms]
    Command.size_wire [OF assms(1,2)] small_unat [OF assms(2)] by simp

lemmas Command_written = Command.write_to_bytes_wire

lemma Command_any_order:
  assumes "Command_oneof_payload_ok p" and "small (Command_oneof_payload_wire p)"
    and "Command_oneof_payload_init p"
    and "fs = [enc_uint32 6 i, enc_uint32 10 x, Command_oneof_payload_wire p]"
    and "ord \<in> {[0, 1, 2], [0, 2, 1], [1, 0, 2], [1, 2, 0], [2, 0, 1], [2, 1, 0]}"
  shows "ctl_Command_merge_from rt ctl_Command_new (concat (map ((!) fs) ord))
    = Some (Inr (\<lparr>ctl_Command_id = Some i, ctl_Command_xid = Some x,
        ctl_Command_payload = Some (Command_oneof_payload_norm p),
        ctl_Command_unknown_fields = [], ctl_Command_cached_size = 0\<rparr>, []))"
  using assms by (auto simp: codec Command_read)

lemma Command_last_payload:
  assumes "Command_oneof_payload_ok p" and "small (Command_oneof_payload_wire p)"
    and "Command_oneof_payload_init p"
    and "Command_oneof_payload_ok q" and "small (Command_oneof_payload_wire q)"
    and "Command_oneof_payload_init q"
  shows "ctl_Command_merge_from rt ctl_Command_new
      (enc_uint32 6 i @ Command_oneof_payload_wire p @ Command_oneof_payload_wire q)
    = Some (Inr (\<lparr>ctl_Command_id = Some i, ctl_Command_xid = None,
        ctl_Command_payload = Some (Command_oneof_payload_norm q),
        ctl_Command_unknown_fields = [], ctl_Command_cached_size = 0\<rparr>, []))"
  using assms by (simp add: codec Command_read)

lemma Command_without_id:
  assumes "Command_oneof_payload_ok p" and "small (Command_oneof_payload_wire p)"
    and "Command_oneof_payload_init p"
  shows "\<exists>e. parse_from_bytes (pb_entry_Command rt) (ctl_Command_message rt)
      (enc_uint32 10 x @ Command_oneof_payload_wire p) = Some (Inl e)"
  using assms
  by (intro Command.parse_uninitialized)
    (simp add: codec Command_read, simp add: ctl_Command_is_initialized_def)

lemma Command_bad_wire_type:
  "ctl_Command_merge_from rt m (wire_tag 6 WireTypeLengthDelimited @ r)
     = Some (Inl (rt_unexpected_wire_type rt WireTypeLengthDelimited))"
  by (simp add: codec ctl_Command_merge_from_def ctl_Command_merge_field_def)

section \<open>Responses\<close>

lemmas Response_read =
  ctl_Response_merge_from_def ctl_Response_new_def Response_oneof_payload_merge
  ctl_Response_merge_id ctl_Response_merge_status
  Response_oneof_payload_merge [where r = "[]", simplified]
  ctl_Response_merge_id [where r = "[]", simplified]
  ctl_Response_merge_status [where r = "[]", simplified]

lemma Response_written_parsed:
  assumes "ctl_Response_ok r" and "small (ctl_Response_wire r)" and "ctl_Response_is_initialized r"
  shows "\<exists>b. write_to_bytes (pb_entry_Response rt) (ctl_Response_message rt) r = Inr b \<and>
    length b = unat (fst (ctl_Response_compute_size rt r)) \<and>
    parse_from_bytes (pb_entry_Response rt) (ctl_Response_message rt) b
      = Some (Inr (ctl_Response_norm r))"
  using Response.write_to_bytes_wire [OF assms] Response.parse_wire [OF assms]
    Response.size_wire [OF assms(1,2)] small_unat [OF assms(2)] by simp

lemmas Response_written = Response.write_to_bytes_wire

lemma Response_field_merge:
  assumes "response_field_ok f"
  shows "ctl_Response_merge_from rt m (response_field_wire f @ r)
    = ctl_Response_merge_from rt (response_with f m) r"
proof -
  have "ctl_Response_merge_field rt m (response_field_wire f @ r) = Some (Inr (response_with f m, r))"
    and "response_field_wire f \<noteq> []"
    using assms
    by (cases f; simp add: ctl_Response_merge_id ctl_Response_merge_status Response_oneof_payload_merge)+
  then show ?thesis
    using merge_loop_step [OF eof] by (simp add: ctl_Response_merge_from_def)
qed

lemma Response_fields_merge:
  "list_all response_field_ok fs \<Longrightarrow>
    ctl_Response_merge_from rt m (concat (map response_field_wire fs) @ r)
      = ctl_Response_merge_from rt (response_of fs m) r"
  by (induction fs arbitrary: m) (simp_all add: response_of_def Response_field_merge)

lemma Response_missing_required:
  assumes "list_all response_field_ok fs"
    and "list_all (\<lambda>f. \<forall>i. f \<noteq> IdField i) fs \<or> list_all (\<lambda>f. \<forall>s. f \<noteq> StatusField s) fs"
  shows "\<exists>e. parse_from_bytes (pb_entry_Response rt) (ctl_Response_message rt)
    (concat (map response_field_wire fs)) = Some (Inl e)"
proof (rule Response.parse_uninitialized)
  show "ctl_Response_merge_from rt ctl_Response_new (concat (map response_field_wire fs))
      = Some (Inr (response_of fs ctl_Response_new, []))"
    using Response_fields_merge [OF assms(1), of ctl_Response_new "[]"]
    by (simp add: codec ctl_Response_merge_from_def)
  show "\<not> ctl_Response_is_initialized (response_of fs ctl_Response_new)"
    using assms(2) by (auto simp: response_of_id response_of_status ctl_Response_is_initialized_def
        ctl_Response_new_def)
qed

text \<open>A field the client does not know, of a newer server, is kept beside the known ones.\<close>

lemma Response_unknown_field:
  assumes "field_number_ok f" and "f \<notin> {1, 2, 3, 4, 5, 6, 7, 8}"
    and "rt_read_unknown_or_skip_group rt f wt (b @ r) (ctl_Response_unknown_fields m) = Inr (uf, r)"
  shows "ctl_Response_merge_from rt m (wire_tag f wt @ b @ r)
    = ctl_Response_merge_from rt (m\<lparr>ctl_Response_unknown_fields := uf\<rparr>) r"
proof -
  have "ctl_Response_merge_field rt m ((wire_tag f wt @ b) @ r)
      = Some (Inr (m\<lparr>ctl_Response_unknown_fields := uf\<rparr>, r))"
    using assms by (simp add: codec ctl_Response_merge_field_def)
  then show ?thesis
    using merge_loop_step [OF eof, of "wire_tag f wt @ b"] by (simp add: ctl_Response_merge_from_def)
qed

text \<open>A status without a variant, in a response of a newer server.\<close>

lemma Response_unknown_status:
  assumes "list_all response_field_ok fs" and "ctl_StatusCode_from_i32 v = None"
  shows "\<exists>e. parse_from_bytes (pb_entry_Response rt) (ctl_Response_message rt)
    (concat (map response_field_wire fs) @ enc_int32 7 v @ r) = Some (Inl e)"
proof -
  obtain e where "read_enum (pb_StatusCode rt) ctl_StatusCode_enum (int32_varint v @ r) = Inl e"
    using enum_read_unknown [OF enum_StatusCode] assms(2)
    by (metis ProtobufEnum.select_convs(2) ctl_StatusCode_enum_def)
  then have "ctl_Response_merge_field rt m (enc_int32 7 v @ r) = Some (Inl e)" for m
    by (simp add: codec ctl_Response_merge_field_def enc_int32_def)
  then have "ctl_Response_merge_from rt m (enc_int32 7 v @ r) = Some (Inl e)" for m
    by (simp add: codec Response_read)
  then have "ctl_Response_merge_from rt ctl_Response_new
      (concat (map response_field_wire fs) @ enc_int32 7 v @ r) = Some (Inl e)"
    by (simp add: Response_fields_merge [OF assms(1)])
  then show ?thesis by (rule Response.parse_error)
qed

end

end
