(* ===== verification/Accessors.thy ===== *)
theory Accessors
  imports Ctl_Commands Ctl_Responses
begin

text \<open>
  The accessors of the alternatives of a \<open>oneof\<close>: the value of a \<open>ConfigValue\<close>, the payloads of
  \<open>Command\<close> and of \<open>Response\<close>.  The generated code writes each of them out for each
  alternative; the locale states what they promise together, and each alternative is proved to
  keep it.
\<close>

section \<open>The contract\<close>

text \<open>
  \<open>payload\<close> reads the field that holds the alternatives and \<open>put\<close> replaces it; \<open>inj\<close> is the
  constructor of the alternative.
\<close>

locale oneof_field =
  fixes payload :: "'m \<Rightarrow> 'p option" and put :: "'p option \<Rightarrow> 'm \<Rightarrow> 'm" and inj :: "'v \<Rightarrow> 'p"
    and clear :: "'m \<Rightarrow> 'm" and has :: "'m \<Rightarrow> bool" and set :: "'m \<Rightarrow> 'v \<Rightarrow> 'm" and get :: "'m \<Rightarrow> 'v"
    and default :: 'v
  assumes payload_put: "payload (put p m) = p"
    and put_put: "put p (put q m) = put p m"
    and put_payload: "put (payload m) m = m"
    and inj_eq: "inj v = inj w \<longleftrightarrow> v = w"
    and clear_eq: "clear m = put None m"
    and has_eq: "has m \<longleftrightarrow> (\<exists>v. payload m = Some (inj v))"
    and set_eq: "set m v = put (Some (inj v)) m"
    and get_has: "payload m = Some (inj v) \<Longrightarrow> get m = v"
    and get_default: "\<not> has m \<Longrightarrow> get m = default"
begin

lemma has_set: "has (set m v)"
  by (simp add: has_eq set_eq payload_put inj_eq)

lemma get_set: "get (set m v) = v"
  by (simp add: get_has set_eq payload_put)

lemma not_has_clear: "\<not> has (clear m)"
  by (simp add: has_eq clear_eq payload_put)

lemma set_set: "set (set m v) u = set m u" and clear_set: "clear (set m v) = clear m"
  by (simp_all add: set_eq clear_eq put_put)

lemma set_get: "has m \<Longrightarrow> set m (get m) = m"
  using get_has [of m] put_payload [of m] by (auto simp: has_eq set_eq)

end

locale oneof_owned = oneof_field payload put inj clear has set get default
  for payload :: "'m \<Rightarrow> 'p option" and put :: "'p option \<Rightarrow> 'm \<Rightarrow> 'm" and inj :: "'v \<Rightarrow> 'p"
    and clear has set get and take :: "'m \<Rightarrow> panic + 'v \<times> 'm"
    and mut :: "'m \<Rightarrow> ('v \<Rightarrow> 'v) \<Rightarrow> panic + 'm" and default +
  assumes take_has: "payload m = Some (inj v) \<Longrightarrow> take m = Inr (v, put None m)"
    and take_default: "\<not> has m \<Longrightarrow> take m = Inr (default, m)"
    and mut_has: "payload m = Some (inj v) \<Longrightarrow> mut m f = Inr (put (Some (inj (f v))) m)"
    and mut_default: "\<not> has m \<Longrightarrow> mut m f = Inr (put (Some (inj (f default))) m)"
begin

text \<open>\<open>take\<close> and \<open>mut\<close> never panic: what they do is what \<open>get\<close>, \<open>clear\<close> and \<open>set\<close> do.\<close>

lemma take_get: "take m = Inr (get m, if has m then clear m else m)"
proof (cases "has m")
  case True
  then obtain v where "payload m = Some (inj v)" by (auto simp: has_eq)
  with True show ?thesis by (simp add: take_has get_has clear_eq)
next
  case False
  then show ?thesis by (simp add: take_default get_default)
qed

lemma mut_get: "mut m f = Inr (set m (f (get m)))"
proof (cases "has m")
  case True
  then obtain v where "payload m = Some (inj v)" by (auto simp: has_eq)
  then show ?thesis by (simp add: mut_has get_has set_eq)
next
  case False
  then show ?thesis by (simp add: mut_default get_default set_eq)
qed

lemma take_set: "take (set m v) = Inr (v, clear m)"
  by (simp add: take_get has_set get_set clear_set)

end

section \<open>Every alternative keeps it\<close>

subsection \<open>ConfigValue\<close>

interpretation ConfigValue_int32val: oneof_field ctl_ConfigValue_value "\<lambda>p m. m\<lparr>ctl_ConfigValue_value := p\<rparr>" ConfigValue_oneof_value_int32val
  ctl_ConfigValue_clear_int32val ctl_ConfigValue_has_int32val ctl_ConfigValue_set_int32val ctl_ConfigValue_get_int32val
  0
  by unfold_locales (auto simp: ctl_ConfigValue_clear_int32val_def ctl_ConfigValue_has_int32val_def
      ctl_ConfigValue_set_int32val_def ctl_ConfigValue_get_int32val_def
      split: option.splits ConfigValue_oneof_value.splits)

interpretation ConfigValue_strval: oneof_owned ctl_ConfigValue_value "\<lambda>p m. m\<lparr>ctl_ConfigValue_value := p\<rparr>" ConfigValue_oneof_value_strval
  ctl_ConfigValue_clear_strval ctl_ConfigValue_has_strval ctl_ConfigValue_set_strval ctl_ConfigValue_get_strval
  ctl_ConfigValue_take_strval ctl_ConfigValue_mut_strval "''''"
  by unfold_locales (auto simp: ctl_ConfigValue_clear_strval_def ctl_ConfigValue_has_strval_def
      ctl_ConfigValue_set_strval_def ctl_ConfigValue_get_strval_def
      ctl_ConfigValue_take_strval_def ctl_ConfigValue_mut_strval_def
      split: option.splits ConfigValue_oneof_value.splits)

interpretation ConfigValue_boolval: oneof_field ctl_ConfigValue_value "\<lambda>p m. m\<lparr>ctl_ConfigValue_value := p\<rparr>" ConfigValue_oneof_value_boolval
  ctl_ConfigValue_clear_boolval ctl_ConfigValue_has_boolval ctl_ConfigValue_set_boolval ctl_ConfigValue_get_boolval
  False
  by unfold_locales (auto simp: ctl_ConfigValue_clear_boolval_def ctl_ConfigValue_has_boolval_def
      ctl_ConfigValue_set_boolval_def ctl_ConfigValue_get_boolval_def
      split: option.splits ConfigValue_oneof_value.splits)

interpretation ConfigValue_int32list: oneof_owned ctl_ConfigValue_value "\<lambda>p m. m\<lparr>ctl_ConfigValue_value := p\<rparr>" ConfigValue_oneof_value_int32list
  ctl_ConfigValue_clear_int32list ctl_ConfigValue_has_int32list ctl_ConfigValue_set_int32list ctl_ConfigValue_get_int32list
  ctl_ConfigValue_take_int32list ctl_ConfigValue_mut_int32list ctl_Int32List_new
  by unfold_locales (auto simp: ctl_ConfigValue_clear_int32list_def ctl_ConfigValue_has_int32list_def
      ctl_ConfigValue_set_int32list_def ctl_ConfigValue_get_int32list_def
      ctl_ConfigValue_take_int32list_def ctl_ConfigValue_mut_int32list_def
      ctl_Int32List_default_instance_def
      split: option.splits ConfigValue_oneof_value.splits)

interpretation ConfigValue_boollist: oneof_owned ctl_ConfigValue_value "\<lambda>p m. m\<lparr>ctl_ConfigValue_value := p\<rparr>" ConfigValue_oneof_value_boollist
  ctl_ConfigValue_clear_boollist ctl_ConfigValue_has_boollist ctl_ConfigValue_set_boollist ctl_ConfigValue_get_boollist
  ctl_ConfigValue_take_boollist ctl_ConfigValue_mut_boollist ctl_BoolList_new
  by unfold_locales (auto simp: ctl_ConfigValue_clear_boollist_def ctl_ConfigValue_has_boollist_def
      ctl_ConfigValue_set_boollist_def ctl_ConfigValue_get_boollist_def
      ctl_ConfigValue_take_boollist_def ctl_ConfigValue_mut_boollist_def
      ctl_BoolList_default_instance_def
      split: option.splits ConfigValue_oneof_value.splits)

interpretation ConfigValue_stringlist: oneof_owned ctl_ConfigValue_value "\<lambda>p m. m\<lparr>ctl_ConfigValue_value := p\<rparr>" ConfigValue_oneof_value_stringlist
  ctl_ConfigValue_clear_stringlist ctl_ConfigValue_has_stringlist ctl_ConfigValue_set_stringlist ctl_ConfigValue_get_stringlist
  ctl_ConfigValue_take_stringlist ctl_ConfigValue_mut_stringlist ctl_StringList_new
  by unfold_locales (auto simp: ctl_ConfigValue_clear_stringlist_def ctl_ConfigValue_has_stringlist_def
      ctl_ConfigValue_set_stringlist_def ctl_ConfigValue_get_stringlist_def
      ctl_ConfigValue_take_stringlist_def ctl_ConfigValue_mut_stringlist_def
      ctl_StringList_default_instance_def
      split: option.splits ConfigValue_oneof_value.splits)

subsection \<open>Command\<close>

interpretation Command_set: oneof_owned ctl_Command_payload "\<lambda>p m. m\<lparr>ctl_Command_payload := p\<rparr>" Command_oneof_payload_set
  ctl_Command_clear_set ctl_Command_has_set ctl_Command_set_set ctl_Command_get_set
  ctl_Command_take_set ctl_Command_mut_set ctl_Set_new
  by unfold_locales (auto simp: ctl_Command_clear_set_def ctl_Command_has_set_def ctl_Command_set_set_def
      ctl_Command_get_set_def ctl_Command_take_set_def ctl_Command_mut_set_def
      ctl_Set_default_instance_def
      split: option.splits Command_oneof_payload.splits)

interpretation Command_get: oneof_owned ctl_Command_payload "\<lambda>p m. m\<lparr>ctl_Command_payload := p\<rparr>" Command_oneof_payload_get
  ctl_Command_clear_get ctl_Command_has_get ctl_Command_set_get ctl_Command_get_get
  ctl_Command_take_get ctl_Command_mut_get ctl_Get_new
  by unfold_locales (auto simp: ctl_Command_clear_get_def ctl_Command_has_get_def ctl_Command_set_get_def
      ctl_Command_get_get_def ctl_Command_take_get_def ctl_Command_mut_get_def
      ctl_Get_default_instance_def
      split: option.splits Command_oneof_payload.splits)

interpretation Command_commit: oneof_owned ctl_Command_payload "\<lambda>p m. m\<lparr>ctl_Command_payload := p\<rparr>" Command_oneof_payload_commit
  ctl_Command_clear_commit ctl_Command_has_commit ctl_Command_set_commit ctl_Command_get_commit
  ctl_Command_take_commit ctl_Command_mut_commit ctl_Commit_new
  by unfold_locales (auto simp: ctl_Command_clear_commit_def ctl_Command_has_commit_def ctl_Command_set_commit_def
      ctl_Command_get_commit_def ctl_Command_take_commit_def ctl_Command_mut_commit_def
      ctl_Commit_default_instance_def
      split: option.splits Command_oneof_payload.splits)

interpretation Command_drop: oneof_owned ctl_Command_payload "\<lambda>p m. m\<lparr>ctl_Command_payload := p\<rparr>" Command_oneof_payload_drop
  ctl_Command_clear_drop ctl_Command_has_drop ctl_Command_set_drop ctl_Command_get_drop
  ctl_Command_take_drop ctl_Command_mut_drop ctl_Drop_new
  by unfold_locales (auto simp: ctl_Command_clear_drop_def ctl_Command_has_drop_def ctl_Command_set_drop_def
      ctl_Command_get_drop_def ctl_Command_take_drop_def ctl_Command_mut_drop_def
      ctl_Drop_default_instance_def
      split: option.splits Command_oneof_payload.splits)

interpretation Command_firehooks: oneof_owned ctl_Command_payload "\<lambda>p m. m\<lparr>ctl_Command_payload := p\<rparr>" Command_oneof_payload_firehooks
  ctl_Command_clear_firehooks ctl_Command_has_firehooks ctl_Command_set_firehooks ctl_Command_get_firehooks
  ctl_Command_take_firehooks ctl_Command_mut_firehooks ctl_FireHooks_new
  by unfold_locales (auto simp: ctl_Command_clear_firehooks_def ctl_Command_has_firehooks_def
      ctl_Command_set_firehooks_def ctl_Command_get_firehooks_def
      ctl_Command_take_firehooks_def ctl_Command_mut_firehooks_def
      ctl_FireHooks_default_instance_def
      split: option.splits Command_oneof_payload.splits)

interpretation Command_erase: oneof_owned ctl_Command_payload "\<lambda>p m. m\<lparr>ctl_Command_payload := p\<rparr>" Command_oneof_payload_erase
  ctl_Command_clear_erase ctl_Command_has_erase ctl_Command_set_erase ctl_Command_get_erase
  ctl_Command_take_erase ctl_Command_mut_erase ctl_EraseKey_new
  by unfold_locales (auto simp: ctl_Command_clear_erase_def ctl_Command_has_erase_def ctl_Command_set_erase_def
      ctl_Command_get_erase_def ctl_Command_take_erase_def ctl_Command_mut_erase_def
      ctl_EraseKey_default_instance_def
      split: option.splits Command_oneof_payload.splits)

interpretation Command_rollback: oneof_owned ctl_Command_payload "\<lambda>p m. m\<lparr>ctl_Command_payload := p\<rparr>" Command_oneof_payload_rollback
  ctl_Command_clear_rollback ctl_Command_has_rollback ctl_Command_set_rollback ctl_Command_get_rollback
  ctl_Command_take_rollback ctl_Command_mut_rollback ctl_Rollback_new
  by unfold_locales (auto simp: ctl_Command_clear_rollback_def ctl_Command_has_rollback_def ctl_Command_set_rollback_def
      ctl_Command_get_rollback_def ctl_Command_take_rollback_def ctl_Command_mut_rollback_def
      ctl_Rollback_default_instance_def
      split: option.splits Command_oneof_payload.splits)

interpretation Command_reset: oneof_owned ctl_Command_payload "\<lambda>p m. m\<lparr>ctl_Command_payload := p\<rparr>" Command_oneof_payload_reset
  ctl_Command_clear_reset ctl_Command_has_reset ctl_Command_set_reset ctl_Command_get_reset
  ctl_Command_take_reset ctl_Command_mut_reset ctl_Reset_new
  by unfold_locales (auto simp: ctl_Command_clear_reset_def ctl_Command_has_reset_def ctl_Command_set_reset_def
      ctl_Command_get_reset_def ctl_Command_take_reset_def ctl_Command_mut_reset_def
      ctl_Reset_default_instance_def
      split: option.splits Command_oneof_payload.splits)

interpretation Command_dump: oneof_owned ctl_Command_payload "\<lambda>p m. m\<lparr>ctl_Command_payload := p\<rparr>" Command_oneof_payload_dump
  ctl_Command_clear_dump ctl_Command_has_dump ctl_Command_set_dump ctl_Command_get_dump
  ctl_Command_take_dump ctl_Command_mut_dump ctl_DumpHooks_new
  by unfold_locales (auto simp: ctl_Command_clear_dump_def ctl_Command_has_dump_def ctl_Command_set_dump_def
      ctl_Command_get_dump_def ctl_Command_take_dump_def ctl_Command_mut_dump_def
      ctl_DumpHooks_default_instance_def
      split: option.splits Command_oneof_payload.splits)

interpretation Command_trigger: oneof_owned ctl_Command_payload "\<lambda>p m. m\<lparr>ctl_Command_payload := p\<rparr>" Command_oneof_payload_trigger
  ctl_Command_clear_trigger ctl_Command_has_trigger ctl_Command_set_trigger ctl_Command_get_trigger
  ctl_Command_take_trigger ctl_Command_mut_trigger ctl_TriggerHook_new
  by unfold_locales (auto simp: ctl_Command_clear_trigger_def ctl_Command_has_trigger_def ctl_Command_set_trigger_def
      ctl_Command_get_trigger_def ctl_Command_take_trigger_def ctl_Command_mut_trigger_def
      ctl_TriggerHook_default_instance_def
      split: option.splits Command_oneof_payload.splits)

interpretation Command_blame: oneof_owned ctl_Command_payload "\<lambda>p m. m\<lparr>ctl_Command_payload := p\<rparr>" Command_oneof_payload_blame
  ctl_Command_clear_blame ctl_Command_has_blame ctl_Command_set_blame ctl_Command_get_blame
  ctl_Command_take_blame ctl_Command_mut_blame ctl_Blame_new
  by unfold_locales (auto simp: ctl_Command_clear_blame_def ctl_Command_has_blame_def ctl_Command_set_blame_def
      ctl_Command_get_blame_def ctl_Command_take_blame_def ctl_Command_mut_blame_def
      ctl_Blame_default_instance_def
      split: option.splits Command_oneof_payload.splits)

interpretation Command_inflight: oneof_owned ctl_Command_payload "\<lambda>p m. m\<lparr>ctl_Command_payload := p\<rparr>" Command_oneof_payload_inflight
  ctl_Command_clear_inflight ctl_Command_has_inflight ctl_Command_set_inflight ctl_Command_get_inflight
  ctl_Command_take_inflight ctl_Command_mut_inflight ctl_InFlight_new
  by unfold_locales (auto simp: ctl_Command_clear_inflight_def ctl_Command_has_inflight_def ctl_Command_set_inflight_def
      ctl_Command_get_inflight_def ctl_Command_take_inflight_def ctl_Command_mut_inflight_def
      ctl_InFlight_default_instance_def
      split: option.splits Command_oneof_payload.splits)

subsection \<open>Response\<close>

interpretation Response_get: oneof_owned ctl_Response_payload "\<lambda>p m. m\<lparr>ctl_Response_payload := p\<rparr>" Response_oneof_payload_get
  ctl_Response_clear_get ctl_Response_has_get ctl_Response_set_get ctl_Response_get_get
  ctl_Response_take_get ctl_Response_mut_get ctl_GetResponse_new
  by unfold_locales (auto simp: ctl_Response_clear_get_def ctl_Response_has_get_def ctl_Response_set_get_def
      ctl_Response_get_get_def ctl_Response_take_get_def ctl_Response_mut_get_def
      ctl_GetResponse_default_instance_def
      split: option.splits Response_oneof_payload.splits)

interpretation Response_commit: oneof_owned ctl_Response_payload "\<lambda>p m. m\<lparr>ctl_Response_payload := p\<rparr>" Response_oneof_payload_commit
  ctl_Response_clear_commit ctl_Response_has_commit ctl_Response_set_commit ctl_Response_get_commit
  ctl_Response_take_commit ctl_Response_mut_commit ctl_CommitResponse_new
  by unfold_locales (auto simp: ctl_Response_clear_commit_def ctl_Response_has_commit_def ctl_Response_set_commit_def
      ctl_Response_get_commit_def ctl_Response_take_commit_def ctl_Response_mut_commit_def
      ctl_CommitResponse_default_instance_def
      split: option.splits Response_oneof_payload.splits)

interpretation Response_reset: oneof_owned ctl_Response_payload "\<lambda>p m. m\<lparr>ctl_Response_payload := p\<rparr>" Response_oneof_payload_reset
  ctl_Response_clear_reset ctl_Response_has_reset ctl_Response_set_reset ctl_Response_get_reset
  ctl_Response_take_reset ctl_Response_mut_reset ctl_ResetResponse_new
  by unfold_locales (auto simp: ctl_Response_clear_reset_def ctl_Response_has_reset_def ctl_Response_set_reset_def
      ctl_Response_get_reset_def ctl_Response_take_reset_def ctl_Response_mut_reset_def
      ctl_ResetResponse_default_instance_def
      split: option.splits Response_oneof_payload.splits)

interpretation Response_dump: oneof_owned ctl_Response_payload "\<lambda>p m. m\<lparr>ctl_Response_payload := p\<rparr>" Response_oneof_payload_dump
  ctl_Response_clear_dump ctl_Response_has_dump ctl_Response_set_dump ctl_Response_get_dump
  ctl_Response_take_dump ctl_Response_mut_dump ctl_DumpResponse_new
  by unfold_locales (auto simp: ctl_Response_clear_dump_def ctl_Response_has_dump_def ctl_Response_set_dump_def
      ctl_Response_get_dump_def ctl_Response_take_dump_def ctl_Response_mut_dump_def
      ctl_DumpResponse_default_instance_def
      split: option.splits Response_oneof_payload.splits)

interpretation Response_blame: oneof_owned ctl_Response_payload "\<lambda>p m. m\<lparr>ctl_Response_payload := p\<rparr>" Response_oneof_payload_blame
  ctl_Response_clear_blame ctl_Response_has_blame ctl_Response_set_blame ctl_Response_get_blame
  ctl_Response_take_blame ctl_Response_mut_blame ctl_BlameResponse_new
  by unfold_locales (auto simp: ctl_Response_clear_blame_def ctl_Response_has_blame_def ctl_Response_set_blame_def
      ctl_Response_get_blame_def ctl_Response_take_blame_def ctl_Response_mut_blame_def
      ctl_BlameResponse_default_instance_def
      split: option.splits Response_oneof_payload.splits)

interpretation Response_inflight: oneof_owned ctl_Response_payload "\<lambda>p m. m\<lparr>ctl_Response_payload := p\<rparr>" Response_oneof_payload_inflight
  ctl_Response_clear_inflight ctl_Response_has_inflight ctl_Response_set_inflight ctl_Response_get_inflight
  ctl_Response_take_inflight ctl_Response_mut_inflight ctl_InFlightResponse_new
  by unfold_locales (auto simp: ctl_Response_clear_inflight_def ctl_Response_has_inflight_def
      ctl_Response_set_inflight_def ctl_Response_get_inflight_def
      ctl_Response_take_inflight_def ctl_Response_mut_inflight_def
      ctl_InFlightResponse_default_instance_def
      split: option.splits Response_oneof_payload.splits)

section \<open>Properties\<close>

definition Command_present :: "ctl_Command \<Rightarrow> bool list" where
  "Command_present m =
     [ctl_Command_has_set m, ctl_Command_has_get m, ctl_Command_has_commit m,
      ctl_Command_has_drop m, ctl_Command_has_firehooks m, ctl_Command_has_erase m,
      ctl_Command_has_rollback m, ctl_Command_has_reset m, ctl_Command_has_dump m,
      ctl_Command_has_trigger m, ctl_Command_has_blame m, ctl_Command_has_inflight m]"

text \<open>
  C34. Of the 12 payloads of a \<open>Command\<close> at most one is present, and exactly one when the payload field
  is set; setting one makes it the one that is present, and clearing any of them leaves none.
\<close>

theorem Command_payloads_exclude_each_other:
  "count_list (Command_present m) True = (if ctl_Command_payload m = None then 0 else 1) \<and>
    Command_present (ctl_Command_set_set m s0) = replicate 0 False @ True # replicate 11 False \<and>
    Command_present (ctl_Command_set_get m g1) = replicate 1 False @ True # replicate 10 False \<and>
    Command_present (ctl_Command_set_commit m c2) = replicate 2 False @ True # replicate 9 False \<and>
    Command_present (ctl_Command_set_drop m d3) = replicate 3 False @ True # replicate 8 False \<and>
    Command_present (ctl_Command_set_firehooks m f4) = replicate 4 False @ True # replicate 7 False \<and>
    Command_present (ctl_Command_set_erase m e5) = replicate 5 False @ True # replicate 6 False \<and>
    Command_present (ctl_Command_set_rollback m r6) = replicate 6 False @ True # replicate 5 False \<and>
    Command_present (ctl_Command_set_reset m r7) = replicate 7 False @ True # replicate 4 False \<and>
    Command_present (ctl_Command_set_dump m d8) = replicate 8 False @ True # replicate 3 False \<and>
    Command_present (ctl_Command_set_trigger m t9) = replicate 9 False @ True # replicate 2 False \<and>
    Command_present (ctl_Command_set_blame m b10) = replicate 10 False @ True # replicate 1 False \<and>
    Command_present (ctl_Command_set_inflight m i11) = replicate 11 False @ True # replicate 0 False \<and>
    Command_present (ctl_Command_clear_set m) = replicate 12 False \<and>
    Command_present (ctl_Command_clear_get m) = replicate 12 False \<and>
    Command_present (ctl_Command_clear_commit m) = replicate 12 False \<and>
    Command_present (ctl_Command_clear_drop m) = replicate 12 False \<and>
    Command_present (ctl_Command_clear_firehooks m) = replicate 12 False \<and>
    Command_present (ctl_Command_clear_erase m) = replicate 12 False \<and>
    Command_present (ctl_Command_clear_rollback m) = replicate 12 False \<and>
    Command_present (ctl_Command_clear_reset m) = replicate 12 False \<and>
    Command_present (ctl_Command_clear_dump m) = replicate 12 False \<and>
    Command_present (ctl_Command_clear_trigger m) = replicate 12 False \<and>
    Command_present (ctl_Command_clear_blame m) = replicate 12 False \<and>
    Command_present (ctl_Command_clear_inflight m) = replicate 12 False"
  by (cases "ctl_Command_payload m"; cases "the (ctl_Command_payload m)")
    (simp_all add: Command_present_def ctl_Command_has_set_def ctl_Command_set_set_def ctl_Command_clear_set_def
      ctl_Command_has_get_def ctl_Command_set_get_def ctl_Command_clear_get_def
      ctl_Command_has_commit_def ctl_Command_set_commit_def ctl_Command_clear_commit_def
      ctl_Command_has_drop_def ctl_Command_set_drop_def ctl_Command_clear_drop_def
      ctl_Command_has_firehooks_def ctl_Command_set_firehooks_def
      ctl_Command_clear_firehooks_def ctl_Command_has_erase_def ctl_Command_set_erase_def
      ctl_Command_clear_erase_def ctl_Command_has_rollback_def ctl_Command_set_rollback_def
      ctl_Command_clear_rollback_def ctl_Command_has_reset_def ctl_Command_set_reset_def
      ctl_Command_clear_reset_def ctl_Command_has_dump_def ctl_Command_set_dump_def
      ctl_Command_clear_dump_def ctl_Command_has_trigger_def ctl_Command_set_trigger_def
      ctl_Command_clear_trigger_def ctl_Command_has_blame_def ctl_Command_set_blame_def
      ctl_Command_clear_blame_def ctl_Command_has_inflight_def ctl_Command_set_inflight_def
      ctl_Command_clear_inflight_def eval_nat_numeral)

definition Response_present :: "ctl_Response \<Rightarrow> bool list" where
  "Response_present m =
     [ctl_Response_has_get m, ctl_Response_has_commit m, ctl_Response_has_reset m,
      ctl_Response_has_dump m, ctl_Response_has_blame m, ctl_Response_has_inflight m]"

text \<open>
  Of the 6 payloads of a \<open>Response\<close> at most one is present, and exactly one when the payload field
  is set; setting one makes it the one that is present, and clearing any of them leaves none.
\<close>

lemma Response_payloads_exclude_each_other:
  "count_list (Response_present m) True = (if ctl_Response_payload m = None then 0 else 1) \<and>
    Response_present (ctl_Response_set_get m g0) = replicate 0 False @ True # replicate 5 False \<and>
    Response_present (ctl_Response_set_commit m c1) = replicate 1 False @ True # replicate 4 False \<and>
    Response_present (ctl_Response_set_reset m r2) = replicate 2 False @ True # replicate 3 False \<and>
    Response_present (ctl_Response_set_dump m d3) = replicate 3 False @ True # replicate 2 False \<and>
    Response_present (ctl_Response_set_blame m b4) = replicate 4 False @ True # replicate 1 False \<and>
    Response_present (ctl_Response_set_inflight m i5) = replicate 5 False @ True # replicate 0 False \<and>
    Response_present (ctl_Response_clear_get m) = replicate 6 False \<and>
    Response_present (ctl_Response_clear_commit m) = replicate 6 False \<and>
    Response_present (ctl_Response_clear_reset m) = replicate 6 False \<and>
    Response_present (ctl_Response_clear_dump m) = replicate 6 False \<and>
    Response_present (ctl_Response_clear_blame m) = replicate 6 False \<and>
    Response_present (ctl_Response_clear_inflight m) = replicate 6 False"
  by (cases "ctl_Response_payload m"; cases "the (ctl_Response_payload m)")
    (simp_all add: Response_present_def ctl_Response_has_get_def ctl_Response_set_get_def ctl_Response_clear_get_def
      ctl_Response_has_commit_def ctl_Response_set_commit_def ctl_Response_clear_commit_def
      ctl_Response_has_reset_def ctl_Response_set_reset_def ctl_Response_clear_reset_def
      ctl_Response_has_dump_def ctl_Response_set_dump_def ctl_Response_clear_dump_def
      ctl_Response_has_blame_def ctl_Response_set_blame_def ctl_Response_clear_blame_def
      ctl_Response_has_inflight_def ctl_Response_set_inflight_def
      ctl_Response_clear_inflight_def eval_nat_numeral)

text \<open>
  C40. No accessor of an alternative panics: \<open>take\<close> returns what \<open>get\<close> returns and clears the
  alternative when it is the one present, \<open>mut\<close> sets the alternative to the update of what \<open>get\<close>
  returns, although both are written with a \<open>panic!()\<close> branch.
\<close>

theorem oneof_accessors_never_panic:
  "ctl_ConfigValue_take_strval v = Inr (ctl_ConfigValue_get_strval v, if ctl_ConfigValue_has_strval v then ctl_ConfigValue_clear_strval v else v) \<and>
    (\<forall>f. ctl_ConfigValue_mut_strval v f = Inr (ctl_ConfigValue_set_strval v (f (ctl_ConfigValue_get_strval v)))) \<and>
    ctl_ConfigValue_take_int32list v = Inr (ctl_ConfigValue_get_int32list v, if ctl_ConfigValue_has_int32list v then ctl_ConfigValue_clear_int32list v else v) \<and>
    (\<forall>f. ctl_ConfigValue_mut_int32list v f = Inr (ctl_ConfigValue_set_int32list v (f (ctl_ConfigValue_get_int32list v)))) \<and>
    ctl_ConfigValue_take_boollist v = Inr (ctl_ConfigValue_get_boollist v, if ctl_ConfigValue_has_boollist v then ctl_ConfigValue_clear_boollist v else v) \<and>
    (\<forall>f. ctl_ConfigValue_mut_boollist v f = Inr (ctl_ConfigValue_set_boollist v (f (ctl_ConfigValue_get_boollist v)))) \<and>
    ctl_ConfigValue_take_stringlist v = Inr (ctl_ConfigValue_get_stringlist v, if ctl_ConfigValue_has_stringlist v then ctl_ConfigValue_clear_stringlist v else v) \<and>
    (\<forall>f. ctl_ConfigValue_mut_stringlist v f = Inr (ctl_ConfigValue_set_stringlist v (f (ctl_ConfigValue_get_stringlist v)))) \<and>
    ctl_Command_take_set c = Inr (ctl_Command_get_set c, if ctl_Command_has_set c then ctl_Command_clear_set c else c) \<and>
    (\<forall>f. ctl_Command_mut_set c f = Inr (ctl_Command_set_set c (f (ctl_Command_get_set c)))) \<and>
    ctl_Command_take_get c = Inr (ctl_Command_get_get c, if ctl_Command_has_get c then ctl_Command_clear_get c else c) \<and>
    (\<forall>f. ctl_Command_mut_get c f = Inr (ctl_Command_set_get c (f (ctl_Command_get_get c)))) \<and>
    ctl_Command_take_commit c = Inr (ctl_Command_get_commit c, if ctl_Command_has_commit c then ctl_Command_clear_commit c else c) \<and>
    (\<forall>f. ctl_Command_mut_commit c f = Inr (ctl_Command_set_commit c (f (ctl_Command_get_commit c)))) \<and>
    ctl_Command_take_drop c = Inr (ctl_Command_get_drop c, if ctl_Command_has_drop c then ctl_Command_clear_drop c else c) \<and>
    (\<forall>f. ctl_Command_mut_drop c f = Inr (ctl_Command_set_drop c (f (ctl_Command_get_drop c)))) \<and>
    ctl_Command_take_firehooks c = Inr (ctl_Command_get_firehooks c, if ctl_Command_has_firehooks c then ctl_Command_clear_firehooks c else c) \<and>
    (\<forall>f. ctl_Command_mut_firehooks c f = Inr (ctl_Command_set_firehooks c (f (ctl_Command_get_firehooks c)))) \<and>
    ctl_Command_take_erase c = Inr (ctl_Command_get_erase c, if ctl_Command_has_erase c then ctl_Command_clear_erase c else c) \<and>
    (\<forall>f. ctl_Command_mut_erase c f = Inr (ctl_Command_set_erase c (f (ctl_Command_get_erase c)))) \<and>
    ctl_Command_take_rollback c = Inr (ctl_Command_get_rollback c, if ctl_Command_has_rollback c then ctl_Command_clear_rollback c else c) \<and>
    (\<forall>f. ctl_Command_mut_rollback c f = Inr (ctl_Command_set_rollback c (f (ctl_Command_get_rollback c)))) \<and>
    ctl_Command_take_reset c = Inr (ctl_Command_get_reset c, if ctl_Command_has_reset c then ctl_Command_clear_reset c else c) \<and>
    (\<forall>f. ctl_Command_mut_reset c f = Inr (ctl_Command_set_reset c (f (ctl_Command_get_reset c)))) \<and>
    ctl_Command_take_dump c = Inr (ctl_Command_get_dump c, if ctl_Command_has_dump c then ctl_Command_clear_dump c else c) \<and>
    (\<forall>f. ctl_Command_mut_dump c f = Inr (ctl_Command_set_dump c (f (ctl_Command_get_dump c)))) \<and>
    ctl_Command_take_trigger c = Inr (ctl_Command_get_trigger c, if ctl_Command_has_trigger c then ctl_Command_clear_trigger c else c) \<and>
    (\<forall>f. ctl_Command_mut_trigger c f = Inr (ctl_Command_set_trigger c (f (ctl_Command_get_trigger c)))) \<and>
    ctl_Command_take_blame c = Inr (ctl_Command_get_blame c, if ctl_Command_has_blame c then ctl_Command_clear_blame c else c) \<and>
    (\<forall>f. ctl_Command_mut_blame c f = Inr (ctl_Command_set_blame c (f (ctl_Command_get_blame c)))) \<and>
    ctl_Command_take_inflight c = Inr (ctl_Command_get_inflight c, if ctl_Command_has_inflight c then ctl_Command_clear_inflight c else c) \<and>
    (\<forall>f. ctl_Command_mut_inflight c f = Inr (ctl_Command_set_inflight c (f (ctl_Command_get_inflight c)))) \<and>
    ctl_Response_take_get r = Inr (ctl_Response_get_get r, if ctl_Response_has_get r then ctl_Response_clear_get r else r) \<and>
    (\<forall>f. ctl_Response_mut_get r f = Inr (ctl_Response_set_get r (f (ctl_Response_get_get r)))) \<and>
    ctl_Response_take_commit r = Inr (ctl_Response_get_commit r, if ctl_Response_has_commit r then ctl_Response_clear_commit r else r) \<and>
    (\<forall>f. ctl_Response_mut_commit r f = Inr (ctl_Response_set_commit r (f (ctl_Response_get_commit r)))) \<and>
    ctl_Response_take_reset r = Inr (ctl_Response_get_reset r, if ctl_Response_has_reset r then ctl_Response_clear_reset r else r) \<and>
    (\<forall>f. ctl_Response_mut_reset r f = Inr (ctl_Response_set_reset r (f (ctl_Response_get_reset r)))) \<and>
    ctl_Response_take_dump r = Inr (ctl_Response_get_dump r, if ctl_Response_has_dump r then ctl_Response_clear_dump r else r) \<and>
    (\<forall>f. ctl_Response_mut_dump r f = Inr (ctl_Response_set_dump r (f (ctl_Response_get_dump r)))) \<and>
    ctl_Response_take_blame r = Inr (ctl_Response_get_blame r, if ctl_Response_has_blame r then ctl_Response_clear_blame r else r) \<and>
    (\<forall>f. ctl_Response_mut_blame r f = Inr (ctl_Response_set_blame r (f (ctl_Response_get_blame r)))) \<and>
    ctl_Response_take_inflight r = Inr (ctl_Response_get_inflight r, if ctl_Response_has_inflight r then ctl_Response_clear_inflight r else r) \<and>
    (\<forall>f. ctl_Response_mut_inflight r f = Inr (ctl_Response_set_inflight r (f (ctl_Response_get_inflight r))))"
  by (intro conjI allI)
    (rule ConfigValue_strval.take_get ConfigValue_strval.mut_get ConfigValue_int32list.take_get
      ConfigValue_int32list.mut_get ConfigValue_boollist.take_get
      ConfigValue_boollist.mut_get ConfigValue_stringlist.take_get
      ConfigValue_stringlist.mut_get Command_set.take_get Command_set.mut_get
      Command_get.take_get Command_get.mut_get Command_commit.take_get
      Command_commit.mut_get Command_drop.take_get Command_drop.mut_get
      Command_firehooks.take_get Command_firehooks.mut_get Command_erase.take_get
      Command_erase.mut_get Command_rollback.take_get Command_rollback.mut_get
      Command_reset.take_get Command_reset.mut_get Command_dump.take_get
      Command_dump.mut_get Command_trigger.take_get Command_trigger.mut_get
      Command_blame.take_get Command_blame.mut_get Command_inflight.take_get
      Command_inflight.mut_get Response_get.take_get Response_get.mut_get
      Response_commit.take_get Response_commit.mut_get Response_reset.take_get
      Response_reset.mut_get Response_dump.take_get Response_dump.mut_get
      Response_blame.take_get Response_blame.mut_get Response_inflight.take_get
      Response_inflight.mut_get)+

end
