(* ===== verification/Bounds.thy ===== *)
theory Bounds
  imports Client_Commands Codec_Facts
begin

text \<open>
  How large commands are on the wire: a constant above the strings and lists they carry.  With it
  the assumption that an encoding is below 2 GiB (\<open>small\<close>) follows from the sizes of what the
  caller passes in, and the \<open>u32\<close> sums of \<open>compute_size\<close> do not wrap around, for each of the
  twelve commands as the client builds it.
\<close>

section \<open>Lengths of fields\<close>

lemma length_varint_le: "n < 128 ^ Suc k \<Longrightarrow> length (varint n) \<le> Suc k"
proof (induction k arbitrary: n)
  case 0
  then show ?case by (simp add: varint_small)
next
  case (Suc k)
  then have "n div 128 < 128 ^ Suc k"
    by (simp add: less_mult_imp_div_less mult.commute)
  with Suc.IH have "length (varint (n div 128)) \<le> Suc k" by blast
  then show ?case by (simp add: varint.simps [of n])
qed

lemma length_enc_bool_eq: "unat f < 16 \<Longrightarrow> length (enc_bool f b) = 2"
  by (simp add: enc_bool_def length_wire_tag)

lemma length_enc_uint32_le: "unat f < 16 \<Longrightarrow> length (enc_uint32 f v) \<le> 6"
proof -
  have "unat v < 2 ^ 32"
    by (rule order_less_le_trans [OF unsigned_less]) simp
  then have "unat v < 128 ^ Suc 4" by simp
  then show "unat f < 16 \<Longrightarrow> length (enc_uint32 f v) \<le> 6"
    using length_varint_le [of "unat v" 4]
    by (simp add: enc_uint32_def length_wire_tag)
qed

lemma length_enc_int32_le: "unat f < 16 \<Longrightarrow> length (enc_int32 f v) \<le> 11"
proof -
  have "unat (scast v :: 64 word) < 2 ^ 64"
    by (rule order_less_le_trans [OF unsigned_less]) simp
  then have "unat (scast v :: 64 word) < 128 ^ Suc 9" by simp
  then show "unat f < 16 \<Longrightarrow> length (enc_int32 f v) \<le> 11"
    using length_varint_le [of "unat (scast v :: 64 word)" 9]
    by (simp add: enc_int32_def int32_varint_def length_wire_tag)
qed

text \<open>A number that is not negative takes at most 5 bytes after its tag, a negative one takes 10.\<close>

definition int32_size :: "i32 \<Rightarrow> nat" where
  "int32_size v = (if v <s 0 then 11 else 6)"

lemma length_enc_int32_size: "unat f < 16 \<Longrightarrow> length (enc_int32 f v) \<le> int32_size v"
proof (cases "v <s 0")
  case False
  then have "sint v = uint v"
    using sint_lt [of v] uint_sint [of v] by (simp add: word_sless_alt take_bit_int_eq_self)
  then have "scast v = (ucast v :: 64 word)"
    by (metis word_of_int_uint scast_eq ucast_eq)
  moreover have "unat v < 2 ^ 32"
    by (rule order_less_le_trans [OF unsigned_less]) simp
  moreover from this have "unat (ucast v :: 64 word) = unat v"
    by (simp add: unsigned_ucast_eq take_bit_nat_eq_self)
  ultimately have "unat (scast v :: 64 word) = unat v" and "unat v < 128 ^ Suc 4"
    by simp_all
  then show "unat f < 16 \<Longrightarrow> ?thesis"
    using length_varint_le [of "unat v" 4] False
    by (simp add: int32_size_def enc_int32_def int32_varint_def length_wire_tag)
qed (simp add: int32_size_def length_enc_int32_le)

lemma length_delimited_le: "length b < 2 ^ 31 \<Longrightarrow> length (delimited b) \<le> 5 + length b"
  using length_varint_le [of "length b" 4] by (simp add: length_delimited)

lemma length_enc_string_le:
  "unat f < 16 \<Longrightarrow> length s < 2 ^ 31 \<Longrightarrow> length (enc_string f s) \<le> 6 + length s"
  using length_delimited_le [of "string_bytes s"]
  by (simp add: enc_string_def length_wire_tag)

lemma length_enc_message_le:
  "length (wire_tag f WireTypeLengthDelimited) \<le> t \<Longrightarrow> length b \<le> n \<Longrightarrow> n < 2 ^ 31 \<Longrightarrow>
     length (enc_message f b) \<le> t + 5 + n"
  using length_delimited_le [of b] by (simp add: enc_message_def)

lemma length_concat_le:
  "(\<And>x. x \<in> set xs \<Longrightarrow> length (f x) \<le> g x) \<Longrightarrow> length (concat (map f xs)) \<le> sum_list (map g xs)"
  by (induction xs) (auto intro: add_mono)

section \<open>Values\<close>

text \<open>What a value takes at most inside its \<open>ConfigValue\<close>.\<close>

definition value_size :: "SysadminValue \<Rightarrow> nat" where
  "value_size v =
     (case v of
        Int32 x \<Rightarrow> int32_size x
      | Strval s \<Rightarrow> 6 + length s
      | Bool b \<Rightarrow> 2
      | Int32List xs \<Rightarrow> 6 + sum_list (map int32_size xs)
      | BoolList bs \<Rightarrow> 6 + 2 * length bs
      | StrvalList ss \<Rightarrow> 6 + sum_list (map (\<lambda>s. 6 + length s) ss))"

lemma sum_list_member: "x \<in> set xs \<Longrightarrow> f x \<le> (sum_list (map f xs) :: nat)"
  by (induction xs) auto

lemma length_value_le:
  assumes "value_size v < 2 ^ 30"
  shows "length (ctl_ConfigValue_wire (ctl_ConfigValue_from v)) \<le> value_size v"
proof (cases v)
  case (Int32List xs)
  have "length (concat (map (enc_int32 1) xs)) \<le> sum_list (map int32_size xs)"
    by (rule length_concat_le) (simp add: length_enc_int32_size)
  then have "length (enc_message 4 (concat (map (enc_int32 1) xs)))
      \<le> 1 + 5 + sum_list (map int32_size xs)"
    using assms Int32List
    by (intro length_enc_message_le) (simp_all add: length_wire_tag value_size_def)
  with Int32List show ?thesis
    by (simp add: value_size_def value_defs ctl_ConfigValue_wire_def ctl_Int32List_wire_def)
next
  case (BoolList bs)
  have "length (concat (map (enc_bool 1) bs)) \<le> sum_list (map (\<lambda>_. 2) bs)"
    by (rule length_concat_le) (simp add: length_enc_bool_eq)
  then have "length (enc_message 5 (concat (map (enc_bool 1) bs))) \<le> 1 + 5 + 2 * length bs"
    using assms BoolList
    by (intro length_enc_message_le) (simp_all add: length_wire_tag sum_list_triv value_size_def mult.commute)
  with BoolList show ?thesis
    by (simp add: value_size_def value_defs ctl_ConfigValue_wire_def ctl_BoolList_wire_def)
next
  case (StrvalList ss)
  have s: "length s < 2 ^ 31" if "s \<in> set ss" for s
    using sum_list_member [OF that, of "\<lambda>s. 6 + length s"] assms StrvalList
    by (simp add: value_size_def)
  have "length (concat (map (enc_string 1) ss)) \<le> sum_list (map (\<lambda>s. 6 + length s) ss)"
    by (rule length_concat_le) (rule length_enc_string_le, simp, rule s)
  then have "length (enc_message 6 (concat (map (enc_string 1) ss)))
      \<le> 1 + 5 + sum_list (map (\<lambda>s. 6 + length s) ss)"
    using assms StrvalList
    by (intro length_enc_message_le) (simp_all add: length_wire_tag value_size_def)
  with StrvalList show ?thesis
    by (simp add: value_size_def value_defs ctl_ConfigValue_wire_def ctl_StringList_wire_def)
next
  case (Strval s)
  with assms show ?thesis
    using length_enc_string_le [of 2 s]
    by (simp add: value_size_def value_defs ctl_ConfigValue_wire_def)
qed (simp_all add: value_size_def value_defs ctl_ConfigValue_wire_def length_enc_int32_size length_enc_bool_eq)

section \<open>Commands\<close>

text \<open>The id and the xid take 12 bytes; what a payload adds is bounded by what it carries.\<close>

lemma length_command_le:
  "length (ctl_Command_wire (command i x p)) \<le> 12 + length (Command_oneof_payload_wire p)"
  using length_enc_uint32_le [of 6 i] length_enc_uint32_le [of 10 x]
  by (simp add: command_facts)

lemma length_field_command_le:
  assumes "unat f < 16" and "length b \<le> n" and "n < 2 ^ 31"
    and "Command_oneof_payload_wire p = enc_message f b"
  shows "length (ctl_Command_wire (command i x p)) \<le> 18 + n"
  using length_command_le [of i x p] length_enc_message_le [of f 1 b n] assms
  by (simp add: length_wire_tag)

lemma Set_length_le:
  assumes "length (Set_key s) + value_size (Set_value s) < 2 ^ 30"
  shows "length (ctl_Command_wire (command i x (Set_payload s)))
    \<le> 30 + length (Set_key s) + value_size (Set_value s)"
proof -
  let ?v = "ctl_ConfigValue_wire (ctl_ConfigValue_from (Set_value s))"
  have "length (enc_message 2 ?v) \<le> 1 + 5 + value_size (Set_value s)"
    using assms length_value_le [of "Set_value s"]
    by (intro length_enc_message_le) (simp_all add: length_wire_tag)
  moreover have "length (enc_string 1 (Set_key s)) \<le> 6 + length (Set_key s)"
    using assms by (intro length_enc_string_le) simp_all
  ultimately have "length (enc_string 1 (Set_key s) @ enc_message 2 ?v)
      \<le> 12 + length (Set_key s) + value_size (Set_value s)"
    by simp
  then have "length (ctl_Command_wire (command i x (Set_payload s)))
      \<le> 18 + (12 + length (Set_key s) + value_size (Set_value s))"
    using assms
    by (intro length_field_command_le [of 1]) (simp_all add: Set_payload_def ctl_Set_wire_def)
  then show ?thesis by simp
qed

lemma one_string_length_le:
  assumes "Command_oneof_payload_wire p = enc_message f (enc_string 1 k)" and "unat f < 16"
    and "length k < 2 ^ 30"
  shows "length (ctl_Command_wire (command i x p)) \<le> 24 + length k"
  using length_field_command_le [OF assms(2), of "enc_string 1 k" "6 + length k" p i x]
    length_enc_string_le [of 1 k] assms by simp

lemma Get_length_le: "length (Get_key c) < 2 ^ 30 \<Longrightarrow>
    length (ctl_Command_wire (command i x (Get_payload c))) \<le> 24 + length (Get_key c)"
  and EraseKey_length_le: "length (EraseKey_key e) < 2 ^ 30 \<Longrightarrow>
    length (ctl_Command_wire (command i x (EraseKey_payload e))) \<le> 24 + length (EraseKey_key e)"
  and TriggerHook_length_le: "length (TriggerHook_hook t) < 2 ^ 30 \<Longrightarrow>
    length (ctl_Command_wire (command i x (TriggerHook_payload t))) \<le> 24 + length (TriggerHook_hook t)"
  and Blame_length_le: "length (Blame_key b) < 2 ^ 30 \<Longrightarrow>
    length (ctl_Command_wire (command i x (Blame_payload b))) \<le> 24 + length (Blame_key b)"
  by (rule one_string_length_le [of _ 2], simp_all add: Get_payload_def ctl_Get_wire_def)
    (rule one_string_length_le [of _ 8], simp_all add: EraseKey_payload_def ctl_EraseKey_wire_def,
     rule one_string_length_le [of _ 14], simp_all add: TriggerHook_payload_def ctl_TriggerHook_wire_def,
     rule one_string_length_le [of _ 15], simp_all add: Blame_payload_def ctl_Blame_wire_def)

lemma Commit_length_le: "length (ctl_Command_wire (command i x (Commit_payload c))) \<le> 29"
  using length_field_command_le [of 3 "enc_int32 1 (ctl_CommitConfig_value (ctl_CommitConfig_from (Commit_config c)))"
      11 "Commit_payload c" i x] length_enc_int32_le [of 1]
  by (simp add: Commit_payload_def ctl_Commit_wire_def)

lemma Rollback_length_le: "length (ctl_Command_wire (command i x (Rollback_payload r))) \<le> 24"
  using length_field_command_le [of 11 "enc_uint32 1 (Rollback_id r)" 6 "Rollback_payload r" i x]
    length_enc_uint32_le [of 1]
  by (simp add: Rollback_payload_def ctl_Rollback_wire_def)

lemma plain_length_le:
  "length (ctl_Command_wire (command i x (Drop_payload d))) \<le> 14"
  "length (ctl_Command_wire (command i x (FireHooks_payload f))) \<le> 14"
  "length (ctl_Command_wire (command i x (Reset_payload r))) \<le> 14"
  "length (ctl_Command_wire (command i x (DumpHooks_payload h))) \<le> 14"
  "length (ctl_Command_wire (command i x (InFlight_payload n))) \<le> 15"
  using length_command_le [of i x]
  by (rule order_trans, simp add: payload_defs enc_message_def delimited_def varint_small length_wire_tag
      ctl_Drop_wire_def ctl_FireHooks_wire_def ctl_Reset_wire_def ctl_DumpHooks_wire_def
      ctl_InFlight_wire_def)+

section \<open>Computed sizes\<close>

text \<open>
  A command can be sent: it is written, in at most \<open>n\<close> bytes, and the \<open>u32\<close> that \<open>compute_size\<close>
  gives is the number of bytes.
\<close>

definition sized :: "protobuf \<Rightarrow> ctl_Command \<Rightarrow> nat \<Rightarrow> bool" where
  "sized rt c n \<longleftrightarrow>
     (\<exists>b. write_to_bytes (pb_entry_Command rt) (ctl_Command_message rt) c = Inr b \<and>
       unat (fst (ctl_Command_compute_size rt c)) = length b \<and> length b \<le> n)"

context client_command begin

lemma request_sized:
  assumes "protobuf_runtime rt" and "valid x"
    and "\<And>i j. length (ctl_Command_wire (command i j (payload x))) \<le> n" and "n < 2 ^ 31"
  shows "sized rt (set_payload (into_buf x) (make_command client)) n"
proof -
  let ?c = "command (client_id client) (client_xid client) (payload x)"
  have "small (ctl_Command_wire ?c)"
    using assms(3) [of "client_id client" "client_xid client"] assms(4) by (simp add: small_def)
  then obtain b where "write_to_bytes (pb_entry_Command rt) (ctl_Command_message rt) ?c = Inr b"
      "length b = unat (fst (ctl_Command_compute_size rt ?c))" and "b = ctl_Command_wire ?c"
    using protobuf_runtime.Command_written_parsed [OF assms(1), of ?c]
      protobuf_runtime.Command_written [OF assms(1), of ?c] assms(2)
    by (auto simp: command_ready)
  moreover have "length (ctl_Command_wire ?c) \<le> n" by (rule assms(3))
  ultimately show ?thesis by (simp add: sized_def set_payload_command)
qed

end

end
