(* ===== verification/Schema_Required.thy ===== *)
theory Schema_Required
  imports Schema_Codec
begin

text \<open>
  The required fields.  \<open>reflect_complete\<close> is a reference check that knows nothing of the message
  types: a message is complete when each field the embedded schema declares as required is present
  as its registered accessor reads it, and each message that is the value of a field is complete.
  It agrees with \<open>is_initialized\<close> of every message type.
\<close>

section \<open>The reference check\<close>

primrec value_complete :: "(dyn \<Rightarrow> panic + bool) \<Rightarrow> ProtobufValueRef \<Rightarrow> panic + bool" where
  "value_complete complete (RefU32 v) = Inr True"
| "value_complete complete (RefI32 v) = Inr True"
| "value_complete complete (RefBool v) = Inr True"
| "value_complete complete (RefString v) = Inr True"
| "value_complete complete (RefEnum e) = Inr True"
| "value_complete complete (RefMessage d) = complete d"

definition field_complete ::
    "(dyn \<Rightarrow> panic + bool) \<Rightarrow> (string \<times> ProtobufValueRef list) list \<Rightarrow> FieldDescriptorProto
      \<Rightarrow> panic + bool" where
  "field_complete complete values d =
     (case map_of values (fd_name d) of
        None \<Rightarrow> Inl (Panicked ''no accessor for the field'')
      | Some vs \<Rightarrow>
          and_then (map_result (value_complete complete) vs) (\<lambda>bs.
            Inr ((fd_label d = LABEL_REQUIRED \<longrightarrow> vs \<noteq> []) \<and> list_all id bs)))"

primrec reflect_complete :: "descriptor_rt \<Rightarrow> nat \<Rightarrow> dyn \<Rightarrow> panic + bool" where
  "reflect_complete R 0 d = Inl (Panicked ''nested too deep'')"
| "reflect_complete R (Suc n) d =
     and_then (dyn_view R d) (\<lambda>(name, values, file).
       case find_message file name of
         None \<Rightarrow> Inl (Panicked ''no such message'')
       | Some desc \<Rightarrow>
           and_then (map_result (field_complete (reflect_complete R n) values) (msgd_field desc))
             (\<lambda>bs. Inr (list_all id bs)))"

lemmas reflect_complete_Suc = reflect_complete.simps(2)

declare reflect_complete.simps(2) [simp del]

section \<open>The generated checks\<close>

lemma scalars_complete [simp]:
  "map_result (value_complete complete) (map RefString xs) = Inr (map (\<lambda>_. True) xs)"
  "map_result (value_complete complete) (map RefI32 is) = Inr (map (\<lambda>_. True) is)"
  "map_result (value_complete complete) (map RefBool bs) = Inr (map (\<lambda>_. True) bs)"
proof -
  show "map_result (value_complete complete) (map RefString xs) = Inr (map (\<lambda>_. True) xs)"
    by (induction xs) simp_all
  show "map_result (value_complete complete) (map RefI32 is) = Inr (map (\<lambda>_. True) is)"
    by (induction "is") simp_all
  show "map_result (value_complete complete) (map RefBool bs) = Inr (map (\<lambda>_. True) bs)"
    by (induction bs) simp_all
qed

lemma messages_complete [simp]:
  "(\<And>v. v \<in> set vs \<Longrightarrow> complete (C v) = Inr (ok v)) \<Longrightarrow>
     map_result (value_complete complete) (map (\<lambda>v. RefMessage (C v)) vs) = Inr (map ok vs)"
  by (induction vs) simp_all

lemma list_all_map_id [simp]: "list_all id (map f xs) = list_all f xs"
  by (simp add: list_all_iff)

lemma list_all_True [simp]: "list_all (\<lambda>_. True) xs"
  by (simp add: list_all_iff)

context descriptor_runtime begin

lemmas complete_eval = reflect_reads reflect descriptors find_messages file_descriptor_proto_is
  field_complete_def present_def

lemma complete_Int32List: "reflect_complete R (Suc n) (Dyn_Int32List m) = Inr (ctl_Int32List_is_initialized m)"
  by (subst reflect_complete_Suc, simp add: complete_eval ctl_Int32List_is_initialized_def split: option.split)

lemma complete_BoolList: "reflect_complete R (Suc n) (Dyn_BoolList m) = Inr (ctl_BoolList_is_initialized m)"
  by (subst reflect_complete_Suc, simp add: complete_eval ctl_BoolList_is_initialized_def split: option.split)

lemma complete_StringList: "reflect_complete R (Suc n) (Dyn_StringList m) = Inr (ctl_StringList_is_initialized m)"
  by (subst reflect_complete_Suc, simp add: complete_eval ctl_StringList_is_initialized_def split: option.split)

lemma complete_Get: "reflect_complete R (Suc n) (Dyn_Get m) = Inr (ctl_Get_is_initialized m)"
  by (subst reflect_complete_Suc, simp add: complete_eval ctl_Get_is_initialized_def split: option.split)

lemma complete_Commit: "reflect_complete R (Suc n) (Dyn_Commit m) = Inr (ctl_Commit_is_initialized m)"
  using CommitConfig_as_ref [of "the (ctl_Commit_config m)"]
  by (subst reflect_complete_Suc, auto simp: complete_eval ctl_Commit_is_initialized_def split: option.split)

lemma complete_Drop: "reflect_complete R (Suc n) (Dyn_Drop m) = Inr (ctl_Drop_is_initialized m)"
  by (subst reflect_complete_Suc, simp add: complete_eval ctl_Drop_is_initialized_def split: option.split)

lemma complete_FireHooks: "reflect_complete R (Suc n) (Dyn_FireHooks m) = Inr (ctl_FireHooks_is_initialized m)"
  by (subst reflect_complete_Suc, simp add: complete_eval ctl_FireHooks_is_initialized_def split: option.split)

lemma complete_Rollback: "reflect_complete R (Suc n) (Dyn_Rollback m) = Inr (ctl_Rollback_is_initialized m)"
  by (subst reflect_complete_Suc, simp add: complete_eval ctl_Rollback_is_initialized_def split: option.split)

lemma complete_EraseKey: "reflect_complete R (Suc n) (Dyn_EraseKey m) = Inr (ctl_EraseKey_is_initialized m)"
  by (subst reflect_complete_Suc, simp add: complete_eval ctl_EraseKey_is_initialized_def split: option.split)

lemma complete_Reset: "reflect_complete R (Suc n) (Dyn_Reset m) = Inr (ctl_Reset_is_initialized m)"
  by (subst reflect_complete_Suc, simp add: complete_eval ctl_Reset_is_initialized_def split: option.split)

lemma complete_DumpHooks: "reflect_complete R (Suc n) (Dyn_DumpHooks m) = Inr (ctl_DumpHooks_is_initialized m)"
  by (subst reflect_complete_Suc, simp add: complete_eval ctl_DumpHooks_is_initialized_def split: option.split)

lemma complete_TriggerHook: "reflect_complete R (Suc n) (Dyn_TriggerHook m) = Inr (ctl_TriggerHook_is_initialized m)"
  by (subst reflect_complete_Suc, simp add: complete_eval ctl_TriggerHook_is_initialized_def split: option.split)

lemma complete_Blame: "reflect_complete R (Suc n) (Dyn_Blame m) = Inr (ctl_Blame_is_initialized m)"
  by (subst reflect_complete_Suc, simp add: complete_eval ctl_Blame_is_initialized_def split: option.split)

lemma complete_InFlight: "reflect_complete R (Suc n) (Dyn_InFlight m) = Inr (ctl_InFlight_is_initialized m)"
  by (subst reflect_complete_Suc, simp add: complete_eval ctl_InFlight_is_initialized_def split: option.split)

lemma complete_CommitResponse: "reflect_complete R (Suc n) (Dyn_CommitResponse m) = Inr (ctl_CommitResponse_is_initialized m)"
  by (subst reflect_complete_Suc, simp add: complete_eval ctl_CommitResponse_is_initialized_def split: option.split)

lemma complete_ResetResponse: "reflect_complete R (Suc n) (Dyn_ResetResponse m) = Inr (ctl_ResetResponse_is_initialized m)"
  by (subst reflect_complete_Suc, simp add: complete_eval ctl_ResetResponse_is_initialized_def split: option.split)

lemma complete_DumpResponse: "reflect_complete R (Suc n) (Dyn_DumpResponse m) = Inr (ctl_DumpResponse_is_initialized m)"
  by (subst reflect_complete_Suc, simp add: complete_eval ctl_DumpResponse_is_initialized_def split: option.split)

lemma complete_ConfigValue: "reflect_complete R (Suc (Suc n)) (Dyn_ConfigValue m) = Inr (ctl_ConfigValue_is_initialized m)"
proof (cases "ctl_ConfigValue_value m")
  case None
  then show ?thesis
    by (subst reflect_complete_Suc, auto simp: complete_eval ctl_ConfigValue_is_initialized_def msg_defs split: option.split)
next
  case (Some p)
  then show ?thesis
    by (subst reflect_complete_Suc, cases p) (auto simp: complete_eval ctl_ConfigValue_is_initialized_def msg_defs
        complete_Int32List complete_BoolList complete_StringList split: option.split)
qed

lemma complete_Set: "reflect_complete R (Suc (Suc (Suc n))) (Dyn_Set m) = Inr (ctl_Set_is_initialized m)"
  by (subst reflect_complete_Suc, simp add: complete_eval ctl_Set_is_initialized_def complete_ConfigValue split: option.split)

lemma complete_MappedField: "reflect_complete R (Suc (Suc (Suc n))) (Dyn_MappedField m) = Inr (ctl_MappedField_is_initialized m)"
  by (subst reflect_complete_Suc, simp add: complete_eval ctl_MappedField_is_initialized_def complete_ConfigValue split: option.split)

lemma complete_BlameEntry: "reflect_complete R (Suc (Suc (Suc n))) (Dyn_BlameEntry m) = Inr (ctl_BlameEntry_is_initialized m)"
  by (subst reflect_complete_Suc, simp add: complete_eval ctl_BlameEntry_is_initialized_def complete_ConfigValue split: option.split)

lemma complete_Command: "reflect_complete R (Suc (Suc (Suc (Suc n)))) (Dyn_Command m) = Inr (ctl_Command_is_initialized m)"
proof (cases "ctl_Command_payload m")
  case None
  then show ?thesis
    by (subst reflect_complete_Suc, auto simp: complete_eval ctl_Command_is_initialized_def msg_defs split: option.split)
next
  case (Some p)
  then show ?thesis
    by (subst reflect_complete_Suc, cases p) (auto simp: complete_eval ctl_Command_is_initialized_def msg_defs
        complete_Set complete_Get complete_Commit complete_Drop complete_FireHooks
        complete_Rollback complete_EraseKey complete_Reset complete_DumpHooks complete_TriggerHook
        complete_Blame complete_InFlight split: option.split)
qed

lemma complete_GetResponse: "reflect_complete R (Suc (Suc (Suc (Suc n)))) (Dyn_GetResponse m) = Inr (ctl_GetResponse_is_initialized m)"
  by (subst reflect_complete_Suc, simp add: complete_eval ctl_GetResponse_is_initialized_def complete_MappedField split: option.split)

lemma complete_BlameResponse: "reflect_complete R (Suc (Suc (Suc (Suc n)))) (Dyn_BlameResponse m) = Inr (ctl_BlameResponse_is_initialized m)"
  by (subst reflect_complete_Suc, simp add: complete_eval ctl_BlameResponse_is_initialized_def complete_BlameEntry split: option.split)

lemma complete_InFlightResponse: "reflect_complete R (Suc (Suc (Suc (Suc n)))) (Dyn_InFlightResponse m) = Inr (ctl_InFlightResponse_is_initialized m)"
  by (subst reflect_complete_Suc, simp add: complete_eval ctl_InFlightResponse_is_initialized_def complete_MappedField split: option.split)

lemma complete_Response: "reflect_complete R (Suc (Suc (Suc (Suc (Suc n))))) (Dyn_Response m) = Inr (ctl_Response_is_initialized m)"
proof (cases "ctl_Response_payload m")
  case None
  then show ?thesis
    using StatusCode_as_ref [of "the (ctl_Response_status m)"]
    by (subst reflect_complete_Suc, auto simp: complete_eval ctl_Response_is_initialized_def msg_defs split: option.split)
next
  case (Some p)
  then show ?thesis
    using StatusCode_as_ref [of "the (ctl_Response_status m)"]
    by (subst reflect_complete_Suc, cases p) (auto simp: complete_eval ctl_Response_is_initialized_def msg_defs
        complete_GetResponse complete_CommitResponse complete_ResetResponse complete_DumpResponse
        complete_BlameResponse complete_InFlightResponse split: option.split)
qed

end

end
