(* ===== verification/Build_Script.thy ===== *)
theory Build_Script
  imports Prelude
begin

text \<open>
  The build script (\<open>clients/rust/build.rs\<close>): it runs the protobuf compiler to regenerate
  \<open>sysadminctl.rs\<close> and lets a failure of that run pass on a documentation server that has the
  generated file already.  What it asks of its environment is the record \<open>build_env\<close>; the lines it
  prints are not modelled.
\<close>

section \<open>The environment\<close>

text \<open>
  \<open>current_dir\<close>: \<open>None\<close> for an error, \<open>Some None\<close> for a path that is not UTF-8.
  \<open>metadata_is_file\<close>: \<open>None\<close> where \<open>fs::metadata\<close> fails.  \<open>protoc_run\<close>: the compiler run panics,
  returns an error (with the text it shows), or succeeds.
\<close>

record build_env =
  current_dir :: "string option option"
  manifest_dir_var :: "string option"
  metadata_is_file :: "string \<Rightarrow> bool option"
  protoc_run :: "panic + (string + unit)"

text \<open>\<open>str::contains\<close> and \<open>PathBuf::push\<close> of a relative path.\<close>

fun contains :: "string \<Rightarrow> string \<Rightarrow> bool" where
  "contains [] t \<longleftrightarrow> t = []"
| "contains (c # s) t \<longleftrightarrow> take (length t) (c # s) = t \<or> contains s t"

lemma contains_iff: "contains s t \<longleftrightarrow> (\<exists>a b. s = a @ t @ b)"
proof (induction s)
  case Nil
  then show ?case by auto
next
  case (Cons c s)
  have "(\<exists>a b. c # s = a @ t @ b) \<longleftrightarrow> (\<exists>b. c # s = t @ b) \<or> (\<exists>a b. s = a @ t @ b)"
    by (metis append_Cons append_Nil neq_Nil_conv list.inject)
  moreover have "take (length t) (c # s) = t \<longleftrightarrow> (\<exists>b. c # s = t @ b)"
    by (metis append_eq_conv_conj append_take_drop_id)
  ultimately show ?case
    using Cons.IH by simp
qed

definition path_push :: "string \<Rightarrow> string \<Rightarrow> string" where
  "path_push p s = (if p = [] \<or> last p = CHR ''/'' then p @ s else p @ ''/'' @ s)"

section \<open>The script\<close>

definition expect :: "string + 'a \<Rightarrow> string \<Rightarrow> panic + 'a" where
  "expect r msg = (case r of Inl e \<Rightarrow> Inl (Panicked (msg @ '': '' @ e)) | Inr a \<Rightarrow> Inr a)"

definition build_main :: "build_env \<Rightarrow> panic + unit" where
  "build_main env =
     (let curdir_str = (case current_dir env of
            Some p \<Rightarrow> (case p of Some s \<Rightarrow> s | None \<Rightarrow> '''')
          | None \<Rightarrow> '''');
          has_cratesfyi = contains curdir_str ''cratesfyi'';
          manifest_dir = (case manifest_dir_var env of Some d \<Rightarrow> d | None \<Rightarrow> '''');
          pbuf_rs_file = manifest_dir;
          pbuf_rs_file = path_push pbuf_rs_file ''src'';
          pbuf_rs_file = path_push pbuf_rs_file ''sysadminctl.rs'';
          file_exists = (case metadata_is_file env pbuf_rs_file of Some f \<Rightarrow> f | None \<Rightarrow> False);
          result = and_then (protoc_run env) (\<lambda>r. expect r ''protoc'')
      in if \<not> (has_cratesfyi \<and> file_exists) then
           (case result of Inl err \<Rightarrow> Inl err | Inr _ \<Rightarrow> Inr ())
         else Inr ())"

section \<open>Properties\<close>

text \<open>
  C39. The build fails exactly when the protobuf compiler failed and it is not the case that both the
  current directory names \<open>cratesfyi\<close> and the generated file exists: a failure is forgiven only
  where the old file can be used instead.
\<close>

theorem build_fails_iff:
  assumes "manifest_dir_var env = Some d" and "d \<noteq> []" and "last d \<noteq> CHR ''/''"
  shows "(\<exists>p. build_main env = Inl p) \<longleftrightarrow>
    ((\<exists>p. protoc_run env = Inl p) \<or> (\<exists>e. protoc_run env = Inr (Inl e))) \<and>
    \<not> ((\<exists>a b. current_dir env = Some (Some (a @ ''cratesfyi'' @ b))) \<and>
       metadata_is_file env (d @ ''/src/sysadminctl.rs'') = Some True)"
proof -
  let ?dir = "case current_dir env of Some p \<Rightarrow> (case p of Some s \<Rightarrow> s | None \<Rightarrow> []) | None \<Rightarrow> []"
  have "contains ?dir ''cratesfyi'' \<longleftrightarrow> (\<exists>a b. current_dir env = Some (Some (a @ ''cratesfyi'' @ b)))"
    by (auto simp: contains_iff split: option.splits)
  moreover have "path_push (path_push d ''src'') ''sysadminctl.rs'' = d @ ''/src/sysadminctl.rs''"
    using assms(2,3) by (simp add: path_push_def)
  moreover have "(\<exists>p. and_then (protoc_run env) (\<lambda>r. expect r ''protoc'') = Inl p) \<longleftrightarrow>
      (\<exists>p. protoc_run env = Inl p) \<or> (\<exists>e. protoc_run env = Inr (Inl e))"
    by (auto simp: and_then_def expect_def split: sum.splits)
  ultimately show ?thesis
    using assms(1) by (auto simp: build_main_def Let_def split: option.splits sum.splits)
qed

lemma build_fails_iff_witness:
  "\<exists>p. build_main \<lparr>current_dir = Some (Some ''/home/me''), manifest_dir_var = Some ''/home/me'',
      metadata_is_file = (\<lambda>_. Some True), protoc_run = Inr (Inl ''not found'')\<rparr> = Inl p"
  by (subst build_fails_iff [of _ "''/home/me''"]) (auto simp: contains_iff [symmetric] Cons_eq_append_conv)

end
