(* ===== verification/Spec2Isabelle.thy ===== *)
theory Spec2Isabelle
  imports Reference_System Reference_Descriptor Codec_Facts Accessors Bounds Schema_Required Build_Script
begin

text \<open>
  \<^bold>\<open>The Rust client of sysadmin.\<close>

  sysadmin is a configuration database with a server and client libraries that talk to it over TCP.
  This development verifies the Rust client library, \<open>clients/rust/src\<close>: the client proper
  (\<open>lib.rs\<close>, \<open>errors.rs\<close>) and the protocol messages it is built on (\<open>sysadminctl.rs\<close>, kept in the
  repository as protobuf's compiler generated it from \<open>sysadmin-api/sysadminctl.proto\<close>).

  \<^bold>\<open>The parts and how they interact.\<close>  A caller makes a command struct (\<open>Set\<close>, \<open>Get\<close>, \<open>Commit\<close>,
  ..., twelve of them) and calls its \<open>send_command\<close> with a \<open>SysadminClient\<close>.  The command becomes a
  protobuf message (\<open>into_buf\<close>), the message the payload of a \<open>Command\<close> that carries the client's
  \<open>id\<close> and \<open>xid\<close> (\<open>make_command\<close>, \<open>Payload::set_payload\<close>), and \<open>send\<close> checks, measures and
  serializes it, writes its length and its bytes to the TCP stream, waits for the reply, reads its
  length and bytes, parses them as a \<open>Response\<close> and hands it to the conversion of the command's
  response type (\<open>GetResponse::from\<close> and so on).

  \<^bold>\<open>Which theory models what.\<close>
  \<^item> Prelude: machine integers, panics and errors as values, the \<open>?\<close> operator, the loops of the
    generated code (\<open>merge_loop\<close> is \<open>while !is.eof()?\<close>), UTF-8.
  \<^item> Wire: the protobuf wire format, as its documentation specifies it.  Runtime: the \<open>protobuf\<close>
    crate, which is not in the repository, as a parameter; its contract (locale \<open>scalar_runtime\<close>,
    the predicates \<open>enum_ok\<close>, \<open>nested_ok\<close>, \<open>entry_ok\<close>) says that its operations read and write that
    format.  The contract of a message type (locale \<open>message_codec\<close>, extended to \<open>nested_codec\<close>
    for fields and \<open>entry_codec\<close> for whole messages) says that measuring, writing and merging a
    message agree on one encoding.
  \<^item> Ctl_Enums, Ctl_Values, Ctl_Commands, Ctl_Responses: the enums, message structs and accessors of
    \<open>sysadminctl.rs\<close>; \<open>ctl_X_f\<close> is the method \<open>f\<close> of the Rust type \<open>sysadminctl::X\<close>.  Accessors: the
    contract of the alternatives of a \<open>oneof\<close> and its 24 instances.
  \<^item> Bindings: the runtime at every type it is used at.  Codec_Values, Codec_Commands,
    Codec_Responses: \<open>impl Message\<close> of the 26 message types (\<open>is_initialized\<close>, \<open>merge_from\<close>,
    \<open>compute_size\<close>, \<open>write_to_with_cached_sizes\<close>), the encoding \<open>ctl_X_wire\<close> specified for each,
    and the proof, for any runtime that keeps its contract, that the code implements it.
    Codec_Facts: field order, repeated and missing fields.  Progress: reading ends.
  \<^item> Client_Types, Conversions: the data types of \<open>lib.rs\<close> and their conversions.  Client: the
    client, its errors, \<open>connect\<close>, \<open>set_timeout\<close>, \<open>send\<close>, \<open>request\<close> and the twelve \<open>send_command\<close>;
    the network and the input stream are a parameter (record \<open>net\<close>) with an explicit state of the
    world.  Client_Commands: the contract all command types keep (locale \<open>client_command\<close>).
    Transport: the contract of the network (locale \<open>transport\<close>) and \<open>send\<close> over it (locale
    \<open>connected\<close>), and a loopback network that keeps it.  Client_Machine: the client as a state
    machine (step relation \<open>client_step\<close>), its specification without a network (\<open>spec_step\<close>), the
    simulation between them (locale \<open>steady\<close>), and late replies (locale \<open>waiting\<close>).
    Client_Timeouts: the timeouts of the sockets (locale \<open>timed\<close>), and a network of any number of
    sockets.
  \<^item> Descriptor: the file descriptor embedded in \<open>sysadminctl.rs\<close>, its bytes and the schema they
    encode.  Reflect, Reflect_Values, Reflect_Commands, Reflect_Responses: type-erased messages, the
    \<open>for_reflect\<close> accessors and the descriptors the message types register.  Schema_Codec: the
    runtime's contract (locale \<open>descriptor_runtime\<close>), a reference encoder that knows only the schema
    and the accessors, its agreement with the generated encoders, and what is promised of the
    accessors.  Schema_Required: a reference check of required fields that knows only the schema
    and the accessors, and its agreement with \<open>is_initialized\<close>.
  \<^item> Bounds: the sizes of commands.
  \<^item> Sysadmin_Example: the program \<open>examples/sysadmin-example.rs\<close>, over the client.
  \<^item> Build_Script: \<open>build.rs\<close>, which regenerates the messages when the crate is built.
  \<^item> Reference_Runtime, Reference_Descriptor, Reference_System: an executable runtime, a parser of
    file descriptors and, with the loopback network, an
    executable system; every assumption of the development holds of them, and the concrete runs
    that accompany the properties evaluate on them.

  \<^bold>\<open>What the properties show.\<close>  Over any network and runtime that keep their contracts, a command is
  written as exactly the frame of its encoding, its reply is read as exactly one frame and returned
  as the value the server encoded, and sessions stay in step: any calls on a client, with whatever
  connections and timeouts are refused, are a run of a specification without a network, and the
  socket in use always has both timeouts.  Every failure (no connection, no reply, a reply cut off
  or not parsable) is the error the code names; parsing always ends.  On the way: round trips of
  commands and responses, sizes that never wrap and are not much larger than what a command
  carries, accessors that never panic, conversions that are inverse to each other; encodings,
  required fields and registered accessors that are those of the embedded schema; and the example
  program runs to its end.  Four properties describe defects as the code has them: \<open>InFlight\<close> loses
  the pairs it is sent, a reply with an unset value panics the caller, a refused timeout stays in
  the client, and a reply that comes after its command has timed out is taken for the reply to the
  next one.

  \<^bold>\<open>Bounds.\<close>  Messages and strings are below 2 GiB (\<open>small\<close>), the limit the format documents; sizes
  are \<open>u32\<close> and their sums wrap around as in a release build, and the bound is what keeps them from
  doing so.  No fuel is used in the model of the code: the reading loop is a
  partial function, with \<open>None\<close> for a run that does not end, and theory Progress shows that none
  is.  The reference encoder and the reference check count the nesting of messages; the schema nests commands 4 and
  responses 5 deep, and with that count it gives a result.  \<open>ok\<close> messages have valid UTF-8 strings (the
  invariant of \<open>String\<close>) and no unknown fields; \<open>norm\<close> clears the cached sizes, which equality of
  messages ignores.

  \<^bold>\<open>Not modelled.\<close>  What the \<open>protobuf\<close> crate does with descriptors and accessors beyond the contract
  (\<open>MessageDescriptor::new\<close>, the text format: they are data and a parameter); \<open>Lazy\<close> statics, which
  are their values; the \<open>serde\<close> derives; the markers \<open>Sync\<close> and \<open>Copy\<close>; the unit tests; the server and
  the Python client, which are not Rust.  The output of the example is its \<open>println!\<close> calls, not
  their text; a panic message stops before the \<open>Debug\<close> text of the value.
\<close>
section \<open>Commands and their replies\<close>

text \<open>
  C1. On an idle connection, sending a complete command to a peer that answers it with the frame
  of a complete response returns that response (without cached sizes) and leaves the connection
  idle: the frame written, the reply read and the response parsed are exactly the encodings.
\<close>

theorem send_returns_the_reply:
  assumes "connected rt net live outgoing incoming reading buffered serve"
    and "client_stream client = Some h" and "transport.idle live outgoing incoming h w"
    and "ctl_Command_is_initialized c" and "ctl_Command_ok c" and "small (ctl_Command_wire c)"
    and "serve (frame (ctl_Command_wire c)) = frame (ctl_Response_wire r)"
    and "ctl_Response_is_initialized r" and "ctl_Response_ok r" and "small (ctl_Response_wire r)"
  shows "\<exists>w'. send rt net client c w = Some (Inr (ctl_Response_norm r), w')
    \<and> transport.idle live outgoing incoming h w'"
  by (rule connected.send_exchange [OF assms])

lemma send_returns_the_reply_witness:
  "\<exists>w'. send ref_runtime (loopback_net (\<lambda>_. frame (ctl_Response_wire (response 7 SUCCESS None))))
      demo_client (command 7 8 (Get_payload (Get_new ''a''))) demo_world
      = Some (Inr (ctl_Response_norm (response 7 SUCCESS None)), w') \<and> demo_idle w'"
  by (rule send_returns_the_reply [OF sys.connected_axioms demo_stream demo_world_idle])
    (simp_all add: demo_eval)

text \<open>
  C10. Several commands in a row over one connection: each gets the reply to itself, in order, and
  the connection is idle again, so that no byte of one exchange reaches the next.
\<close>

theorem session_keeps_in_step:
  assumes "connected rt net live outgoing incoming reading buffered serve"
    and "client_stream client = Some h" and "transport.idle live outgoing incoming h w"
    and "\<forall>c\<in>set cs. ctl_Command_is_initialized c \<and> ctl_Command_ok c \<and> small (ctl_Command_wire c) \<and>
      ctl_Response_is_initialized (reply c) \<and> ctl_Response_ok (reply c) \<and>
      small (ctl_Response_wire (reply c)) \<and>
      serve (frame (ctl_Command_wire c)) = frame (ctl_Response_wire (reply c))"
  shows "\<exists>w'. session rt net client cs w
      = Some (map (\<lambda>c. Inr (ctl_Response_norm (reply c))) cs, w')
    \<and> transport.idle live outgoing incoming h w'"
  by (rule connected.session_exchange [OF assms])

lemma session_keeps_in_step_witness:
  "\<exists>w'. session ref_runtime
      (loopback_net (\<lambda>b. frame (ctl_Response_wire (response (if length b = 13 then 1 else 2) SUCCESS None))))
      demo_client [command 7 8 (Get_payload (Get_new ''a'')), command 7 8 (Get_payload (Get_new ''bc''))]
      demo_world
      = Some ([Inr (response 1 SUCCESS None), Inr (response 2 SUCCESS None)], w') \<and> demo_idle w'"
  using session_keeps_in_step [OF sys.connected_axioms demo_stream demo_world_idle,
      of "[command 7 8 (Get_payload (Get_new ''a'')), command 7 8 (Get_payload (Get_new ''bc''))]"
        "\<lambda>c. response (if c = command 7 8 (Get_payload (Get_new ''a'')) then 1 else 2) SUCCESS None"
        "\<lambda>b. frame (ctl_Response_wire (response (if length b = 13 then 1 else 2) SUCCESS None))"]
  by (simp add: demo_eval)

text \<open>
  C9. A complete command of any size below 2 GiB is written as one frame: the length of its
  encoding as 4 bytes, least significant first, then the encoding.  Neither assertion of \<open>send\<close>
  fails and nothing else is written.
\<close>

theorem send_frame_writes_the_encoding:
  assumes "connected rt net live outgoing incoming reading buffered serve"
    and "ctl_Command_is_initialized c" and "ctl_Command_ok c" and "small (ctl_Command_wire c)"
    and "live h w"
  shows "\<exists>w'. send_frame rt net h c w = (Inr (), w') \<and>
    outgoing h w' = outgoing h w @ le32 (of_nat (length (ctl_Command_wire c))) @ ctl_Command_wire c"
  using connected.send_frame_writes [OF assms] by (auto simp: frame_def)

lemma send_frame_writes_the_encoding_witness:
  "\<exists>w'. send_frame ref_runtime (loopback_net (\<lambda>_. [])) () (command 7 8 (Get_payload (Get_new ''a'')))
      demo_world = (Inr (), w') \<and>
    lo_out w' = [9, 0, 0, 0, 48, 7, 80, 8, 18, 3, 10, 1, 97]"
  using send_frame_writes_the_encoding [OF sys.connected_axioms,
      where c = "command 7 8 (Get_payload (Get_new ''a''))" and w = demo_world and h = "()"
        and serve = "\<lambda>_. []"]
  by (simp add: demo_eval demo_world_def le32_def)

text \<open>
  C3. A \<open>Get\<close> that a server answers with key-value pairs returns these pairs, with the id and the
  status of the response.
\<close>

theorem Get_returns_the_pairs:
  assumes "connected rt net live outgoing incoming reading buffered serve"
    and "client_stream client = Some h" and "transport.idle live outgoing incoming h w"
    and "answers serve client (Get_payload cmd)
      (response i s (Some (Response_oneof_payload_get (get_message xs))))"
    and "string_ok (Get_key cmd)" and "list_all kvs_ok xs"
  shows "\<exists>w'. Get_send_command rt net cmd client w
      = Some (Inr \<lparr>GetResponse_id = i, GetResponse_status = s, GetResponse_kvs = xs\<rparr>, w')
    \<and> transport.idle live outgoing incoming h w'"
  unfolding Get_send_command_def Get.request_eq
  by (rule connected.respond_answered [OF assms(1-4)])
    (simp_all add: assms Get.payload_init Get.payload_ok response_facts payload_message_facts
      GetResponse_from_response)

lemma Get_returns_the_pairs_witness:
  "\<exists>w'. Get_send_command ref_runtime
      (loopback_net (\<lambda>_. frame (ctl_Response_wire (response 7 SUCCESS
        (Some (Response_oneof_payload_get (get_message [\<lparr>kvs_key = ''a'', kvs_value = Some (Int32 5)\<rparr>])))))))
      (Get_new ''a'') demo_client demo_world
      = Some (Inr \<lparr>GetResponse_id = 7, GetResponse_status = SUCCESS,
          GetResponse_kvs = [\<lparr>kvs_key = ''a'', kvs_value = Some (Int32 5)\<rparr>]\<rparr>, w') \<and> demo_idle w'"
  by (rule Get_returns_the_pairs [OF sys.connected_axioms demo_stream demo_world_idle])
    (simp_all add: demo_answers kvs_ok_def value_ok_def)



text \<open>
  C15. A \<open>Commit\<close> that a server answers with a commit id returns that id.
\<close>

theorem Commit_returns_the_id:
  assumes "connected rt net live outgoing incoming reading buffered serve"
    and "client_stream client = Some h" and "transport.idle live outgoing incoming h w"
    and "answers serve client (Commit_payload cmd)
      (response i s (Some (Response_oneof_payload_commit (commit_message c))))"
  shows "\<exists>w'. Commit_send_command rt net cmd client w
      = Some (Inr \<lparr>CommitResponse_id = i, CommitResponse_status = s, CommitResponse_commit_id = Some c\<rparr>, w')
    \<and> transport.idle live outgoing incoming h w'"
  unfolding Commit_send_command_def Commit.request_eq
  by (rule connected.respond_answered [OF assms(1-4)])
    (simp_all add: assms Commit.payload_init Commit.payload_ok response_facts payload_message_facts
      CommitResponse_from_response)

lemma Commit_returns_the_id_witness:
  "\<exists>w'. Commit_send_command ref_runtime
      (loopback_net (\<lambda>_. frame (ctl_Response_wire (response 7 SUCCESS
        (Some (Response_oneof_payload_commit (commit_message 300)))))))
      (Commit_new NO_HOOKS) demo_client demo_world
      = Some (Inr \<lparr>CommitResponse_id = 7, CommitResponse_status = SUCCESS, CommitResponse_commit_id = Some 300\<rparr>, w') \<and> demo_idle w'"
  by (rule Commit_returns_the_id [OF sys.connected_axioms demo_stream demo_world_idle])
    (simp_all add: demo_answers)

text \<open>
  C16. A \<open>Reset\<close> that a server answers with an optional commit id returns it, and 0 when there is
  none: the client cannot tell an absent id from the id 0.
\<close>

theorem Reset_returns_the_id:
  assumes "connected rt net live outgoing incoming reading buffered serve"
    and "client_stream client = Some h" and "transport.idle live outgoing incoming h w"
    and "answers serve client (Reset_payload cmd)
      (response i s (Some (Response_oneof_payload_reset (reset_message cid))))"
  shows "\<exists>w'. Reset_send_command rt net cmd client w
      = Some (Inr \<lparr>ResetResponse_id = i, ResetResponse_status = s,
        ResetResponse_commit_id = (case cid of None \<Rightarrow> 0 | Some c \<Rightarrow> c)\<rparr>, w')
    \<and> transport.idle live outgoing incoming h w'"
  unfolding Reset_send_command_def Reset.request_eq
  by (rule connected.respond_answered [OF assms(1-4)])
    (simp_all add: assms Reset.payload_init Reset.payload_ok response_facts payload_message_facts
      ResetResponse_from_response)

lemma Reset_returns_the_id_witness:
  "\<exists>w'. Reset_send_command ref_runtime
      (loopback_net (\<lambda>_. frame (ctl_Response_wire (response 7 SUCCESS
        (Some (Response_oneof_payload_reset (reset_message (Some 9))))))))
      Reset_new demo_client demo_world
      = Some (Inr \<lparr>ResetResponse_id = 7, ResetResponse_status = SUCCESS,
        ResetResponse_commit_id = 9\<rparr>, w') \<and> demo_idle w'"
  by (rule Reset_returns_the_id [OF sys.connected_axioms demo_stream demo_world_idle,
        where cid = "Some 9", unfolded option.case])
    (simp_all add: demo_answers)

text \<open>
  C14. A \<open>DumpHooks\<close> returns the template hooks and the service hooks of the reply, each in order.
\<close>

theorem DumpHooks_returns_the_hooks:
  assumes "connected rt net live outgoing incoming reading buffered serve"
    and "client_stream client = Some h" and "transport.idle live outgoing incoming h w"
    and "answers serve client (DumpHooks_payload cmd)
      (response i s (Some (Response_oneof_payload_dump (dump_message ts ss))))"
    and "list_all string_ok ts"
    and "list_all string_ok ss"
  shows "\<exists>w'. DumpHooks_send_command rt net cmd client w
      = Some (Inr \<lparr>DumpResponse_id = i, DumpResponse_status = s, DumpResponse_templatehooks = ts,
        DumpResponse_servicehooks = ss\<rparr>, w')
    \<and> transport.idle live outgoing incoming h w'"
  unfolding DumpHooks_send_command_def DumpHooks.request_eq
  by (rule connected.respond_answered [OF assms(1-4)])
    (simp_all add: assms DumpHooks.payload_init DumpHooks.payload_ok response_facts payload_message_facts
      DumpResponse_from_response)

lemma DumpHooks_returns_the_hooks_witness:
  "\<exists>w'. DumpHooks_send_command ref_runtime
      (loopback_net (\<lambda>_. frame (ctl_Response_wire (response 7 SUCCESS
        (Some (Response_oneof_payload_dump (dump_message [''t'', ''u''] [''s''])))))))
      DumpHooks_new demo_client demo_world
      = Some (Inr \<lparr>DumpResponse_id = 7, DumpResponse_status = SUCCESS,
        DumpResponse_templatehooks = [''t'', ''u''], DumpResponse_servicehooks = [''s'']\<rparr>, w') \<and> demo_idle w'"
  by (rule DumpHooks_returns_the_hooks [OF sys.connected_axioms demo_stream demo_world_idle])
    (simp_all add: demo_answers)

text \<open>
  C13. A \<open>Blame\<close> that a server answers with a history returns its entries in order: commit id,
  time and value of each.
\<close>

theorem Blame_returns_the_entries:
  assumes "connected rt net live outgoing incoming reading buffered serve"
    and "client_stream client = Some h" and "transport.idle live outgoing incoming h w"
    and "answers serve client (Blame_payload cmd)
      (response i s (Some (Response_oneof_payload_blame (blame_message k es))))"
    and "string_ok (Blame_key cmd)"
    and "string_ok k"
    and "list_all BlameEntry_ok es"
  shows "\<exists>w'. Blame_send_command rt net cmd client w
      = Some (Inr \<lparr>BlameResponse_id = i, BlameResponse_status = s, BlameResponse_entries = es\<rparr>, w')
    \<and> transport.idle live outgoing incoming h w'"
  unfolding Blame_send_command_def Blame.request_eq
  by (rule connected.respond_answered [OF assms(1-4)])
    (simp_all add: assms Blame.payload_init Blame.payload_ok response_facts payload_message_facts
      BlameResponse_from_response)

lemma Blame_returns_the_entries_witness:
  "\<exists>w'. Blame_send_command ref_runtime
      (loopback_net (\<lambda>_. frame (ctl_Response_wire (response 7 SUCCESS
        (Some (Response_oneof_payload_blame (blame_message ''a'' [\<lparr>BlameEntry_commit_id = 4,
          BlameEntry_commit_time = ''t'', BlameEntry_val = Bool True\<rparr>])))))))
      (Blame_new ''a'') demo_client demo_world
      = Some (Inr \<lparr>BlameResponse_id = 7, BlameResponse_status = SUCCESS,
        BlameResponse_entries = [\<lparr>BlameEntry_commit_id = 4, BlameEntry_commit_time = ''t'',
          BlameEntry_val = Bool True\<rparr>]\<rparr>, w') \<and> demo_idle w'"
  by (rule Blame_returns_the_entries [OF sys.connected_axioms demo_stream demo_world_idle,
        where k = "''a''"])
    (simp_all add: demo_answers)

text \<open>
  C18. An \<open>InFlight\<close> returns no pairs, whatever pairs the server sends: the conversion takes the
  \<open>get\<close> payload of a response that carries the \<open>inflight\<close> payload.
\<close>

theorem InFlight_returns_no_pairs:
  assumes "connected rt net live outgoing incoming reading buffered serve"
    and "client_stream client = Some h" and "transport.idle live outgoing incoming h w"
    and "answers serve client (InFlight_payload cmd)
      (response i s (Some (Response_oneof_payload_inflight (inflight_message xs))))"
    and "list_all kvs_ok xs"
  shows "\<exists>w'. InFlight_send_command rt net cmd client w
      = Some (Inr \<lparr>InFlightResponse_id = i, InFlightResponse_status = s, InFlightResponse_kvs = []\<rparr>, w')
    \<and> transport.idle live outgoing incoming h w'"
  unfolding InFlight_send_command_def InFlight.request_eq
  by (rule connected.respond_answered [OF assms(1-4)])
    (simp_all add: assms InFlight.payload_init InFlight.payload_ok response_facts payload_message_facts
      InFlightResponse_from_response)

lemma InFlight_returns_no_pairs_witness:
  "\<exists>w'. InFlight_send_command ref_runtime
      (loopback_net (\<lambda>_. frame (ctl_Response_wire (response 7 SUCCESS
        (Some (Response_oneof_payload_inflight (inflight_message
          [\<lparr>kvs_key = ''a'', kvs_value = Some (Int32 5)\<rparr>])))))))
      InFlight_new demo_client demo_world
      = Some (Inr \<lparr>InFlightResponse_id = 7, InFlightResponse_status = SUCCESS, InFlightResponse_kvs = []\<rparr>, w') \<and> demo_idle w'"
  by (rule InFlight_returns_no_pairs [OF sys.connected_axioms demo_stream demo_world_idle,
        where xs = "[\<lparr>kvs_key = ''a'', kvs_value = Some (Int32 5)\<rparr>]"])
    (simp_all add: demo_answers)

text \<open>
  C17. The five commands whose reply is a status alone (\<open>Drop\<close>, \<open>FireHooks\<close>, \<open>EraseKey\<close>,
  \<open>TriggerHook\<close>, \<open>Rollback\<close>) return the id and the status of the response they are answered with.
\<close>

theorem plain_commands_return_the_status:
  assumes "connected rt net live outgoing incoming reading buffered serve"
    and "client_stream client = Some h" and "transport.idle live outgoing incoming h w"
  shows "(answers serve client (Drop_payload d) (response i s None) \<longrightarrow>
      (\<exists>w'. Drop_send_command rt net d client w
          = Some (Inr \<lparr>GenericResponse_id = i, GenericResponse_status = s\<rparr>, w')
        \<and> transport.idle live outgoing incoming h w')) \<and>
    (answers serve client (FireHooks_payload f) (response i s None) \<longrightarrow>
      (\<exists>w'. FireHooks_send_command rt net f client w
          = Some (Inr \<lparr>GenericResponse_id = i, GenericResponse_status = s\<rparr>, w')
        \<and> transport.idle live outgoing incoming h w')) \<and>
    (answers serve client (EraseKey_payload e) (response i s None) \<and> string_ok (EraseKey_key e) \<longrightarrow>
      (\<exists>w'. EraseKey_send_command rt net e client w
          = Some (Inr \<lparr>GenericResponse_id = i, GenericResponse_status = s\<rparr>, w')
        \<and> transport.idle live outgoing incoming h w')) \<and>
    (answers serve client (TriggerHook_payload t) (response i s None) \<and> string_ok (TriggerHook_hook t) \<longrightarrow>
      (\<exists>w'. TriggerHook_send_command rt net t client w
          = Some (Inr \<lparr>GenericResponse_id = i, GenericResponse_status = s\<rparr>, w')
        \<and> transport.idle live outgoing incoming h w')) \<and>
    (answers serve client (Rollback_payload b) (response i s None) \<longrightarrow>
      (\<exists>w'. Rollback_send_command rt net b client w
          = Some (Inr \<lparr>GenericResponse_id = i, GenericResponse_status = s\<rparr>, w')
        \<and> transport.idle live outgoing incoming h w'))"
proof -
  have "\<exists>w'. respond (send rt net client (command (client_id client) (client_xid client) p) w)
      (\<lambda>resp. Inr (GenericResponse_from resp))
      = Some (Inr \<lparr>GenericResponse_id = i, GenericResponse_status = s\<rparr>, w')
      \<and> transport.idle live outgoing incoming h w'"
    if "answers serve client p (response i s None)" and "Command_oneof_payload_init p"
      and "Command_oneof_payload_ok p" for p
    by (rule connected.respond_answered [OF assms that])
      (simp_all add: response_facts GenericResponse_from_response)
  then show ?thesis
    by (simp add: send_command_defs request_eqs Drop.payload_init Drop.payload_ok
        FireHooks.payload_init FireHooks.payload_ok EraseKey.payload_init EraseKey.payload_ok
        TriggerHook.payload_init TriggerHook.payload_ok Rollback.payload_init Rollback.payload_ok)
qed

lemma plain_commands_return_the_status_witness:
  "\<exists>w'. Rollback_send_command ref_runtime
      (loopback_net (\<lambda>_. frame (ctl_Response_wire (response 7 FAILED_ROLLBACK None))))
      (Rollback_new 5) demo_client demo_world
      = Some (Inr \<lparr>GenericResponse_id = 7, GenericResponse_status = FAILED_ROLLBACK\<rparr>, w')
    \<and> demo_idle w'"
proof -
  let ?serve = "\<lambda>_. frame (ctl_Response_wire (response 7 FAILED_ROLLBACK None))"
  have "answers ?serve demo_client (Rollback_payload (Rollback_new 5)) (response 7 FAILED_ROLLBACK None)"
    by (simp add: demo_answers)
  then show ?thesis
    using plain_commands_return_the_status [OF sys.connected_axioms demo_stream demo_world_idle,
        of ?serve _ 7 FAILED_ROLLBACK] by blast
qed

text \<open>
  C19. A history entry whose value message has no alternative set passes the parser and its check
  of the required fields, and \<open>Blame::send_command\<close> then panics instead of returning an error.
\<close>

theorem Blame_panics_on_an_unset_value:
  assumes "connected rt net live outgoing incoming reading buffered serve"
    and "client_stream client = Some h" and "transport.idle live outgoing incoming h w"
    and "answers serve client (Blame_payload cmd) (response i s (Some (Response_oneof_payload_blame m)))"
    and "string_ok (Blame_key cmd)"
    and "ctl_BlameResponse_ok m" and "ctl_BlameResponse_is_initialized m"
    and "e \<in> set (ctl_BlameResponse_entries m)" and "ctl_BlameEntry_val e = Some cv"
    and "ctl_ConfigValue_value cv = None"
  shows "\<exists>p w'. Blame_send_command rt net cmd client w = Some (Inl (Panic p), w')"
proof -
  let ?r = "response i s (Some (Response_oneof_payload_blame m))"
  obtain p where "BlameResponse_from (ctl_Response_norm ?r) = Inl p"
    using BlameResponse_from_unset [OF assms(8-10)] by blast
  then have "\<exists>w'. respond (send rt net client (command (client_id client) (client_xid client)
      (Blame_payload cmd)) w) BlameResponse_from = Some (Inl (Panic p), w')
      \<and> transport.idle live outgoing incoming h w'"
    by (intro connected.respond_panics [OF assms(1-4)])
      (simp_all add: assms Blame.payload_init Blame.payload_ok response_facts)
  then show ?thesis by (auto simp: Blame_send_command_def Blame.request_eq)
qed

lemma Blame_panics_on_an_unset_value_witness:
  "\<exists>p w'. Blame_send_command ref_runtime
      (loopback_net (\<lambda>_. frame (ctl_Response_wire (response 7 SUCCESS (Some
        (Response_oneof_payload_blame \<lparr>ctl_BlameResponse_key = Some ''a'', ctl_BlameResponse_entries =
          [\<lparr>ctl_BlameEntry_commit_id = Some 4, ctl_BlameEntry_commit_time = Some ''t'',
            ctl_BlameEntry_val = Some ctl_ConfigValue_new, ctl_BlameEntry_unknown_fields = [],
            ctl_BlameEntry_cached_size = 0\<rparr>], ctl_BlameResponse_unknown_fields = [],
          ctl_BlameResponse_cached_size = 0\<rparr>))))))
      (Blame_new ''a'') demo_client demo_world = Some (Inl (Panic p), w')"
  by (rule Blame_panics_on_an_unset_value [OF sys.connected_axioms demo_stream demo_world_idle,
        where m = "\<lparr>ctl_BlameResponse_key = Some ''a'', ctl_BlameResponse_entries =
          [\<lparr>ctl_BlameEntry_commit_id = Some 4, ctl_BlameEntry_commit_time = Some ''t'',
            ctl_BlameEntry_val = Some ctl_ConfigValue_new, ctl_BlameEntry_unknown_fields = [],
            ctl_BlameEntry_cached_size = 0\<rparr>], ctl_BlameResponse_unknown_fields = [],
          ctl_BlameResponse_cached_size = 0\<rparr>" and i = 7 and s = SUCCESS and cv = ctl_ConfigValue_new
        and e = "\<lparr>ctl_BlameEntry_commit_id = Some 4, ctl_BlameEntry_commit_time = Some ''t'',
            ctl_BlameEntry_val = Some ctl_ConfigValue_new, ctl_BlameEntry_unknown_fields = [],
            ctl_BlameEntry_cached_size = 0\<rparr>"])
    (simp_all add: demo_answers ctl_BlameResponse_ok_def ctl_BlameResponse_is_initialized_def
      ctl_BlameEntry_ok_def ctl_BlameEntry_is_initialized_def ctl_ConfigValue_ok_def
      ctl_ConfigValue_is_initialized_def)

section \<open>Commands that fail\<close>

text \<open>
  C22. Before \<open>connect\<close>, every command returns the connection error and touches neither the
  network nor the runtime.
\<close>

theorem commands_need_a_connection:
  assumes "client_stream client = None"
  shows "Set_send_command rt net c1 client w = Some (Inl not_connected, w) \<and>
    Get_send_command rt net c2 client w = Some (Inl not_connected, w) \<and>
    Commit_send_command rt net c3 client w = Some (Inl not_connected, w) \<and>
    Drop_send_command rt net c4 client w = Some (Inl not_connected, w) \<and>
    FireHooks_send_command rt net c5 client w = Some (Inl not_connected, w) \<and>
    EraseKey_send_command rt net c6 client w = Some (Inl not_connected, w) \<and>
    Rollback_send_command rt net c7 client w = Some (Inl not_connected, w) \<and>
    Reset_send_command rt net c8 client w = Some (Inl not_connected, w) \<and>
    DumpHooks_send_command rt net c9 client w = Some (Inl not_connected, w) \<and>
    TriggerHook_send_command rt net c10 client w = Some (Inl not_connected, w) \<and>
    Blame_send_command rt net c11 client w = Some (Inl not_connected, w) \<and>
    InFlight_send_command rt net c12 client w = Some (Inl not_connected, w)"
  by (simp add: send_command_defs request_def send_not_connected assms)

lemma commands_need_a_connection_witness:
  "Set_send_command ref_runtime (loopback_net id) (Set_new ''bar'' (Int32 3))
     SysadminClient_default demo_world = Some (Inl not_connected, demo_world)"
  by (rule commands_need_a_connection [THEN conjunct1])
    (simp add: SysadminClient_default_def SysadminClient_new_def)

text \<open>
  C23. Every command type builds the \<open>Command\<close> specified for it: the client's id and xid, its own
  message as the only payload, nothing else; and this \<open>Command\<close> always has its required fields.
\<close>

theorem commands_are_complete:
  "Set_set_payload (Set_into_buf c1) (make_command client)
      = command (client_id client) (client_xid client) (Set_payload c1) \<and>
    ctl_Command_is_initialized (command i x (Set_payload c1)) \<and>
    Get_set_payload (Get_into_buf c2) (make_command client)
      = command (client_id client) (client_xid client) (Get_payload c2) \<and>
    ctl_Command_is_initialized (command i x (Get_payload c2)) \<and>
    Commit_set_payload (Commit_into_buf c3) (make_command client)
      = command (client_id client) (client_xid client) (Commit_payload c3) \<and>
    ctl_Command_is_initialized (command i x (Commit_payload c3)) \<and>
    Drop_set_payload (Drop_into_buf c4) (make_command client)
      = command (client_id client) (client_xid client) (Drop_payload c4) \<and>
    ctl_Command_is_initialized (command i x (Drop_payload c4)) \<and>
    FireHooks_set_payload (FireHooks_into_buf c5) (make_command client)
      = command (client_id client) (client_xid client) (FireHooks_payload c5) \<and>
    ctl_Command_is_initialized (command i x (FireHooks_payload c5)) \<and>
    EraseKey_set_payload (EraseKey_into_buf c6) (make_command client)
      = command (client_id client) (client_xid client) (EraseKey_payload c6) \<and>
    ctl_Command_is_initialized (command i x (EraseKey_payload c6)) \<and>
    Rollback_set_payload (Rollback_into_buf c7) (make_command client)
      = command (client_id client) (client_xid client) (Rollback_payload c7) \<and>
    ctl_Command_is_initialized (command i x (Rollback_payload c7)) \<and>
    Reset_set_payload (Reset_into_buf c8) (make_command client)
      = command (client_id client) (client_xid client) (Reset_payload c8) \<and>
    ctl_Command_is_initialized (command i x (Reset_payload c8)) \<and>
    DumpHooks_set_payload (DumpHooks_into_buf c9) (make_command client)
      = command (client_id client) (client_xid client) (DumpHooks_payload c9) \<and>
    ctl_Command_is_initialized (command i x (DumpHooks_payload c9)) \<and>
    TriggerHook_set_payload (TriggerHook_into_buf c10) (make_command client)
      = command (client_id client) (client_xid client) (TriggerHook_payload c10) \<and>
    ctl_Command_is_initialized (command i x (TriggerHook_payload c10)) \<and>
    Blame_set_payload (Blame_into_buf c11) (make_command client)
      = command (client_id client) (client_xid client) (Blame_payload c11) \<and>
    ctl_Command_is_initialized (command i x (Blame_payload c11)) \<and>
    InFlight_set_payload (InFlight_into_buf c12) (make_command client)
      = command (client_id client) (client_xid client) (InFlight_payload c12) \<and>
    ctl_Command_is_initialized (command i x (InFlight_payload c12))"
  by (simp add: Set.set_payload_command Set.command_ready(1)
      Get.set_payload_command Get.command_ready(1)
      Commit.set_payload_command Commit.command_ready(1)
      Drop.set_payload_command Drop.command_ready(1)
      FireHooks.set_payload_command FireHooks.command_ready(1)
      EraseKey.set_payload_command EraseKey.command_ready(1)
      Rollback.set_payload_command Rollback.command_ready(1)
      Reset.set_payload_command Reset.command_ready(1)
      DumpHooks.set_payload_command DumpHooks.command_ready(1)
      TriggerHook.set_payload_command TriggerHook.command_ready(1)
      Blame.set_payload_command Blame.command_ready(1)
      InFlight.set_payload_command InFlight.command_ready(1))

text \<open>
  C24. A peer that does not answer makes the command fail with the client's timeout message.
\<close>

theorem no_reply_is_a_timeout:
  assumes "connected rt net live outgoing incoming reading buffered serve"
    and "client_stream client = Some h" and "transport.idle live outgoing incoming h w"
    and "ctl_Command_is_initialized c" and "ctl_Command_ok c" and "small (ctl_Command_wire c)"
    and "serve (frame (ctl_Command_wire c)) = []"
  shows "\<exists>e w'. send rt net client c w = Some (Inl (Error (ErrorKind (SysadminConnectionError
    (''Unable to read response, command may have timed out: '' @ e)))), w')"
  by (rule connected.send_timeout [OF assms])

lemma no_reply_is_a_timeout_witness:
  "\<exists>e w'. send ref_runtime (loopback_net (\<lambda>_. [])) demo_client (command 7 8 (Get_payload (Get_new ''a'')))
      demo_world = Some (Inl (Error (ErrorKind (SysadminConnectionError
        (''Unable to read response, command may have timed out: '' @ e)))), w')"
  by (rule no_reply_is_a_timeout [OF sys.connected_axioms demo_stream demo_world_idle])
    (simp_all add: demo_eval)

text \<open>
  C26. A reply that ends before the announced length is an error, not a response.
\<close>

theorem cut_off_reply_is_an_error:
  assumes "connected rt net live outgoing incoming reading buffered serve"
    and "client_stream client = Some h" and "transport.idle live outgoing incoming h w"
    and "ctl_Command_is_initialized c" and "ctl_Command_ok c" and "small (ctl_Command_wire c)"
    and "serve (frame (ctl_Command_wire c)) = le32 n @ b" and "length b < unat n"
  shows "\<exists>e w'. send rt net client c w = Some (Inl (Error
    (Context ''error reading response from sysadmin'' (ProtobufCause e))), w')"
  by (rule connected.send_short [OF assms])

lemma cut_off_reply_is_an_error_witness:
  "\<exists>e w'. send ref_runtime (loopback_net (\<lambda>_. [4, 0, 0, 0, 48, 7])) demo_client
      (command 7 8 (Get_payload (Get_new ''a''))) demo_world
      = Some (Inl (Error (Context ''error reading response from sysadmin'' (ProtobufCause e))), w')"
  by (rule cut_off_reply_is_an_error [OF sys.connected_axioms demo_stream demo_world_idle,
        where n = 4 and b = "[48, 7]"])
    (simp_all add: demo_eval le32_def)

text \<open>
  C27. A response that lacks a required field, the id or the status, whatever other fields it has, in
  any order and number, and a response with a status number the client does not know, after any
  fields and before any bytes, are an error of the command (the connection stays usable), never a
  made-up status.
\<close>

theorem bad_responses_are_errors:
  assumes "connected rt net live outgoing incoming reading buffered serve"
    and "client_stream client = Some h" and "transport.idle live outgoing incoming h w"
    and "ctl_Command_is_initialized c" and "ctl_Command_ok c" and "small (ctl_Command_wire c)"
    and "list_all response_field_ok fs"
    and "b = concat (map response_field_wire fs) \<and>
        (list_all (\<lambda>f. \<forall>i. f \<noteq> IdField i) fs \<or> list_all (\<lambda>f. \<forall>s. f \<noteq> StatusField s) fs) \<or>
      b = concat (map response_field_wire fs) @ enc_int32 7 v @ rest \<and>
        ctl_StatusCode_from_i32 v = None"
    and "serve (frame (ctl_Command_wire c)) = frame b" and "small b"
  shows "\<exists>e w'. send rt net client c w = Some (Inl (Error
    (Context ''error parsing response from sysadmin'' (ProtobufCause e))), w')
    \<and> transport.idle live outgoing incoming h w'"
proof -
  have rt: "protobuf_runtime rt" using assms(1) by (simp add: connected_def)
  obtain e where "parse_from_bytes (pb_entry_Response rt) (ctl_Response_message rt) b = Some (Inl e)"
    using assms(8) protobuf_runtime.Response_missing_required [OF rt assms(7)]
      protobuf_runtime.Response_unknown_status [OF rt assms(7)] by blast
  then show ?thesis
    using connected.send_unparsable [OF assms(1-6,9,10)] by blast
qed

lemma bad_responses_are_errors_witness:
  "\<exists>e w'. send ref_runtime (loopback_net (\<lambda>_. frame [18, 2, 8, 9, 48, 7, 56, 12, 1])) demo_client
      (command 7 8 (Get_payload (Get_new ''a''))) demo_world
      = Some (Inl (Error (Context ''error parsing response from sysadmin'' (ProtobufCause e))), w')
    \<and> demo_idle w'"
proof (rule bad_responses_are_errors [OF sys.connected_axioms demo_stream demo_world_idle,
      where fs = "[PayloadField (Response_oneof_payload_commit (commit_message 9)), IdField 7]"
        and v = 12 and rest = "[1]" and b = "[18, 2, 8, 9, 48, 7, 56, 12, 1]"])
  let ?fs = "[PayloadField (Response_oneof_payload_commit (commit_message 9)), IdField 7]"
  show "list_all response_field_ok ?fs"
    by (simp add: demo_answers ctl_CommitResponse_ok_def ctl_CommitResponse_is_initialized_def)
  have "[18, 2, 8, 9, 48, 7, 56, 12, 1] = concat (map response_field_wire ?fs) @ enc_int32 7 12 @ [1]"
    and "ctl_StatusCode_from_i32 12 = None"
    by (simp_all add: demo_answers ctl_StatusCode_from_i32_def)
  then show "[18, 2, 8, 9, 48, 7, 56, 12, 1] = concat (map response_field_wire ?fs) \<and>
        (list_all (\<lambda>f. \<forall>i. f \<noteq> IdField i) ?fs \<or> list_all (\<lambda>f. \<forall>s. f \<noteq> StatusField s) ?fs) \<or>
      [18, 2, 8, 9, 48, 7, 56, 12, 1] = concat (map response_field_wire ?fs) @ enc_int32 7 12 @ [1] \<and>
        ctl_StatusCode_from_i32 12 = None"
    by simp
qed (simp_all add: demo_eval)

text \<open>
  A \<open>Command\<close> without its required fields makes \<open>send\<close> panic on a connected client before
  anything is written.
\<close>

lemma incomplete_command_panics:
  assumes "client_stream client = Some h" and "\<not> ctl_Command_is_initialized c"
  shows "send rt net client c w
    = Some (Inl (Panic (Panicked ''assertion failed: command.is_initialized()'')), w)"
  by (simp add: send_def send_frame_def assms)

lemma incomplete_command_panics_witness:
  "send ref_runtime (loopback_net id) demo_client ctl_Command_new demo_world
    = Some (Inl (Panic (Panicked ''assertion failed: command.is_initialized()'')), demo_world)"
  by (rule incomplete_command_panics [OF demo_stream])
    (simp add: ctl_Command_new_def ctl_Command_is_initialized_def)

section \<open>Connections\<close>

text \<open>
  C28. \<open>connect\<close> is all or nothing: it returns an error and the client as it was, or success and
  the client with the new stream and its timeout, id and xid as they were.
\<close>

theorem connect_all_or_nothing:
  assumes "connect net client a w = (r, client', w')"
  shows "(\<exists>e. r = Inl e \<and> client' = client) \<or>
    (\<exists>h. r = Inr () \<and> client' = client\<lparr>client_stream := Some h\<rparr>)"
  using assms by (auto simp: connect_def Let_def split: prod.splits sum.splits)

lemma connect_all_or_nothing_witness:
  "connect (loopback_net id) demo_client False demo_world
      = (Inl (Context ''failed to connect to sysadmin'' (IoCause (io_Error ''Connection refused''))),
         demo_client, demo_world) \<and>
    ((\<exists>e. Inl (Context ''failed to connect to sysadmin'' (IoCause (io_Error ''Connection refused'')))
        = (Inl e :: SysadminError + unit) \<and> demo_client = demo_client) \<or>
     (\<exists>h. Inl (Context ''failed to connect to sysadmin'' (IoCause (io_Error ''Connection refused'')))
        = (Inr () :: SysadminError + unit) \<and> demo_client = demo_client\<lparr>client_stream := Some h\<rparr>))"
  using connect_all_or_nothing [of "loopback_net id" demo_client False demo_world
      "Inl (Context ''failed to connect to sysadmin'' (IoCause (io_Error ''Connection refused'')))"
      demo_client demo_world]
  by (simp add: connect_def loopback_net_def)

text \<open>
  When the address accepts, a client with a timeout of at least a second is connected over an
  idle connection, ready for commands.
\<close>

lemma connect_gives_an_idle_connection:
  assumes "transport net live outgoing incoming reading buffered serve"
    and "net_connect net a w = (Inr h, v)" and "duration_secs (client_timeout client) \<noteq> 0"
  shows "\<exists>w'. connect net client a w = (Inr (), client\<lparr>client_stream := Some h\<rparr>, w')
    \<and> transport.idle live outgoing incoming h w'"
  by (rule transport.connect_connects [OF assms])

lemma connect_gives_an_idle_connection_witness:
  "\<exists>w'. connect (loopback_net id) (SysadminClient_default :: unit SysadminClient) True demo_world
      = (Inr (), SysadminClient_default\<lparr>client_stream := Some ()\<rparr>, w') \<and> demo_idle w'"
  by (rule connect_gives_an_idle_connection [OF lo.transport_axioms, where v = demo_world])
    (simp_all add: loopback_net_def demo_world_def SysadminClient_default_def SysadminClient_new_def
      Duration_from_secs_def DEFAULT_COMMAND_TIMEOUT_def)

text \<open>
  \<open>set_timeout\<close> and \<open>reset_timeout_to_default\<close> store the timeout in a connected client and set
  it on the socket, and the connection stays idle; the default is 10 seconds.  Without a
  connection they change nothing.
\<close>

lemma set_timeout_on_a_connection:
  assumes "transport net live outgoing incoming reading buffered serve"
    and "client_stream client = Some h" and "transport.idle live outgoing incoming h w"
    and "duration_secs d \<noteq> 0" and "client_stream client0 = None"
  shows "(\<exists>w'. set_timeout net client d w = (Inr (), client\<lparr>client_timeout := d\<rparr>, w')
      \<and> transport.idle live outgoing incoming h w') \<and>
    (\<exists>w'. reset_timeout_to_default net client w
        = (Inr (), client\<lparr>client_timeout := \<lparr>duration_secs = 10, duration_nanos = 0\<rparr>\<rparr>, w')
      \<and> transport.idle live outgoing incoming h w') \<and>
    (\<exists>e. set_timeout net client0 d w = (Inl (ErrorKind (SysadminConnectionError e)), client0, w) \<and>
      reset_timeout_to_default net client0 w
        = (Inl (ErrorKind (SysadminConnectionError e)), client0, w))"
  using transport.set_timeout_sets [OF assms(1-4)]
    transport.set_timeout_sets [OF assms(1-3), of "\<lparr>duration_secs = 10, duration_nanos = 0\<rparr>"] assms(5)
  by (simp add: reset_timeout_to_default_def Duration_from_secs_def DEFAULT_COMMAND_TIMEOUT_def
      set_timeout_def [of net client0])

lemma set_timeout_on_a_connection_witness:
  "\<exists>w'. set_timeout (loopback_net id) demo_client (Duration_from_secs 2) demo_world
      = (Inr (), demo_client\<lparr>client_timeout := Duration_from_secs 2\<rparr>, w') \<and> demo_idle w'"
  using set_timeout_on_a_connection [OF lo.transport_axioms demo_stream demo_world_idle,
      of "Duration_from_secs 2" "SysadminClient_default :: unit SysadminClient"]
  by (simp add: Duration_from_secs_def SysadminClient_default_def SysadminClient_new_def)

text \<open>
  C29. A zero timeout is refused by the socket, but \<open>set_timeout\<close> has stored it in the client by
  then: the call returns the error, and every later \<open>connect\<close> of that client fails.
\<close>

theorem refused_timeout_is_kept:
  assumes "transport net live outgoing incoming reading buffered serve"
    and "client_stream client = Some h" and "duration_secs d = 0" and "duration_nanos d = 0"
  shows "\<exists>e w'. set_timeout net client d w
      = (Inl (Context ''Error setting write timeout'' (IoCause e)), client\<lparr>client_timeout := d\<rparr>, w')
    \<and> (\<forall>a w. \<exists>e w'. connect net (client\<lparr>client_timeout := d\<rparr>) a w
        = (Inl e, client\<lparr>client_timeout := d\<rparr>, w'))"
proof -
  note zero = transport.zero_timeout [OF assms(1,3,4)]
  obtain e w' where "net_set_write_timeout net h (Some d) w = (Inl e, w')"
    using zero by blast
  then have "set_timeout net client d w
      = (Inl (Context ''Error setting write timeout'' (IoCause e)), client\<lparr>client_timeout := d\<rparr>, w')"
    by (simp add: set_timeout_def assms(2))
  moreover have "\<exists>e w'. connect net (client\<lparr>client_timeout := d\<rparr>) a w
      = (Inl e, client\<lparr>client_timeout := d\<rparr>, w')" for a w
  proof (cases "net_connect net a w")
    case (Pair r v)
    show ?thesis
    proof (cases r)
      case (Inr k)
      obtain e w' where "net_set_write_timeout net k (Some d) v = (Inl e, w')"
        using zero by blast
      with Pair Inr show ?thesis by (simp add: connect_def)
    qed (simp add: connect_def Pair)
  qed
  ultimately show ?thesis by blast
qed

lemma refused_timeout_is_kept_witness:
  "\<exists>e w'. set_timeout (loopback_net id) demo_client (Duration_from_secs 0) demo_world
      = (Inl (Context ''Error setting write timeout'' (IoCause e)),
         demo_client\<lparr>client_timeout := Duration_from_secs 0\<rparr>, w')"
  using refused_timeout_is_kept [OF lo.transport_axioms demo_stream, of "Duration_from_secs 0"]
  by (fastforce simp: Duration_from_secs_def)

section \<open>The example program\<close>



text \<open>
  The example program reports a refused connection and exits with code 1 before it sends
  anything; the error it prints carries the client's context and the cause.
\<close>

lemma example_fails:
  assumes "net_connect net (addr ''127.0.0.1:4000'') w = (Inl err, w1)"
  shows "example_main rt net addr w = Some (Exited 1,
    [Println ''{}'' [Display_Error (Context ''failed to connect to sysadmin'' (IoCause err))]], w1)"
  by (simp add: example_main_def example_run_def connect_def assms)

lemma example_fails_witness:
  "example_main ref_runtime (loopback_net (\<lambda>_. [])) (\<lambda>s. False) demo_world = Some (Exited 1,
    [Println ''{}'' [Display_Error (Context ''failed to connect to sysadmin''
      (IoCause (io_Error ''Connection refused'')))]], demo_world)"
  by (rule example_fails) (simp add: loopback_net_def)


section \<open>The messages on the wire\<close>

text \<open>
  C5. A complete command below 2 GiB survives the wire: \<open>write_to_bytes\<close> succeeds, gives as many
  bytes as \<open>compute_size\<close> measured (no size wraps around), and parsing them gives the command
  back, with its cached sizes cleared.
\<close>

theorem command_round_trip:
  assumes "protobuf_runtime rt"
    and "ctl_Command_ok c" and "small (ctl_Command_wire c)" and "ctl_Command_is_initialized c"
  shows "\<exists>b. write_to_bytes (pb_entry_Command rt) (ctl_Command_message rt) c = Inr b \<and>
    length b = unat (fst (ctl_Command_compute_size rt c)) \<and>
    parse_from_bytes (pb_entry_Command rt) (ctl_Command_message rt) b
      = Some (Inr (ctl_Command_norm c))"
  by (rule protobuf_runtime.Command_written_parsed [OF assms])

lemma command_round_trip_witness:
  "\<exists>b. write_to_bytes (pb_entry_Command ref_runtime) (ctl_Command_message ref_runtime)
      (command 7 8 (Set_payload (Set_new ''a'' (StrvalList [''b'', ''''])))) = Inr b \<and>
    length b = unat (fst (ctl_Command_compute_size ref_runtime
      (command 7 8 (Set_payload (Set_new ''a'' (StrvalList [''b'', ''''])))))) \<and>
    parse_from_bytes (pb_entry_Command ref_runtime) (ctl_Command_message ref_runtime) b
      = Some (Inr (ctl_Command_norm (command 7 8 (Set_payload (Set_new ''a'' (StrvalList [''b'', '''']))))))"
  by (rule command_round_trip [OF ref.protobuf_runtime_axioms])
    (simp_all add: demo_answers ctl_Set_ok_def ctl_Set_is_initialized_def ctl_ConfigValue_ok_def
      ctl_ConfigValue_is_initialized_def ctl_StringList_ok_def ctl_StringList_is_initialized_def)

text \<open>
  C6. The same for responses: whatever response a server sends, of any of the six payloads, its
  encoding is parsed back to it.
\<close>

theorem response_round_trip:
  assumes "protobuf_runtime rt"
    and "ctl_Response_ok r" and "small (ctl_Response_wire r)" and "ctl_Response_is_initialized r"
  shows "\<exists>b. write_to_bytes (pb_entry_Response rt) (ctl_Response_message rt) r = Inr b \<and>
    length b = unat (fst (ctl_Response_compute_size rt r)) \<and>
    parse_from_bytes (pb_entry_Response rt) (ctl_Response_message rt) b
      = Some (Inr (ctl_Response_norm r))"
  by (rule protobuf_runtime.Response_written_parsed [OF assms])

lemma response_round_trip_witness:
  "\<exists>b. write_to_bytes (pb_entry_Response ref_runtime) (ctl_Response_message ref_runtime)
      (response 7 SUCCESS (Some (Response_oneof_payload_dump (dump_message [''t''] [])))) = Inr b \<and>
    length b = unat (fst (ctl_Response_compute_size ref_runtime
      (response 7 SUCCESS (Some (Response_oneof_payload_dump (dump_message [''t''] [])))))) \<and>
    parse_from_bytes (pb_entry_Response ref_runtime) (ctl_Response_message ref_runtime) b
      = Some (Inr (ctl_Response_norm
          (response 7 SUCCESS (Some (Response_oneof_payload_dump (dump_message [''t''] []))))))"
  by (rule response_round_trip [OF ref.protobuf_runtime_axioms])
    (simp_all add: demo_answers ctl_DumpResponse_ok_def ctl_DumpResponse_is_initialized_def)

text \<open>
  Measuring a command or a response changes nothing but the cached sizes in it and its parts,
  and the size it returns is the size it caches.
\<close>

lemma measuring_keeps_the_message:
  assumes "protobuf_runtime rt"
  shows "ctl_Command_norm (snd (ctl_Command_compute_size rt c)) = ctl_Command_norm c \<and>
    ctl_Command_get_cached_size (snd (ctl_Command_compute_size rt c))
      = fst (ctl_Command_compute_size rt c) \<and>
    ctl_Response_norm (snd (ctl_Response_compute_size rt r)) = ctl_Response_norm r \<and>
    ctl_Response_get_cached_size (snd (ctl_Response_compute_size rt r))
      = fst (ctl_Response_compute_size rt r)"
  using protobuf_runtime.ctl_Command_keeps [OF assms] protobuf_runtime.ctl_Response_keeps [OF assms]
    protobuf_runtime.ctl_Command_cached [OF assms] protobuf_runtime.ctl_Response_cached [OF assms]
  by simp

lemma measuring_keeps_the_message_witness:
  "ctl_Command_norm (snd (ctl_Command_compute_size ref_runtime (command 7 8 (Get_payload (Get_new ''a'')))))
    = ctl_Command_norm (command 7 8 (Get_payload (Get_new ''a'')))"
  using measuring_keeps_the_message [OF ref.protobuf_runtime_axioms] by blast

text \<open>
  C30. The fields of a command may arrive in any order: each of the six orders gives the same
  command.
\<close>

theorem command_fields_in_any_order:
  assumes "protobuf_runtime rt"
    and "Command_oneof_payload_ok p" and "small (Command_oneof_payload_wire p)"
    and "Command_oneof_payload_init p"
    and "fs = [enc_uint32 6 i, enc_uint32 10 x, Command_oneof_payload_wire p]"
    and "ord \<in> {[0, 1, 2], [0, 2, 1], [1, 0, 2], [1, 2, 0], [2, 0, 1], [2, 1, 0]}"
  shows "ctl_Command_merge_from rt ctl_Command_new (concat (map ((!) fs) ord))
    = Some (Inr (command i x (Command_oneof_payload_norm p), []))"
  using protobuf_runtime.Command_any_order [OF assms] by (simp add: command_def)

lemma command_fields_in_any_order_witness:
  "ctl_Command_merge_from ref_runtime ctl_Command_new [98, 0, 48, 7, 80, 8]
    = Some (Inr (command 7 8 (Reset_payload Reset), []))"
  using command_fields_in_any_order [OF ref.protobuf_runtime_axioms, of "Reset_payload Reset"
      "[enc_uint32 6 7, enc_uint32 10 8, Command_oneof_payload_wire (Reset_payload Reset)]" 7 8 "[2, 0, 1]"]
  by (simp add: demo_answers ctl_Reset_ok_def ctl_Reset_is_initialized_def ctl_Reset_norm_def)

text \<open>
  C31. When two payloads arrive, the last one is the command's: reading the second replaces the
  first, whatever the two alternatives are.
\<close>

theorem last_payload_wins:
  assumes "protobuf_runtime rt"
    and "Command_oneof_payload_ok p" and "small (Command_oneof_payload_wire p)"
    and "Command_oneof_payload_init p"
    and "Command_oneof_payload_ok q" and "small (Command_oneof_payload_wire q)"
    and "Command_oneof_payload_init q"
  shows "ctl_Command_merge_from rt ctl_Command_new
      (enc_uint32 6 i @ Command_oneof_payload_wire p @ Command_oneof_payload_wire q)
    = Some (Inr (\<lparr>ctl_Command_id = Some i, ctl_Command_xid = None,
        ctl_Command_payload = Some (Command_oneof_payload_norm q),
        ctl_Command_unknown_fields = [], ctl_Command_cached_size = 0\<rparr>, []))"
  by (rule protobuf_runtime.Command_last_payload [OF assms])

lemma last_payload_wins_witness:
  "ctl_Command_merge_from ref_runtime ctl_Command_new [48, 7, 98, 0, 106, 0]
    = Some (Inr (\<lparr>ctl_Command_id = Some 7, ctl_Command_xid = None,
        ctl_Command_payload = Some (DumpHooks_payload DumpHooks),
        ctl_Command_unknown_fields = [], ctl_Command_cached_size = 0\<rparr>, []))"
  using last_payload_wins [OF ref.protobuf_runtime_axioms, of "Reset_payload Reset"
      "DumpHooks_payload DumpHooks" 7]
  by (simp add: demo_answers ctl_Reset_ok_def ctl_Reset_is_initialized_def ctl_DumpHooks_ok_def
      ctl_DumpHooks_is_initialized_def ctl_DumpHooks_norm_def)

text \<open>
  A command without its id is not accepted, and an id field of another wire type is the
  runtime's wire type error: nothing is read in its place.
\<close>

lemma malformed_commands_are_errors:
  assumes "protobuf_runtime rt"
    and "Command_oneof_payload_ok p" and "small (Command_oneof_payload_wire p)"
    and "Command_oneof_payload_init p"
  shows "(\<exists>e. parse_from_bytes (pb_entry_Command rt) (ctl_Command_message rt)
      (enc_uint32 10 x @ Command_oneof_payload_wire p) = Some (Inl e)) \<and>
    ctl_Command_merge_from rt m (wire_tag 6 WireTypeLengthDelimited @ b)
      = Some (Inl (rt_unexpected_wire_type rt WireTypeLengthDelimited))"
  using protobuf_runtime.Command_without_id [OF assms]
    protobuf_runtime.Command_bad_wire_type [OF assms(1)] by blast

lemma malformed_commands_are_errors_witness:
  "\<exists>e. parse_from_bytes (pb_entry_Command ref_runtime) (ctl_Command_message ref_runtime)
    [80, 8, 98, 0] = Some (Inl e)"
  using malformed_commands_are_errors [OF ref.protobuf_runtime_axioms, of "Reset_payload Reset" 8]
  by (simp add: demo_answers ctl_Reset_ok_def ctl_Reset_is_initialized_def)

text \<open>
  C11. Parsing ends on every sequence of bytes, valid or not, for commands and for responses: each
  round of each \<open>merge_from\<close> loop, nested messages included, consumes at least a tag.
\<close>

theorem parsing_returns:
  assumes "returning_runtime rt"
  shows "parse_from_bytes (pb_entry_Command rt) (ctl_Command_message rt) b \<noteq> None \<and>
    parse_from_bytes (pb_entry_Response rt) (ctl_Response_message rt) b \<noteq> None"
  using returning_runtime.parse_Command_returns [OF assms]
    returning_runtime.parse_Response_returns [OF assms] by blast

lemma parsing_returns_witness:
  "parse_from_bytes (pb_entry_Command ref_runtime) (ctl_Command_message ref_runtime) [255, 255] \<noteq> None"
  using parsing_returns [OF ret.returning_runtime_axioms] by blast

text \<open>
  C38. A field the client does not know, wherever it stands in a response, is put among the unknown
  fields by the runtime and changes nothing else: the rest is read as if it were not there.
\<close>

theorem unknown_fields_are_kept:
  assumes "protobuf_runtime rt" and "field_number_ok f" and "f \<notin> {1, 2, 3, 4, 5, 6, 7, 8}"
    and "rt_read_unknown_or_skip_group rt f wt (b @ r) (ctl_Response_unknown_fields m) = Inr (uf, r)"
  shows "ctl_Response_merge_from rt m (wire_tag f wt @ b @ r)
    = ctl_Response_merge_from rt (m\<lparr>ctl_Response_unknown_fields := uf\<rparr>) r"
  by (rule protobuf_runtime.Response_unknown_field [OF assms])

lemma unknown_fields_are_kept_witness:
  "ctl_Response_merge_from ref_runtime ctl_Response_new [72, 5, 48, 7]
    = ctl_Response_merge_from ref_runtime
        (ctl_Response_new\<lparr>ctl_Response_unknown_fields := [(9, UnknownVarint 5)]\<rparr>) [48, 7]"
  using unknown_fields_are_kept [OF ref.protobuf_runtime_axioms, of 9 WireTypeVarint "[5]" "[48, 7]"
      ctl_Response_new "[(9, UnknownVarint 5)]"]
  by (simp add: ref_runtime_def ref_read_unknown_def read_varint_def ctl_Response_new_def
      field_number_ok_def encodings_eval)

section \<open>The schema\<close>

text \<open>
  C7. The generated encoders write exactly the encoding the embedded schema prescribes: for every
  complete command, and every complete response, \<open>write_to_bytes\<close> gives the bytes of the reference
  encoder, which knows no message type and encodes each declared field by its number, type and
  label in the file descriptor and by the values its registered accessor reads.
\<close>

theorem messages_are_encoded_by_the_schema:
  assumes "protobuf_runtime rt" and "descriptor_runtime R"
    and "ctl_Command_ok c" and "small (ctl_Command_wire c)" and "ctl_Command_is_initialized c"
    and "ctl_Response_ok r" and "small (ctl_Response_wire r)" and "ctl_Response_is_initialized r"
  shows "reflect_encode R 4 (Dyn_Command c) = Inr (ctl_Command_wire c) \<and>
    write_to_bytes (pb_entry_Command rt) (ctl_Command_message rt) c = Inr (ctl_Command_wire c) \<and>
    reflect_encode R 5 (Dyn_Response r) = Inr (ctl_Response_wire r) \<and>
    write_to_bytes (pb_entry_Response rt) (ctl_Response_message rt) r = Inr (ctl_Response_wire r)"
  using descriptor_runtime.encode_Command [OF assms(2), of 0 c]
    descriptor_runtime.encode_Response [OF assms(2), of 0 r]
    protobuf_runtime.Command_written [OF assms(1,3-5)]
    protobuf_runtime.Response_written [OF assms(1,6-8)]
  by (simp add: eval_nat_numeral)

lemma messages_are_encoded_by_the_schema_witness:
  "reflect_encode ref_descriptor 4 (Dyn_Command (command 7 8 (Get_payload (Get_new ''a''))))
      = Inr [48, 7, 80, 8, 18, 3, 10, 1, 97]"
proof -
  let ?c = "command 7 8 (Get_payload (Get_new ''a''))"
  have "ctl_Command_wire ?c = [48, 7, 80, 8, 18, 3, 10, 1, 97]"
    by (simp add: demo_eval)
  moreover have "reflect_encode ref_descriptor 4 (Dyn_Command ?c) = Inr (ctl_Command_wire ?c)"
    by (rule messages_are_encoded_by_the_schema [OF ref.protobuf_runtime_axioms
          ref_desc.descriptor_runtime_axioms, where r = "response 7 SUCCESS None", THEN conjunct1])
      (simp_all add: demo_eval)
  ultimately show ?thesis by simp
qed

text \<open>
  C35. Every message type registers a descriptor of the message the embedded file declares under
  its name, with one accessor for each declared field, of its label and type: on every message it
  reads values of the declared type, messages and enum values of the declared name; an update
  through it changes what it reads and nothing that another accessor reads; of the alternatives of
  a \<open>oneof\<close> at most one is present.  What the accessors read, under the declared numbers, is the
  encoding of the message, so that each reads its own field.
\<close>

theorem descriptors_match_the_schema:
  assumes "descriptor_runtime R"
  shows "reads_all R (ctl_Int32List_descriptor_static R) Dyn_Int32List ctl_Int32List_wire \<and>
    reads_all R (ctl_BoolList_descriptor_static R) Dyn_BoolList ctl_BoolList_wire \<and>
    reads_all R (ctl_StringList_descriptor_static R) Dyn_StringList ctl_StringList_wire \<and>
    reads_all R (ctl_ConfigValue_descriptor_static R) Dyn_ConfigValue ctl_ConfigValue_wire \<and>
    reads_all R (ctl_Set_descriptor_static R) Dyn_Set ctl_Set_wire \<and>
    reads_all R (ctl_Get_descriptor_static R) Dyn_Get ctl_Get_wire \<and>
    reads_all R (ctl_Commit_descriptor_static R) Dyn_Commit ctl_Commit_wire \<and>
    reads_all R (ctl_Drop_descriptor_static R) Dyn_Drop ctl_Drop_wire \<and>
    reads_all R (ctl_FireHooks_descriptor_static R) Dyn_FireHooks ctl_FireHooks_wire \<and>
    reads_all R (ctl_Rollback_descriptor_static R) Dyn_Rollback ctl_Rollback_wire \<and>
    reads_all R (ctl_EraseKey_descriptor_static R) Dyn_EraseKey ctl_EraseKey_wire \<and>
    reads_all R (ctl_Reset_descriptor_static R) Dyn_Reset ctl_Reset_wire \<and>
    reads_all R (ctl_DumpHooks_descriptor_static R) Dyn_DumpHooks ctl_DumpHooks_wire \<and>
    reads_all R (ctl_TriggerHook_descriptor_static R) Dyn_TriggerHook ctl_TriggerHook_wire \<and>
    reads_all R (ctl_Blame_descriptor_static R) Dyn_Blame ctl_Blame_wire \<and>
    reads_all R (ctl_InFlight_descriptor_static R) Dyn_InFlight ctl_InFlight_wire \<and>
    reads_all R (ctl_Command_descriptor_static R) Dyn_Command ctl_Command_wire \<and>
    reads_all R (ctl_MappedField_descriptor_static R) Dyn_MappedField ctl_MappedField_wire \<and>
    reads_all R (ctl_GetResponse_descriptor_static R) Dyn_GetResponse ctl_GetResponse_wire \<and>
    reads_all R (ctl_CommitResponse_descriptor_static R) Dyn_CommitResponse ctl_CommitResponse_wire \<and>
    reads_all R (ctl_ResetResponse_descriptor_static R) Dyn_ResetResponse ctl_ResetResponse_wire \<and>
    reads_all R (ctl_DumpResponse_descriptor_static R) Dyn_DumpResponse ctl_DumpResponse_wire \<and>
    reads_all R (ctl_BlameEntry_descriptor_static R) Dyn_BlameEntry ctl_BlameEntry_wire \<and>
    reads_all R (ctl_BlameResponse_descriptor_static R) Dyn_BlameResponse ctl_BlameResponse_wire \<and>
    reads_all R (ctl_InFlightResponse_descriptor_static R) Dyn_InFlightResponse ctl_InFlightResponse_wire \<and>
    reads_all R (ctl_Response_descriptor_static R) Dyn_Response ctl_Response_wire"
  by (intro conjI descriptor_runtime.descriptors_read_all [OF assms])

lemma descriptors_match_the_schema_witness:
  "reads_all ref_descriptor (ctl_Int32List_descriptor_static ref_descriptor) Dyn_Int32List
    ctl_Int32List_wire"
  by (rule descriptors_match_the_schema [OF ref_desc.descriptor_runtime_axioms, THEN conjunct1])


section \<open>Types and sizes\<close>

text \<open>
  C36. The checks for required fields are those of the schema: \<open>is_initialized\<close> of a \<open>Command\<close> and
  of a \<open>Response\<close> holds exactly when every field that the embedded file descriptor declares as
  required, of the message and of every message in it, is present as its registered accessor reads
  it.
\<close>

theorem required_fields_are_those_of_the_schema:
  assumes "descriptor_runtime R"
  shows "reflect_complete R 4 (Dyn_Command c) = Inr (ctl_Command_is_initialized c) \<and>
    reflect_complete R 5 (Dyn_Response r) = Inr (ctl_Response_is_initialized r)"
  using descriptor_runtime.complete_Command [OF assms, of 0 c]
    descriptor_runtime.complete_Response [OF assms, of 0 r]
  by (simp add: eval_nat_numeral)

lemma required_fields_are_those_of_the_schema_witness:
  "reflect_complete ref_descriptor 4 (Dyn_Command (ctl_Command_set_get ctl_Command_new ctl_Get_new))
    = Inr False"
proof -
  let ?c = "ctl_Command_set_get ctl_Command_new ctl_Get_new"
  have "\<not> ctl_Command_is_initialized ?c"
    by (simp add: ctl_Command_is_initialized_def ctl_Command_set_get_def ctl_Command_new_def)
  then show ?thesis
    using required_fields_are_those_of_the_schema [OF ref_desc.descriptor_runtime_axioms, of ?c] by simp
qed

text \<open>
  C37. Each of the twelve commands, as the client builds it, can be sent and is at most a small
  constant longer than the strings and values it carries: \<open>write_to_bytes\<close> gives its bytes, their
  number is within the bound and is what \<open>compute_size\<close>, a sum of \<open>u32\<close> values that could wrap
  around, returns.
\<close>

theorem command_sizes_are_bounded:
  assumes "protobuf_runtime rt"
    and "length (Set_key s) + value_size (Set_value s) < 2 ^ 30"
    and "string_ok (Set_key s)" and "value_ok (Set_value s)"
    and "length (Get_key g) < 2 ^ 30" and "string_ok (Get_key g)"
    and "length (EraseKey_key e) < 2 ^ 30" and "string_ok (EraseKey_key e)"
    and "length (TriggerHook_hook t) < 2 ^ 30" and "string_ok (TriggerHook_hook t)"
    and "length (Blame_key b) < 2 ^ 30" and "string_ok (Blame_key b)"
  shows "sized rt (Set_set_payload (Set_into_buf s) (make_command client)) (30 + length (Set_key s) + value_size (Set_value s)) \<and>
    sized rt (Get_set_payload (Get_into_buf g) (make_command client)) (24 + length (Get_key g)) \<and>
    sized rt (EraseKey_set_payload (EraseKey_into_buf e) (make_command client)) (24 + length (EraseKey_key e)) \<and>
    sized rt (TriggerHook_set_payload (TriggerHook_into_buf t) (make_command client)) (24 + length (TriggerHook_hook t)) \<and>
    sized rt (Blame_set_payload (Blame_into_buf b) (make_command client)) (24 + length (Blame_key b)) \<and>
    sized rt (Commit_set_payload (Commit_into_buf c) (make_command client)) 29 \<and>
    sized rt (Rollback_set_payload (Rollback_into_buf r) (make_command client)) 24 \<and>
    sized rt (Drop_set_payload (Drop_into_buf d) (make_command client)) 14 \<and>
    sized rt (FireHooks_set_payload (FireHooks_into_buf f) (make_command client)) 14 \<and>
    sized rt (Reset_set_payload (Reset_into_buf z) (make_command client)) 14 \<and>
    sized rt (DumpHooks_set_payload (DumpHooks_into_buf h) (make_command client)) 14 \<and>
    sized rt (InFlight_set_payload (InFlight_into_buf n) (make_command client)) 15"
proof (intro conjI)
  show "sized rt (Set_set_payload (Set_into_buf s) (make_command client)) (30 + length (Set_key s) + value_size (Set_value s))"
    by (rule Set.request_sized [OF assms(1) _ Set_length_le]) (use assms in simp_all)
  show "sized rt (Get_set_payload (Get_into_buf g) (make_command client)) (24 + length (Get_key g))"
    by (rule Get.request_sized [OF assms(1) _ Get_length_le]) (use assms in simp_all)
  show "sized rt (EraseKey_set_payload (EraseKey_into_buf e) (make_command client)) (24 + length (EraseKey_key e))"
    by (rule EraseKey.request_sized [OF assms(1) _ EraseKey_length_le]) (use assms in simp_all)
  show "sized rt (TriggerHook_set_payload (TriggerHook_into_buf t) (make_command client)) (24 + length (TriggerHook_hook t))"
    by (rule TriggerHook.request_sized [OF assms(1) _ TriggerHook_length_le]) (use assms in simp_all)
  show "sized rt (Blame_set_payload (Blame_into_buf b) (make_command client)) (24 + length (Blame_key b))"
    by (rule Blame.request_sized [OF assms(1) _ Blame_length_le]) (use assms in simp_all)
  show "sized rt (Commit_set_payload (Commit_into_buf c) (make_command client)) 29"
    by (rule Commit.request_sized [OF assms(1) _ Commit_length_le]) (use assms in simp_all)
  show "sized rt (Rollback_set_payload (Rollback_into_buf r) (make_command client)) 24"
    by (rule Rollback.request_sized [OF assms(1) _ Rollback_length_le]) (use assms in simp_all)
  show "sized rt (Drop_set_payload (Drop_into_buf d) (make_command client)) 14"
    by (rule Drop.request_sized [OF assms(1) _ plain_length_le(1)]) (use assms in simp_all)
  show "sized rt (FireHooks_set_payload (FireHooks_into_buf f) (make_command client)) 14"
    by (rule FireHooks.request_sized [OF assms(1) _ plain_length_le(2)]) (use assms in simp_all)
  show "sized rt (Reset_set_payload (Reset_into_buf z) (make_command client)) 14"
    by (rule Reset.request_sized [OF assms(1) _ plain_length_le(3)]) (use assms in simp_all)
  show "sized rt (DumpHooks_set_payload (DumpHooks_into_buf h) (make_command client)) 14"
    by (rule DumpHooks.request_sized [OF assms(1) _ plain_length_le(4)]) (use assms in simp_all)
  show "sized rt (InFlight_set_payload (InFlight_into_buf n) (make_command client)) 15"
    by (rule InFlight.request_sized [OF assms(1) _ plain_length_le(5)]) (use assms in simp_all)
qed

lemma command_sizes_are_bounded_witness:
  "sized ref_runtime (Set_set_payload (Set_into_buf (Set_new ''a'' (Int32List [1, 2])))
    (make_command demo_client)) 49"
proof -
  let ?s = "Set_new ''a'' (Int32List [1, 2])"
  have "sized ref_runtime (Set_set_payload (Set_into_buf ?s) (make_command demo_client))
      (30 + length (Set_key ?s) + value_size (Set_value ?s))"
    by (rule command_sizes_are_bounded [OF ref.protobuf_runtime_axioms, where g = "Get_new []"
          and e = "EraseKey_new []" and t = "TriggerHook_new []" and b = "Blame_new []", THEN conjunct1])
      (simp_all add: Set_new_def Get_new_def EraseKey_new_def TriggerHook_new_def Blame_new_def
        value_size_def int32_size_def value_ok_def string_ok_def string_bytes_def)
  then show ?thesis by (simp add: Set_new_def value_size_def int32_size_def word_sless_alt)
qed


section \<open>The client as a state machine\<close>

text \<open>
  C2. Take any calls of \<open>connect\<close>, \<open>set_timeout\<close>, \<open>reset_timeout_to_default\<close>, \<open>set_xid\<close>, \<open>set_id\<close>
  and commands, in any order, on a client that starts unconnected, over a network that leaves idle
  connections alone and with a peer that answers the commands sent.  Whatever connections and
  timeouts are refused on the way, this is a run of the specification: settings change as the
  calls say, a command before the first successful \<open>connect\<close> gets the connection error, and every
  command after it returns the reply to that very command.  The last connection is left idle.
\<close>

theorem runs_follow_the_specification:
  assumes "steady rt net live outgoing incoming reading buffered serve"
    and "client_run rt net (client, w) es (client', w')"
    and "client_stream client = None"
    and "list_all (event_served serve reply) es"
  shows "spec_run reply (client_view_of client) es (client_view_of client') \<and>
    (\<forall>c r. Requested c (Inr r) \<in> set es \<longrightarrow> r = ctl_Response_norm (reply c)) \<and>
    (\<forall>h. client_stream client' = Some h \<longrightarrow> transport.idle live outgoing incoming h w')"
proof -
  have "spec_run reply (client_view_of client) es (client_view_of client')"
    and "steady.in_step live outgoing incoming (client', w')"
    using steady.run_refines [OF assms(1,2,4)] assms(3)
    by (simp_all add: steady.in_step_def [OF assms(1)])
  then show ?thesis
    using spec_run_replies by (auto simp: steady.in_step_def [OF assms(1)])
qed

lemma runs_follow_the_specification_witness:
  "\<exists>w'. client_run ref_runtime (loopback_net (\<lambda>_. frame (ctl_Response_wire (response 7 SUCCESS None))))
      (demo_client\<lparr>client_stream := None\<rparr>, demo_world)
      [Requested (command 7 8 (Get_payload (Get_new ''a''))) (Inl not_connected),
       Connected True (Inr ()),
       Requested (command 7 8 (Get_payload (Get_new ''a''))) (Inr (response 7 SUCCESS None))]
      (demo_client, w') \<and> demo_idle w'"
proof -
  let ?c = "command 7 8 (Get_payload (Get_new ''a''))" and ?r = "response 7 SUCCESS None"
  let ?net = "loopback_net (\<lambda>_. frame (ctl_Response_wire ?r))"
  let ?client = "demo_client\<lparr>client_stream := None\<rparr>"
  let ?es = "[Requested ?c (Inl not_connected), Connected True (Inr ()), Requested ?c (Inr ?r)]"
  have served: "served (\<lambda>_. frame (ctl_Response_wire ?r)) ?c ?r"
    by (simp add: served_def demo_eval)
  obtain w' where "send ref_runtime ?net demo_client ?c demo_world = Some (Inr ?r, w')"
    using sys.send_exchange [OF demo_stream demo_world_idle, where c = ?c and r = ?r
        and serve = "\<lambda>_. frame (ctl_Response_wire ?r)"] served
    by (auto simp: served_def response_facts)
  moreover have "connect ?net ?client True demo_world = (Inr (), demo_client, demo_world)"
    by (simp add: connect_def loopback_defs demo_client_def demo_world_def Duration_from_secs_def)
  moreover have "send ref_runtime ?net ?client ?c demo_world = Some (Inl not_connected, demo_world)"
    by (simp add: send_not_connected)
  ultimately have run: "client_run ref_runtime ?net (?client, demo_world) ?es (demo_client, w')"
    using step_request [of ref_runtime ?net ?client "Get_payload (Get_new ''a'')"]
      step_request [of ref_runtime ?net demo_client "Get_payload (Get_new ''a'')"]
      step_connect [of ?net ?client True]
    by (intro run_cons run_nil) (simp_all add: demo_client_def)
  have "demo_idle w'"
    using runs_follow_the_specification [OF steady_sys.steady_axioms run, of "\<lambda>_. ?r"] served
      demo_stream by simp
  with run show ?thesis by blast
qed

text \<open>
  C25. A reply is never matched with its command: after a command has timed out on a connection,
  the reply to it that comes late is returned as the result of the next command, with any other
  id the caller has set for that one.
\<close>

theorem late_reply_is_taken_for_the_next:
  assumes "waiting rt net live outgoing incoming reading buffered serve"
    and "client_stream client = Some h" and "transport.idle live outgoing incoming h w"
    and "Command_oneof_payload_init p" and "Command_oneof_payload_ok p"
    and "Command_oneof_payload_init q" and "Command_oneof_payload_ok q"
    and "c = command (client_id client) (client_xid client) p" and "small (ctl_Command_wire c)"
    and "d = command j (client_xid client) q" and "small (ctl_Command_wire d)"
    and "serve (frame (ctl_Command_wire c)) = []"
    and "serve (frame (ctl_Command_wire c) @ frame (ctl_Command_wire d))
      = frame (ctl_Response_wire r) @ frame (ctl_Response_wire r')"
    and "ctl_Response_is_initialized r" and "ctl_Response_ok r" and "small (ctl_Response_wire r)"
  shows "\<exists>e w'. client_run rt net (client, w)
      [Requested c (Inl (Error (ErrorKind (SysadminConnectionError
         (''Unable to read response, command may have timed out: '' @ e))))),
       IdSet j,
       Requested d (Inr (ctl_Response_norm r))]
      (set_id client j, w')"
proof -
  have stream: "client_stream (set_id client j) = Some h" by (simp add: set_id_def assms(2))
  have ready: "ctl_Command_is_initialized c" "ctl_Command_ok c" "ctl_Command_is_initialized d"
      "ctl_Command_ok d"
    using assms(4-8,10) by (simp_all add: command_facts)
  obtain e w1 w2 where 1: "send rt net client c w = Some (Inl (Error (ErrorKind
        (SysadminConnectionError
          (''Unable to read response, command may have timed out: '' @ e)))), w1)"
      "send rt net (set_id client j) d w1 = Some (Inr (ctl_Response_norm r), w2)"
    using waiting.late_reply [OF assms(1-3) ready(1,2) assms(9) ready(3,4) assms(11-16)]
    by (auto simp: send_def set_id_def)
  then show ?thesis
    using step_request [of rt net client p] step_request [of rt net "set_id client j" q]
    by (auto simp: assms(8,10) set_id_def intro!: exI step_set_id [unfolded set_id_def])
qed

lemma late_reply_is_taken_for_the_next_witness:
  "\<exists>e w'. client_run ref_runtime
      (loopback_net (\<lambda>b. if length b = 13 then [] else
        frame (ctl_Response_wire (response 7 SUCCESS None)) @
        frame (ctl_Response_wire (response 9 FAILED_ROLLBACK None))))
      (demo_client, demo_world)
      [Requested (command 7 8 (Get_payload (Get_new ''a''))) (Inl (Error (ErrorKind (SysadminConnectionError
         (''Unable to read response, command may have timed out: '' @ e))))),
       IdSet 9,
       Requested (command 9 8 (Get_payload (Get_new ''b''))) (Inr (response 7 SUCCESS None))]
      (set_id demo_client 9, w')"
proof -
  let ?serve = "\<lambda>b. if length b = 13 then [] else
        frame (ctl_Response_wire (response 7 SUCCESS None)) @
        frame (ctl_Response_wire (response 9 FAILED_ROLLBACK None))"
  show ?thesis
    using late_reply_is_taken_for_the_next [OF waiting_sys.waiting_axioms demo_stream
        demo_world_idle, where p = "Get_payload (Get_new ''a'')" and q = "Get_payload (Get_new ''b'')"
        and c = "command 7 8 (Get_payload (Get_new ''a''))"
        and d = "command 9 8 (Get_payload (Get_new ''b''))" and j = 9
        and r = "response 7 SUCCESS None" and r' = "response 9 FAILED_ROLLBACK None"
        and serve = ?serve]
    by (simp add: demo_eval demo_client_def)
qed

text \<open>
  C12. No command is sent over a socket that could block for ever.  After any calls on a client that
  starts unconnected, whatever was refused on the way, the socket it is connected to has a read and
  a write timeout; and both are the timeout of the client unless the last timeout asked for was
  refused.
\<close>

theorem sockets_have_timeouts:
  assumes "timed net opened read_limit write_limit"
    and "client_run rt net (client, w) es (client', w')"
    and "client_stream client = None" and "client_stream client' = Some h"
  shows "opened h w' \<and> read_limit h w' \<noteq> None \<and> write_limit h w' \<noteq> None \<and>
    (\<not> fold refusal es False \<longrightarrow>
      read_limit h w' = Some (client_timeout client') \<and>
      write_limit h w' = Some (client_timeout client'))"
  using timed.run_limited [OF assms(1,2), of False] assms(3,4)
  by (auto simp: timed.limited_def [OF assms(1)])

lemma sockets_have_timeouts_witness:
  "\<exists>w'. client_run ref_runtime (socket_net id) (SysadminClient_default, [])
      [Connected True (Inr ()), TimeoutSet (Duration_from_secs 3) (Inr ())]
      (SysadminClient_default\<lparr>client_stream := Some 0, client_timeout := Duration_from_secs 3\<rparr>, w') \<and>
    sock_read_limit (w' ! 0) = Some (Duration_from_secs 3) \<and>
    sock_write_limit (w' ! 0) = Some (Duration_from_secs 3)"
proof -
  let ?c0 = "SysadminClient_default :: nat SysadminClient"
  let ?c1 = "?c0\<lparr>client_stream := Some 0\<rparr>" and ?d = "Duration_from_secs 3"
  let ?c2 = "?c1\<lparr>client_timeout := ?d\<rparr>"
  obtain w1 w2 where steps: "connect (socket_net id) ?c0 True [] = (Inr (), ?c1, w1)"
      "set_timeout (socket_net id) ?c1 ?d w1 = (Inr (), ?c2, w2)"
    by (simp add: connect_def set_timeout_def socket_defs lo_timeout_def SysadminClient_default_def
        SysadminClient_new_def Duration_from_secs_def DEFAULT_COMMAND_TIMEOUT_def)
  have run: "client_run ref_runtime (socket_net id) (?c0, [])
      [Connected True (Inr ()), TimeoutSet ?d (Inr ())] (?c2, w2)"
    by (rule run_cons [OF step_connect [OF steps(1)]
          run_cons [OF step_set_timeout [OF steps(2)] run_nil]])
  have "sock_read_limit (w2 ! 0) = Some ?d \<and> sock_write_limit (w2 ! 0) = Some ?d"
    using sockets_have_timeouts [OF sock_timed.timed_axioms run, where h = 0]
    by (simp add: SysadminClient_default_def SysadminClient_new_def)
  with run show ?thesis by blast
qed


end
